(* ===== verification/Prelude.thy ===== *)
theory Prelude
  imports Main "HOL-Library.Word"
begin

text \<open>
  What every component of the development shares: the result combinators that stand for
  Go's \<open>if err != nil { return err }\<close>, tables as lists of rows with the two statements SQL
  offers on them (update where, count where), and the lemmas about both.

  Collections: \<open>ok_iffs\<close> turns "this handler succeeded" into the facts each of its steps
  established; \<open>row_simps\<close> holds what a statement leaves alone.
\<close>

named_theorems ok_iffs "success of a handler, step by step"
named_theorems row_simps "what a statement keeps of the rows it touches"

section \<open>Results\<close>

text \<open>
  A fallible computation is a value of \<open>'e + 'a\<close>; a handler that also changes the world
  returns the world beside it, on the error path too. \<open>ok_then\<close> is an early return from a
  pure check, \<open>needs\<close> the same inside a handler, \<open>runs\<close> an early return after a step that
  changed the world.
\<close>

definition ok_then :: "'e + 'a \<Rightarrow> ('a \<Rightarrow> 'e + 'b) \<Rightarrow> 'e + 'b" where
  "ok_then m k = (case m of Inl e \<Rightarrow> Inl e | Inr x \<Rightarrow> k x)"

definition needs :: "'e + 'a \<Rightarrow> 'w \<Rightarrow> ('a \<Rightarrow> ('e + 'b) \<times> 'w) \<Rightarrow> ('e + 'b) \<times> 'w" where
  "needs m w k = (case m of Inl e \<Rightarrow> (Inl e, w) | Inr x \<Rightarrow> k x)"

definition runs :: "('e + 'a) \<times> 'w \<Rightarrow> ('a \<Rightarrow> 'w \<Rightarrow> ('e + 'b) \<times> 'w) \<Rightarrow> ('e + 'b) \<times> 'w" where
  "runs r k = (case fst r of Inl e \<Rightarrow> (Inl e, snd r) | Inr x \<Rightarrow> k x (snd r))"

lemma ok_then_simps [simp]:
  "ok_then (Inl e) k = Inl e" "ok_then (Inr x) k = k x"
  by (simp_all add: ok_then_def)

lemma needs_simps [simp]:
  "needs (Inl e) w k = (Inl e, w)" "needs (Inr x) w k = k x"
  by (simp_all add: needs_def)

lemma runs_simps [simp]:
  "runs (Inl e, w) k = (Inl e, w)" "runs (Inr x, w) k = k x w"
  by (simp_all add: runs_def)

lemma ok_then_Inr [ok_iffs]: "ok_then m k = Inr y \<longleftrightarrow> (\<exists>x. m = Inr x \<and> k x = Inr y)"
  by (cases m) auto

lemma needs_Inr [ok_iffs]:
  "needs m w k = (Inr y, w') \<longleftrightarrow> (\<exists>x. m = Inr x \<and> k x = (Inr y, w'))"
  by (cases m) auto

lemma runs_Inr [ok_iffs]:
  "runs r k = (Inr y, w') \<longleftrightarrow> (\<exists>x w1. r = (Inr x, w1) \<and> k x w1 = (Inr y, w'))"
  by (cases r; cases "fst r") auto

lemma needs_Inl:
  "needs m w k = (Inl e, w') \<longleftrightarrow> m = Inl e \<and> w' = w \<or> (\<exists>x. m = Inr x \<and> k x = (Inl e, w'))"
  by (cases m) auto

lemma runs_Inl:
  "runs r k = (Inl e, w') \<longleftrightarrow> r = (Inl e, w') \<or> (\<exists>x w1. r = (Inr x, w1) \<and> k x w1 = (Inl e, w'))"
  by (cases r; cases "fst r") auto

lemma needs_snd: "snd (needs m w k) = (case m of Inl e \<Rightarrow> w | Inr x \<Rightarrow> snd (k x))"
  by (cases m) auto

lemma runs_snd: "snd (runs r k) = (case fst r of Inl e \<Rightarrow> snd r | Inr x \<Rightarrow> snd (k x (snd r)))"
  by (cases r; cases "fst r") auto

text \<open>A guard clause: \<open>if bad { return err }\<close>.\<close>

definition refuse_if :: "bool \<Rightarrow> 'e \<Rightarrow> 'e + unit" where
  "refuse_if b e = (if b then Inl e else Inr ())"

lemma refuse_if_simps [simp]:
  "refuse_if True e = Inl e" "refuse_if False e = Inr ()"
  by (simp_all add: refuse_if_def)

lemma refuse_if_Inr [ok_iffs]: "refuse_if b e = Inr u \<longleftrightarrow> \<not> b"
  by (auto simp: refuse_if_def)

text \<open>A loop that appends one converted element per row and stops at the first failure.\<close>

fun map_ok :: "('a \<Rightarrow> 'e + 'b) \<Rightarrow> 'a list \<Rightarrow> 'e + 'b list" where
  "map_ok f [] = Inr []"
| "map_ok f (x # xs) = ok_then (f x) (\<lambda>y. ok_then (map_ok f xs) (\<lambda>ys. Inr (y # ys)))"

lemma map_ok_length: "map_ok f xs = Inr ys \<Longrightarrow> length ys = length xs"
  by (induction xs arbitrary: ys) (auto simp: ok_iffs)

lemma map_ok_nth: "map_ok f xs = Inr ys \<Longrightarrow> i < length xs \<Longrightarrow> f (xs ! i) = Inr (ys ! i)"
  by (induction xs arbitrary: ys i) (auto simp: ok_iffs nth_Cons split: nat.splits)

lemma map_ok_append:
  "map_ok f (xs @ ys) = ok_then (map_ok f xs) (\<lambda>a. ok_then (map_ok f ys) (\<lambda>b. Inr (a @ b)))"
proof (induction xs)
  case Nil
  show ?case by (cases "map_ok f ys") auto
next
  case (Cons x xs)
  then show ?case by (cases "f x"; cases "map_ok f xs"; cases "map_ok f ys") auto
qed

lemma map_ok_map: "(\<And>x. x \<in> set xs \<Longrightarrow> f x = Inr (g x)) \<Longrightarrow> map_ok f xs = Inr (map g xs)"
  by (induction xs) auto

lemma map_ok_in_set: "map_ok f xs = Inr ys \<Longrightarrow> y \<in> set ys \<Longrightarrow> \<exists>x\<in>set xs. f x = Inr y"
  by (induction xs arbitrary: ys) (auto simp: ok_iffs)

lemma map_ok_proj:
  "map_ok f xs = Inr ys \<Longrightarrow> (\<And>x y. f x = Inr y \<Longrightarrow> p y = q x) \<Longrightarrow> map p ys = map q xs"
  by (induction xs arbitrary: ys) (auto simp: ok_iffs)

section \<open>Tables\<close>

text \<open>
  A table is a list of rows in insertion order. \<open>update_where\<close> is \<open>UPDATE .. SET .. WHERE\<close>,
  \<open>count_where\<close> the number of rows such a statement reports.
\<close>

definition update_where :: "('r \<Rightarrow> bool) \<Rightarrow> ('r \<Rightarrow> 'r) \<Rightarrow> 'r list \<Rightarrow> 'r list" where
  "update_where P f rows = map (\<lambda>r. if P r then f r else r) rows"

definition count_where :: "('r \<Rightarrow> bool) \<Rightarrow> 'r list \<Rightarrow> nat" where
  "count_where P rows = length (filter P rows)"

lemma update_where_simps [simp]:
  "update_where P f [] = []"
  "update_where P f (r # rows) = (if P r then f r else r) # update_where P f rows"
  by (simp_all add: update_where_def)

lemma update_where_append [simp]:
  "update_where P f (xs @ ys) = update_where P f xs @ update_where P f ys"
  by (simp add: update_where_def)

lemma length_update_where [simp]: "length (update_where P f rows) = length rows"
  by (simp add: update_where_def)

lemma update_where_map [row_simps]:
  "(\<And>r. P r \<Longrightarrow> k (f r) = k r) \<Longrightarrow> map k (update_where P f rows) = map k rows"
  by (simp add: update_where_def)

lemma set_update_where:
  "r \<in> set (update_where P f rows) \<longleftrightarrow>
     (\<exists>q\<in>set rows. (P q \<and> r = f q) \<or> (\<not> P q \<and> r = q))"
  by (auto simp: update_where_def image_iff)

lemma update_where_none: "(\<And>r. r \<in> set rows \<Longrightarrow> \<not> P r) \<Longrightarrow> update_where P f rows = rows"
  by (induction rows) auto

lemma update_where_nth:
  "i < length rows \<Longrightarrow> update_where P f rows ! i = (if P (rows ! i) then f (rows ! i) else rows ! i)"
  by (simp add: update_where_def)

lemma count_where_simps [simp]:
  "count_where P [] = 0"
  "count_where P (r # rows) = (if P r then 1 else 0) + count_where P rows"
  by (simp_all add: count_where_def)

lemma count_where_append [simp]:
  "count_where P (xs @ ys) = count_where P xs + count_where P ys"
  by (simp add: count_where_def)

lemma count_where_0: "count_where P rows = 0 \<longleftrightarrow> (\<forall>r\<in>set rows. \<not> P r)"
  by (auto simp: count_where_def filter_empty_conv)

lemma count_where_mono:
  "(\<And>r. r \<in> set rows \<Longrightarrow> P r \<Longrightarrow> Q r) \<Longrightarrow> count_where P rows \<le> count_where Q rows"
  by (induction rows) auto

lemma key_unique:
  "distinct (map k rows) \<Longrightarrow> r \<in> set rows \<Longrightarrow> q \<in> set rows \<Longrightarrow> k r = k q \<Longrightarrow> r = q"
  by (auto simp: distinct_map dest: inj_onD)

lemma find_key:
  "distinct (map k rows) \<Longrightarrow> r \<in> set rows \<Longrightarrow> find (\<lambda>q. k q = k r) rows = Some r"
  by (induction rows) (auto simp: image_iff)

lemma find_key_iff:
  "distinct (map k rows) \<Longrightarrow> find (\<lambda>q. k q = x) rows = Some r \<longleftrightarrow> r \<in> set rows \<and> k r = x"
  by (induction rows) (auto simp: image_iff)

lemma find_in_set: "find P rows = Some r \<Longrightarrow> r \<in> set rows \<and> P r"
  by (induction rows) (auto split: if_splits)

lemma find_none: "find P rows = None \<longleftrightarrow> (\<forall>r\<in>set rows. \<not> P r)"
  by (induction rows) auto

lemma find_append: "find P (xs @ ys) = (case find P xs of None \<Rightarrow> find P ys | Some r \<Rightarrow> Some r)"
  by (induction xs) auto

lemma find_filter: "(\<And>x. P x \<Longrightarrow> Q x) \<Longrightarrow> find P (filter Q xs) = find P xs"
  by (induction xs) auto

lemma find_update_where:
  "(\<And>r. P r \<Longrightarrow> Q (f r) = Q r) \<Longrightarrow>
     find Q (update_where P f rows) = map_option (\<lambda>r. if P r then f r else r) (find Q rows)"
  by (induction rows) auto

lemma filter_update_where:
  "(\<And>r. Q (f r) = Q r) \<Longrightarrow> filter Q (update_where P f rows) = update_where P f (filter Q rows)"
  by (induction rows) auto

lemma ball_update_where:
  "(\<And>r. Q (f r) = Q r) \<Longrightarrow> (\<forall>r\<in>set (update_where P f rows). Q r) \<longleftrightarrow> (\<forall>r\<in>set rows. Q r)"
  by (induction rows) auto

lemma count_where_unique:
  "distinct (map k rows) \<Longrightarrow> r \<in> set rows \<Longrightarrow> P r \<Longrightarrow>
     count_where (\<lambda>q. k q = k r \<and> P q) rows = 1"
proof (induction rows)
  case (Cons q rows)
  show ?case
  proof (cases "q = r")
    case True
    with Cons.prems have "\<forall>x\<in>set rows. k x \<noteq> k r" by (auto simp: image_iff)
    then have "count_where (\<lambda>q. k q = k r \<and> P q) rows = 0"
      by (simp add: count_where_0)
    with True Cons.prems show ?thesis by simp
  next
    case False
    with Cons.prems have "k q \<noteq> k r" by auto
    with Cons False show ?thesis by auto
  qed
qed simp

section \<open>Machine-independent arithmetic on times\<close>

text \<open>Times and durations are integers, in milliseconds.\<close>

abbreviation seconds :: "int \<Rightarrow> int" where "seconds n \<equiv> 1000 * n"
abbreviation minutes :: "int \<Rightarrow> int" where "minutes n \<equiv> 60000 * n"
abbreviation hours :: "int \<Rightarrow> int" where "hours n \<equiv> 3600000 * n"

end
