(* ===== verification/Domain.thy ===== *)
theory Domain
  imports Prelude
begin

text \<open>
  The shared vocabulary of the server: \<open>server/internal/domain\<close> (errors, identifiers), the
  status table of \<open>api/httpx/status.go\<close> and the two error tests of \<open>store/store.go\<close>.

  An error carries its kind, code, field, retry delay and the error it wraps; the
  human-readable message is not modelled, since nothing in the program reads it. The layers
  that \<open>fmt.Errorf("..: %w", err)\<close> adds are transparent to \<open>errors.Is\<close> and \<open>errors.As\<close>
  and are left out of the chain.
\<close>

section \<open>Errors\<close>

datatype kind =
  KindInternal | KindInvalid | KindUnauthorized | KindForbidden | KindNotFound | KindConflict
  | KindRateLimited

text \<open>What the database, or anything below the business layer, may fail with.\<close>

datatype cause = NoRows | UniqueViolation | ForeignKeyViolation | CheckViolation | OtherCause

datatype go_error =
  DomainError (err_kind: kind) (err_code: string) (err_field: string) (err_retry: int)
    (err_wrapped: "go_error option")
| PlainError (err_cause: cause)

definition Internal :: "go_error \<Rightarrow> go_error" where
  "Internal e = DomainError KindInternal ''internal_error'' '''' 0 (Some e)"

definition Invalid :: "string \<Rightarrow> go_error" where
  "Invalid code = DomainError KindInvalid code '''' 0 None"

definition InvalidField :: "string \<Rightarrow> string \<Rightarrow> go_error" where
  "InvalidField field code = DomainError KindInvalid code field 0 None"

definition Unauthorized :: "string \<Rightarrow> go_error" where
  "Unauthorized code = DomainError KindUnauthorized code '''' 0 None"

definition Forbidden :: "string \<Rightarrow> go_error" where
  "Forbidden code = DomainError KindForbidden code '''' 0 None"

definition NotFound :: "string \<Rightarrow> go_error" where
  "NotFound code = DomainError KindNotFound code '''' 0 None"

definition Conflict :: "string \<Rightarrow> go_error" where
  "Conflict code = DomainError KindConflict code '''' 0 None"

definition RateLimited :: "string \<Rightarrow> int \<Rightarrow> go_error" where
  "RateLimited code retryAfter = DomainError KindRateLimited code '''' retryAfter None"

lemmas error_defs = Internal_def Invalid_def InvalidField_def Unauthorized_def Forbidden_def
  NotFound_def Conflict_def RateLimited_def

text \<open>The outermost domain error of a chain; a plain error has none below it.\<close>

fun AsError :: "go_error \<Rightarrow> go_error option" where
  "AsError (DomainError k c f r w) = Some (DomainError k c f r w)"
| "AsError (PlainError c) = None"

definition KindOf :: "go_error \<Rightarrow> kind" where
  "KindOf e = (case AsError e of Some d \<Rightarrow> err_kind d | None \<Rightarrow> KindInternal)"

definition CodeOf :: "go_error \<Rightarrow> string" where
  "CodeOf e = (case AsError e of Some d \<Rightarrow> err_code d | None \<Rightarrow> ''internal_error'')"

fun root_cause :: "go_error \<Rightarrow> cause option" where
  "root_cause (PlainError c) = Some c"
| "root_cause (DomainError k c f r (Some e)) = root_cause e"
| "root_cause (DomainError k c f r None) = None"

definition IsNoRows :: "go_error \<Rightarrow> bool" where
  "IsNoRows e \<longleftrightarrow> root_cause e = Some NoRows"

definition IsUniqueViolation :: "go_error \<Rightarrow> bool" where
  "IsUniqueViolation e \<longleftrightarrow> root_cause e = Some UniqueViolation"

lemma CodeOf_simps [simp]:
  "CodeOf (DomainError k c f r w) = c" "CodeOf (PlainError p) = ''internal_error''"
  by (simp_all add: CodeOf_def)

definition statusFor :: "kind \<Rightarrow> nat" where
  "statusFor k = (case k of
      KindInvalid \<Rightarrow> 422 | KindUnauthorized \<Rightarrow> 401 | KindForbidden \<Rightarrow> 403 | KindNotFound \<Rightarrow> 404
    | KindConflict \<Rightarrow> 409 | KindRateLimited \<Rightarrow> 429 | KindInternal \<Rightarrow> 500)"

section \<open>Identifiers\<close>

text \<open>
  A uuid is sixteen bytes; its order is the order of the bytes, which is what Postgres and
  a comparison of the printed form use. It is the unsigned order of the 128-bit word.
\<close>

type_synonym uuid = "128 word"

abbreviation uuid_Nil :: uuid where "uuid_Nil \<equiv> 0"

text \<open>
  Base 32 without padding: 128 bits are read in groups of five from the most significant
  end, the last group completed by two zero bits, so 26 digits of \<open>4 * u\<close>.
\<close>

definition idEncoding :: string where
  "idEncoding = ''0123456789abcdefghjkmnpqrstvwxyz''"

definition encodedIDLen :: nat where "encodedIDLen = 26"

fun base32_digits :: "nat \<Rightarrow> nat \<Rightarrow> string" where
  "base32_digits 0 v = []"
| "base32_digits (Suc n) v = base32_digits n (v div 32) @ [idEncoding ! (v mod 32)]"

definition EncodeToString :: "uuid \<Rightarrow> string" where
  "EncodeToString u = base32_digits encodedIDLen (4 * unat u)"

fun digit_of :: "string \<Rightarrow> char \<Rightarrow> nat option" where
  "digit_of [] c = None"
| "digit_of (d # ds) c = (if d = c then Some 0 else map_option Suc (digit_of ds c))"

fun base32_value :: "nat \<Rightarrow> string \<Rightarrow> nat option" where
  "base32_value acc [] = Some acc"
| "base32_value acc (c # cs) =
     (case digit_of idEncoding c of None \<Rightarrow> None | Some d \<Rightarrow> base32_value (32 * acc + d) cs)"

text \<open>
  Decoding drops the two low bits of the last digit. (Go's decoder also skips line breaks;
  a body of 26 bytes with one in it then decodes to fewer than 16 bytes and is refused, as
  it is here.)
\<close>

definition DecodeString :: "string \<Rightarrow> uuid option" where
  "DecodeString s = map_option (\<lambda>v. word_of_nat (v div 4)) (base32_value 0 s)"

definition FormatID :: "string \<Rightarrow> uuid \<Rightarrow> string" where
  "FormatID pre u = pre @ ''_'' @ EncodeToString u"

definition ParseID :: "string \<Rightarrow> string \<Rightarrow> go_error + uuid" where
  "ParseID pre s =
     (let want = pre @ ''_'' in
      if take (length want) s \<noteq> want then Inl (InvalidField ''id'' ''invalid_id'')
      else
        let body = drop (length want) s in
        if length body \<noteq> encodedIDLen then Inl (InvalidField ''id'' ''invalid_id'')
        else
          case DecodeString body of
            None \<Rightarrow> Inl (InvalidField ''id'' ''invalid_id'')
          | Some u \<Rightarrow> Inr u)"

definition PrefixUser :: string where "PrefixUser = ''usr''"
definition PrefixSession :: string where "PrefixSession = ''ses''"
definition PrefixAgent :: string where "PrefixAgent = ''agt''"
definition PrefixConv :: string where "PrefixConv = ''cnv''"
definition PrefixMessage :: string where "PrefixMessage = ''msg''"
definition PrefixEvent :: string where "PrefixEvent = ''evt''"
definition PrefixToken :: string where "PrefixToken = ''tok''"
definition PrefixMedia :: string where "PrefixMedia = ''med''"
definition PrefixSchedule :: string where "PrefixSchedule = ''sch''"
definition PrefixPairToken :: string where "PrefixPairToken = ''pair''"
definition PrefixBindingSecret :: string where "PrefixBindingSecret = ''bnd_sec''"
definition PrefixSessionToken :: string where "PrefixSessionToken = ''ses_tok''"

subsection \<open>The codec\<close>

lemma length_base32_digits [simp]: "length (base32_digits n v) = n"
  by (induction n arbitrary: v) auto

lemma digit_of_nth: "distinct ds \<Longrightarrow> i < length ds \<Longrightarrow> digit_of ds (ds ! i) = Some i"
  by (induction ds arbitrary: i) (auto simp: nth_Cons split: nat.splits)

lemma idEncoding_digit: "d < 32 \<Longrightarrow> digit_of idEncoding (idEncoding ! d) = Some d"
  by (rule digit_of_nth) (simp_all add: idEncoding_def)

lemma base32_value_append:
  "base32_value acc (xs @ ys) =
     (case base32_value acc xs of None \<Rightarrow> None | Some a \<Rightarrow> base32_value a ys)"
  by (induction xs arbitrary: acc) (auto split: option.splits)

lemma base32_value_digits:
  "base32_value acc (base32_digits n v) = Some (32 ^ n * acc + v mod 32 ^ n)"
proof (induction n arbitrary: v)
  case (Suc n)
  have "v mod 32 ^ Suc n = 32 * (v div 32 mod 32 ^ n) + v mod 32"
    by (simp add: mod_mult2_eq)
  with Suc show ?case
    by (simp add: base32_value_append idEncoding_digit algebra_simps)
qed simp

lemma DecodeString_Encode: "DecodeString (EncodeToString u) = Some u"
proof -
  have "unat u < 2 ^ 128" using unsigned_less [of u] by simp
  then have bound: "4 * unat u < 32 ^ 26" by simp
  have "base32_value 0 (base32_digits 26 (4 * unat u)) = Some (4 * unat u)"
    using bound by (simp add: base32_value_digits)
  then show ?thesis
    by (simp add: DecodeString_def EncodeToString_def encodedIDLen_def)
qed

lemma length_Encode [simp]: "length (EncodeToString u) = 26"
  by (simp add: EncodeToString_def encodedIDLen_def)

text \<open>
  What \<open>FormatID\<close> prints, \<open>ParseID\<close> with the same prefix reads back, for every prefix
  and every identifier.
\<close>

theorem ParseID_FormatID: "ParseID pre (FormatID pre u) = Inr u"
  by (simp add: ParseID_def FormatID_def encodedIDLen_def DecodeString_Encode Let_def)

text \<open>An identifier of one kind is refused where another of the same length is expected.\<close>

lemma ParseID_other_prefix:
  "length p = length q \<Longrightarrow> p \<noteq> q \<Longrightarrow> ParseID q (FormatID p u) = Inl (InvalidField ''id'' ''invalid_id'')"
  by (simp add: ParseID_def FormatID_def Let_def)

lemma FormatID_eq_iff [simp]: "FormatID p u = FormatID p v \<longleftrightarrow> u = v"
proof
  assume "FormatID p u = FormatID p v"
  then have "EncodeToString u = EncodeToString v" unfolding FormatID_def by simp
  then have "DecodeString (EncodeToString u) = DecodeString (EncodeToString v)" by (rule arg_cong)
  then show "u = v" unfolding DecodeString_Encode by simp
qed simp

end
