(* ===== verification/GoText.thy ===== *)
theory GoText
  imports Domain
begin

text \<open>
  Strings as the validation code sees them. A Go string is a sequence of bytes; ranging over
  it, counting its runes or trimming it goes through its decoding, a sequence of code points
  and of bytes that are not valid UTF-8. \<open>gotext\<close> is that decoding, which is unique for every
  string. Strings that are only compared (statuses, codes, button ids) are \<open>string\<close>.

  Modelled here: \<open>utf8.ValidString\<close>, \<open>utf8.RuneCountInString\<close>, \<open>len\<close>, \<open>strings.TrimSpace\<close>,
  \<open>strings.Fields\<close>/\<open>Join\<close> and \<open>unicode.IsSpace\<close>/\<open>IsControl\<close>, as far as the server uses them.
\<close>

datatype rune = Rune nat | Stray nat

type_synonym gotext = "rune list"

definition str :: "string \<Rightarrow> gotext" where
  "str s = map (\<lambda>c. Rune (of_char c)) s"

fun is_rune :: "rune \<Rightarrow> bool" where
  "is_rune (Rune c) = True"
| "is_rune (Stray b) = False"

definition ValidString :: "gotext \<Rightarrow> bool" where
  "ValidString s \<longleftrightarrow> list_all is_rune s"

definition RuneCount :: "gotext \<Rightarrow> nat" where
  "RuneCount s = length s"

fun rune_len :: "rune \<Rightarrow> nat" where
  "rune_len (Rune c) = (if c < 128 then 1 else if c < 2048 then 2 else if c < 65536 then 3 else 4)"
| "rune_len (Stray b) = 1"

definition byte_len :: "gotext \<Rightarrow> nat" where
  "byte_len s = sum_list (map rune_len s)"

text \<open>\<open>unicode.IsSpace\<close>: the white-space code points; a stray byte is none.\<close>

fun is_space :: "rune \<Rightarrow> bool" where
  "is_space (Rune c) \<longleftrightarrow>
     c \<in> {9, 10, 11, 12, 13, 32, 133, 160, 5760, 8232, 8233, 8239, 8287, 12288}
     \<or> 8192 \<le> c \<and> c \<le> 8202"
| "is_space (Stray b) \<longleftrightarrow> False"

fun is_control :: "rune \<Rightarrow> bool" where
  "is_control (Rune c) \<longleftrightarrow> c < 32 \<or> 127 \<le> c \<and> c < 160"
| "is_control (Stray b) \<longleftrightarrow> False"

definition TrimSpace :: "gotext \<Rightarrow> gotext" where
  "TrimSpace s = rev (dropWhile is_space (rev (dropWhile is_space s)))"

definition contains_any :: "nat list \<Rightarrow> gotext \<Rightarrow> bool" where
  "contains_any cs s \<longleftrightarrow> list_ex (\<lambda>r. list_ex (\<lambda>c. r = Rune c) cs) s"

text \<open>\<open>[]rune(s)\<close>: a stray byte becomes the replacement character.\<close>

fun to_rune :: "rune \<Rightarrow> rune" where
  "to_rune (Rune n) = Rune n"
| "to_rune (Stray b) = Rune 65533"

definition to_runes :: "gotext \<Rightarrow> gotext" where
  "to_runes s = map to_rune s"

lemma length_to_runes [simp]: "length (to_runes s) = length s"
  by (simp add: to_runes_def)

text \<open>\<open>%d\<close> of a natural number.\<close>

fun decimal :: "nat \<Rightarrow> string" where
  "decimal n = (if n < 10 then [''0123456789'' ! n] else decimal (n div 10) @ [''0123456789'' ! (n mod 10)])"

declare decimal.simps [simp del]

text \<open>\<open>strings.Fields\<close>: the words of a text, \<open>w\<close> the word being read.\<close>

fun fields_from :: "gotext \<Rightarrow> gotext \<Rightarrow> gotext list" where
  "fields_from w [] = (if w = [] then [] else [w])"
| "fields_from w (r # rs) =
     (if is_space r then (if w = [] then fields_from [] rs else w # fields_from [] rs)
      else fields_from (w @ [r]) rs)"

definition Fields :: "gotext \<Rightarrow> gotext list" where
  "Fields s = fields_from [] s"

fun Join :: "gotext list \<Rightarrow> gotext \<Rightarrow> gotext" where
  "Join [] sep = []"
| "Join [w] sep = w"
| "Join (w # ws) sep = w @ sep @ Join ws sep"

text \<open>A text column takes any text but a NUL and bytes that are not UTF-8.\<close>

definition storable :: "gotext \<Rightarrow> bool" where
  "storable s \<longleftrightarrow> ValidString s \<and> Rune 0 \<notin> set s"

section \<open>Trimming\<close>

lemma dropWhile_hd: "dropWhile P xs = [] \<or> \<not> P (hd (dropWhile P xs))"
  by (induction xs) auto

lemma dropWhile_id: "xs = [] \<or> \<not> P (hd xs) \<Longrightarrow> dropWhile P xs = xs"
  by (cases xs) auto

text \<open>What a trimmed text looks like: nothing at all, or no white space at either end.\<close>

definition trimmed :: "gotext \<Rightarrow> bool" where
  "trimmed s \<longleftrightarrow> s = [] \<or> \<not> is_space (hd s) \<and> \<not> is_space (last s)"

lemma hd_rev_append: "d = rev e @ q \<Longrightarrow> e \<noteq> [] \<Longrightarrow> d \<noteq> [] \<and> hd d = last e"
  by (simp add: hd_rev)

lemma trimmed_TrimSpace: "trimmed (TrimSpace s)"
proof -
  define d where "d = dropWhile is_space s"
  define e where "e = dropWhile is_space (rev d)"
  have he: "e = [] \<or> \<not> is_space (hd e)" unfolding e_def by (rule dropWhile_hd)
  have hd: "d = [] \<or> \<not> is_space (hd d)" unfolding d_def by (rule dropWhile_hd)
  have t: "TrimSpace s = rev e" by (simp add: TrimSpace_def d_def e_def)
  have "rev d = takeWhile is_space (rev d) @ e" by (simp add: e_def)
  then have "d = rev e @ rev (takeWhile is_space (rev d))" by (metis rev_append rev_rev_ident)
  then have "e \<noteq> [] \<Longrightarrow> d \<noteq> [] \<and> hd d = last e" by (rule hd_rev_append)
  with he hd show ?thesis by (auto simp: t trimmed_def hd_rev last_rev)
qed

lemma TrimSpace_trimmed: "trimmed s \<Longrightarrow> TrimSpace s = s"
proof -
  assume "trimmed s"
  then have "dropWhile is_space s = s" and "dropWhile is_space (rev s) = rev s"
    by (cases "s = []"; simp add: trimmed_def dropWhile_id hd_rev)+
  then show ?thesis by (simp add: TrimSpace_def)
qed

lemma TrimSpace_idem [simp]: "TrimSpace (TrimSpace s) = TrimSpace s"
  by (rule TrimSpace_trimmed [OF trimmed_TrimSpace])

lemma TrimSpace_Nil [simp]: "TrimSpace [] = []"
  by (simp add: TrimSpace_def)

lemma set_TrimSpace: "r \<in> set (TrimSpace s) \<Longrightarrow> r \<in> set s"
  unfolding TrimSpace_def set_rev by (metis set_dropWhileD set_rev)

section \<open>Words\<close>

lemma fields_from_words:
  "list_all (\<lambda>r. \<not> is_space r) w \<Longrightarrow> u \<in> set (fields_from w s) \<Longrightarrow>
     u \<noteq> [] \<and> list_all (\<lambda>r. \<not> is_space r) u"
proof (induction w s rule: fields_from.induct)
  case (1 w)
  then show ?case by (cases "w = []") simp_all
next
  case (2 w r rs)
  show ?case
  proof (cases "is_space r")
    case True
    with 2 show ?thesis by (cases "w = []") auto
  next
    case False
    with 2 show ?thesis by simp
  qed
qed

lemma set_fields_from: "u \<in> set (fields_from w s) \<Longrightarrow> set u \<subseteq> set w \<union> set s"
  by (induction w s rule: fields_from.induct) (auto split: if_splits)

lemma set_Join: "r \<in> set (Join ws sep) \<Longrightarrow> r \<in> set sep \<or> (\<exists>w\<in>set ws. r \<in> set w)"
  by (induction ws sep rule: Join.induct) auto

lemma Fields_Join_space:
  "r \<in> set (Join (Fields s) [Rune 32]) \<Longrightarrow> is_space r \<Longrightarrow> r = Rune 32"
  using set_Join [of r "Fields s" "[Rune 32]"] fields_from_words [of "[]" _ s]
  by (auto simp: Fields_def list_all_iff)

end
