(* ===== verification/Validate.thy ===== *)
theory Validate
  imports GoText
begin

text \<open>
  \<open>server/internal/conversations/validate.go\<close>, with the types of a message body it
  checks (\<open>conversations.go\<close>) and the activity label of \<open>activity.go\<close>.

  \<open>net/url.Parse\<close> is a parameter \<open>up\<close>: the code reads of its result whether there is one,
  the scheme, the host and the opaque part.
\<close>

section \<open>The content of a message\<close>

record button =
  btn_id :: string
  btn_url :: gotext
  btn_label :: gotext
  btn_style :: string

record quick_reply =
  qr_label :: gotext

record parsed_url =
  url_scheme :: string \<comment> \<open>lower case, as \<open>strings.ToLower\<close> leaves it\<close>
  url_host :: gotext
  url_opaque :: gotext
  url_user :: bool \<comment> \<open>whether it names a user\<close>
  url_fragment :: gotext
  url_hostname :: gotext \<comment> \<open>the host without port and brackets\<close>
  url_String :: gotext \<comment> \<open>the normal form \<open>String\<close> prints\<close>

type_synonym url_parser = "gotext \<Rightarrow> parsed_url option"

definition textMaxLen :: nat where "textMaxLen = 8000"
definition idempotencyKeyMaxLen :: nat where "idempotencyKeyMaxLen = 200"
definition buttonRowsMax :: nat where "buttonRowsMax = 3"
definition buttonsPerRowMax :: nat where "buttonsPerRowMax = 3"
definition quickRepliesMax :: nat where "quickRepliesMax = 6"
definition labelMaxLen :: nat where "labelMaxLen = 40"
definition buttonURLMaxLen :: nat where "buttonURLMaxLen = 2048"
definition previewMaxLen :: nat where "previewMaxLen = 100"
definition defaultPageSize :: int where "defaultPageSize = 50"
definition maxPageSize :: int where "maxPageSize = 100"

lemmas limit_defs = textMaxLen_def idempotencyKeyMaxLen_def buttonRowsMax_def
  buttonsPerRowMax_def quickRepliesMax_def labelMaxLen_def buttonURLMaxLen_def
  previewMaxLen_def defaultPageSize_def maxPageSize_def

section \<open>Labels, styles and links\<close>

definition validateLabel :: "string \<Rightarrow> string \<Rightarrow> gotext \<Rightarrow> go_error + gotext" where
  "validateLabel field code raw =
     (let label = TrimSpace raw in
      if \<not> ValidString label \<or> contains_any [10, 13, 9, 0] label then Inl (InvalidField field code)
      else if RuneCount label < 1 \<or> labelMaxLen < RuneCount label then Inl (InvalidField field code)
      else Inr label)"

definition invalid_buttons :: go_error where
  "invalid_buttons = InvalidField ''buttons'' ''invalid_buttons''"

definition validateButtonStyle :: "string \<Rightarrow> go_error + string" where
  "validateButtonStyle raw =
     (if raw = '''' then Inr ''default''
      else if raw = ''default'' \<or> raw = ''primary'' \<or> raw = ''danger'' then Inr raw
      else Inl invalid_buttons)"

text \<open>\<open>buttonIDPattern\<close>: 1 to 64 letters, digits, and the characters \<open>_ . : -\<close>.\<close>

definition button_id_char :: "char \<Rightarrow> bool" where
  "button_id_char c =
     (let n = (of_char c :: nat) in
      65 \<le> n \<and> n \<le> 90 \<or> 97 \<le> n \<and> n \<le> 122 \<or> 48 \<le> n \<and> n \<le> 57 \<or> n \<in> {95, 46, 58, 45})"

definition buttonIDPattern :: "string \<Rightarrow> bool" where
  "buttonIDPattern s \<longleftrightarrow> 1 \<le> length s \<and> length s \<le> 64 \<and> list_all button_id_char s"

definition buttonURLSchemes :: "string list" where
  "buttonURLSchemes = [''https'', ''http'', ''upi'', ''tel'']"

fun isURLBreaking :: "rune \<Rightarrow> bool" where
  "isURLBreaking (Rune r) \<longleftrightarrow> r \<le> 32 \<or> r = 127 \<or> r = 8232 \<or> r = 8233"
| "isURLBreaking (Stray b) \<longleftrightarrow> False"

definition validateButtonURL :: "url_parser \<Rightarrow> gotext \<Rightarrow> go_error + gotext" where
  "validateButtonURL up raw =
     (let link = TrimSpace raw in
      if \<not> ValidString link \<or> list_ex isURLBreaking link then Inl invalid_buttons
      else if buttonURLMaxLen < byte_len link then Inl invalid_buttons
      else
        case up link of
          None \<Rightarrow> Inl invalid_buttons
        | Some u \<Rightarrow>
            let scheme = url_scheme u in
            if scheme \<notin> set buttonURLSchemes then Inl invalid_buttons
            else if scheme = ''https'' \<or> scheme = ''http'' then
              (if url_host u = [] then Inl invalid_buttons else Inr link)
            else if url_host u = [] \<and> url_opaque u = [] then Inl invalid_buttons
            else Inr link)"

section \<open>Buttons\<close>

text \<open>\<open>seen\<close> is the map of the ids met so far, as the list of its keys.\<close>

definition validateButton ::
    "url_parser \<Rightarrow> button \<Rightarrow> string list \<Rightarrow> go_error + (button \<times> string list)" where
  "validateButton up b seen =
     ok_then (validateLabel ''buttons'' ''invalid_buttons'' (btn_label b)) (\<lambda>label.
     ok_then (validateButtonStyle (btn_style b)) (\<lambda>style.
     if btn_url b \<noteq> [] then
       (if btn_id b \<noteq> '''' then Inl invalid_buttons
        else
          ok_then (validateButtonURL up (btn_url b)) (\<lambda>url.
          Inr (\<lparr>btn_id = '''', btn_url = url, btn_label = label, btn_style = style\<rparr>, seen)))
     else if \<not> buttonIDPattern (btn_id b) then Inl invalid_buttons
     else if btn_id b \<in> set seen then Inl invalid_buttons
     else Inr (\<lparr>btn_id = btn_id b, btn_url = [], btn_label = label, btn_style = style\<rparr>,
               btn_id b # seen)))"

fun validateRow ::
    "url_parser \<Rightarrow> button list \<Rightarrow> string list \<Rightarrow> go_error + (button list \<times> string list)" where
  "validateRow up [] seen = Inr ([], seen)"
| "validateRow up (b # bs) seen =
     ok_then (validateButton up b seen) (\<lambda>(btn, seen1).
     ok_then (validateRow up bs seen1) (\<lambda>(clean, seen2). Inr (btn # clean, seen2)))"

fun validateRows ::
    "url_parser \<Rightarrow> button list list \<Rightarrow> string list \<Rightarrow> go_error + button list list" where
  "validateRows up [] seen = Inr []"
| "validateRows up (row # rows) seen =
     (if row = [] \<or> buttonsPerRowMax < length row then Inl invalid_buttons
      else
        ok_then (validateRow up row seen) (\<lambda>(clean, seen1).
        ok_then (validateRows up rows seen1) (\<lambda>out. Inr (clean # out))))"

definition validateButtons :: "url_parser \<Rightarrow> button list list \<Rightarrow> go_error + button list list" where
  "validateButtons up rows =
     (if rows = [] then Inr []
      else if buttonRowsMax < length rows then Inl invalid_buttons
      else validateRows up rows [])"

definition validateQuickReplies :: "quick_reply list \<Rightarrow> go_error + quick_reply list" where
  "validateQuickReplies qs =
     (if qs = [] then Inr []
      else if quickRepliesMax < length qs then
        Inl (InvalidField ''quick_replies'' ''invalid_quick_replies'')
      else
        map_ok (\<lambda>q. ok_then (validateLabel ''quick_replies'' ''invalid_quick_replies'' (qr_label q))
                      (\<lambda>label. Inr \<lparr>qr_label = label\<rparr>)) qs)"

section \<open>Text, keys, previews\<close>

definition validateText :: "gotext \<Rightarrow> go_error + gotext" where
  "validateText raw =
     (let t = TrimSpace raw in
      if \<not> ValidString t then Inl (InvalidField ''text'' ''invalid_text'')
      else if contains_any [0] t then Inl (InvalidField ''text'' ''invalid_text'')
      else if RuneCount t = 0 then Inl (InvalidField ''text'' ''invalid_text'')
      else if textMaxLen < RuneCount t then Inl (InvalidField ''text'' ''invalid_text'')
      else Inr t)"

definition validateCaption :: "gotext \<Rightarrow> bool \<Rightarrow> go_error + gotext" where
  "validateCaption raw hasAttachments =
     (if hasAttachments \<and> TrimSpace raw = [] then Inr [] else validateText raw)"

definition validateIdempotencyKey :: "gotext \<Rightarrow> go_error + gotext option" where
  "validateIdempotencyKey raw =
     (let key = TrimSpace raw in
      if key = [] then Inr None
      else if \<not> ValidString key \<or> contains_any [0] key \<or> idempotencyKeyMaxLen < RuneCount key then
        Inl (InvalidField ''idempotency_key'' ''invalid_idempotency_key'')
      else Inr (Some key))"

definition previewOf :: "gotext \<Rightarrow> gotext" where
  "previewOf s =
     (let t = Join (Fields s) [Rune 32] in
      if RuneCount t \<le> previewMaxLen then t else take previewMaxLen (to_runes t) @ [Rune 8230])"

definition clampText :: "gotext \<Rightarrow> gotext \<times> bool" where
  "clampText s =
     (if RuneCount s \<le> textMaxLen then (s, False) else (take textMaxLen (to_runes s), True))"

definition pageSize :: "int \<Rightarrow> go_error + nat" where
  "pageSize limit =
     (if limit = 0 then Inr (nat defaultPageSize)
      else if limit < 1 \<or> maxPageSize < limit then Inl (InvalidField ''limit'' ''invalid_limit'')
      else Inr (nat limit))"

section \<open>What is accepted\<close>

lemma validateLabel_ok:
  "validateLabel f c raw = Inr l \<Longrightarrow>
     l = TrimSpace raw \<and> 1 \<le> length l \<and> length l \<le> 40 \<and> ValidString l"
  by (auto simp: validateLabel_def Let_def RuneCount_def limit_defs Suc_le_eq split: if_splits)

lemma validateLabel_idem:
  "validateLabel f c raw = Inr l \<Longrightarrow> validateLabel f' c' l = Inr l"
  by (auto simp: validateLabel_def Let_def split: if_splits)

lemma validateButtonStyle_ok:
  "validateButtonStyle s = Inr t \<Longrightarrow> t \<in> {''default'', ''primary'', ''danger''}"
  by (auto simp: validateButtonStyle_def split: if_splits)

lemma validateButtonStyle_idem: "validateButtonStyle s = Inr t \<Longrightarrow> validateButtonStyle t = Inr t"
  by (auto simp: validateButtonStyle_def split: if_splits)

lemma validateButtonURL_idem:
  "validateButtonURL up raw = Inr l \<Longrightarrow> validateButtonURL up l = Inr l"
  by (auto simp: validateButtonURL_def Let_def split: if_splits option.splits)

lemma validateButtonURL_ok:
  "validateButtonURL up raw = Inr l \<Longrightarrow>
     \<exists>u. up l = Some u \<and> url_scheme u \<in> {''https'', ''http'', ''upi'', ''tel''}
         \<and> list_all (\<lambda>r. \<not> isURLBreaking r) l \<and> byte_len l \<le> 2048"
  by (auto simp: validateButtonURL_def Let_def buttonURLSchemes_def limit_defs list_all_iff
      list_ex_iff split: if_splits option.splits)

text \<open>A button as the validator leaves it.\<close>

definition button_ok :: "url_parser \<Rightarrow> button \<Rightarrow> bool" where
  "button_ok up b \<longleftrightarrow>
     1 \<le> length (btn_label b) \<and> length (btn_label b) \<le> 40
     \<and> btn_style b \<in> {''default'', ''primary'', ''danger''}
     \<and> (if btn_id b = '''' then
          (\<exists>u. up (btn_url b) = Some u \<and> url_scheme u \<in> {''https'', ''http'', ''upi'', ''tel''})
        else btn_url b = [] \<and> buttonIDPattern (btn_id b))"

definition ids_of :: "button list \<Rightarrow> string list" where
  "ids_of bs = map btn_id (filter (\<lambda>b. btn_id b \<noteq> '''') bs)"

lemma ids_of_simps [simp]:
  "ids_of [] = []"
  "ids_of (b # bs) = (if btn_id b \<noteq> '''' then [btn_id b] else []) @ ids_of bs"
  "ids_of (xs @ ys) = ids_of xs @ ids_of ys"
  by (simp_all add: ids_of_def)

lemma validateButton_ok:
  assumes "validateButton up b seen = Inr (c, seen')"
  shows "button_ok up c \<and> set seen' = set (ids_of [c]) \<union> set seen
         \<and> set (ids_of [c]) \<inter> set seen = {}"
  using assms
  by (auto simp: validateButton_def button_ok_def ok_iffs buttonIDPattern_def split: if_splits
      dest!: validateLabel_ok validateButtonStyle_ok validateButtonURL_ok)

lemma validateRow_ok:
  "validateRow up bs seen = Inr (out, seen') \<Longrightarrow>
     length out = length bs \<and> list_all (button_ok up) out
     \<and> set seen' = set (ids_of out) \<union> set seen
     \<and> distinct (ids_of out) \<and> set (ids_of out) \<inter> set seen = {}"
proof (induction bs arbitrary: seen out seen')
  case (Cons b bs)
  then obtain c s1 cs where c: "validateButton up b seen = Inr (c, s1)"
    and cs: "validateRow up bs s1 = Inr (cs, seen')" and out: "out = c # cs"
    by (auto simp: ok_iffs)
  have b: "button_ok up c" "set s1 = set (ids_of [c]) \<union> set seen" "set (ids_of [c]) \<inter> set seen = {}"
    using validateButton_ok [OF c] by auto
  have r: "length cs = length bs" "list_all (button_ok up) cs"
    "set seen' = set (ids_of cs) \<union> set s1" "distinct (ids_of cs)" "set (ids_of cs) \<inter> set s1 = {}"
    using Cons.IH [OF cs] by auto
  have split: "ids_of out = ids_of [c] @ ids_of cs" by (simp add: out)
  have "distinct (ids_of [c])" by simp
  with b r have "distinct (ids_of out)" unfolding split distinct_append by blast
  with b r split show ?case by (auto simp: out simp del: ids_of_simps(2))
qed simp

lemma validateRows_ok:
  "validateRows up rows seen = Inr out \<Longrightarrow>
     length out = length rows
     \<and> list_all (\<lambda>r. 1 \<le> length r \<and> length r \<le> 3 \<and> list_all (button_ok up) r) out
     \<and> distinct (ids_of (concat out)) \<and> set (ids_of (concat out)) \<inter> set seen = {}"
proof (induction rows arbitrary: seen out)
  case (Cons row rows)
  then obtain r s1 rs where r: "validateRow up row seen = Inr (r, s1)"
    and rs: "validateRows up rows s1 = Inr rs" and out: "out = r # rs"
    and len: "row \<noteq> []" "length row \<le> 3"
    by (auto simp: ok_iffs limit_defs split: if_splits)
  have a: "length r = length row" "list_all (button_ok up) r"
    "set s1 = set (ids_of r) \<union> set seen" "distinct (ids_of r)" "set (ids_of r) \<inter> set seen = {}"
    using validateRow_ok [OF r] by auto
  have b: "length rs = length rows"
    "list_all (\<lambda>r. 1 \<le> length r \<and> length r \<le> 3 \<and> list_all (button_ok up) r) rs"
    "distinct (ids_of (concat rs))" "set (ids_of (concat rs)) \<inter> set s1 = {}"
    using Cons.IH [OF rs] by auto
  have split: "ids_of (concat out) = ids_of r @ ids_of (concat rs)" by (simp add: out)
  from len a have "1 \<le> length r \<and> length r \<le> 3" by (cases row) auto
  moreover from a b have "distinct (ids_of (concat out))" unfolding split distinct_append by blast
  moreover from a b have "set (ids_of (concat out)) \<inter> set seen = {}" unfolding split set_append by blast
  ultimately show ?case using a b by (simp add: out)
qed simp

text \<open>
  Buttons that pass validation fit the protocol's shape: at most three rows of one to
  three buttons, every label of 1 to 40 characters, every style one of the three, every
  button either a choice with an id of the allowed form or a link with one of the four
  schemes, never both, and no id appears twice anywhere in the message.
\<close>

theorem validateButtons_shape:
  assumes "validateButtons up rows = Inr out"
  shows "length out = length rows \<and> length out \<le> 3
         \<and> list_all (\<lambda>r. 1 \<le> length r \<and> length r \<le> 3 \<and> list_all (button_ok up) r) out
         \<and> distinct (ids_of (concat out))"
  using assms validateRows_ok [of up rows "[]" out]
  by (auto simp: validateButtons_def limit_defs split: if_splits)

theorem validateButtons_shape_witness:
  "let rows = [[\<lparr>btn_id = ''yes'', btn_url = [], btn_label = [Rune 32, Rune 89], btn_style = ''''\<rparr>]];
       out = [[\<lparr>btn_id = ''yes'', btn_url = [], btn_label = [Rune 89], btn_style = ''default''\<rparr>]]
   in validateButtons (\<lambda>_. None) rows = Inr out
      \<and> length out \<le> 3 \<and> distinct (ids_of (concat out))"
proof -
  let ?rows = "[[\<lparr>btn_id = ''yes'', btn_url = [], btn_label = [Rune 32, Rune 89], btn_style = ''''\<rparr>]]"
  let ?out = "[[\<lparr>btn_id = ''yes'', btn_url = [], btn_label = [Rune 89], btn_style = ''default''\<rparr>]]"
  have "validateButtons (\<lambda>_. None) ?rows = Inr ?out"
    by (simp add: validateButtons_def validateButton_def validateLabel_def validateButtonStyle_def
        buttonIDPattern_def button_id_char_def TrimSpace_def ValidString_def contains_any_def
        RuneCount_def limit_defs Let_def)
  with validateButtons_shape [OF this] show ?thesis by (simp add: Let_def)
qed

text \<open>
  What the text checks accept is already in its stored form: it is trimmed, valid, free of
  NUL, 1 to 8000 characters long, and validating it again returns it unchanged, so a message
  sent again, quoted or read back is never refused or altered.
\<close>

theorem validateText_stable:
  assumes "validateText raw = Inr t"
  shows "trimmed t \<and> ValidString t \<and> Rune 0 \<notin> set t \<and> 1 \<le> RuneCount t \<and> RuneCount t \<le> 8000
         \<and> set t \<subseteq> set raw \<and> validateText t = Inr t"
  using assms trimmed_TrimSpace [of raw] set_TrimSpace [of _ raw]
  by (auto simp: validateText_def Let_def contains_any_def list_ex_iff limit_defs Suc_le_eq
      RuneCount_def split: if_splits)

theorem validateText_stable_witness:
  "validateText [Rune 32, Rune 104, Rune 105, Rune 10] = Inr [Rune 104, Rune 105]
   \<and> validateText [Rune 104, Rune 105] = Inr [Rune 104, Rune 105]"
proof -
  have h: "validateText [Rune 32, Rune 104, Rune 105, Rune 10] = Inr [Rune 104, Rune 105]"
    by (simp add: validateText_def TrimSpace_def ValidString_def contains_any_def RuneCount_def
        limit_defs Let_def)
  with validateText_stable [OF h] show ?thesis by simp
qed

lemma is_space_to_rune [simp]: "is_space (to_rune r) = is_space r"
  by (cases r) simp_all

lemma to_rune_space: "is_space r \<Longrightarrow> to_rune r = r"
  by (cases r) simp_all

text \<open>
  The short form of a message for a quote or a chat-list row is one line of at most 101
  characters: it contains no white space but single plain spaces put there by the joining,
  whatever the message contained.
\<close>

theorem previewOf_one_line:
  "RuneCount (previewOf s) \<le> 101 \<and> {r \<in> set (previewOf s). is_space r} \<subseteq> {Rune 32}"
proof -
  let ?t = "Join (Fields s) [Rune 32]"
  have t: "{r \<in> set ?t. is_space r} \<subseteq> {Rune 32}"
    using Fields_Join_space [of _ s] by blast
  then have "{r \<in> set (take n (to_runes ?t)). is_space r} \<subseteq> {Rune 32}" for n
    by (auto dest!: in_set_takeD simp: to_runes_def to_rune_space subset_iff)
  with t show ?thesis
    by (auto simp: previewOf_def Let_def RuneCount_def limit_defs)
qed

lemma clampText_len: "RuneCount (fst (clampText s)) \<le> 8000"
  by (simp add: clampText_def RuneCount_def limit_defs)

lemma clampText_fits: "RuneCount s \<le> 8000 \<Longrightarrow> clampText s = (s, False)"
  by (simp add: clampText_def limit_defs)

lemma pageSize_ok: "pageSize limit = Inr n \<Longrightarrow> 1 \<le> n \<and> n \<le> 100"
  by (auto simp: pageSize_def limit_defs split: if_splits)

end
