(* ===== verification/Types.thy ===== *)
theory Types
  imports Validate
begin

text \<open>
  The types of the server's business packages: what a message says (\<open>conversations.go\<close>,
  \<open>attachments.go\<close>), schedules and cadences, outbox payloads (\<open>membership.go\<close>, \<open>stop.go\<close>),
  and the live events handed to \<open>realtime.Publisher\<close>.

  Go's optional pointers are \<open>option\<close>. A \<open>jsonb\<close> column holds \<open>Doc x\<close>, the document the
  code encoded, or \<open>Corrupt\<close>, one that does not decode into the type the code expects;
  encoding followed by decoding is taken to be the identity.
\<close>

datatype 'a json = Doc 'a | Corrupt

datatype participant_kind = ParticipantUser | ParticipantAgent

record sender =
  snd_kind :: participant_kind
  snd_id :: uuid

record attachment =
  att_media_id :: uuid
  att_kind :: string
  att_mime_type :: string
  att_byte_size :: int
  att_file_name :: gotext
  att_width :: int
  att_height :: int
  att_has_thumbnail :: bool
  att_duration_ms :: int
  att_waveform :: "int list option"

record action =
  act_button_id :: string
  act_source_message_id :: uuid

record body =
  bd_text :: gotext
  bd_attachments :: "attachment list"
  bd_buttons :: "button list list"
  bd_quick_replies :: "quick_reply list"
  bd_action :: "action option"
  bd_selected_button_id :: string

definition empty_body :: body where
  "empty_body = \<lparr>bd_text = [], bd_attachments = [], bd_buttons = [], bd_quick_replies = [],
     bd_action = None, bd_selected_button_id = ''''\<rparr>"

datatype message_status = MessageStreaming | MessageComplete

datatype delivery_status = DeliveryPending | DeliveryDelivered | DeliveryFailed

record reply_ref =
  rr_id :: uuid
  rr_sender_kind :: "participant_kind option" \<comment> \<open>the empty string when the original is gone\<close>
  rr_preview :: gotext

type_synonym signature = "nat list"

text \<open>\<open>Message\<close>; \<open>mg_delivery_status\<close> is empty when nobody was to be told.\<close>

record message =
  mg_id :: uuid
  mg_conversation_id :: uuid
  mg_sender :: sender
  mg_body :: body
  mg_reply_to :: "reply_ref option"
  mg_status :: message_status
  mg_truncated :: bool
  mg_stopped :: bool
  mg_schedule_id :: "uuid option"
  mg_schedule_title :: gotext
  mg_delivery_status :: "delivery_status option"
  mg_created_at :: int
  mg_signature :: "signature option"

record send_input =
  si_text :: gotext
  si_attachments :: "uuid list"
  si_idempotency_key :: gotext
  si_reply_to :: "uuid option"
  si_buttons :: "button list list"
  si_quick_replies :: "quick_reply list"
  si_action :: "action option"
  si_schedule_id :: "uuid option"

definition text_input :: "gotext \<Rightarrow> send_input" where
  "text_input t = \<lparr>si_text = t, si_attachments = [], si_idempotency_key = [], si_reply_to = None,
     si_buttons = [], si_quick_replies = [], si_action = None, si_schedule_id = None\<rparr>"

record finish_input =
  fi_buttons :: "button list list"
  fi_quick_replies :: "quick_reply list"

record send_result =
  sr_message :: message
  sr_created :: bool

section \<open>Schedules\<close>

record cadence =
  cd_repeat :: string
  cd_time :: string
  cd_days :: "gotext list"
  cd_date :: string
  cd_timezone :: string

datatype schedule_status = SchedulePending | ScheduleActive | SchedulePaused

record schedule =
  sch_id :: uuid
  sch_agent_id :: uuid
  sch_conversation_id :: uuid
  sch_title :: gotext
  sch_instruction :: gotext
  sch_cadence :: cadence
  sch_status :: schedule_status
  sch_created_by :: participant_kind
  sch_last_run_at :: "int option"
  sch_created_at :: int
  sch_updated_at :: int
  sch_deleted :: bool

section \<open>The outbox\<close>

datatype event_type =
  EventMessageCreated | EventConversationJoined | EventConversationLeft | EventStopRequested
  | EventScheduleRequested | EventScheduleUpdated | EventScheduleDeleted

datatype payload =
  JoinedPayload "uuid option" "string option"
| LeftPayload string
| StopPayload "uuid option"
| SchedulePayload schedule

section \<open>Live events\<close>

datatype live_payload =
  MessageCreatedEvent uuid message
| MessageDeltaEvent uuid uuid gotext
| DeliveryUpdatedEvent uuid uuid "delivery_status option"
| ReadEvent uuid uuid
| ActivityEvent uuid uuid string gotext int
| ScheduleChangedEvent uuid schedule
| AgentStatusEvent uuid string
| EmptyPayload

record live_event =
  ev_type :: string
  ev_recipients :: "uuid list"
  ev_payload :: live_payload

text \<open>\<open>Landed\<close>: a finished message handed to whatever notifies phones.\<close>

record landed =
  ld_conversation_id :: uuid
  ld_message_id :: uuid
  ld_agent_id :: uuid
  ld_text :: gotext
  ld_recipients :: "uuid list"
  ld_sender_id :: uuid
  ld_has_attachments :: bool

end
