(* ===== verification/Database.thy ===== *)
theory Database
  imports Types "HOL-Library.Multiset"
begin

text \<open>
  The state in Postgres: one record per table row (\<open>store/gen/models.go\<close>, columns as the
  migrations declare them) and \<open>db\<close>, all tables together. A table is the list of its rows
  in insertion order. The statements on them are in the \<open>Sql\<close> theories.

  Constraints the migrations declare are enforced by the INSERT statements that could break
  them. A statement that fails for a reason outside the program (connection lost, disk full)
  is not modelled.
\<close>

record user_row =
  usr_id :: uuid
  usr_display_name :: gotext
  usr_locale :: string
  usr_created_at :: int
  usr_updated_at :: int
  usr_deleted_at :: "int option"
  usr_avatar_media_id :: "uuid option"
  usr_timezone :: string

record agent_row =
  agt_id :: uuid
  agt_owner_user_id :: uuid
  agt_handle :: string
  agt_display_name :: gotext
  agt_description :: gotext
  agt_created_at :: int
  agt_updated_at :: int
  agt_deleted_at :: "int option"
  agt_avatar_media_id :: "uuid option"
  agt_starters :: "gotext list json"
  agt_private :: bool
  agt_listed :: bool
  agt_supports_schedules :: bool

datatype binding_mode = ModeWebhook | ModeSocket

datatype binding_status = StatusIdle | StatusConnected | StatusUnreachable

record binding_row =
  bnd_id :: uuid
  bnd_agent_id :: uuid
  bnd_mode :: binding_mode
  bnd_webhook_url :: "gotext option"
  bnd_secret_hash :: "nat list"
  bnd_status :: binding_status
  bnd_last_seen_at :: "int option"
  bnd_created_at :: int
  bnd_revoked_at :: "int option"
  bnd_failure_streak_started_at :: "int option"

record conversation_row =
  cnv_id :: uuid
  cnv_kind :: string
  cnv_created_at :: int

record participant_row =
  prt_conversation_id :: uuid
  prt_kind :: participant_kind
  prt_user_id :: "uuid option"
  prt_agent_id :: "uuid option"
  prt_joined_at :: int
  prt_cleared_before :: "uuid option"
  prt_read_up_to :: "uuid option"

record message_row =
  msg_id :: uuid
  msg_conversation_id :: uuid
  msg_sender_kind :: participant_kind
  msg_sender_user_id :: "uuid option"
  msg_sender_agent_id :: "uuid option"
  msg_body :: "body json"
  msg_created_at :: int
  msg_idempotency_key :: "gotext option"
  msg_status :: message_status
  msg_truncated :: bool
  msg_reply_to_message_id :: "uuid option"
  msg_signature :: "signature option"
  msg_stopped :: bool
  msg_schedule_id :: "uuid option"

record hide_row =
  hid_user_id :: uuid
  hid_message_id :: uuid

record delivery_row =
  dlv_id :: uuid
  dlv_message_id :: "uuid option"
  dlv_agent_id :: uuid
  dlv_event_type :: event_type
  dlv_status :: delivery_status
  dlv_attempts :: nat
  dlv_next_attempt_at :: int
  dlv_last_error :: "string option"
  dlv_delivered_at :: "int option"
  dlv_created_at :: int
  dlv_conversation_id :: uuid
  dlv_payload :: "payload json option"

record contact_row =
  ctc_user_id :: uuid
  ctc_agent_id :: uuid
  ctc_dm_conversation_id :: uuid
  ctc_added_via :: string
  ctc_pair_token_id :: "uuid option"
  ctc_blocked_at :: "int option"
  ctc_created_at :: int
  ctc_muted_until :: "int option"
  ctc_pinned_at :: "int option"
  ctc_archived_at :: "int option"
  ctc_removed_at :: "int option"

record token_row =
  ptk_id :: uuid
  ptk_token_hash :: "nat list"
  ptk_kind :: string
  ptk_agent_id :: uuid
  ptk_payload :: "string option"
  ptk_max_uses :: "int option"
  ptk_use_count :: int
  ptk_created_by_user_id :: uuid
  ptk_expires_at :: "int option"
  ptk_created_at :: int
  ptk_revoked_at :: "int option"

record report_row =
  rpt_id :: uuid
  rpt_reporter_user_id :: uuid
  rpt_agent_id :: uuid
  rpt_message_id :: "uuid option"
  rpt_reason :: string
  rpt_note :: gotext
  rpt_created_at :: int

record media_row =
  med_id :: uuid
  med_owner_kind :: participant_kind
  med_owner_id :: uuid
  med_kind :: string
  med_mime_type :: string
  med_byte_size :: int
  med_file_name :: gotext
  med_width :: int
  med_height :: int
  med_storage_key :: string
  med_thumb_key :: "string option"
  med_message_id :: "uuid option"
  med_created_at :: int
  med_duration_ms :: int
  med_waveform :: "int list option"

record schedule_row =
  scd_id :: uuid
  scd_agent_id :: uuid
  scd_conversation_id :: uuid
  scd_title :: gotext
  scd_instruction :: gotext
  scd_cadence :: "cadence json"
  scd_status :: schedule_status
  scd_created_by :: participant_kind
  scd_last_run_at :: "int option"
  scd_created_at :: int
  scd_updated_at :: int
  scd_deleted_at :: "int option"

record identity_row =
  idn_id :: uuid
  idn_user_id :: uuid
  idn_kind :: string
  idn_value :: gotext
  idn_verified_at :: "int option"
  idn_created_at :: int

record code_row =
  cod_id :: uuid
  cod_email :: gotext
  cod_code_hash :: "nat list"
  cod_attempts :: nat
  cod_expires_at :: int
  cod_used_at :: "int option"
  cod_created_at :: int

record session_row =
  ses_id :: uuid
  ses_user_id :: uuid
  ses_token_hash :: "nat list"
  ses_device_name :: gotext
  ses_expires_at :: int
  ses_created_at :: int
  ses_revoked_at :: "int option"
  ses_last_seen_at :: "int option"
  ses_push_token :: "gotext option"
  ses_push_platform :: string
  ses_push_registered_at :: "int option"

record api_key_row =
  key_id :: uuid
  key_user_id :: uuid
  key_name :: gotext
  key_hash :: "nat list"
  key_last_used_at :: "int option"
  key_created_at :: int
  key_revoked_at :: "int option"

record db =
  db_users :: "user_row list"
  db_agents :: "agent_row list"
  db_bindings :: "binding_row list"
  db_conversations :: "conversation_row list"
  db_participants :: "participant_row list"
  db_messages :: "message_row list"
  db_hides :: "hide_row list"
  db_deliveries :: "delivery_row list"
  db_contacts :: "contact_row list"
  db_tokens :: "token_row list"
  db_reports :: "report_row list"
  db_media :: "media_row list"
  db_schedules :: "schedule_row list"
  db_identities :: "identity_row list"
  db_codes :: "code_row list"
  db_sessions :: "session_row list"
  db_api_keys :: "api_key_row list"

definition empty_db :: db where
  "empty_db = \<lparr>db_users = [], db_agents = [], db_bindings = [], db_conversations = [],
     db_participants = [], db_messages = [], db_hides = [], db_deliveries = [], db_contacts = [],
     db_tokens = [], db_reports = [], db_media = [], db_schedules = [],
     db_identities = [], db_codes = [], db_sessions = [], db_api_keys = []\<rparr>"

text \<open>A query that must return one row: \<open>pgx.ErrNoRows\<close> when there is none.\<close>

definition one_row :: "'r option \<Rightarrow> go_error + 'r" where
  "one_row r = (case r of None \<Rightarrow> Inl (PlainError NoRows) | Some x \<Rightarrow> Inr x)"

lemma one_row_simps [simp]: "one_row None = Inl (PlainError NoRows)" "one_row (Some x) = Inr x"
  by (simp_all add: one_row_def)

lemma one_row_Inr [ok_iffs]: "one_row r = Inr x \<longleftrightarrow> r = Some x"
  by (cases r) auto

lemma IsNoRows_simps [simp]:
  "IsNoRows (PlainError NoRows)" "\<not> IsNoRows (PlainError UniqueViolation)"
  "\<not> IsNoRows (PlainError ForeignKeyViolation)" "\<not> IsNoRows (PlainError CheckViolation)"
  by (simp_all add: IsNoRows_def)

lemma one_row_NoRows: "one_row r = Inl e \<Longrightarrow> r = None \<and> IsNoRows e"
  by (cases r) auto

text \<open>
  An INSERT: refused by a CHECK constraint, then by a unique index, then by a foreign key,
  in the order Postgres tests them; otherwise the row is there.
\<close>

definition insert_row :: "bool \<Rightarrow> bool \<Rightarrow> bool \<Rightarrow> 'r \<Rightarrow> db \<Rightarrow> (go_error + 'r) \<times> db \<Rightarrow> (go_error + 'r) \<times> db" where
  "insert_row checks unique references r d ok =
     (if \<not> checks then (Inl (PlainError CheckViolation), d)
      else if \<not> unique then (Inl (PlainError UniqueViolation), d)
      else if \<not> references then (Inl (PlainError ForeignKeyViolation), d)
      else ok)"

lemma insert_row_Inr [ok_iffs]:
  "insert_row c u f r d ok = (Inr x, d') \<longleftrightarrow> c \<and> u \<and> f \<and> ok = (Inr x, d')"
  by (auto simp: insert_row_def)

lemma insert_row_ok [simp]: "c \<Longrightarrow> u \<Longrightarrow> f \<Longrightarrow> insert_row c u f r d ok = ok"
  by (simp add: insert_row_def)

lemma insert_row_Inl:
  "insert_row c u f r d (Inr x, d1) = (Inl e, d') \<Longrightarrow> d' = d \<and> (IsUniqueViolation e \<longrightarrow> \<not> u)"
  by (auto simp: insert_row_def IsUniqueViolation_def split: if_splits)

section \<open>ORDER BY, LIMIT, DISTINCT ON and joins\<close>

text \<open>
  \<open>ORDER BY\<close> is a stable sort, \<open>DESC\<close> its reverse, \<open>LIMIT n\<close> is \<open>take n\<close>. \<open>DISTINCT ON\<close>
  keeps the first row of every key, in the order the rows come.
\<close>

definition newest_first :: "('r \<Rightarrow> 'k::linorder) \<Rightarrow> 'r list \<Rightarrow> 'r list" where
  "newest_first k rows = rev (sort_key k rows)"

lemma set_newest_first [simp]: "set (newest_first k rows) = set rows"
  by (simp add: newest_first_def)

lemma sorted_newest_first: "sorted_wrt (\<lambda>a b. k a \<ge> k b) (newest_first k rows)"
  using sorted_sort_key [of k rows]
  by (simp add: newest_first_def sorted_wrt_rev sorted_wrt_map)

lemma distinct_newest_first: "distinct (map k rows) \<Longrightarrow> distinct (map k (newest_first k rows))"
  by (simp add: newest_first_def distinct_map)

lemma newest_first_strict:
  assumes "distinct (map k rows)"
  shows "sorted_wrt (\<lambda>a b. k a > k b) (newest_first k rows)"
proof -
  have "sorted_wrt (\<lambda>a b. k a \<ge> k b \<and> k a \<noteq> k b) (newest_first k rows)"
    using sorted_newest_first [of k rows] distinct_newest_first [OF assms]
    by (induction "newest_first k rows" arbitrary: rows) 
       (auto simp: sorted_wrt_iff_nth_less distinct_conv_nth)
  then show ?thesis by (rule sorted_wrt_mono_rel [rotated]) auto
qed

lemma filter_newest_first: "filter P (newest_first k rows) = newest_first k (filter P rows)"
  by (simp add: newest_first_def filter_sort flip: rev_filter)

lemma newest_first_eq:
  assumes "set xs = set ys" "distinct (map k xs)" "distinct (map k ys)"
  shows "newest_first k xs = newest_first k ys"
proof -
  have "mset xs = mset ys"
    using assms by (metis distinct_map set_eq_iff_mset_eq_distinct)
  moreover have "inj_on k (set ys)" using assms by (simp add: distinct_map)
  ultimately have "sort_key k xs = sort_key k ys"
    using assms by (intro sort_key_inj_key_eq) auto
  then show ?thesis by (simp add: newest_first_def)
qed

fun distinct_on :: "('r \<Rightarrow> 'k) \<Rightarrow> 'r list \<Rightarrow> 'r list" where
  "distinct_on k [] = []"
| "distinct_on k (r # rows) = r # filter (\<lambda>q. k q \<noteq> k r) (distinct_on k rows)"

lemma set_distinct_on: "set (distinct_on k rows) \<subseteq> set rows"
  by (induction rows) auto

text \<open>
  An inner join \<open>FROM left JOIN right ON .. WHERE ..\<close> of which only the left row is selected.
  When exactly one right row meets the \<open>ON\<close> condition, the join is a filter.
\<close>

definition join_select :: "'l list \<Rightarrow> 'r list \<Rightarrow> ('l \<Rightarrow> 'r \<Rightarrow> bool) \<Rightarrow> 'l list" where
  "join_select ls rs on_where = concat (map (\<lambda>l. map (\<lambda>_. l) (filter (on_where l) rs)) ls)"

lemma set_join_select: "l \<in> set (join_select ls rs C) \<longleftrightarrow> l \<in> set ls \<and> (\<exists>r\<in>set rs. C l r)"
  by (auto simp: join_select_def)

lemma join_unique:
  assumes "filter J ps = [p]"
  shows "join_select ms ps (\<lambda>m q. J q \<and> C m q) = filter (\<lambda>m. C m p) ms"
proof -
  have "filter (\<lambda>q. J q \<and> C m q) ps = (if C m p then [p] else [])" for m
  proof -
    have "filter (\<lambda>q. J q \<and> C m q) ps = filter (C m) (filter J ps)" by (simp add: conj_commute)
    with assms show ?thesis by simp
  qed
  then show ?thesis by (induction ms) (auto simp: join_select_def)
qed

section \<open>The constraints of the schema\<close>

text \<open>
  What the migrations declare and Postgres keeps: primary keys, unique indexes, and the
  checks that tie a kind to the column it names. One predicate per table.
\<close>

definition participants_ok :: "participant_row list \<Rightarrow> bool" where
  "participants_ok ps \<longleftrightarrow>
     (\<forall>p\<in>set ps. (prt_kind p = ParticipantUser) = (prt_user_id p \<noteq> None)
               \<and> (prt_kind p = ParticipantAgent) = (prt_agent_id p \<noteq> None))
   \<and> distinct (map (\<lambda>p. (prt_conversation_id p, prt_user_id p, prt_agent_id p)) ps)"

definition messages_ok :: "message_row list \<Rightarrow> bool" where
  "messages_ok ms \<longleftrightarrow>
     distinct (map msg_id ms)
   \<and> (\<forall>m\<in>set ms. (msg_sender_kind m = ParticipantUser) = (msg_sender_user_id m \<noteq> None)
               \<and> (msg_sender_kind m = ParticipantAgent) = (msg_sender_agent_id m \<noteq> None))
   \<and> distinct (map (\<lambda>m. (msg_sender_user_id m, msg_sender_agent_id m, msg_idempotency_key m))
       (filter (\<lambda>m. msg_idempotency_key m \<noteq> None) ms))"

definition deliveries_ok :: "delivery_row list \<Rightarrow> bool" where
  "deliveries_ok ds \<longleftrightarrow>
     distinct (map dlv_id ds)
   \<and> (\<forall>d\<in>set ds. (dlv_event_type d = EventMessageCreated) = (dlv_message_id d \<noteq> None))
   \<and> distinct (map (\<lambda>d. (dlv_message_id d, dlv_agent_id d))
       (filter (\<lambda>d. dlv_message_id d \<noteq> None) ds))"

definition bindings_ok :: "binding_row list \<Rightarrow> bool" where
  "bindings_ok bs \<longleftrightarrow>
     distinct (map bnd_id bs) \<and> distinct (map bnd_secret_hash bs)
   \<and> distinct (map bnd_agent_id (filter (\<lambda>b. bnd_revoked_at b = None) bs))"

definition contacts_ok :: "contact_row list \<Rightarrow> bool" where
  "contacts_ok cs \<longleftrightarrow> distinct (map (\<lambda>c. (ctc_user_id c, ctc_agent_id c)) cs)"

definition agents_ok :: "agent_row list \<Rightarrow> bool" where
  "agents_ok as \<longleftrightarrow> distinct (map agt_id as) \<and> distinct (map agt_handle as)
     \<and> (\<forall>a\<in>set as. \<not> (agt_private a \<and> agt_listed a))"

definition tokens_ok :: "token_row list \<Rightarrow> bool" where
  "tokens_ok ts \<longleftrightarrow> distinct (map ptk_id ts) \<and> distinct (map ptk_token_hash ts)"

definition identities_ok :: "identity_row list \<Rightarrow> bool" where
  "identities_ok is \<longleftrightarrow> distinct (map idn_id is) \<and> distinct (map (\<lambda>i. (idn_kind i, idn_value i)) is)"

definition sessions_ok :: "session_row list \<Rightarrow> bool" where
  "sessions_ok ss \<longleftrightarrow> distinct (map ses_id ss) \<and> distinct (map ses_token_hash ss)
     \<and> distinct (map ses_push_token (filter (\<lambda>s. ses_push_token s \<noteq> None) ss))"

definition api_keys_ok :: "api_key_row list \<Rightarrow> bool" where
  "api_keys_ok ks \<longleftrightarrow> distinct (map key_id ks) \<and> distinct (map key_hash ks)"

lemma empty_tables_ok [simp]: "identities_ok []" "sessions_ok []" "api_keys_ok []"
  by (simp_all add: identities_ok_def sessions_ok_def api_keys_ok_def)

definition db_ok :: "db \<Rightarrow> bool" where
  "db_ok d \<longleftrightarrow>
     distinct (map cnv_id (db_conversations d)) \<and> participants_ok (db_participants d)
   \<and> messages_ok (db_messages d) \<and> deliveries_ok (db_deliveries d) \<and> bindings_ok (db_bindings d)
   \<and> contacts_ok (db_contacts d) \<and> distinct (map med_id (db_media d))
   \<and> distinct (map scd_id (db_schedules d)) \<and> tokens_ok (db_tokens d)
   \<and> agents_ok (db_agents d) \<and> distinct (map usr_id (db_users d))
   \<and> identities_ok (db_identities d) \<and> distinct (map cod_id (db_codes d))
   \<and> sessions_ok (db_sessions d) \<and> api_keys_ok (db_api_keys d)"

lemma db_ok_empty: "db_ok empty_db"
  by (simp add: db_ok_def empty_db_def participants_ok_def messages_ok_def deliveries_ok_def
      bindings_ok_def contacts_ok_def agents_ok_def tokens_ok_def)

lemma db_okD:
  assumes "db_ok d"
  shows "distinct (map cnv_id (db_conversations d))" "participants_ok (db_participants d)"
    "messages_ok (db_messages d)" "deliveries_ok (db_deliveries d)" "bindings_ok (db_bindings d)"
    "contacts_ok (db_contacts d)" "distinct (map med_id (db_media d))"
    "distinct (map scd_id (db_schedules d))" "agents_ok (db_agents d)" "tokens_ok (db_tokens d)"
    "distinct (map usr_id (db_users d))" "identities_ok (db_identities d)" "distinct (map cod_id (db_codes d))"
    "sessions_ok (db_sessions d)" "api_keys_ok (db_api_keys d)"
  using assms by (auto simp: db_ok_def)

text \<open>A member of a conversation has exactly one row in it.\<close>

lemma distinct_set_single: "distinct xs \<Longrightarrow> set xs = {r} \<Longrightarrow> xs = [r]"
proof -
  assume d: "distinct xs" and s: "set xs = {r}"
  then have "length xs = 1" using distinct_card [OF d] by simp
  with s show "xs = [r]" by (cases xs) auto
qed
lemma distinct_filter_single:
  assumes "distinct (map k rows)" "r \<in> set rows" "P r" "\<forall>q\<in>set rows. P q \<longrightarrow> k q = k r"
  shows "filter P rows = [r]"
proof (rule distinct_set_single)
  have "q = r" if "q \<in> set rows" "P q" for q
    using assms that by (meson distinct_map inj_onD)
  then show "set (filter P rows) = {r}"
    using assms(2,3) unfolding set_filter by blast
  show "distinct (filter P rows)" using assms(1) by (simp add: distinct_map)
qed

lemma participant_one_side:
  "participants_ok ps \<Longrightarrow> p \<in> set ps \<Longrightarrow> prt_user_id p = None \<or> prt_agent_id p = None"
  by (cases "prt_kind p") (auto simp: participants_ok_def)

lemma user_row_unique:
  assumes "participants_ok ps" "p \<in> set ps" "prt_conversation_id p = cid" "prt_user_id p = Some u"
  shows "filter (\<lambda>q. prt_conversation_id q = cid \<and> prt_user_id q = Some u) ps = [p]"
proof (rule distinct_filter_single)
  show "distinct (map (\<lambda>p. (prt_conversation_id p, prt_user_id p, prt_agent_id p)) ps)"
    using assms by (simp add: participants_ok_def)
next
  show "\<forall>q\<in>set ps. prt_conversation_id q = cid \<and> prt_user_id q = Some u \<longrightarrow>
      (prt_conversation_id q, prt_user_id q, prt_agent_id q)
      = (prt_conversation_id p, prt_user_id p, prt_agent_id p)"
  proof (intro ballI impI)
  fix q assume q: "q \<in> set ps" "prt_conversation_id q = cid \<and> prt_user_id q = Some u"
  then have "prt_agent_id q = None" "prt_agent_id p = None"
    using assms participant_one_side by fastforce+
  with q assms show "(prt_conversation_id q, prt_user_id q, prt_agent_id q)
      = (prt_conversation_id p, prt_user_id p, prt_agent_id p)" by simp
  qed
qed (use assms in auto)

lemma agent_row_unique:
  assumes "participants_ok ps" "p \<in> set ps" "prt_conversation_id p = cid" "prt_agent_id p = Some a"
  shows "filter (\<lambda>q. prt_conversation_id q = cid \<and> prt_agent_id q = Some a) ps = [p]"
proof (rule distinct_filter_single)
  show "distinct (map (\<lambda>p. (prt_conversation_id p, prt_user_id p, prt_agent_id p)) ps)"
    using assms by (simp add: participants_ok_def)
next
  show "\<forall>q\<in>set ps. prt_conversation_id q = cid \<and> prt_agent_id q = Some a \<longrightarrow>
      (prt_conversation_id q, prt_user_id q, prt_agent_id q)
      = (prt_conversation_id p, prt_user_id p, prt_agent_id p)"
  proof (intro ballI impI)
  fix q assume q: "q \<in> set ps" "prt_conversation_id q = cid \<and> prt_agent_id q = Some a"
  then have "prt_user_id q = None" "prt_user_id p = None"
    using assms participant_one_side by fastforce+
  with q assms show "(prt_conversation_id q, prt_user_id q, prt_agent_id q)
      = (prt_conversation_id p, prt_user_id p, prt_agent_id p)" by simp
  qed
qed (use assms in auto)

end
