(* ===== verification/SqlMessages.thy ===== *)
theory SqlMessages
  imports Database
begin

text \<open>
  The statements of \<open>store/gen/conversations.sql.go\<close>, \<open>messages.sql.go\<close> and
  \<open>media.sql.go\<close> that the business packages use, and what each keeps of the schema's
  constraints. A statement keeps its Go name; the suffix \<open>_sql\<close> marks the few that share it
  with a method of the service.
\<close>

section \<open>Conversations and participants\<close>

definition CreateConversation :: "int \<Rightarrow> uuid \<Rightarrow> string \<Rightarrow> db \<Rightarrow> (go_error + conversation_row) \<times> db" where
  "CreateConversation now cid k d =
     (let r = \<lparr>cnv_id = cid, cnv_kind = k, cnv_created_at = now\<rparr> in
      insert_row (k \<in> {''dm'', ''group''})
        (\<forall>c\<in>set (db_conversations d). cnv_id c \<noteq> cid) True r d
        (Inr r, d\<lparr>db_conversations := db_conversations d @ [r]\<rparr>))"

definition GetConversation :: "db \<Rightarrow> uuid \<Rightarrow> go_error + conversation_row" where
  "GetConversation d cid = one_row (find (\<lambda>c. cnv_id c = cid) (db_conversations d))"

definition AddParticipant ::
    "int \<Rightarrow> uuid \<Rightarrow> participant_kind \<Rightarrow> uuid option \<Rightarrow> uuid option \<Rightarrow> db \<Rightarrow> (go_error + participant_row) \<times> db" where
  "AddParticipant now cid k uid aid d =
     (let r = \<lparr>prt_conversation_id = cid, prt_kind = k, prt_user_id = uid, prt_agent_id = aid,
               prt_joined_at = now, prt_cleared_before = None, prt_read_up_to = None\<rparr> in
      insert_row
        ((k = ParticipantUser) = (uid \<noteq> None) \<and> (k = ParticipantAgent) = (aid \<noteq> None))
        (\<forall>p\<in>set (db_participants d). prt_conversation_id p = cid \<longrightarrow>
            (uid = None \<or> prt_user_id p \<noteq> uid) \<and> (aid = None \<or> prt_agent_id p \<noteq> aid))
        ((\<exists>c\<in>set (db_conversations d). cnv_id c = cid)
          \<and> (uid = None \<or> (\<exists>u\<in>set (db_users d). Some (usr_id u) = uid))
          \<and> (aid = None \<or> (\<exists>a\<in>set (db_agents d). Some (agt_id a) = aid)))
        r d (Inr r, d\<lparr>db_participants := db_participants d @ [r]\<rparr>))"

definition IsUserParticipant :: "db \<Rightarrow> uuid \<Rightarrow> uuid \<Rightarrow> bool" where
  "IsUserParticipant d cid uid \<longleftrightarrow>
     (\<exists>p\<in>set (db_participants d). prt_conversation_id p = cid \<and> prt_user_id p = Some uid)"

definition IsAgentParticipant :: "db \<Rightarrow> uuid \<Rightarrow> uuid \<Rightarrow> bool" where
  "IsAgentParticipant d cid aid \<longleftrightarrow>
     (\<exists>p\<in>set (db_participants d). prt_conversation_id p = cid \<and> prt_agent_id p = Some aid)"

definition FindDM :: "db \<Rightarrow> uuid \<Rightarrow> uuid \<Rightarrow> go_error + conversation_row" where
  "FindDM d uid aid =
     one_row (case take 1 (sort_key cnv_id
         (join_select (join_select (db_conversations d) (db_participants d)
             (\<lambda>c pu. prt_conversation_id pu = cnv_id c \<and> prt_user_id pu = Some uid))
           (db_participants d)
           (\<lambda>c pa. prt_conversation_id pa = cnv_id c \<and> prt_agent_id pa = Some aid \<and> cnv_kind c = ''dm'')))
       of [] \<Rightarrow> None | c # _ \<Rightarrow> Some c)"

text \<open>
  \<open>ORDER BY joined_at, agent_id\<close>: two stable sorts, the last key first. The ids that are not
  null are the ones selected.
\<close>

definition ListAgentParticipants :: "db \<Rightarrow> uuid \<Rightarrow> uuid list" where
  "ListAgentParticipants d cid =
     map (\<lambda>p. the (prt_agent_id p)) (sort_key prt_joined_at (sort_key (\<lambda>p. the (prt_agent_id p))
       (filter (\<lambda>p. prt_conversation_id p = cid \<and> prt_agent_id p \<noteq> None) (db_participants d))))"

definition ListUserParticipants :: "db \<Rightarrow> uuid \<Rightarrow> uuid list" where
  "ListUserParticipants d cid =
     map (\<lambda>p. the (prt_user_id p)) (sort_key prt_joined_at (sort_key (\<lambda>p. the (prt_user_id p))
       (filter (\<lambda>p. prt_conversation_id p = cid \<and> prt_user_id p \<noteq> None) (db_participants d))))"

definition ListUsersSharingAgent :: "db \<Rightarrow> uuid \<Rightarrow> uuid list" where
  "ListUsersSharingAgent d aid =
     sort (remdups (map (\<lambda>p. the (prt_user_id p))
       (join_select (filter (\<lambda>p. prt_user_id p \<noteq> None) (db_participants d)) (db_participants d)
         (\<lambda>p ap. prt_conversation_id p = prt_conversation_id ap \<and> prt_agent_id ap = Some aid))))"

text \<open>\<open>MarkRead\<close> reports how many rows moved.\<close>

definition MarkRead_row :: "uuid \<Rightarrow> uuid \<Rightarrow> uuid \<Rightarrow> participant_row \<Rightarrow> bool" where
  "MarkRead_row cid uid mid p \<longleftrightarrow> prt_conversation_id p = cid \<and> prt_user_id p = Some uid
     \<and> (case prt_read_up_to p of None \<Rightarrow> True | Some r \<Rightarrow> r < mid)"

definition MarkRead_sql :: "uuid \<Rightarrow> uuid \<Rightarrow> uuid \<Rightarrow> db \<Rightarrow> nat \<times> db" where
  "MarkRead_sql cid uid mid d =
     (count_where (MarkRead_row cid uid mid) (db_participants d),
      d\<lparr>db_participants := update_where (MarkRead_row cid uid mid)
          (\<lambda>p. p\<lparr>prt_read_up_to := Some mid\<rparr>) (db_participants d)\<rparr>)"

section \<open>Messages\<close>

record CreateMessageParams =
  cmp_ID :: uuid
  cmp_ConversationID :: uuid
  cmp_SenderKind :: participant_kind
  cmp_SenderUserID :: "uuid option"
  cmp_SenderAgentID :: "uuid option"
  cmp_Body :: body
  cmp_IdempotencyKey :: "gotext option"
  cmp_Status :: message_status
  cmp_ReplyToMessageID :: "uuid option"
  cmp_Signature :: "signature option"
  cmp_ScheduleID :: "uuid option"

definition message_of_params :: "int \<Rightarrow> CreateMessageParams \<Rightarrow> message_row" where
  "message_of_params now a =
     \<lparr>msg_id = cmp_ID a, msg_conversation_id = cmp_ConversationID a, msg_sender_kind = cmp_SenderKind a,
      msg_sender_user_id = cmp_SenderUserID a, msg_sender_agent_id = cmp_SenderAgentID a,
      msg_body = Doc (cmp_Body a), msg_created_at = now, msg_idempotency_key = cmp_IdempotencyKey a,
      msg_status = cmp_Status a, msg_truncated = False, msg_reply_to_message_id = cmp_ReplyToMessageID a,
      msg_signature = cmp_Signature a, msg_stopped = False, msg_schedule_id = cmp_ScheduleID a\<rparr>"

text \<open>Is there a message this sender has already sent under this key?\<close>

definition key_used :: "message_row list \<Rightarrow> message_row \<Rightarrow> bool" where
  "key_used ms r \<longleftrightarrow> msg_idempotency_key r \<noteq> None \<and> (\<exists>m\<in>set ms.
      msg_idempotency_key m = msg_idempotency_key r
    \<and> (msg_sender_user_id r \<noteq> None \<and> msg_sender_user_id m = msg_sender_user_id r
       \<or> msg_sender_agent_id r \<noteq> None \<and> msg_sender_agent_id m = msg_sender_agent_id r))"

definition CreateMessage :: "int \<Rightarrow> CreateMessageParams \<Rightarrow> db \<Rightarrow> (go_error + message_row) \<times> db" where
  "CreateMessage now a d =
     (let r = message_of_params now a in
      insert_row
        ((cmp_SenderKind a = ParticipantUser) = (cmp_SenderUserID a \<noteq> None)
          \<and> (cmp_SenderKind a = ParticipantAgent) = (cmp_SenderAgentID a \<noteq> None)
          \<and> (case cmp_IdempotencyKey a of None \<Rightarrow> True | Some k \<Rightarrow> 1 \<le> RuneCount k \<and> RuneCount k \<le> 200))
        ((\<forall>m\<in>set (db_messages d). msg_id m \<noteq> cmp_ID a) \<and> \<not> key_used (db_messages d) r)
        ((\<exists>c\<in>set (db_conversations d). cnv_id c = cmp_ConversationID a)
          \<and> (cmp_SenderUserID a = None \<or> (\<exists>u\<in>set (db_users d). Some (usr_id u) = cmp_SenderUserID a))
          \<and> (cmp_SenderAgentID a = None \<or> (\<exists>g\<in>set (db_agents d). Some (agt_id g) = cmp_SenderAgentID a))
          \<and> (cmp_ScheduleID a = None \<or> (\<exists>s\<in>set (db_schedules d). Some (scd_id s) = cmp_ScheduleID a)))
        r d (Inr r, d\<lparr>db_messages := db_messages d @ [r]\<rparr>))"

definition UpdateMessageBody :: "uuid \<Rightarrow> body \<Rightarrow> db \<Rightarrow> db" where
  "UpdateMessageBody mid b d =
     d\<lparr>db_messages := update_where (\<lambda>m. msg_id m = mid) (\<lambda>m. m\<lparr>msg_body := Doc b\<rparr>) (db_messages d)\<rparr>"

definition GetMessage :: "db \<Rightarrow> uuid \<Rightarrow> go_error + message_row" where
  "GetMessage d mid = one_row (find (\<lambda>m. msg_id m = mid) (db_messages d))"

text \<open>The stream an agent may end: its own, and still being written.\<close>

definition FinishMessage_row :: "uuid \<Rightarrow> uuid \<Rightarrow> message_row \<Rightarrow> bool" where
  "FinishMessage_row mid aid m \<longleftrightarrow>
     msg_id m = mid \<and> msg_sender_agent_id m = Some aid \<and> msg_status m = MessageStreaming"

definition FinishMessage :: "uuid \<Rightarrow> uuid \<Rightarrow> body \<Rightarrow> bool \<Rightarrow> bool \<Rightarrow> db \<Rightarrow> (go_error + message_row) \<times> db" where
  "FinishMessage mid aid b truncated stopped d =
     (let fin = (\<lambda>m. m\<lparr>msg_body := Doc b, msg_status := MessageComplete,
                        msg_truncated := truncated, msg_stopped := stopped\<rparr>) in
      (one_row (map_option fin (find (FinishMessage_row mid aid) (db_messages d))),
       d\<lparr>db_messages := update_where (FinishMessage_row mid aid) fin (db_messages d)\<rparr>))"

definition SetMessageSignature :: "uuid \<Rightarrow> signature option \<Rightarrow> db \<Rightarrow> db" where
  "SetMessageSignature mid sg d =
     d\<lparr>db_messages := update_where (\<lambda>m. msg_id m = mid) (\<lambda>m. m\<lparr>msg_signature := sg\<rparr>) (db_messages d)\<rparr>"

definition ListStaleStreamingMessages :: "db \<Rightarrow> int \<Rightarrow> message_row list" where
  "ListStaleStreamingMessages d startedBefore =
     take 100 (sort_key msg_created_at
       (filter (\<lambda>m. msg_status m = MessageStreaming \<and> msg_created_at m < startedBefore) (db_messages d)))"

definition ListStreamingInConversation :: "db \<Rightarrow> uuid \<Rightarrow> (uuid \<times> uuid) list" where
  "ListStreamingInConversation d cid =
     map (\<lambda>m. (msg_id m, the (msg_sender_agent_id m))) (sort_key msg_id
       (filter (\<lambda>m. msg_conversation_id m = cid \<and> msg_status m = MessageStreaming
                  \<and> msg_sender_kind m = ParticipantAgent) (db_messages d)))"

definition GetMessageByUserKey :: "db \<Rightarrow> uuid \<Rightarrow> gotext \<Rightarrow> go_error + message_row" where
  "GetMessageByUserKey d uid key = one_row (find (\<lambda>m. msg_sender_user_id m = Some uid
     \<and> msg_idempotency_key m = Some key) (db_messages d))"

definition GetMessageByAgentKey :: "db \<Rightarrow> uuid \<Rightarrow> gotext \<Rightarrow> go_error + message_row" where
  "GetMessageByAgentKey d aid key = one_row (find (\<lambda>m. msg_sender_agent_id m = Some aid
     \<and> msg_idempotency_key m = Some key) (db_messages d))"

section \<open>History queries\<close>

text \<open>What a person cleared or hid is out of their view.\<close>

definition visible_to :: "db \<Rightarrow> participant_row \<Rightarrow> message_row \<Rightarrow> bool" where
  "visible_to d p m \<longleftrightarrow>
     (case prt_cleared_before p of None \<Rightarrow> True | Some c \<Rightarrow> c < msg_id m)
   \<and> \<not> (\<exists>h\<in>set (db_hides d). Some (hid_user_id h) = prt_user_id p \<and> hid_message_id h = msg_id m)"

definition before_cursor :: "uuid option \<Rightarrow> message_row \<Rightarrow> bool" where
  "before_cursor before m \<longleftrightarrow> (case before of None \<Rightarrow> True | Some b \<Rightarrow> msg_id m < b)"

definition ListMessagesBefore :: "db \<Rightarrow> uuid \<Rightarrow> uuid \<Rightarrow> uuid option \<Rightarrow> nat \<Rightarrow> message_row list" where
  "ListMessagesBefore d uid cid before n =
     take n (newest_first msg_id (join_select (db_messages d) (db_participants d)
       (\<lambda>m p. (prt_conversation_id p = cid \<and> prt_user_id p = Some uid)
            \<and> msg_conversation_id m = cid \<and> visible_to d p m \<and> before_cursor before m)))"

definition ListMessagesAfter :: "db \<Rightarrow> uuid \<Rightarrow> uuid \<Rightarrow> uuid \<Rightarrow> nat \<Rightarrow> message_row list" where
  "ListMessagesAfter d uid cid after n =
     take n (sort_key msg_id (join_select (db_messages d) (db_participants d)
       (\<lambda>m p. (prt_conversation_id p = cid \<and> prt_user_id p = Some uid)
            \<and> msg_conversation_id m = cid \<and> visible_to d p m \<and> after < msg_id m)))"

definition ListMessagesBeforeForAgent :: "db \<Rightarrow> uuid \<Rightarrow> uuid \<Rightarrow> uuid option \<Rightarrow> nat \<Rightarrow> message_row list" where
  "ListMessagesBeforeForAgent d aid cid before n =
     take n (newest_first msg_id (join_select (db_messages d) (db_participants d)
       (\<lambda>m p. (prt_conversation_id p = cid \<and> prt_agent_id p = Some aid)
            \<and> msg_conversation_id m = cid \<and> prt_joined_at p \<le> msg_created_at m
            \<and> before_cursor before m)))"

definition ListLatestMessages :: "db \<Rightarrow> uuid list \<Rightarrow> message_row list" where
  "ListLatestMessages d cids =
     distinct_on msg_conversation_id (sort_key msg_conversation_id (newest_first msg_id
       (filter (\<lambda>m. msg_conversation_id m \<in> set cids) (db_messages d))))"

definition ListLatestVisibleMessages :: "db \<Rightarrow> uuid \<Rightarrow> uuid list \<Rightarrow> message_row list" where
  "ListLatestVisibleMessages d uid cids =
     distinct_on msg_conversation_id (sort_key msg_conversation_id (newest_first msg_id
       (join_select (db_messages d) (db_participants d)
         (\<lambda>m p. prt_conversation_id p = msg_conversation_id m \<and> prt_user_id p = Some uid
              \<and> msg_conversation_id m \<in> set cids \<and> visible_to d p m))))"

definition ListMessagesByIDs :: "db \<Rightarrow> uuid list \<Rightarrow> message_row list" where
  "ListMessagesByIDs d ids = filter (\<lambda>m. msg_id m \<in> set ids) (db_messages d)"

definition ClearConversation :: "uuid \<Rightarrow> uuid \<Rightarrow> db \<Rightarrow> db" where
  "ClearConversation cid uid d =
     d\<lparr>db_participants := update_where (\<lambda>p. prt_conversation_id p = cid \<and> prt_user_id p = Some uid)
         (\<lambda>p. p\<lparr>prt_cleared_before :=
             (case newest_first msg_id
                 (filter (\<lambda>m. msg_conversation_id m = prt_conversation_id p) (db_messages d))
              of [] \<Rightarrow> None | m # _ \<Rightarrow> Some (msg_id m))\<rparr>)
         (db_participants d)\<rparr>"

definition HideMessage :: "uuid \<Rightarrow> uuid \<Rightarrow> db \<Rightarrow> db" where
  "HideMessage uid mid d =
     (let h = \<lparr>hid_user_id = uid, hid_message_id = mid\<rparr> in
      if h \<in> set (db_hides d) then d else d\<lparr>db_hides := db_hides d @ [h]\<rparr>)"

definition CountUnread :: "db \<Rightarrow> uuid \<Rightarrow> uuid list \<Rightarrow> (uuid \<times> nat) list" where
  "CountUnread d uid cids =
     map (\<lambda>p. (prt_conversation_id p,
          length (take 100 (filter (\<lambda>m. msg_conversation_id m = prt_conversation_id p
             \<and> msg_sender_user_id m \<noteq> prt_user_id p
             \<and> (case prt_read_up_to p of None \<Rightarrow> True | Some r \<Rightarrow> r < msg_id m)
             \<and> visible_to d p m) (db_messages d)))))
       (filter (\<lambda>p. prt_user_id p = Some uid \<and> prt_conversation_id p \<in> set cids) (db_participants d))"

section \<open>Media\<close>

definition ListMediaByIDs :: "db \<Rightarrow> uuid list \<Rightarrow> media_row list" where
  "ListMediaByIDs d ids = filter (\<lambda>r. med_id r \<in> set ids) (db_media d)"

definition ClaimMedia_row :: "uuid list \<Rightarrow> participant_kind \<Rightarrow> uuid \<Rightarrow> media_row \<Rightarrow> bool" where
  "ClaimMedia_row ids k owner r \<longleftrightarrow>
     med_id r \<in> set ids \<and> med_message_id r = None \<and> med_owner_kind r = k \<and> med_owner_id r = owner"

definition ClaimMedia :: "uuid \<Rightarrow> uuid list \<Rightarrow> participant_kind \<Rightarrow> uuid \<Rightarrow> db \<Rightarrow> nat \<times> db" where
  "ClaimMedia mid ids k owner d =
     (count_where (ClaimMedia_row ids k owner) (db_media d),
      d\<lparr>db_media := update_where (ClaimMedia_row ids k owner)
          (\<lambda>r. r\<lparr>med_message_id := Some mid\<rparr>) (db_media d)\<rparr>)"

section \<open>What the statements keep\<close>

text \<open>Columns the schema's constraints look at.\<close>

definition msg_fixed :: "message_row \<Rightarrow> uuid \<times> uuid \<times> participant_kind \<times> uuid option \<times> uuid option \<times> gotext option" where
  "msg_fixed m = (msg_id m, msg_conversation_id m, msg_sender_kind m, msg_sender_user_id m,
     msg_sender_agent_id m, msg_idempotency_key m)"

definition prt_fixed :: "participant_row \<Rightarrow> uuid \<times> participant_kind \<times> uuid option \<times> uuid option \<times> int" where
  "prt_fixed p = (prt_conversation_id p, prt_kind p, prt_user_id p, prt_agent_id p, prt_joined_at p)"

lemma messages_ok_update:
  assumes "\<And>m. msg_fixed (f m) = msg_fixed m"
  shows "messages_ok (update_where P f ms) \<longleftrightarrow> messages_ok ms"
proof -
  have f: "msg_id (f m) = msg_id m" "msg_sender_kind (f m) = msg_sender_kind m"
    "msg_sender_user_id (f m) = msg_sender_user_id m" "msg_sender_agent_id (f m) = msg_sender_agent_id m"
    "msg_idempotency_key (f m) = msg_idempotency_key m" for m
    using assms [of m] by (simp_all add: msg_fixed_def)
  show ?thesis
    by (simp add: messages_ok_def filter_update_where ball_update_where f update_where_map)
qed

lemma participants_ok_update:
  assumes "\<And>p. prt_fixed (f p) = prt_fixed p"
  shows "participants_ok (update_where P f ps) \<longleftrightarrow> participants_ok ps"
proof -
  have f: "prt_conversation_id (f p) = prt_conversation_id p" "prt_kind (f p) = prt_kind p"
    "prt_user_id (f p) = prt_user_id p" "prt_agent_id (f p) = prt_agent_id p" for p
    using assms [of p] by (simp_all add: prt_fixed_def)
  show ?thesis
    by (simp add: participants_ok_def ball_update_where update_where_map f)
qed

lemma db_ok_MarkRead: "db_ok d \<Longrightarrow> db_ok (snd (MarkRead_sql cid uid mid d))"
  by (simp add: db_ok_def MarkRead_sql_def participants_ok_update prt_fixed_def)

lemma db_ok_ClearConversation: "db_ok d \<Longrightarrow> db_ok (ClearConversation cid uid d)"
  by (simp add: db_ok_def ClearConversation_def participants_ok_update prt_fixed_def)

lemma db_ok_HideMessage: "db_ok d \<Longrightarrow> db_ok (HideMessage uid mid d)"
  by (simp add: db_ok_def HideMessage_def Let_def)

lemma db_ok_UpdateMessageBody: "db_ok d \<Longrightarrow> db_ok (UpdateMessageBody mid b d)"
  by (simp add: db_ok_def UpdateMessageBody_def messages_ok_update msg_fixed_def)

lemma db_ok_SetMessageSignature: "db_ok d \<Longrightarrow> db_ok (SetMessageSignature mid sg d)"
  by (simp add: db_ok_def SetMessageSignature_def messages_ok_update msg_fixed_def)

lemma db_ok_FinishMessage: "db_ok d \<Longrightarrow> db_ok (snd (FinishMessage mid aid b t st d))"
  by (simp add: db_ok_def FinishMessage_def Let_def messages_ok_update msg_fixed_def)

lemma db_ok_ClaimMedia: "db_ok d \<Longrightarrow> db_ok (snd (ClaimMedia mid ids k owner d))"
  by (simp add: db_ok_def ClaimMedia_def update_where_map)

lemma db_ok_CreateConversation:
  "CreateConversation now cid k d = (r, d') \<Longrightarrow> db_ok d \<Longrightarrow> db_ok d'"
  by (auto simp: CreateConversation_def Let_def insert_row_def db_ok_def split: if_splits)

lemma participants_ok_snoc:
  assumes "participants_ok ps"
    "(prt_kind r = ParticipantUser) = (prt_user_id r \<noteq> None)"
    "(prt_kind r = ParticipantAgent) = (prt_agent_id r \<noteq> None)"
    "\<forall>p\<in>set ps. prt_conversation_id p = prt_conversation_id r \<longrightarrow>
       (prt_user_id r = None \<or> prt_user_id p \<noteq> prt_user_id r)
       \<and> (prt_agent_id r = None \<or> prt_agent_id p \<noteq> prt_agent_id r)"
  shows "participants_ok (ps @ [r])"
proof -
  have "prt_user_id r \<noteq> None \<or> prt_agent_id r \<noteq> None"
    using assms(2,3) by (cases "prt_kind r") auto
  then have "(prt_conversation_id r, prt_user_id r, prt_agent_id r)
      \<notin> (\<lambda>p. (prt_conversation_id p, prt_user_id p, prt_agent_id p)) ` set ps"
    using assms(4) by force
  then show ?thesis using assms(1-3) by (simp add: participants_ok_def)
qed

lemma insert_row_cases:
  assumes "insert_row c u f r d ok = (x, d')"
  obtains "d' = d" | "c" "u" "f" "ok = (x, d')"
  using assms by (auto simp: insert_row_def split: if_splits)

lemma db_ok_AddParticipant:
  assumes "AddParticipant now cid k uid aid d = (r, d')" "db_ok d"
  shows "db_ok d'"
  using assms(1) unfolding AddParticipant_def Let_def
proof (cases rule: insert_row_cases)
  case 2
  have "participants_ok (db_participants d')"
    using 2(1,2,4) db_okD(2) [OF assms(2)] by (auto intro!: participants_ok_snoc)
  then show ?thesis using 2(4) assms(2) by (auto simp: db_ok_def)
qed (use assms(2) in simp)

lemma messages_ok_snoc:
  assumes "messages_ok ms" "msg_id r \<notin> msg_id ` set ms" "\<not> key_used ms r"
    "(msg_sender_kind r = ParticipantUser) = (msg_sender_user_id r \<noteq> None)"
    "(msg_sender_kind r = ParticipantAgent) = (msg_sender_agent_id r \<noteq> None)"
  shows "messages_ok (ms @ [r])"
proof -
  have "(msg_sender_user_id r \<noteq> None) \<or> (msg_sender_agent_id r \<noteq> None)"
    using assms(4,5) by (cases "msg_sender_kind r") auto
  then have "msg_idempotency_key r \<noteq> None \<Longrightarrow> m \<in> set ms \<Longrightarrow>
      (msg_sender_user_id m, msg_sender_agent_id m, msg_idempotency_key m)
      \<noteq> (msg_sender_user_id r, msg_sender_agent_id r, msg_idempotency_key r)" for m
    using assms(3) by (auto simp: key_used_def)
  then show ?thesis
    using assms(1,2,4,5) by (simp add: messages_ok_def image_iff) metis
qed

lemma db_ok_CreateMessage:
  assumes "CreateMessage now a d = (r, d')" "db_ok d"
  shows "db_ok d'"
  using assms(1) unfolding CreateMessage_def Let_def
proof (cases rule: insert_row_cases)
  case 2
  have "messages_ok (db_messages d @ [message_of_params now a])"
    using 2(1,2) db_okD(3) [OF assms(2)]
    by (intro messages_ok_snoc) (simp_all add: message_of_params_def image_iff Ball_def eq_commute)
  then show ?thesis using 2(4) assms(2) by (auto simp: db_ok_def)
qed (use assms(2) in simp)

end
