(* ===== verification/SqlOutbox.thy ===== *)
theory SqlOutbox
  imports SqlMessages
begin

text \<open>
  The statements of \<open>store/gen/deliveries.sql.go\<close> and \<open>bindings.sql.go\<close>: the outbox and the
  bindings that decide who is delivered to. \<open>now\<close> is the transaction's clock.

  Every statement that writes the outbox satisfies one contract, the locale
  \<open>outbox_statement\<close>: rows keep their identity and their order, a row that is delivered or
  failed is never touched again, and a pending one stays pending or ends.
\<close>

section \<open>Bindings\<close>

definition live_binding :: "uuid \<Rightarrow> binding_row \<Rightarrow> bool" where
  "live_binding aid b \<longleftrightarrow> bnd_agent_id b = aid \<and> bnd_revoked_at b = None"

definition GetActiveBinding :: "db \<Rightarrow> uuid \<Rightarrow> go_error + binding_row" where
  "GetActiveBinding d aid = one_row (find (live_binding aid) (db_bindings d))"

definition CreateBinding ::
    "int \<Rightarrow> uuid \<Rightarrow> uuid \<Rightarrow> binding_mode \<Rightarrow> gotext option \<Rightarrow> nat list \<Rightarrow> db \<Rightarrow> (go_error + binding_row) \<times> db" where
  "CreateBinding now bid aid m url hash d =
     (let b = \<lparr>bnd_id = bid, bnd_agent_id = aid, bnd_mode = m, bnd_webhook_url = url,
               bnd_secret_hash = hash, bnd_status = StatusIdle, bnd_last_seen_at = None,
               bnd_created_at = now, bnd_revoked_at = None, bnd_failure_streak_started_at = None\<rparr> in
      insert_row ((m = ModeWebhook) = (url \<noteq> None) \<and> length hash = 32)
        ((\<forall>x\<in>set (db_bindings d). bnd_id x \<noteq> bid \<and> bnd_secret_hash x \<noteq> hash \<and> \<not> live_binding aid x))
        (\<exists>a\<in>set (db_agents d). agt_id a = aid)
        b d (Inr b, d\<lparr>db_bindings := db_bindings d @ [b]\<rparr>))"

definition RevokeActiveBinding :: "int \<Rightarrow> uuid \<Rightarrow> db \<Rightarrow> nat \<times> db" where
  "RevokeActiveBinding now aid d =
     (count_where (live_binding aid) (db_bindings d),
      d\<lparr>db_bindings := update_where (live_binding aid) (\<lambda>b. b\<lparr>bnd_revoked_at := Some now\<rparr>) (db_bindings d)\<rparr>)"

text \<open>The agent a secret speaks for, while its binding is live and the agent not deleted.\<close>

definition AuthenticateBinding :: "db \<Rightarrow> nat list \<Rightarrow> go_error + binding_row" where
  "AuthenticateBinding d hash =
     one_row (find (\<lambda>b. bnd_secret_hash b = hash \<and> bnd_revoked_at b = None
        \<and> (\<exists>a\<in>set (db_agents d). agt_id a = bnd_agent_id b \<and> agt_deleted_at a = None)) (db_bindings d))"

text \<open>
  The three health statements return the agent and the status before and after; no row when
  the binding is revoked.
\<close>

definition binding_update ::
    "uuid \<Rightarrow> (binding_row \<Rightarrow> bool) \<Rightarrow> (binding_row \<Rightarrow> binding_row) \<Rightarrow> db
      \<Rightarrow> (go_error + uuid \<times> binding_status \<times> binding_status) \<times> db" where
  "binding_update bid P f d =
     (let hit = (\<lambda>b. bnd_id b = bid \<and> bnd_revoked_at b = None \<and> P b) in
      (one_row (map_option (\<lambda>b. (bnd_agent_id b, bnd_status b, bnd_status (f b))) (find hit (db_bindings d))),
       d\<lparr>db_bindings := update_where hit f (db_bindings d)\<rparr>))"

definition RecordBindingSuccess ::
    "int \<Rightarrow> uuid \<Rightarrow> db \<Rightarrow> (go_error + uuid \<times> binding_status \<times> binding_status) \<times> db" where
  "RecordBindingSuccess now bid =
     binding_update bid (\<lambda>b. True) (\<lambda>b. b\<lparr>bnd_status := StatusConnected, bnd_last_seen_at := Some now,
       bnd_failure_streak_started_at := None\<rparr>)"

definition MarkBindingIdle ::
    "uuid \<Rightarrow> db \<Rightarrow> (go_error + uuid \<times> binding_status \<times> binding_status) \<times> db" where
  "MarkBindingIdle bid =
     binding_update bid (\<lambda>b. bnd_status b = StatusConnected) (\<lambda>b. b\<lparr>bnd_status := StatusIdle\<rparr>)"

definition streak_start :: "int \<Rightarrow> binding_row \<Rightarrow> int" where
  "streak_start now b = (case bnd_failure_streak_started_at b of None \<Rightarrow> now | Some t \<Rightarrow> t)"

definition RecordBindingFailure ::
    "int \<Rightarrow> uuid \<Rightarrow> db \<Rightarrow> (go_error + uuid \<times> binding_status \<times> binding_status) \<times> db" where
  "RecordBindingFailure now bid =
     binding_update bid (\<lambda>b. True) (\<lambda>b. b\<lparr>bnd_failure_streak_started_at := Some (streak_start now b),
       bnd_status := (if streak_start now b \<le> now - minutes 5 then StatusUnreachable else bnd_status b)\<rparr>)"

section \<open>Writing the outbox\<close>

record CreateDeliveryParams =
  cdp_ID :: uuid
  cdp_MessageID :: "uuid option"
  cdp_ConversationID :: uuid
  cdp_AgentID :: uuid
  cdp_EventType :: event_type
  cdp_Payload :: "payload option"
  cdp_Status :: delivery_status
  cdp_LastError :: "string option"

definition delivery_of_params :: "int \<Rightarrow> CreateDeliveryParams \<Rightarrow> delivery_row" where
  "delivery_of_params now a =
     \<lparr>dlv_id = cdp_ID a, dlv_message_id = cdp_MessageID a, dlv_agent_id = cdp_AgentID a,
      dlv_event_type = cdp_EventType a, dlv_status = cdp_Status a, dlv_attempts = 0,
      dlv_next_attempt_at = now, dlv_last_error = cdp_LastError a, dlv_delivered_at = None,
      dlv_created_at = now, dlv_conversation_id = cdp_ConversationID a,
      dlv_payload = map_option Doc (cdp_Payload a)\<rparr>"

definition CreateDelivery :: "int \<Rightarrow> CreateDeliveryParams \<Rightarrow> db \<Rightarrow> (go_error + delivery_row) \<times> db" where
  "CreateDelivery now a d =
     (let r = delivery_of_params now a in
      insert_row ((cdp_EventType a = EventMessageCreated) = (cdp_MessageID a \<noteq> None))
        ((\<forall>x\<in>set (db_deliveries d). dlv_id x \<noteq> cdp_ID a)
          \<and> (cdp_MessageID a = None \<or> (\<forall>x\<in>set (db_deliveries d).
               dlv_message_id x = cdp_MessageID a \<longrightarrow> dlv_agent_id x \<noteq> cdp_AgentID a)))
        ((cdp_MessageID a = None \<or> (\<exists>m\<in>set (db_messages d). Some (msg_id m) = cdp_MessageID a))
          \<and> (\<exists>c\<in>set (db_conversations d). cnv_id c = cdp_ConversationID a)
          \<and> (\<exists>g\<in>set (db_agents d). agt_id g = cdp_AgentID a))
        r d (Inr r, d\<lparr>db_deliveries := db_deliveries d @ [r]\<rparr>))"

definition GetDelivery :: "db \<Rightarrow> uuid \<Rightarrow> go_error + delivery_row" where
  "GetDelivery d i = one_row (find (\<lambda>r. dlv_id r = i) (db_deliveries d))"

definition ListDeliveriesByMessage :: "db \<Rightarrow> uuid \<Rightarrow> delivery_row list" where
  "ListDeliveriesByMessage d mid =
     sort_key dlv_id (filter (\<lambda>r. dlv_message_id r = Some mid) (db_deliveries d))"

section \<open>Claiming\<close>

definition bound_by :: "db \<Rightarrow> binding_mode \<Rightarrow> uuid \<Rightarrow> bool" where
  "bound_by d mode aid \<longleftrightarrow> (\<exists>b\<in>set (db_bindings d). live_binding aid b \<and> bnd_mode b = mode)"

definition due :: "int \<Rightarrow> delivery_row \<Rightarrow> bool" where
  "due now r \<longleftrightarrow> dlv_status r = DeliveryPending \<and> dlv_next_attempt_at r \<le> now"

text \<open>The lease: one more attempt, and thirty seconds to make it.\<close>

definition lease :: "int \<Rightarrow> delivery_row \<Rightarrow> delivery_row" where
  "lease now r = r\<lparr>dlv_attempts := dlv_attempts r + 1, dlv_next_attempt_at := now + seconds 30\<rparr>"

definition claim_rows :: "int \<Rightarrow> uuid set \<Rightarrow> db \<Rightarrow> delivery_row list \<times> db" where
  "claim_rows now ids d =
     (map (lease now) (filter (\<lambda>r. dlv_id r \<in> ids) (db_deliveries d)),
      d\<lparr>db_deliveries := update_where (\<lambda>r. dlv_id r \<in> ids) (lease now) (db_deliveries d)\<rparr>)"

definition due_webhook :: "int \<Rightarrow> nat \<Rightarrow> db \<Rightarrow> uuid set" where
  "due_webhook now n d = set (map dlv_id (take n (sort_key dlv_next_attempt_at
     (filter (\<lambda>r. due now r \<and> bound_by d ModeWebhook (dlv_agent_id r)) (db_deliveries d)))))"

definition ClaimDueWebhookDeliveries :: "int \<Rightarrow> nat \<Rightarrow> db \<Rightarrow> delivery_row list \<times> db" where
  "ClaimDueWebhookDeliveries now n d = claim_rows now (due_webhook now n d) d"

definition due_socket :: "int \<Rightarrow> uuid \<Rightarrow> nat \<Rightarrow> db \<Rightarrow> uuid set" where
  "due_socket now aid n d = set (map dlv_id (take n (sort_key dlv_id
     (filter (\<lambda>r. dlv_agent_id r = aid \<and> due now r \<and> bound_by d ModeSocket aid) (db_deliveries d)))))"

definition ClaimDueSocketDeliveries :: "int \<Rightarrow> uuid \<Rightarrow> nat \<Rightarrow> db \<Rightarrow> delivery_row list \<times> db" where
  "ClaimDueSocketDeliveries now aid n d = claim_rows now (due_socket now aid n d) d"

section \<open>Recording outcomes\<close>

definition set_deliveries :: "(delivery_row \<Rightarrow> bool) \<Rightarrow> (delivery_row \<Rightarrow> delivery_row) \<Rightarrow> db \<Rightarrow> db" where
  "set_deliveries P f d = d\<lparr>db_deliveries := update_where P f (db_deliveries d)\<rparr>"

definition delivered :: "int \<Rightarrow> delivery_row \<Rightarrow> delivery_row" where
  "delivered now r = r\<lparr>dlv_status := DeliveryDelivered, dlv_delivered_at := Some now, dlv_last_error := None\<rparr>"

definition AckDelivery_row :: "uuid \<Rightarrow> uuid \<Rightarrow> delivery_row \<Rightarrow> bool" where
  "AckDelivery_row i aid r \<longleftrightarrow> dlv_id r = i \<and> dlv_agent_id r = aid \<and> dlv_status r = DeliveryPending"

definition AckDelivery :: "int \<Rightarrow> uuid \<Rightarrow> uuid \<Rightarrow> db \<Rightarrow> (go_error + uuid option) \<times> db" where
  "AckDelivery now i aid d =
     (one_row (map_option dlv_message_id (find (AckDelivery_row i aid) (db_deliveries d))),
      set_deliveries (AckDelivery_row i aid) (delivered now) d)"

definition MarkDelivered :: "int \<Rightarrow> uuid \<Rightarrow> db \<Rightarrow> db" where
  "MarkDelivered now i =
     set_deliveries (\<lambda>r. dlv_id r = i \<and> dlv_status r = DeliveryPending) (delivered now)"

definition ScheduleRetry :: "uuid \<Rightarrow> int \<Rightarrow> string option \<Rightarrow> db \<Rightarrow> db" where
  "ScheduleRetry i next err =
     set_deliveries (\<lambda>r. dlv_id r = i \<and> dlv_status r = DeliveryPending)
       (\<lambda>r. r\<lparr>dlv_next_attempt_at := next, dlv_last_error := err\<rparr>)"

definition MarkFailed :: "uuid \<Rightarrow> string option \<Rightarrow> db \<Rightarrow> db" where
  "MarkFailed i err =
     set_deliveries (\<lambda>r. dlv_id r = i \<and> dlv_status r = DeliveryPending)
       (\<lambda>r. r\<lparr>dlv_status := DeliveryFailed, dlv_last_error := err\<rparr>)"

definition FailExpiredDeliveries :: "int \<Rightarrow> db \<Rightarrow> db" where
  "FailExpiredDeliveries now =
     set_deliveries (\<lambda>r. dlv_status r = DeliveryPending \<and> dlv_created_at r < now - hours 24)
       (\<lambda>r. r\<lparr>dlv_status := DeliveryFailed, dlv_last_error := Some ''expired''\<rparr>)"

definition FailUnboundDeliveries :: "db \<Rightarrow> db" where
  "FailUnboundDeliveries d =
     set_deliveries (\<lambda>r. dlv_status r = DeliveryPending
         \<and> \<not> (\<exists>b\<in>set (db_bindings d). live_binding (dlv_agent_id r) b))
       (\<lambda>r. r\<lparr>dlv_status := DeliveryFailed, dlv_last_error := Some ''no_binding''\<rparr>) d"

section \<open>Reading the outbox\<close>

definition ListDeliveriesSince :: "db \<Rightarrow> uuid \<Rightarrow> uuid option \<Rightarrow> nat \<Rightarrow> delivery_row list" where
  "ListDeliveriesSince d aid since n =
     take n (sort_key dlv_id (filter (\<lambda>r. dlv_agent_id r = aid
        \<and> (case since of None \<Rightarrow> True | Some s \<Rightarrow> s < dlv_id r)) (db_deliveries d)))"

record SummarizeDeliveriesRow =
  sdr_MessageID :: uuid
  sdr_Total :: int
  sdr_Delivered :: int
  sdr_Failed :: int

definition summary_of :: "delivery_row list \<Rightarrow> uuid \<Rightarrow> SummarizeDeliveriesRow" where
  "summary_of rows mid =
     \<lparr>sdr_MessageID = mid,
      sdr_Total = int (count_where (\<lambda>r. dlv_message_id r = Some mid) rows),
      sdr_Delivered = int (count_where (\<lambda>r. dlv_message_id r = Some mid \<and> dlv_status r = DeliveryDelivered) rows),
      sdr_Failed = int (count_where (\<lambda>r. dlv_message_id r = Some mid \<and> dlv_status r = DeliveryFailed) rows)\<rparr>"

text \<open>\<open>GROUP BY message_id\<close>: one row for every message of the set that has a delivery.\<close>

definition SummarizeDeliveries :: "db \<Rightarrow> uuid list \<Rightarrow> SummarizeDeliveriesRow list" where
  "SummarizeDeliveries d mids =
     map (summary_of (db_deliveries d))
       (filter (\<lambda>mid. \<exists>r\<in>set (db_deliveries d). dlv_message_id r = Some mid) (remdups mids))"

section \<open>The contract of an outbox statement\<close>

text \<open>What identifies a delivery and never changes.\<close>

definition dlv_fixed :: "delivery_row \<Rightarrow> uuid \<times> uuid option \<times> uuid \<times> event_type \<times> int \<times> uuid \<times> payload json option" where
  "dlv_fixed r = (dlv_id r, dlv_message_id r, dlv_agent_id r, dlv_event_type r, dlv_created_at r,
     dlv_conversation_id r, dlv_payload r)"

definition row_kept :: "delivery_row \<Rightarrow> delivery_row \<Rightarrow> bool" where
  "row_kept r r' \<longleftrightarrow> dlv_fixed r' = dlv_fixed r \<and> (dlv_status r \<noteq> DeliveryPending \<longrightarrow> r' = r)"

lemma row_kept_refl: "row_kept r r"
  by (simp add: row_kept_def)

lemma row_kept_trans: "row_kept r s \<Longrightarrow> row_kept s t \<Longrightarrow> row_kept r t"
  by (auto simp: row_kept_def)

text \<open>Rows of \<open>d\<close> are all in \<open>d'\<close>, where more may have been appended.\<close>

definition outbox_kept :: "db \<Rightarrow> db \<Rightarrow> bool" where
  "outbox_kept d d' \<longleftrightarrow> (\<exists>rows more. db_deliveries d' = rows @ more
     \<and> list_all2 row_kept (db_deliveries d) rows)"

lemma outbox_kept_refl: "outbox_kept d d"
  unfolding outbox_kept_def
  by (rule exI [of _ "db_deliveries d"], rule exI [of _ "[]"]) (simp add: list.rel_refl row_kept_refl)

lemma outbox_kept_trans: "outbox_kept d e \<Longrightarrow> outbox_kept e f \<Longrightarrow> outbox_kept d f"
proof -
  assume "outbox_kept d e" "outbox_kept e f"
  then obtain r1 m1 r2 m2 where de: "db_deliveries e = r1 @ m1" "list_all2 row_kept (db_deliveries d) r1"
    and ef: "db_deliveries f = r2 @ m2" "list_all2 row_kept (r1 @ m1) r2"
    unfolding outbox_kept_def by metis
  from ef(2) obtain a b where r2: "r2 = a @ b" "list_all2 row_kept r1 a"
    by (auto simp: list_all2_append1)
  have "list_all2 row_kept (db_deliveries d) a"
    using list_all2_trans [of row_kept row_kept row_kept] row_kept_trans de(2) r2(2) by metis
  with ef(1) r2(1) show ?thesis unfolding outbox_kept_def by (metis append.assoc)
qed

lemma outbox_kept_settled:
  assumes "outbox_kept d d'" "r \<in> set (db_deliveries d)" "dlv_status r \<noteq> DeliveryPending"
  shows "r \<in> set (db_deliveries d')"
proof -
  obtain rows more where *: "db_deliveries d' = rows @ more" "list_all2 row_kept (db_deliveries d) rows"
    using assms(1) unfolding outbox_kept_def by blast
  from assms(2) obtain i where "i < length (db_deliveries d)" "db_deliveries d ! i = r"
    by (auto simp: in_set_conv_nth)
  with * assms(3) have "i < length rows \<and> rows ! i = r"
    by (auto simp: list_all2_conv_all_nth row_kept_def)
  with *(1) show ?thesis by (metis Un_iff nth_mem set_append)
qed

lemma outbox_kept_same_table: "db_deliveries d' = db_deliveries d \<Longrightarrow> outbox_kept d d'"
  using outbox_kept_refl [of d] by (simp add: outbox_kept_def)

lemma deliveries_ok_kept:
  assumes "deliveries_ok ds" "list_all2 row_kept ds rows"
  shows "deliveries_ok rows"
proof -
  have 1: "map dlv_id rows = map dlv_id ds"
    using assms(2) by (induction rule: list_all2_induct) (auto simp: row_kept_def dlv_fixed_def)
  have 2: "map (\<lambda>d. (dlv_message_id d, dlv_agent_id d)) (filter (\<lambda>d. dlv_message_id d \<noteq> None) rows)
      = map (\<lambda>d. (dlv_message_id d, dlv_agent_id d)) (filter (\<lambda>d. dlv_message_id d \<noteq> None) ds)"
    using assms(2) by (induction rule: list_all2_induct) (auto simp: row_kept_def dlv_fixed_def)
  have 3: "(\<forall>d\<in>set rows. (dlv_event_type d = EventMessageCreated) = (dlv_message_id d \<noteq> None))
      = (\<forall>d\<in>set ds. (dlv_event_type d = EventMessageCreated) = (dlv_message_id d \<noteq> None))"
    using assms(2) by (induction rule: list_all2_induct) (auto simp: row_kept_def dlv_fixed_def)
  show ?thesis using assms(1) unfolding deliveries_ok_def 1 2 3 .
qed

locale outbox_statement =
  fixes stmt :: "db \<Rightarrow> db"
  assumes rows: "deliveries_ok (db_deliveries d) \<Longrightarrow>
      list_all2 row_kept (db_deliveries d) (db_deliveries (stmt d))"
    and only_outbox: "stmt d = d\<lparr>db_deliveries := db_deliveries (stmt d)\<rparr>"
begin

lemma kept: "db_ok d \<Longrightarrow> outbox_kept d (stmt d)"
  unfolding outbox_kept_def using rows [OF db_okD(4)] by (metis append_Nil2)

lemma settled_stays:
  "db_ok d \<Longrightarrow> r \<in> set (db_deliveries d) \<Longrightarrow> dlv_status r \<noteq> DeliveryPending
    \<Longrightarrow> r \<in> set (db_deliveries (stmt d))"
  by (rule outbox_kept_settled [OF kept])

lemma preserves_db_ok: "db_ok d \<Longrightarrow> db_ok (stmt d)"
proof -
  assume ok: "db_ok d"
  have "deliveries_ok (db_deliveries (stmt d))"
    by (rule deliveries_ok_kept [OF db_okD(4) [OF ok] rows [OF db_okD(4) [OF ok]]])
  with ok have "db_ok (d\<lparr>db_deliveries := db_deliveries (stmt d)\<rparr>)" by (simp add: db_ok_def)
  with only_outbox [of d] show ?thesis by simp
qed

lemma other_tables:
  "db_messages (stmt d) = db_messages d" "db_bindings (stmt d) = db_bindings d"
  "db_participants (stmt d) = db_participants d" "db_conversations (stmt d) = db_conversations d"
  "db_contacts (stmt d) = db_contacts d" "db_media (stmt d) = db_media d"
  by (subst only_outbox, simp)+

end

lemma update_where_kept:
  assumes "\<And>r. P r \<Longrightarrow> row_kept r (f r)"
  shows "list_all2 row_kept rows (update_where P f rows)"
  using assms by (induction rows) (auto simp: row_kept_refl)

lemmas outbox_defs = set_deliveries_def delivered_def lease_def row_kept_def dlv_fixed_def

interpretation mark_delivered: outbox_statement "MarkDelivered now i"
  by unfold_locales (auto simp: MarkDelivered_def outbox_defs intro!: update_where_kept)

interpretation mark_failed: outbox_statement "MarkFailed i err"
  by unfold_locales (auto simp: MarkFailed_def outbox_defs intro!: update_where_kept)

interpretation retry: outbox_statement "ScheduleRetry i next err"
  by unfold_locales (auto simp: ScheduleRetry_def outbox_defs intro!: update_where_kept)

interpretation expire: outbox_statement "FailExpiredDeliveries now"
  by unfold_locales (auto simp: FailExpiredDeliveries_def outbox_defs intro!: update_where_kept)

interpretation unbind: outbox_statement FailUnboundDeliveries
  by unfold_locales (auto simp: FailUnboundDeliveries_def outbox_defs intro!: update_where_kept)

interpretation ack: outbox_statement "\<lambda>d. snd (AckDelivery now i aid d)"
  by unfold_locales (auto simp: AckDelivery_def AckDelivery_row_def outbox_defs intro!: update_where_kept)

text \<open>The rows a claim names are the due ones themselves, since ids are unique.\<close>

lemma chosen_iff:
  assumes "distinct (map k rows)" "r \<in> set rows" "set chosen \<subseteq> set rows"
  shows "k r \<in> set (map k chosen) \<longleftrightarrow> r \<in> set chosen"
  using assms key_unique [OF assms(1)] by (auto simp: subset_iff)

lemma due_webhook_iff:
  assumes "deliveries_ok (db_deliveries d)" "r \<in> set (db_deliveries d)" "dlv_id r \<in> due_webhook now n d"
  shows "due now r" "bound_by d ModeWebhook (dlv_agent_id r)"
proof -
  let ?c = "take n (sort_key dlv_next_attempt_at
     (filter (\<lambda>r. due now r \<and> bound_by d ModeWebhook (dlv_agent_id r)) (db_deliveries d)))"
  have sub: "set ?c \<subseteq> {r \<in> set (db_deliveries d). due now r \<and> bound_by d ModeWebhook (dlv_agent_id r)}"
    by (auto dest: in_set_takeD)
  moreover have "r \<in> set ?c"
    using assms sub chosen_iff [of dlv_id "db_deliveries d" r ?c]
    by (auto simp: due_webhook_def deliveries_ok_def)
  ultimately show "due now r" "bound_by d ModeWebhook (dlv_agent_id r)" by auto
qed

lemma due_socket_iff:
  assumes "deliveries_ok (db_deliveries d)" "r \<in> set (db_deliveries d)" "dlv_id r \<in> due_socket now aid n d"
  shows "due now r" "dlv_agent_id r = aid" "bound_by d ModeSocket aid"
proof -
  let ?c = "take n (sort_key dlv_id
     (filter (\<lambda>r. dlv_agent_id r = aid \<and> due now r \<and> bound_by d ModeSocket aid) (db_deliveries d)))"
  have sub: "set ?c \<subseteq> {r \<in> set (db_deliveries d). dlv_agent_id r = aid \<and> due now r \<and> bound_by d ModeSocket aid}"
    by (auto dest: in_set_takeD)
  moreover have "r \<in> set ?c"
    using assms sub chosen_iff [of dlv_id "db_deliveries d" r ?c]
    by (auto simp: due_socket_def deliveries_ok_def)
  ultimately show "due now r" "dlv_agent_id r = aid" "bound_by d ModeSocket aid" by auto
qed

lemma claim_rows_kept:
  assumes "\<And>r. r \<in> set (db_deliveries d) \<Longrightarrow> dlv_id r \<in> ids \<Longrightarrow> due now r"
  shows "list_all2 row_kept (db_deliveries d) (db_deliveries (snd (claim_rows now ids d)))"
  using assms
  by (auto simp: claim_rows_def update_where_def list_all2_conv_all_nth row_kept_def dlv_fixed_def
      lease_def due_def)

interpretation claim_webhook: outbox_statement "\<lambda>d. snd (ClaimDueWebhookDeliveries now n d)"
proof
  fix d :: db assume ok: "deliveries_ok (db_deliveries d)"
  show "list_all2 row_kept (db_deliveries d) (db_deliveries (snd (ClaimDueWebhookDeliveries now n d)))"
    unfolding ClaimDueWebhookDeliveries_def
    by (rule claim_rows_kept) (rule due_webhook_iff(1) [OF ok])
qed (simp add: ClaimDueWebhookDeliveries_def claim_rows_def)

interpretation claim_socket: outbox_statement "\<lambda>d. snd (ClaimDueSocketDeliveries now aid n d)"
proof
  fix d :: db assume ok: "deliveries_ok (db_deliveries d)"
  show "list_all2 row_kept (db_deliveries d) (db_deliveries (snd (ClaimDueSocketDeliveries now aid n d)))"
    unfolding ClaimDueSocketDeliveries_def
    by (rule claim_rows_kept) (rule due_socket_iff(1) [OF ok])
qed (simp add: ClaimDueSocketDeliveries_def claim_rows_def)

section \<open>The outbox as a state machine\<close>

lemma live_distinct_update:
  assumes same: "\<And>b. bnd_agent_id (f b) = bnd_agent_id b"
    and revoked: "\<And>b. bnd_revoked_at b \<noteq> None \<Longrightarrow> bnd_revoked_at (f b) \<noteq> None"
  shows "bnd_agent_id ` (set (update_where P f bs) \<inter> {b. bnd_revoked_at b = None})
      \<subseteq> bnd_agent_id ` (set bs \<inter> {b. bnd_revoked_at b = None})"
    and "distinct (map bnd_agent_id (filter (\<lambda>b. bnd_revoked_at b = None) bs)) \<Longrightarrow>
      distinct (map bnd_agent_id (filter (\<lambda>b. bnd_revoked_at b = None) (update_where P f bs)))"
proof (induction bs)
  case (Cons b bs)
  {
    case 1
    show ?case using Cons(1) same [of b] revoked [of b] by (cases "bnd_revoked_at b") auto
  next
    case 2
    have sub: "bnd_agent_id b \<in> bnd_agent_id ` (set bs \<inter> {b. bnd_revoked_at b = None})"
      if "bnd_agent_id b \<in> bnd_agent_id ` (set (update_where P f bs) \<inter> {b. bnd_revoked_at b = None})"
      using Cons(1) that by (rule subsetD)
    show ?case
      using 2 Cons(2) sub same [of b] revoked [of b]
      by (cases "bnd_revoked_at b") (auto simp: set_filter Int_def)
  }
qed simp_all

lemma bindings_ok_update:
  assumes "\<And>b. bnd_id (f b) = bnd_id b \<and> bnd_secret_hash (f b) = bnd_secret_hash b" "\<And>b. bnd_agent_id (f b) = bnd_agent_id b"
    and "\<And>b. bnd_revoked_at b \<noteq> None \<Longrightarrow> bnd_revoked_at (f b) \<noteq> None"
    and "bindings_ok bs"
  shows "bindings_ok (update_where P f bs)"
  using assms(1,4) live_distinct_update(2) [OF assms(2,3)]
  by (simp add: bindings_ok_def update_where_map)

lemma db_ok_RevokeActiveBinding: "db_ok d \<Longrightarrow> db_ok (snd (RevokeActiveBinding now aid d))"
  by (simp add: db_ok_def RevokeActiveBinding_def bindings_ok_update)

lemma db_ok_binding_update:
  assumes "\<And>b. bnd_id (f b) = bnd_id b \<and> bnd_secret_hash (f b) = bnd_secret_hash b" "\<And>b. bnd_agent_id (f b) = bnd_agent_id b"
    and "\<And>b. bnd_revoked_at (f b) = bnd_revoked_at b"
  shows "db_ok d \<Longrightarrow> db_ok (snd (binding_update bid P f d))"
  using assms by (simp add: db_ok_def binding_update_def Let_def bindings_ok_update)

lemmas binding_health_defs = RecordBindingSuccess_def RecordBindingFailure_def MarkBindingIdle_def

lemma db_ok_binding_health:
  assumes "db_ok d"
  shows "db_ok (snd (RecordBindingSuccess now bid d))" "db_ok (snd (RecordBindingFailure now bid d))"
    "db_ok (snd (MarkBindingIdle bid d))"
  using assms by (simp_all add: binding_health_defs db_ok_binding_update)

lemma db_ok_CreateBinding:
  assumes "CreateBinding now bid aid m url hash d = (r, d')" "db_ok d"
  shows "db_ok d'"
  using assms(1) unfolding CreateBinding_def Let_def
proof (cases rule: insert_row_cases)
  case 2
  have "bindings_ok (db_bindings d')"
    using 2(2,4) db_okD(5) [OF assms(2)] by (auto simp: bindings_ok_def live_binding_def image_iff)
  then show ?thesis using 2(4) assms(2) by (auto simp: db_ok_def)
qed (use assms(2) in simp)

lemma db_ok_CreateDelivery:
  assumes "CreateDelivery now a d = (r, d')" "db_ok d"
  shows "db_ok d'"
  using assms(1) unfolding CreateDelivery_def Let_def
proof (cases rule: insert_row_cases)
  case 2
  have "deliveries_ok (db_deliveries d @ [delivery_of_params now a])"
    using 2(1,2) db_okD(4) [OF assms(2)]
    by (auto simp: deliveries_ok_def delivery_of_params_def)
  then show ?thesis using 2(4) assms(2) by (auto simp: db_ok_def)
qed (use assms(2) in simp)

text \<open>
  Everything that touches the outbox or the bindings, in any order, from any number of
  workers and sockets: each statement is one atomic step.
\<close>

inductive outbox_step :: "db \<Rightarrow> db \<Rightarrow> bool" where
  enqueue: "CreateDelivery now a d = (r, d') \<Longrightarrow> outbox_step d d'"
| claim_for_webhook: "outbox_step d (snd (ClaimDueWebhookDeliveries now n d))"
| claim_for_socket: "outbox_step d (snd (ClaimDueSocketDeliveries now aid n d))"
| acknowledge: "outbox_step d (snd (AckDelivery now i aid d))"
| deliver: "outbox_step d (MarkDelivered now i d)"
| retry_later: "outbox_step d (ScheduleRetry i next err d)"
| give_up: "outbox_step d (MarkFailed i err d)"
| expire_old: "outbox_step d (FailExpiredDeliveries now d)"
| fail_unbound: "outbox_step d (FailUnboundDeliveries d)"
| bind: "CreateBinding now bid aid m url hash d = (rb, d') \<Longrightarrow> outbox_step d d'"
| unbind_agent: "outbox_step d (snd (RevokeActiveBinding now aid d))"
| success: "outbox_step d (snd (RecordBindingSuccess now bid d))"
| failure: "outbox_step d (snd (RecordBindingFailure now bid d))"
| gone_idle: "outbox_step d (snd (MarkBindingIdle bid d))"

inductive_cases outbox_stepE: "outbox_step d d'"

lemma outbox_kept_append: "outbox_kept d (d\<lparr>db_deliveries := db_deliveries d @ added\<rparr>)"
  using list.rel_refl [of row_kept "db_deliveries d", OF row_kept_refl] by (auto simp: outbox_kept_def)

lemma CreateDelivery_kept: "CreateDelivery now a d = (r, d') \<Longrightarrow> outbox_kept d d'"
  unfolding CreateDelivery_def Let_def
  by (erule insert_row_cases) (auto simp: outbox_kept_refl outbox_kept_append)

lemma binding_tables_kept:
  "db_deliveries (snd (RevokeActiveBinding now aid d)) = db_deliveries d"
  "db_deliveries (snd (RecordBindingSuccess now bid d)) = db_deliveries d"
  "db_deliveries (snd (RecordBindingFailure now bid d)) = db_deliveries d"
  "db_deliveries (snd (MarkBindingIdle bid d)) = db_deliveries d"
  "CreateBinding now bid aid m url hash d = (rb, d') \<Longrightarrow> db_deliveries d' = db_deliveries d"
  by (auto simp: RevokeActiveBinding_def binding_health_defs binding_update_def CreateBinding_def
      Let_def insert_row_def split: if_splits)

lemma outbox_step_kept: "outbox_step d d' \<Longrightarrow> db_ok d \<Longrightarrow> db_ok d' \<and> outbox_kept d d'"
proof (induction rule: outbox_step.induct)
  case (enqueue now a d r d')
  then show ?case by (blast intro: db_ok_CreateDelivery CreateDelivery_kept)
next
  case (bind now bid aid m url hash d rb d')
  then show ?case by (metis binding_tables_kept(5) db_ok_CreateBinding outbox_kept_same_table)
qed (simp_all add: claim_webhook.kept claim_webhook.preserves_db_ok claim_socket.kept
    claim_socket.preserves_db_ok ack.kept ack.preserves_db_ok mark_delivered.kept
    mark_delivered.preserves_db_ok retry.kept retry.preserves_db_ok mark_failed.kept
    mark_failed.preserves_db_ok expire.kept expire.preserves_db_ok unbind.kept unbind.preserves_db_ok
    db_ok_RevokeActiveBinding db_ok_binding_health binding_tables_kept outbox_kept_same_table)

lemma outbox_steps_kept:
  "outbox_step\<^sup>*\<^sup>* d d' \<Longrightarrow> db_ok d \<Longrightarrow> db_ok d' \<and> outbox_kept d d'"
  by (induction rule: rtranclp_induct) (auto intro: outbox_kept_refl outbox_kept_trans dest: outbox_step_kept)

text \<open>A row that was just claimed is nobody's to claim until its lease has run out.\<close>

lemma claimed_not_due:
  assumes "r \<in> set (db_deliveries (snd (claim_rows now ids d)))" "dlv_id r \<in> ids" "later < now + seconds 30"
  shows "\<not> due later r"
  using assms by (auto simp: claim_rows_def set_update_where lease_def due_def)

lemma claim_rows_result:
  "map dlv_id (fst (claim_rows now ids d)) = filter (\<lambda>i. i \<in> ids) (map dlv_id (db_deliveries d))"
  by (simp add: claim_rows_def filter_map o_def lease_def)

lemma claimed_ids: "set (map dlv_id (fst (claim_rows now ids d))) \<subseteq> ids"
  by (auto simp: claim_rows_result)

lemma claimed_due_row:
  assumes "x \<in> set (map dlv_id (fst (claim_rows now ids d)))"
  obtains r where "r \<in> set (db_deliveries d)" "dlv_id r = x" "x \<in> ids"
  using assms by (auto simp: claim_rows_result)

text \<open>
  C1. Once a delivery is recorded as delivered or failed it never changes again, whatever
  workers, sockets, retries, revocations and new messages do afterwards, in any order: the
  row is still in the outbox exactly as it was, so a tick mark never moves back.
\<close>

theorem settled_delivery_is_final:
  assumes "db_ok d" "outbox_step\<^sup>*\<^sup>* d d'" "r \<in> set (db_deliveries d)" "dlv_status r \<noteq> DeliveryPending"
  shows "r \<in> set (db_deliveries d')"
  using assms outbox_steps_kept outbox_kept_settled by blast

definition sample_delivery :: "uuid \<Rightarrow> delivery_status \<Rightarrow> delivery_row" where
  "sample_delivery i st = \<lparr>dlv_id = i, dlv_message_id = None, dlv_agent_id = 1,
     dlv_event_type = EventStopRequested, dlv_status = st, dlv_attempts = 0, dlv_next_attempt_at = 0,
     dlv_last_error = None, dlv_delivered_at = None, dlv_created_at = 0, dlv_conversation_id = 1,
     dlv_payload = None\<rparr>"

definition sample_binding :: "binding_mode \<Rightarrow> binding_row" where
  "sample_binding m = \<lparr>bnd_id = 9, bnd_agent_id = 1, bnd_mode = m,
     bnd_webhook_url = (if m = ModeWebhook then Some [] else None), bnd_secret_hash = [],
     bnd_status = StatusIdle, bnd_last_seen_at = None, bnd_created_at = 0, bnd_revoked_at = None,
     bnd_failure_streak_started_at = None\<rparr>"

definition sample_outbox :: db where
  "sample_outbox = empty_db\<lparr>db_bindings := [sample_binding ModeWebhook],
     db_deliveries := [sample_delivery 5 DeliveryDelivered, sample_delivery 6 DeliveryPending]\<rparr>"

lemmas sample_outbox_defs = sample_outbox_def sample_delivery_def sample_binding_def empty_db_def

lemma sample_outbox_ok: "db_ok sample_outbox"
  by (simp add: sample_outbox_defs db_ok_def participants_ok_def messages_ok_def deliveries_ok_def
      bindings_ok_def contacts_ok_def agents_ok_def tokens_ok_def)

theorem settled_delivery_is_final_witness:
  "sample_delivery 5 DeliveryDelivered \<in> set (db_deliveries (MarkFailed 5 (Some ''late'') sample_outbox))"
proof (rule settled_delivery_is_final [OF sample_outbox_ok])
  show "outbox_step\<^sup>*\<^sup>* sample_outbox (MarkFailed 5 (Some ''late'') sample_outbox)"
    by (rule r_into_rtranclp, rule give_up)
qed (simp_all add: sample_outbox_defs)



end
