(* ===== verification/SqlPairing.thy ===== *)
theory SqlPairing
  imports SqlOutbox
begin

text \<open>
  The statements of \<open>store/gen/pairing.sql.go\<close>: pair tokens, contacts and reports. A contact
  is what one person decided about one agent; blocking is one of its columns.
\<close>

section \<open>Pair tokens\<close>

definition CreatePairToken :: "token_row \<Rightarrow> db \<Rightarrow> (go_error + token_row) \<times> db" where
  "CreatePairToken t d =
     insert_row (ptk_kind t = ''add_agent'' \<and> (case ptk_max_uses t of None \<Rightarrow> True | Some n \<Rightarrow> 0 < n))
       (\<forall>x\<in>set (db_tokens d). ptk_id x \<noteq> ptk_id t \<and> ptk_token_hash x \<noteq> ptk_token_hash t)
       ((\<exists>a\<in>set (db_agents d). agt_id a = ptk_agent_id t)
         \<and> (\<exists>u\<in>set (db_users d). usr_id u = ptk_created_by_user_id t))
       t d (Inr t, d\<lparr>db_tokens := db_tokens d @ [t]\<rparr>)"

text \<open>The token, and when its agent was deleted.\<close>

definition GetPairTokenByHash :: "db \<Rightarrow> nat list \<Rightarrow> go_error + (token_row \<times> int option)" where
  "GetPairTokenByHash d hash =
     one_row (case find (\<lambda>t. ptk_token_hash t = hash) (db_tokens d) of
         None \<Rightarrow> None
       | Some t \<Rightarrow> map_option (\<lambda>a. (t, agt_deleted_at a))
           (find (\<lambda>a. agt_id a = ptk_agent_id t) (db_agents d)))"

definition ListPairTokensByAgent :: "db \<Rightarrow> uuid \<Rightarrow> token_row list" where
  "ListPairTokensByAgent d aid =
     newest_first ptk_created_at (sort_key ptk_id (filter (\<lambda>t. ptk_agent_id t = aid) (db_tokens d)))"

definition GetPairToken :: "db \<Rightarrow> uuid \<Rightarrow> uuid \<Rightarrow> go_error + token_row" where
  "GetPairToken d i aid = one_row (find (\<lambda>t. ptk_id t = i \<and> ptk_agent_id t = aid) (db_tokens d))"

definition RevokePairToken_row :: "uuid \<Rightarrow> uuid \<Rightarrow> token_row \<Rightarrow> bool" where
  "RevokePairToken_row i aid t \<longleftrightarrow> ptk_id t = i \<and> ptk_agent_id t = aid \<and> ptk_revoked_at t = None"

definition RevokePairToken :: "int \<Rightarrow> uuid \<Rightarrow> uuid \<Rightarrow> db \<Rightarrow> nat \<times> db" where
  "RevokePairToken now i aid d =
     (count_where (RevokePairToken_row i aid) (db_tokens d),
      d\<lparr>db_tokens := update_where (RevokePairToken_row i aid) (\<lambda>t. t\<lparr>ptk_revoked_at := Some now\<rparr>) (db_tokens d)\<rparr>)"

definition UsePairToken_row :: "int \<Rightarrow> uuid \<Rightarrow> token_row \<Rightarrow> bool" where
  "UsePairToken_row now i t \<longleftrightarrow> ptk_id t = i \<and> ptk_revoked_at t = None
     \<and> (case ptk_expires_at t of None \<Rightarrow> True | Some e \<Rightarrow> now < e)
     \<and> (case ptk_max_uses t of None \<Rightarrow> True | Some n \<Rightarrow> ptk_use_count t < n)"

definition UsePairToken :: "int \<Rightarrow> uuid \<Rightarrow> db \<Rightarrow> (go_error + token_row) \<times> db" where
  "UsePairToken now i d =
     (let use = (\<lambda>t. t\<lparr>ptk_use_count := ptk_use_count t + 1\<rparr>) in
      (one_row (map_option use (find (UsePairToken_row now i) (db_tokens d))),
       d\<lparr>db_tokens := update_where (UsePairToken_row now i) use (db_tokens d)\<rparr>))"

section \<open>Contacts\<close>

definition CreateContact ::
    "int \<Rightarrow> uuid \<Rightarrow> uuid \<Rightarrow> uuid \<Rightarrow> string \<Rightarrow> uuid option \<Rightarrow> db \<Rightarrow> (go_error + contact_row) \<times> db" where
  "CreateContact now uid aid cid via tok d =
     (let c = \<lparr>ctc_user_id = uid, ctc_agent_id = aid, ctc_dm_conversation_id = cid, ctc_added_via = via,
               ctc_pair_token_id = tok, ctc_blocked_at = None, ctc_created_at = now,
               ctc_muted_until = None, ctc_pinned_at = None, ctc_archived_at = None, ctc_removed_at = None\<rparr> in
      insert_row (via \<in> {''owner'', ''pair_token'', ''hub'', ''catalogue''})
        (\<forall>x\<in>set (db_contacts d). \<not> (ctc_user_id x = uid \<and> ctc_agent_id x = aid))
        ((\<exists>u\<in>set (db_users d). usr_id u = uid) \<and> (\<exists>a\<in>set (db_agents d). agt_id a = aid)
          \<and> (\<exists>v\<in>set (db_conversations d). cnv_id v = cid)
          \<and> (tok = None \<or> (\<exists>t\<in>set (db_tokens d). Some (ptk_id t) = tok)))
        c d (Inr c, d\<lparr>db_contacts := db_contacts d @ [c]\<rparr>))"

definition contact_of :: "uuid \<Rightarrow> uuid \<Rightarrow> contact_row \<Rightarrow> bool" where
  "contact_of uid aid c \<longleftrightarrow> ctc_user_id c = uid \<and> ctc_agent_id c = aid"

definition GetContact :: "db \<Rightarrow> uuid \<Rightarrow> uuid \<Rightarrow> go_error + contact_row" where
  "GetContact d uid aid = one_row (find (contact_of uid aid) (db_contacts d))"

text \<open>Every update of a contact is scoped to one person and one agent, and to a condition.\<close>

definition set_contacts :: "(contact_row \<Rightarrow> bool) \<Rightarrow> (contact_row \<Rightarrow> contact_row) \<Rightarrow> db \<Rightarrow> nat \<times> db" where
  "set_contacts P f d = (count_where P (db_contacts d), d\<lparr>db_contacts := update_where P f (db_contacts d)\<rparr>)"

definition in_list :: "uuid \<Rightarrow> uuid \<Rightarrow> contact_row \<Rightarrow> bool" where
  "in_list uid aid c \<longleftrightarrow> contact_of uid aid c \<and> ctc_removed_at c = None"

definition SetContactMuted :: "uuid \<Rightarrow> uuid \<Rightarrow> int option \<Rightarrow> db \<Rightarrow> nat \<times> db" where
  "SetContactMuted uid aid until = set_contacts (in_list uid aid) (\<lambda>c. c\<lparr>ctc_muted_until := until\<rparr>)"

text \<open>\<open>CASE WHEN on THEN COALESCE(x, now()) ELSE NULL END\<close>\<close>

definition flag_time :: "bool \<Rightarrow> int \<Rightarrow> int option \<Rightarrow> int option" where
  "flag_time on now x = (if on then (case x of None \<Rightarrow> Some now | Some t \<Rightarrow> Some t) else None)"

definition SetContactPinned :: "int \<Rightarrow> uuid \<Rightarrow> uuid \<Rightarrow> bool \<Rightarrow> db \<Rightarrow> nat \<times> db" where
  "SetContactPinned now uid aid pinned =
     set_contacts (in_list uid aid) (\<lambda>c. c\<lparr>ctc_pinned_at := flag_time pinned now (ctc_pinned_at c)\<rparr>)"

definition CountPinnedContacts :: "db \<Rightarrow> uuid \<Rightarrow> nat" where
  "CountPinnedContacts d uid =
     count_where (\<lambda>c. ctc_user_id c = uid \<and> ctc_pinned_at c \<noteq> None \<and> ctc_removed_at c = None) (db_contacts d)"

definition SetContactArchived :: "int \<Rightarrow> uuid \<Rightarrow> uuid \<Rightarrow> bool \<Rightarrow> db \<Rightarrow> nat \<times> db" where
  "SetContactArchived now uid aid archived =
     set_contacts (in_list uid aid) (\<lambda>c. c\<lparr>ctc_archived_at := flag_time archived now (ctc_archived_at c)\<rparr>)"

definition cleared :: "int \<Rightarrow> contact_row \<Rightarrow> contact_row" where
  "cleared now c = c\<lparr>ctc_removed_at := Some now, ctc_pinned_at := None, ctc_archived_at := None,
     ctc_muted_until := None\<rparr>"

definition RemoveContact :: "int \<Rightarrow> uuid \<Rightarrow> uuid \<Rightarrow> db \<Rightarrow> nat \<times> db" where
  "RemoveContact now uid aid =
     set_contacts (\<lambda>c. in_list uid aid c \<and> ctc_added_via c \<in> {''pair_token'', ''hub''}) (cleared now)"

definition RemoveAllContacts :: "int \<Rightarrow> uuid \<Rightarrow> db \<Rightarrow> nat \<times> db" where
  "RemoveAllContacts now uid = set_contacts (\<lambda>c. ctc_user_id c = uid \<and> ctc_removed_at c = None) (cleared now)"

definition RestoreContact :: "uuid \<Rightarrow> uuid \<Rightarrow> db \<Rightarrow> nat \<times> db" where
  "RestoreContact uid aid =
     set_contacts (\<lambda>c. contact_of uid aid c \<and> ctc_removed_at c \<noteq> None) (\<lambda>c. c\<lparr>ctc_removed_at := None\<rparr>)"

definition SetContactBlocked :: "int \<Rightarrow> uuid \<Rightarrow> uuid \<Rightarrow> db \<Rightarrow> nat \<times> db" where
  "SetContactBlocked now uid aid =
     set_contacts (\<lambda>c. contact_of uid aid c \<and> ctc_blocked_at c = None) (\<lambda>c. c\<lparr>ctc_blocked_at := Some now\<rparr>)"

definition ClearContactBlocked :: "uuid \<Rightarrow> uuid \<Rightarrow> db \<Rightarrow> nat \<times> db" where
  "ClearContactBlocked uid aid =
     set_contacts (\<lambda>c. contact_of uid aid c \<and> ctc_blocked_at c \<noteq> None) (\<lambda>c. c\<lparr>ctc_blocked_at := None\<rparr>)"

text \<open>Whether anyone in a conversation has blocked an agent in it.\<close>

definition IsConversationBlocked :: "db \<Rightarrow> uuid \<Rightarrow> bool" where
  "IsConversationBlocked d cid \<longleftrightarrow>
     (\<exists>c\<in>set (db_contacts d). ctc_blocked_at c \<noteq> None
        \<and> (\<exists>pu\<in>set (db_participants d). prt_conversation_id pu = cid \<and> prt_user_id pu = Some (ctc_user_id c))
        \<and> (\<exists>pa\<in>set (db_participants d). prt_conversation_id pa = cid \<and> prt_agent_id pa = Some (ctc_agent_id c)))"

section \<open>Reports\<close>

definition CreateReport :: "report_row \<Rightarrow> db \<Rightarrow> (go_error + report_row) \<times> db" where
  "CreateReport r d =
     insert_row (rpt_reason r \<in> {''spam'', ''impersonation'', ''abuse'', ''other''} \<and> RuneCount (rpt_note r) \<le> 500)
       (\<forall>x\<in>set (db_reports d). rpt_id x \<noteq> rpt_id r)
       ((\<exists>u\<in>set (db_users d). usr_id u = rpt_reporter_user_id r) \<and> (\<exists>a\<in>set (db_agents d). agt_id a = rpt_agent_id r))
       r d (Inr r, d\<lparr>db_reports := db_reports d @ [r]\<rparr>)"

definition CountRecentReports :: "db \<Rightarrow> uuid \<Rightarrow> uuid \<Rightarrow> int \<Rightarrow> nat" where
  "CountRecentReports d uid aid since =
     count_where (\<lambda>r. rpt_reporter_user_id r = uid \<and> rpt_agent_id r = aid \<and> since < rpt_created_at r) (db_reports d)"

section \<open>What the statements keep\<close>

lemma db_ok_set_contacts:
  assumes "\<And>c. ctc_user_id (f c) = ctc_user_id c" "\<And>c. ctc_agent_id (f c) = ctc_agent_id c"
  shows "db_ok d \<Longrightarrow> db_ok (snd (set_contacts P f d))"
  using assms by (simp add: db_ok_def set_contacts_def contacts_ok_def update_where_map)

lemmas contact_updates = SetContactMuted_def SetContactPinned_def SetContactArchived_def RemoveContact_def
  RemoveAllContacts_def RestoreContact_def SetContactBlocked_def ClearContactBlocked_def cleared_def

lemma db_ok_contact_updates:
  assumes "db_ok d"
  shows "db_ok (snd (SetContactMuted uid aid until d))" "db_ok (snd (SetContactPinned now uid aid b d))"
    "db_ok (snd (SetContactArchived now uid aid b d))" "db_ok (snd (RemoveContact now uid aid d))"
    "db_ok (snd (RemoveAllContacts now uid d))" "db_ok (snd (RestoreContact uid aid d))"
    "db_ok (snd (SetContactBlocked now uid aid d))" "db_ok (snd (ClearContactBlocked uid aid d))"
  using assms by (simp_all add: contact_updates db_ok_set_contacts)

lemma db_ok_CreateContact:
  assumes "CreateContact now uid aid cid via tok d = (r, d')" "db_ok d"
  shows "db_ok d'"
  using assms(1) unfolding CreateContact_def Let_def
proof (cases rule: insert_row_cases)
  case 2
  have "contacts_ok (db_contacts d')"
    using 2(2,4) db_okD(6) [OF assms(2)] by (auto simp: contacts_ok_def)
  then show ?thesis using 2(4) assms(2) by (auto simp: db_ok_def)
qed (use assms(2) in simp)

lemma db_ok_UsePairToken: "db_ok d \<Longrightarrow> db_ok (snd (UsePairToken now i d))"
  by (simp add: db_ok_def UsePairToken_def Let_def update_where_map tokens_ok_def)

lemma db_ok_RevokePairToken: "db_ok d \<Longrightarrow> db_ok (snd (RevokePairToken now i aid d))"
  by (simp add: db_ok_def RevokePairToken_def update_where_map tokens_ok_def)

end
