(* ===== verification/SqlSchedules.thy ===== *)
theory SqlSchedules
  imports SqlPairing
begin

text \<open>The statements of \<open>store/gen/schedules.sql.go\<close>. A deleted schedule keeps its row.\<close>

definition CreateSchedule_sql ::
    "int \<Rightarrow> uuid \<Rightarrow> uuid \<Rightarrow> uuid \<Rightarrow> gotext \<Rightarrow> gotext \<Rightarrow> cadence \<Rightarrow> schedule_status \<Rightarrow> participant_kind
      \<Rightarrow> db \<Rightarrow> (go_error + schedule_row) \<times> db" where
  "CreateSchedule_sql now i aid cid title instruction c st by d =
     (let r = \<lparr>scd_id = i, scd_agent_id = aid, scd_conversation_id = cid, scd_title = title,
               scd_instruction = instruction, scd_cadence = Doc c, scd_status = st, scd_created_by = by,
               scd_last_run_at = None, scd_created_at = now, scd_updated_at = now, scd_deleted_at = None\<rparr> in
      if \<not> (storable title \<and> storable instruction) then (Inl (PlainError OtherCause), d) else
      insert_row True (\<forall>x\<in>set (db_schedules d). scd_id x \<noteq> i)
        ((\<exists>a\<in>set (db_agents d). agt_id a = aid) \<and> (\<exists>v\<in>set (db_conversations d). cnv_id v = cid))
        r d (Inr r, d\<lparr>db_schedules := db_schedules d @ [r]\<rparr>))"

definition GetSchedule :: "db \<Rightarrow> uuid \<Rightarrow> go_error + schedule_row" where
  "GetSchedule d i = one_row (find (\<lambda>s. scd_id s = i) (db_schedules d))"

definition live_schedule :: "uuid \<Rightarrow> schedule_row \<Rightarrow> bool" where
  "live_schedule cid s \<longleftrightarrow> scd_conversation_id s = cid \<and> scd_deleted_at s = None"

definition ListSchedules_sql :: "db \<Rightarrow> uuid \<Rightarrow> schedule_row list" where
  "ListSchedules_sql d cid =
     sort_key scd_created_at (sort_key scd_id (filter (live_schedule cid) (db_schedules d)))"

definition CountSchedules :: "db \<Rightarrow> uuid \<Rightarrow> nat" where
  "CountSchedules d cid = count_where (live_schedule cid) (db_schedules d)"

record UpdateScheduleParams =
  usp_ID :: uuid
  usp_Title :: "gotext option"
  usp_Instruction :: "gotext option"
  usp_Cadence :: "cadence option"
  usp_Status :: "schedule_status option"

text \<open>\<open>COALESCE(argument, column)\<close>\<close>

definition coalesce :: "'a option \<Rightarrow> 'a \<Rightarrow> 'a" where
  "coalesce x y = (case x of None \<Rightarrow> y | Some v \<Rightarrow> v)"

definition UpdateSchedule_row :: "int \<Rightarrow> UpdateScheduleParams \<Rightarrow> schedule_row \<Rightarrow> schedule_row" where
  "UpdateSchedule_row now a s =
     s\<lparr>scd_title := coalesce (usp_Title a) (scd_title s),
       scd_instruction := coalesce (usp_Instruction a) (scd_instruction s),
       scd_cadence := coalesce (map_option Doc (usp_Cadence a)) (scd_cadence s),
       scd_status := coalesce (usp_Status a) (scd_status s),
       scd_updated_at := now\<rparr>"

definition UpdateSchedule_sql :: "int \<Rightarrow> UpdateScheduleParams \<Rightarrow> db \<Rightarrow> (go_error + schedule_row) \<times> db" where
  "UpdateSchedule_sql now a d =
     (let P = (\<lambda>s. scd_id s = usp_ID a \<and> scd_deleted_at s = None) in
      if \<not> (storable (coalesce (usp_Title a) []) \<and> storable (coalesce (usp_Instruction a) [])) then
        (Inl (PlainError OtherCause), d) else
      (one_row (map_option (UpdateSchedule_row now a) (find P (db_schedules d))),
       d\<lparr>db_schedules := update_where P (UpdateSchedule_row now a) (db_schedules d)\<rparr>))"

definition DeleteSchedule_sql :: "int \<Rightarrow> uuid \<Rightarrow> db \<Rightarrow> (go_error + schedule_row) \<times> db" where
  "DeleteSchedule_sql now i d =
     (let P = (\<lambda>s. scd_id s = i \<and> scd_deleted_at s = None);
          del = (\<lambda>s. s\<lparr>scd_deleted_at := Some now, scd_updated_at := now\<rparr>) in
      (one_row (map_option del (find P (db_schedules d))),
       d\<lparr>db_schedules := update_where P del (db_schedules d)\<rparr>))"

definition in_zone :: "string \<Rightarrow> schedule_row \<Rightarrow> bool" where
  "in_zone tz s = (case scd_cadence s of Doc c \<Rightarrow> cd_timezone c = tz | Corrupt \<Rightarrow> False)"

definition ListPersonSchedulesInZone :: "db \<Rightarrow> uuid \<Rightarrow> string \<Rightarrow> schedule_row list" where
  "ListPersonSchedulesInZone d uid tz =
     sort_key scd_created_at (join_select (db_schedules d) (db_participants d)
       (\<lambda>s p. prt_conversation_id p = scd_conversation_id s \<and> prt_user_id p = Some uid
            \<and> scd_deleted_at s = None \<and> in_zone tz s))"

definition MarkScheduleRan :: "int \<Rightarrow> uuid \<Rightarrow> db \<Rightarrow> db" where
  "MarkScheduleRan now i d =
     d\<lparr>db_schedules := update_where (\<lambda>s. scd_id s = i) (\<lambda>s. s\<lparr>scd_last_run_at := Some now\<rparr>) (db_schedules d)\<rparr>"

definition ListScheduleTitles :: "db \<Rightarrow> uuid list \<Rightarrow> (uuid \<times> gotext) list" where
  "ListScheduleTitles d ids =
     map (\<lambda>s. (scd_id s, scd_title s)) (filter (\<lambda>s. scd_id s \<in> set ids) (db_schedules d))"

lemma db_ok_CreateSchedule:
  assumes "CreateSchedule_sql now i aid cid t ins c st by d = (r, d')" "db_ok d"
  shows "db_ok d'"
proof (cases "storable t \<and> storable ins")
  case True
  then have "\<not> \<not> (storable t \<and> storable ins)" by simp
  from assms(1) [unfolded CreateSchedule_sql_def Let_def if_not_P [OF this]] show ?thesis
  proof (cases rule: insert_row_cases)
  case 2
  have "distinct (map scd_id (db_schedules d'))"
    using 2(2,4) db_okD(8) [OF assms(2)] by (auto simp: image_iff)
  then show ?thesis using 2(4) assms(2) by (auto simp: db_ok_def)
  qed (use assms(2) in simp)
qed (use assms in \<open>simp add: CreateSchedule_sql_def Let_def\<close>)

lemma db_ok_UpdateSchedule: "db_ok d \<Longrightarrow> db_ok (snd (UpdateSchedule_sql now a d))"
  by (simp add: db_ok_def UpdateSchedule_sql_def UpdateSchedule_row_def Let_def update_where_map)

lemma db_ok_DeleteSchedule: "db_ok d \<Longrightarrow> db_ok (snd (DeleteSchedule_sql now i d))"
  by (simp add: db_ok_def DeleteSchedule_sql_def Let_def update_where_map)

lemma db_ok_MarkScheduleRan: "db_ok d \<Longrightarrow> db_ok (MarkScheduleRan now i d)"
  by (simp add: db_ok_def MarkScheduleRan_def update_where_map)

end
