(* ===== verification/StreamStore.thy ===== *)
theory StreamStore
  imports Types
begin

text \<open>
  \<open>conversations/streams.go\<close>: the growing text of streaming messages, kept in Redis. Each
  stream is a hash under a key that names the agent and the message; a sorted set scores the
  live streams by their last activity. A hash is gone once its lifetime has passed; the sorted
  set has none. Every operation is one atomic script or pipeline; \<open>now\<close> is in milliseconds.
\<close>

type_synonym stream_ref = "uuid \<times> uuid" \<comment> \<open>agent, message\<close>

record stream_buffer =
  sb_text :: gotext
  sb_conv :: uuid
  sb_users :: "uuid list"
  sb_expires :: int

record streams =
  st_buffers :: "stream_ref \<Rightarrow> stream_buffer option"
  st_active :: "(stream_ref \<times> int) list"

definition no_streams :: streams where "no_streams = \<lparr>st_buffers = Map.empty, st_active = []\<rparr>"

definition streamMaxBytes :: nat where "streamMaxBytes = textMaxLen * 4"
definition streamTTL :: int where "streamTTL = minutes 10"

datatype stream_error = errNotStreaming | errStreamTooLong

definition live_buffer :: "int \<Rightarrow> streams \<Rightarrow> stream_ref \<Rightarrow> stream_buffer option" where
  "live_buffer now s ref = (case st_buffers s ref of None \<Rightarrow> None
     | Some b \<Rightarrow> if now < sb_expires b then Some b else None)"

text \<open>\<open>ZADD\<close>: one score per member.\<close>

definition zadd :: "'m \<Rightarrow> int \<Rightarrow> ('m \<times> int) list \<Rightarrow> ('m \<times> int) list" where
  "zadd m score z = (m, score) # filter (\<lambda>x. fst x \<noteq> m) z"

definition zrem :: "'m \<Rightarrow> ('m \<times> int) list \<Rightarrow> ('m \<times> int) list" where
  "zrem m z = filter (\<lambda>x. fst x \<noteq> m) z"

definition stream_open :: "int \<Rightarrow> stream_ref \<Rightarrow> uuid \<Rightarrow> uuid list \<Rightarrow> streams \<Rightarrow> streams" where
  "stream_open now ref cid users s =
     \<lparr>st_buffers = (st_buffers s)(ref \<mapsto>
         \<lparr>sb_text = [], sb_conv = cid, sb_users = users, sb_expires = now + streamTTL\<rparr>),
      st_active = zadd ref now (st_active s)\<rparr>"

text \<open>\<open>appendScript\<close>: refuses a stream that is not there, then one without room.\<close>

definition stream_append ::
    "int \<Rightarrow> stream_ref \<Rightarrow> gotext \<Rightarrow> streams \<Rightarrow> (stream_error + uuid \<times> uuid list) \<times> streams" where
  "stream_append now ref delta s = (case live_buffer now s ref of
       None \<Rightarrow> (Inl errNotStreaming, s)
     | Some b \<Rightarrow>
         if byte_len (sb_text b) + byte_len delta > streamMaxBytes then (Inl errStreamTooLong, s)
         else (Inr (sb_conv b, sb_users b),
               \<lparr>st_buffers = (st_buffers s)(ref \<mapsto>
                   b\<lparr>sb_text := sb_text b @ delta, sb_expires := now + streamTTL\<rparr>),
                st_active = zadd ref now (st_active s)\<rparr>))"

definition stream_text :: "int \<Rightarrow> stream_ref \<Rightarrow> streams \<Rightarrow> gotext" where
  "stream_text now ref s = (case live_buffer now s ref of None \<Rightarrow> [] | Some b \<Rightarrow> sb_text b)"

text \<open>The texts of several streams, by message; a stream that is not there has no entry.\<close>

definition stream_texts :: "int \<Rightarrow> stream_ref list \<Rightarrow> streams \<Rightarrow> uuid \<Rightarrow> gotext option" where
  "stream_texts now refs s =
     fold (\<lambda>ref m. case live_buffer now s ref of None \<Rightarrow> m | Some b \<Rightarrow> m(snd ref \<mapsto> sb_text b)) refs Map.empty"

definition stream_remove :: "stream_ref \<Rightarrow> streams \<Rightarrow> streams" where
  "stream_remove ref s =
     \<lparr>st_buffers = (st_buffers s)(ref := None), st_active = zrem ref (st_active s)\<rparr>"

text \<open>Members scored up to the cutoff, by score and then by member, the first hundred.\<close>

definition stream_idle :: "int \<Rightarrow> int \<Rightarrow> streams \<Rightarrow> stream_ref list" where
  "stream_idle now idleFor s =
     map fst (take 100 (sort_key snd (sort_key (\<lambda>x. fst (fst x)) (sort_key (\<lambda>x. snd (fst x))
       (filter (\<lambda>x. snd x \<le> now - idleFor) (st_active s))))))"

section \<open>Laws\<close>

lemma byte_len_append [simp]: "byte_len (s @ t) = byte_len s + byte_len t"
  by (simp add: byte_len_def)

lemma byte_len_Nil [simp]: "byte_len [] = 0"
  by (simp add: byte_len_def)

definition streams_ok :: "streams \<Rightarrow> bool" where
  "streams_ok s \<longleftrightarrow> (\<forall>ref b. st_buffers s ref = Some b \<longrightarrow> byte_len (sb_text b) \<le> streamMaxBytes)"

lemma streams_ok_open: "streams_ok s \<Longrightarrow> streams_ok (stream_open now ref cid users s)"
  by (simp add: streams_ok_def stream_open_def)

lemma streams_ok_append: "streams_ok s \<Longrightarrow> streams_ok (snd (stream_append now ref delta s))"
  by (auto simp: streams_ok_def stream_append_def live_buffer_def split: option.splits if_splits)

lemma streams_ok_remove: "streams_ok s \<Longrightarrow> streams_ok (stream_remove ref s)"
  by (simp add: streams_ok_def stream_remove_def)

lemma append_ok:
  assumes "stream_append now ref delta s = (Inr (cid, users), s')" "now \<le> t" "t < now + streamTTL"
  shows "stream_text t ref s' = stream_text now ref s @ delta"
  using assms by (auto simp: stream_append_def stream_text_def live_buffer_def split: option.splits if_splits)

lemma append_other: "ref' \<noteq> ref \<Longrightarrow> st_buffers (snd (stream_append now ref delta s)) ref' = st_buffers s ref'"
  by (auto simp: stream_append_def split: option.splits)

lemma append_refused: "stream_append now ref delta s = (Inl e, s') \<Longrightarrow> s' = s"
  by (auto simp: stream_append_def split: option.splits if_splits)

lemma removed_not_streaming: "stream_append now ref delta (stream_remove ref s) = (Inl errNotStreaming, stream_remove ref s)"
  by (simp add: stream_append_def live_buffer_def stream_remove_def)

section \<open>A whole stream\<close>

text \<open>The deltas of one stream in the order they arrive, and which of them were accepted.\<close>

fun appends :: "stream_ref \<Rightarrow> (int \<times> gotext) list \<Rightarrow> streams \<Rightarrow> gotext list \<times> streams" where
  "appends ref [] s = ([], s)"
| "appends ref ((now, d) # ds) s =
     (let (r, s') = stream_append now ref d s; (acc, s'') = appends ref ds s' in
      (case r of Inl e \<Rightarrow> acc | Inr x \<Rightarrow> d # acc, s''))"

lemma appends_text:
  assumes "st_buffers s ref = Some b" "t0 + streamTTL \<le> sb_expires b"
    and "\<forall>(now, d)\<in>set ds. t0 \<le> now \<and> now < t0 + streamTTL"
  shows "\<exists>b'. st_buffers (snd (appends ref ds s)) ref = Some b'
      \<and> sb_text b' = sb_text b @ concat (fst (appends ref ds s)) \<and> t0 + streamTTL \<le> sb_expires b'"
  using assms
proof (induction ds arbitrary: s b)
  case (Cons x ds)
  obtain now d where x: "x = (now, d)" by (cases x)
  have t: "t0 \<le> now" "now < t0 + streamTTL" using Cons.prems(3) x by auto
  obtain r s' where a: "stream_append now ref d s = (r, s')" by fastforce
  have live: "live_buffer now s ref = Some b" using Cons.prems t by (simp add: live_buffer_def)
  consider (no) e where "r = Inl e" "s' = s"
    | (yes) y where "r = Inr y" "st_buffers s' ref = Some (b\<lparr>sb_text := sb_text b @ d, sb_expires := now + streamTTL\<rparr>)"
    using a live by (cases r) (auto simp: stream_append_def split: if_splits)
  then show ?case
  proof cases
    case no
    have "\<exists>b'. st_buffers (snd (appends ref ds s)) ref = Some b'
      \<and> sb_text b' = sb_text b @ concat (fst (appends ref ds s)) \<and> t0 + streamTTL \<le> sb_expires b'"
      using Cons.IH [OF Cons.prems(1,2)] Cons.prems(3) by simp
    then show ?thesis using no a x by (auto split: prod.splits)
  next
    case yes
    have "\<exists>b'. st_buffers (snd (appends ref ds s')) ref = Some b'
      \<and> sb_text b' = (sb_text b @ d) @ concat (fst (appends ref ds s')) \<and> t0 + streamTTL \<le> sb_expires b'"
      using Cons.IH [OF yes(2)] Cons.prems(3) t by simp
    then show ?thesis using yes a x by (auto split: prod.splits)
  qed
qed simp

lemma streams_ok_appends: "streams_ok s \<Longrightarrow> streams_ok (snd (appends ref ds s))"
proof (induction ds arbitrary: s)
  case (Cons x ds)
  obtain now d where "x = (now, d)" by (cases x)
  then show ?case
    using Cons.IH [of "snd (stream_append now ref d s)"] streams_ok_append [OF Cons.prems, of now ref d]
    by (auto split: prod.splits)
qed simp

text \<open>
  C38. The text of a live stream is exactly the accepted deltas in the order they arrived: none
  is lost, repeated or reordered, a refused one leaves no trace, and the buffer never outgrows
  its bound of four bytes for every character a message may have.
\<close>

theorem stream_text_is_what_was_appended:
  assumes "\<forall>(now, d)\<in>set ds. t0 \<le> now \<and> now < t0 + streamTTL" "t < t0 + streamTTL" "streams_ok s"
  shows "stream_text t ref (snd (appends ref ds (stream_open t0 ref cid users s)))
       = concat (fst (appends ref ds (stream_open t0 ref cid users s)))
     \<and> byte_len (stream_text t ref (snd (appends ref ds (stream_open t0 ref cid users s)))) \<le> 4 * textMaxLen"
proof -
  let ?s = "stream_open t0 ref cid users s"
  have "st_buffers ?s ref = Some \<lparr>sb_text = [], sb_conv = cid, sb_users = users, sb_expires = t0 + streamTTL\<rparr>"
    by (simp add: stream_open_def)
  then obtain b where b: "st_buffers (snd (appends ref ds ?s)) ref = Some b"
      "sb_text b = concat (fst (appends ref ds ?s))" "t0 + streamTTL \<le> sb_expires b"
    using appends_text [of ?s ref _ t0 ds] assms(1) by fastforce
  moreover have "byte_len (sb_text b) \<le> streamMaxBytes"
    using streams_ok_appends [OF streams_ok_open [OF assms(3)]] b(1) unfolding streams_ok_def by blast
  ultimately show ?thesis
    using assms(2) by (simp add: stream_text_def live_buffer_def streamMaxBytes_def)
qed

theorem stream_text_is_what_was_appended_witness:
  "stream_text 70 (1, 2) (snd (appends (1, 2) [(10, str ''Hel''), (20, str ''lo'')]
      (stream_open 0 (1, 2) 3 [4] no_streams))) = str ''Hello''"
  using stream_text_is_what_was_appended [of "[(10, str ''Hel''), (20, str ''lo'')]" 0 70 no_streams "(1, 2)" 3 "[4]"]
  by (simp add: streamTTL_def streams_ok_def no_streams_def stream_append_def live_buffer_def
      stream_open_def streamMaxBytes_def textMaxLen_def byte_len_def str_def)

end
