(* ===== verification/RateLimit.thy ===== *)
theory RateLimit
  imports Types Complex_Main
begin

text \<open>
  \<open>server/internal/ratelimit\<close>: the two limiters and the token bucket script that runs inside
  Redis. Numbers the script keeps as doubles are rationals here, so rounding is not modelled.
  A key is the prefix the caller writes and the sender's id, or the address a code is asked for.

  The locale \<open>limiter\<close> is what the services rely on: a decision depends on the bucket of the
  key alone and spending from one bucket leaves every other one as it was. Both limiters are
  instances.
\<close>

record Policy =
  pol_Rate :: rat
  pol_Burst :: nat

type_synonym bucket_key = "string \<times> (uuid + gotext)"

record bucket =
  bkt_tokens :: rat
  bkt_ts :: int
  bkt_expires :: int

datatype limiter = Unlimited | Redis "bucket_key \<Rightarrow> bucket option"

text \<open>The hash as the script reads it: gone once its lifetime has passed.\<close>

definition live_bucket :: "int \<Rightarrow> bucket option \<Rightarrow> bucket option" where
  "live_bucket now b = (case b of None \<Rightarrow> None | Some x \<Rightarrow> if now < bkt_expires x then Some x else None)"

definition refilled :: "Policy \<Rightarrow> int \<Rightarrow> bucket option \<Rightarrow> rat" where
  "refilled p now b = (case live_bucket now b of
       None \<Rightarrow> of_nat (pol_Burst p)
     | Some x \<Rightarrow> min (of_nat (pol_Burst p))
                    (bkt_tokens x + of_int (max 0 (now - bkt_ts x)) / 1000 * pol_Rate p))"

definition tokenBucket :: "Policy \<Rightarrow> int \<Rightarrow> bucket option \<Rightarrow> int \<times> bucket" where
  "tokenBucket p now b =
     (let tokens = refilled p now b;
          expires = now + \<lceil>of_nat (pol_Burst p) / pol_Rate p * 1000\<rceil> + 1000 in
      if 1 \<le> tokens
      then (0, \<lparr>bkt_tokens = tokens - 1, bkt_ts = now, bkt_expires = expires\<rparr>)
      else (\<lceil>(1 - tokens) / pol_Rate p * 1000\<rceil>,
            \<lparr>bkt_tokens = tokens, bkt_ts = now, bkt_expires = expires\<rparr>))"

text \<open>\<open>Allow\<close>: zero when the action may proceed, otherwise how long until it could.\<close>

fun Allow :: "limiter \<Rightarrow> int \<Rightarrow> bucket_key \<Rightarrow> Policy \<Rightarrow> int \<times> limiter" where
  "Allow Unlimited now k p = (0, Unlimited)"
| "Allow (Redis m) now k p =
     (let (wait, b) = tokenBucket p now (m k) in (wait, Redis (m(k \<mapsto> b))))"

definition userSendPolicy :: Policy where "userSendPolicy = \<lparr>pol_Rate = 1/2, pol_Burst = 30\<rparr>"
definition agentSendPolicy :: Policy where "agentSendPolicy = \<lparr>pol_Rate = 60, pol_Burst = 120\<rparr>"
definition agentDeltaPolicy :: Policy where "agentDeltaPolicy = \<lparr>pol_Rate = 200, pol_Burst = 400\<rparr>"
definition stopPolicy :: Policy where "stopPolicy = \<lparr>pol_Rate = 1, pol_Burst = 20\<rparr>"

section \<open>The interface\<close>

locale limiter =
  fixes allow :: "'s \<Rightarrow> int \<Rightarrow> 'k \<Rightarrow> Policy \<Rightarrow> int \<times> 's"
    and valid :: "'s \<Rightarrow> bool"
    and view :: "'s \<Rightarrow> 'k \<Rightarrow> 'v"
  assumes valid_allow: "valid s \<Longrightarrow> valid (snd (allow s now k p))"
    and decides: "valid s \<Longrightarrow> valid s' \<Longrightarrow> view s k = view s' k \<Longrightarrow>
        fst (allow s now k p) = fst (allow s' now k p)"
    and frame: "valid s \<Longrightarrow> k' \<noteq> k \<Longrightarrow> view (snd (allow s now k p)) k' = view s k'"
begin

fun run :: "(int \<times> 'k \<times> Policy) list \<Rightarrow> 's \<Rightarrow> 's" where
  "run [] s = s"
| "run ((now, k, p) # cs) s = run cs (snd (allow s now k p))"

lemma run_frame:
  "valid s \<Longrightarrow> \<forall>(t, k', p)\<in>set cs. k' \<noteq> k \<Longrightarrow> valid (run cs s) \<and> view (run cs s) k = view s k"
proof (induction cs arbitrary: s)
  case (Cons c cs)
  obtain t k' p where c: "c = (t, k', p)" by (cases c)
  with Cons.prems have "k' \<noteq> k" by auto
  with Cons.IH [of "snd (allow s t k' p)"] Cons.prems c show ?case
    by (auto simp: valid_allow frame)
qed simp

text \<open>Whatever other senders do, this sender's next decision is the same.\<close>

lemma others_do_not_matter:
  assumes "valid s" "\<forall>(t, k', p)\<in>set cs. k' \<noteq> k"
  shows "fst (allow (run cs s) now k p) = fst (allow s now k p)"
  using run_frame [OF assms] assms(1) by (auto intro: decides)

end

fun buckets :: "limiter \<Rightarrow> bucket_key \<Rightarrow> bucket option" where
  "buckets Unlimited k = None"
| "buckets (Redis m) k = m k"

fun is_redis :: "limiter \<Rightarrow> bool" where
  "is_redis Unlimited = False"
| "is_redis (Redis m) = True"

interpretation unlimited: limiter Allow "\<lambda>l. l = Unlimited" buckets
  by unfold_locales auto

interpretation redis: limiter Allow is_redis buckets
proof
  fix s s' :: limiter and now k p
  show "is_redis s \<Longrightarrow> is_redis (snd (Allow s now k p))"
    by (cases s) (auto split: prod.splits)
  show "is_redis s \<Longrightarrow> is_redis s' \<Longrightarrow> buckets s k = buckets s' k \<Longrightarrow>
      fst (Allow s now k p) = fst (Allow s' now k p)"
    by (cases s; cases s') (auto split: prod.splits)
next
  fix s :: limiter and k k' :: bucket_key and now p
  show "is_redis s \<Longrightarrow> k' \<noteq> k \<Longrightarrow> buckets (snd (Allow s now k p)) k' = buckets s k'"
    by (cases s) (auto split: prod.splits)
qed

section \<open>The bound a bucket enforces\<close>

text \<open>A sender's calls on one bucket: how many were let through, and the bucket left.\<close>

fun spend :: "Policy \<Rightarrow> int list \<Rightarrow> bucket option \<Rightarrow> nat \<times> bucket option" where
  "spend p [] b = (0, b)"
| "spend p (t # ts) b =
     (let (wait, b') = tokenBucket p t b; (n, b'') = spend p ts (Some b') in
      ((if wait = 0 then Suc n else n), b''))"

lemma refilled_le_burst: "refilled p now b \<le> of_nat (pol_Burst p)"
  by (auto simp: refilled_def split: option.splits)

lemma wait_pos: "0 < pol_Rate p \<Longrightarrow> refilled p now b < 1 \<Longrightarrow>
    0 < \<lceil>(1 - refilled p now b) / pol_Rate p * 1000\<rceil>"
  by simp

lemma tokenBucket_cases:
  assumes "0 < pol_Rate p" "tokenBucket p now b = (wait, b')"
  shows "bkt_ts b' = now"
    and "bkt_expires b' \<ge> now + \<lceil>of_nat (pol_Burst p) / pol_Rate p * 1000\<rceil> + 1000"
    and "(wait = 0 \<and> 1 \<le> refilled p now b \<and> bkt_tokens b' = refilled p now b - 1)
       \<or> (0 < wait \<and> refilled p now b < 1 \<and> bkt_tokens b' = refilled p now b)"
  using assms wait_pos [OF assms(1), of now b]
  by (auto simp: tokenBucket_def Let_def not_le split: if_splits)

lemma expiry_covers:
  assumes "0 < pol_Rate p" "bkt_expires x \<ge> bkt_ts x + \<lceil>of_nat (pol_Burst p) / pol_Rate p * 1000\<rceil> + 1000"
    "bkt_expires x \<le> now" "0 \<le> bkt_tokens x"
  shows "of_nat (pol_Burst p) \<le> bkt_tokens x + of_int (now - bkt_ts x) / 1000 * pol_Rate p"
proof -
  have "of_nat (pol_Burst p) / pol_Rate p * 1000 \<le> of_int \<lceil>of_nat (pol_Burst p) / pol_Rate p * 1000\<rceil>"
    by simp
  also have "\<dots> \<le> of_int (now - bkt_ts x)" using assms by linarith
  finally have "of_nat (pol_Burst p) / pol_Rate p \<le> of_int (now - bkt_ts x) / 1000" by simp
  then have "of_nat (pol_Burst p) \<le> of_int (now - bkt_ts x) / 1000 * pol_Rate p"
    using assms(1) by (simp add: pos_divide_le_eq)
  with assms(4) show ?thesis by linarith
qed

lemma refilled_le:
  assumes "0 < pol_Rate p" "bkt_expires x \<ge> bkt_ts x + \<lceil>of_nat (pol_Burst p) / pol_Rate p * 1000\<rceil> + 1000"
    "0 \<le> bkt_tokens x" "bkt_ts x \<le> now"
  shows "refilled p now (Some x) \<le> bkt_tokens x + of_int (now - bkt_ts x) / 1000 * pol_Rate p"
  using assms expiry_covers [OF assms(1,2) _ assms(3), of now]
  by (auto simp: refilled_def live_bucket_def max_def not_less)

lemma refilled_nonneg:
  "0 < pol_Rate p \<Longrightarrow> (\<And>x. b = Some x \<Longrightarrow> 0 \<le> bkt_tokens x) \<Longrightarrow> 0 \<le> refilled p now b"
  by (auto simp: refilled_def live_bucket_def split: option.splits if_splits)

lemma spend_le:
  assumes "0 < pol_Rate p"
    and "bkt_expires x \<ge> bkt_ts x + \<lceil>of_nat (pol_Burst p) / pol_Rate p * 1000\<rceil> + 1000"
    and "0 \<le> bkt_tokens x" "sorted ts" "\<forall>t\<in>set ts. bkt_ts x \<le> t \<and> t \<le> tmax" "bkt_ts x \<le> tmax"
  shows "of_nat (fst (spend p ts (Some x))) \<le> bkt_tokens x + of_int (tmax - bkt_ts x) / 1000 * pol_Rate p"
  using assms(2-)
proof (induction ts arbitrary: x)
  case Nil
  then show ?case using assms(1) by simp
next
  case (Cons t ts)
  obtain wait b' where tb: "tokenBucket p t (Some x) = (wait, b')" by fastforce
  obtain n b'' where sp: "spend p ts (Some b') = (n, b'')" by fastforce
  note c = tokenBucket_cases [OF assms(1) tb]
  have pos: "0 \<le> bkt_tokens b'"
    using c(3) refilled_nonneg [OF assms(1), of "Some x" t] Cons.prems(2) by auto
  have "of_nat (fst (spend p ts (Some b'))) \<le> bkt_tokens b' + of_int (tmax - t) / 1000 * pol_Rate p"
    using Cons.IH [of b'] c(1,2) pos Cons.prems by auto
  moreover have "refilled p t (Some x) \<le> bkt_tokens x + of_int (t - bkt_ts x) / 1000 * pol_Rate p"
    using refilled_le [OF assms(1) Cons.prems(1,2)] Cons.prems(4) by simp
  moreover have "of_int (tmax - bkt_ts x) / 1000 * pol_Rate p
      = of_int (tmax - t) / 1000 * pol_Rate p + of_int (t - bkt_ts x) / 1000 * pol_Rate p"
    by (simp add: field_simps)
  moreover have "fst (spend p (t # ts) (Some x)) = (if wait = 0 then Suc n else n)"
    "fst (spend p ts (Some b')) = n" using tb sp by simp_all
  ultimately show ?case
    using c(3) by (auto simp del: spend.simps of_int_diff simp add: add_divide_distrib)
qed

text \<open>
  C37. The token bucket bounds a sender over any window: of the calls made between two
  moments, in order, no more get through than the burst plus what the rate refills in that
  time, whatever state the bucket starts in and even when its hash expires in between.
\<close>

theorem token_bucket_bound:
  assumes "0 < pol_Rate p" "sorted (t # ts)" "\<forall>s\<in>set ts. s \<le> tmax" "t \<le> tmax"
    and "\<forall>x. b = Some x \<longrightarrow> 0 \<le> bkt_tokens x"
  shows "of_nat (fst (spend p (t # ts) b)) \<le> of_nat (pol_Burst p) + of_int (tmax - t) / 1000 * pol_Rate p"
proof -
  obtain wait b' where tb: "tokenBucket p t b = (wait, b')" by fastforce
  obtain n b'' where sp: "spend p ts (Some b') = (n, b'')" by fastforce
  note c = tokenBucket_cases [OF assms(1) tb]
  have pos: "0 \<le> bkt_tokens b'"
    using c(3) refilled_nonneg [OF assms(1), of b t] assms(5) by auto
  have "of_nat (fst (spend p ts (Some b'))) \<le> bkt_tokens b' + of_int (tmax - t) / 1000 * pol_Rate p"
    using spend_le [OF assms(1), of b' ts tmax] c(1,2) pos assms by auto
  then show ?thesis using tb sp c(3) refilled_le_burst [of p t b] by auto
qed

theorem token_bucket_bound_witness:
  "of_nat (fst (spend userSendPolicy [0, 500, 1000] None)) \<le> (30 + 1000 / 1000 * (1/2) :: rat)"
  using token_bucket_bound [of userSendPolicy 0 "[500, 1000]" 1000 None]
  by (simp add: userSendPolicy_def)

text \<open>
  Limits are per sender: whatever every other key spends, in any order and at any time,
  the decision for this key is the one it would have been.
\<close>

theorem senders_do_not_share_limits:
  assumes "is_redis l" "\<forall>(t, k', p')\<in>set others. k' \<noteq> k"
  shows "fst (Allow (redis.run others l) now k p) = fst (Allow l now k p)"
  using assms by (rule redis.others_do_not_matter)

theorem senders_do_not_share_limits_witness:
  "fst (Allow (redis.run [(0, (''send:user:'', Inl 2), stopPolicy)] (Redis Map.empty)) 1 (''send:user:'', Inl 1) stopPolicy) = 0"
  using senders_do_not_share_limits [of "Redis Map.empty" "[(0, (''send:user:'', Inl 2), stopPolicy)]"
      "(''send:user:'', Inl 1)" 1 stopPolicy]
  by (simp add: tokenBucket_def refilled_def live_bucket_def stopPolicy_def)

end
