(* ===== verification/World.thy ===== *)
theory World
  imports SqlSchedules StreamStore RateLimit
begin

text \<open>
  What a service method reads and changes, and what surrounds the program.

  \<open>world\<close> is the state: the database, Redis (the limiter and the streams), the clock, how many
  ids were drawn, and what was announced: events published for devices and sockets
  (\<open>realtime.Publisher\<close>), messages handed to the push notifier, letters sent, and the bytes in
  storage under each key. \<open>env\<close> is what the program
  is given and never changes: the supply of ids (\<open>domain.NewID\<close>) and of random bytes, SHA-256,
  the time zone database, the keyed hash of the signer (\<open>signing.Signer\<close>, a standard-library HMAC), the URL parser of the
  standard library, whether a notifier is configured, lower case by the Unicode tables
  (\<open>strings.ToLower\<close>), the address \<open>net/mail\<close> reads in a text, the number drawn for a sign-in
  code, and whether the mail server takes a letter.

  An operation reads the clock once. Publishing cannot fail an operation (\<open>notify.go\<close> logs and
  goes on), so it is an append to the log.
\<close>

record signed_content =
  sc_ID :: uuid
  sc_ConversationID :: uuid
  sc_SenderKind :: participant_kind
  sc_SenderID :: uuid
  sc_Text :: gotext
  sc_Attachments :: "uuid list"
  sc_Buttons :: "button list list"
  sc_QuickReplies :: "quick_reply list"
  sc_Action :: "action option"
  sc_ReplyTo :: "uuid option"
  sc_Truncated :: bool

text \<open>
  A time zone answers \<open>Location.lookup\<close>: the offset at a second since the epoch, and the second
  from which and up to which it is the same.
\<close>

type_synonym zone = "int \<Rightarrow> int \<times> int \<times> int"

record mail =
  ml_To :: gotext
  ml_Subject :: string
  ml_Text :: string

record env =
  env_new_id :: "nat \<Rightarrow> uuid"
  env_signer :: "(signed_content \<Rightarrow> signature) option"
  env_url_parse :: url_parser
  env_push :: bool
  env_random :: "nat \<Rightarrow> 256 word"
  env_sha256 :: "string \<Rightarrow> nat list"
  env_zone :: "string \<Rightarrow> zone option"
  env_lower :: "gotext \<Rightarrow> gotext"
  env_mail_address :: "gotext \<Rightarrow> gotext option"
  env_code :: "nat \<Rightarrow> nat"
  env_mailer :: "mail \<Rightarrow> bool"

record world =
  w_db :: db
  w_limiter :: limiter
  w_streams :: "streams option"
  w_now :: int
  w_ids :: nat
  w_events :: "live_event list"
  w_landed :: "landed list"
  w_mail :: "mail list"
  w_blobs :: "string \<rightharpoonup> string"

type_synonym 'a handler = "world \<Rightarrow> (go_error + 'a) \<times> world"

definition NewID :: "env \<Rightarrow> world \<Rightarrow> uuid \<times> world" where
  "NewID e w = (env_new_id e (w_ids w), w\<lparr>w_ids := Suc (w_ids w)\<rparr>)"

text \<open>
  A secret is its prefix and 256 random bits in the alphabet of the ids: 52 digits, the last
  completed by four zero bits. What is stored is its hash.
\<close>

definition HashSecret :: "env \<Rightarrow> string \<Rightarrow> nat list" where
  "HashSecret e plaintext = env_sha256 e plaintext"

definition NewSecret :: "env \<Rightarrow> string \<Rightarrow> world \<Rightarrow> (string \<times> nat list) \<times> world" where
  "NewSecret e pre w =
     (let raw = env_random e (w_ids w);
          plaintext = pre @ ''_'' @ base32_digits 52 (16 * unat raw) in
      ((plaintext, HashSecret e plaintext), w\<lparr>w_ids := Suc (w_ids w)\<rparr>))"

text \<open>\<open>domain.Internal(fmt.Errorf(..))\<close> around a statement that failed.\<close>

definition internal :: "go_error + 'a \<Rightarrow> go_error + 'a" where
  "internal r = (case r of Inl e \<Rightarrow> Inl (Internal e) | Inr x \<Rightarrow> Inr x)"

definition on_db :: "(db \<Rightarrow> 'a \<times> db) \<Rightarrow> world \<Rightarrow> 'a \<times> world" where
  "on_db f w = (let (r, d) = f (w_db w) in (r, w\<lparr>w_db := d\<rparr>))"

definition exec :: "(db \<Rightarrow> db) \<Rightarrow> world \<Rightarrow> world" where
  "exec f w = w\<lparr>w_db := f (w_db w)\<rparr>"

text \<open>
  \<open>Store.WithTx\<close>: the statements of \<open>fn\<close> appear together or not at all. Nothing but the
  database rolls back: ids that were drawn stay drawn.
\<close>

definition WithTx :: "'a handler \<Rightarrow> 'a handler" where
  "WithTx fn w = (case fn w of (Inl e, w') \<Rightarrow> (Inl e, w'\<lparr>w_db := w_db w\<rparr>) | (Inr x, w') \<Rightarrow> (Inr x, w'))"

definition publish :: "live_event \<Rightarrow> world \<Rightarrow> world" where
  "publish ev w = w\<lparr>w_events := w_events w @ [ev]\<rparr>"

definition allow :: "string \<Rightarrow> uuid \<Rightarrow> Policy \<Rightarrow> world \<Rightarrow> int \<times> world" where
  "allow prefix sid p w =
     (let (wait, l) = Allow (w_limiter w) (w_now w) (prefix, Inl sid) p in (wait, w\<lparr>w_limiter := l\<rparr>))"

definition on_streams :: "(streams \<Rightarrow> streams) \<Rightarrow> world \<Rightarrow> world" where
  "on_streams f w = w\<lparr>w_streams := map_option f (w_streams w)\<rparr>"

section \<open>Laws\<close>

lemma internal_simps [simp]: "internal (Inl e) = Inl (Internal e)" "internal (Inr x) = Inr x"
  by (simp_all add: internal_def)

lemma internal_Inr [ok_iffs]: "internal r = Inr x \<longleftrightarrow> r = Inr x"
  by (cases r) auto

lemma internal_Inl: "internal r = Inl e \<longleftrightarrow> (\<exists>c. r = Inl c \<and> e = Internal c)"
  by (cases r) auto

lemma WithTx_Inr [ok_iffs]: "WithTx fn w = (Inr x, w') \<longleftrightarrow> fn w = (Inr x, w')"
  by (auto simp: WithTx_def split: prod.splits sum.splits)

lemma WithTx_Inl: "WithTx fn w = (Inl e, w') \<longleftrightarrow> (\<exists>w1. fn w = (Inl e, w1) \<and> w' = w1\<lparr>w_db := w_db w\<rparr>)"
  by (auto simp: WithTx_def split: prod.splits sum.splits)

lemma WithTx_rolls_back: "WithTx fn w = (Inl e, w') \<Longrightarrow> w_db w' = w_db w"
  by (auto simp: WithTx_Inl)

lemma on_db_iff: "on_db f w = (r, w') \<longleftrightarrow> (\<exists>d. f (w_db w) = (r, d) \<and> w' = w\<lparr>w_db := d\<rparr>)"
  by (auto simp: on_db_def split: prod.splits)

lemma on_db_fields [simp]:
  "w_now (snd (on_db f w)) = w_now w" "w_limiter (snd (on_db f w)) = w_limiter w"
  "w_streams (snd (on_db f w)) = w_streams w" "w_ids (snd (on_db f w)) = w_ids w"
  "w_events (snd (on_db f w)) = w_events w" "w_landed (snd (on_db f w)) = w_landed w"
  "w_db (snd (on_db f w)) = snd (f (w_db w))" "fst (on_db f w) = fst (f (w_db w))"
  by (simp_all add: on_db_def split_def Let_def)

lemma exec_fields [simp]:
  "w_now (exec f w) = w_now w" "w_limiter (exec f w) = w_limiter w" "w_streams (exec f w) = w_streams w"
  "w_ids (exec f w) = w_ids w" "w_events (exec f w) = w_events w" "w_landed (exec f w) = w_landed w"
  "w_db (exec f w) = f (w_db w)"
  by (simp_all add: exec_def)

lemma publish_fields [simp]:
  "w_now (publish ev w) = w_now w" "w_limiter (publish ev w) = w_limiter w"
  "w_streams (publish ev w) = w_streams w" "w_ids (publish ev w) = w_ids w"
  "w_events (publish ev w) = w_events w @ [ev]" "w_landed (publish ev w) = w_landed w"
  "w_db (publish ev w) = w_db w"
  by (simp_all add: publish_def)

lemma allow_fields [simp]:
  "w_now (snd (allow k i p w)) = w_now w" "w_streams (snd (allow k i p w)) = w_streams w"
  "w_ids (snd (allow k i p w)) = w_ids w" "w_events (snd (allow k i p w)) = w_events w"
  "w_landed (snd (allow k i p w)) = w_landed w" "w_db (snd (allow k i p w)) = w_db w"
  by (simp_all add: allow_def split_def Let_def)

lemma NewID_fields [simp]:
  "fst (NewID e w) = env_new_id e (w_ids w)" "w_now (snd (NewID e w)) = w_now w"
  "w_streams (snd (NewID e w)) = w_streams w" "w_ids (snd (NewID e w)) = Suc (w_ids w)"
  "w_events (snd (NewID e w)) = w_events w" "w_landed (snd (NewID e w)) = w_landed w"
  "w_db (snd (NewID e w)) = w_db w" "w_limiter (snd (NewID e w)) = w_limiter w"
  by (simp_all add: NewID_def)

lemma NewSecret_fields [simp]:
  "snd (fst (NewSecret e pre w)) = HashSecret e (fst (fst (NewSecret e pre w)))"
  "w_now (snd (NewSecret e pre w)) = w_now w" "w_db (snd (NewSecret e pre w)) = w_db w"
  "w_streams (snd (NewSecret e pre w)) = w_streams w" "w_events (snd (NewSecret e pre w)) = w_events w"
  "w_landed (snd (NewSecret e pre w)) = w_landed w" "w_limiter (snd (NewSecret e pre w)) = w_limiter w"
  by (simp_all add: NewSecret_def Let_def)

lemma on_streams_fields [simp]:
  "w_now (on_streams f w) = w_now w" "w_limiter (on_streams f w) = w_limiter w"
  "w_ids (on_streams f w) = w_ids w" "w_events (on_streams f w) = w_events w"
  "w_landed (on_streams f w) = w_landed w" "w_db (on_streams f w) = w_db w"
  "w_streams (on_streams f w) = map_option f (w_streams w)"
  by (simp_all add: on_streams_def)

end
