(* ===== verification/Members.thy ===== *)
theory Members
  imports World
begin

text \<open>
  Who may act in a conversation (\<open>conversations/service.go\<close>: \<open>member\<close>, \<open>agentMember\<close>;
  \<open>membership.go\<close>: \<open>ensureOpen\<close>, \<open>Enqueue\<close>), and what is announced to whom
  (\<open>notify.go\<close>, \<open>streaming.go\<close>: \<open>notifyTo\<close>).
\<close>

section \<open>Membership\<close>

definition errConversationNotFound :: go_error where
  "errConversationNotFound = NotFound ''conversation_not_found''"

definition errNotParticipant :: go_error where
  "errNotParticipant = Forbidden ''not_participant''"

definition member :: "db \<Rightarrow> uuid \<Rightarrow> uuid \<Rightarrow> go_error + conversation_row" where
  "member d callerID cid = (case GetConversation d cid of
       Inl err \<Rightarrow> if IsNoRows err then Inl errConversationNotFound else Inl (Internal err)
     | Inr row \<Rightarrow> if \<not> IsUserParticipant d cid callerID then Inl errNotParticipant else Inr row)"

definition agentMember :: "db \<Rightarrow> uuid \<Rightarrow> uuid \<Rightarrow> go_error + conversation_row" where
  "agentMember d agentID cid = (case GetConversation d cid of
       Inl err \<Rightarrow> if IsNoRows err then Inl errConversationNotFound else Inl (Internal err)
     | Inr row \<Rightarrow> if \<not> IsAgentParticipant d cid agentID then Inl errNotParticipant else Inr row)"

definition ensureOpen :: "db \<Rightarrow> uuid \<Rightarrow> go_error + unit" where
  "ensureOpen d cid = refuse_if (IsConversationBlocked d cid) (Forbidden ''blocked'')"

lemma member_Inr [ok_iffs]:
  "member d u cid = Inr row \<longleftrightarrow> GetConversation d cid = Inr row \<and> IsUserParticipant d cid u"
  by (auto simp: member_def split: sum.splits)

lemma agentMember_Inr [ok_iffs]:
  "agentMember d a cid = Inr row \<longleftrightarrow> GetConversation d cid = Inr row \<and> IsAgentParticipant d cid a"
  by (auto simp: agentMember_def split: sum.splits)

lemma ensureOpen_Inr [ok_iffs]: "ensureOpen d cid = Inr u \<longleftrightarrow> \<not> IsConversationBlocked d cid"
  by (auto simp: ensureOpen_def ok_iffs)

lemma GetConversation_cases:
  "GetConversation d cid = Inl (PlainError NoRows) \<or> (\<exists>row. GetConversation d cid = Inr row)"
  by (cases "find (\<lambda>c. cnv_id c = cid) (db_conversations d)") (auto simp: GetConversation_def)

text \<open>The three answers of a membership check.\<close>

lemma member_cases:
  "(\<exists>row. member d u cid = Inr row) \<or> member d u cid = Inl errConversationNotFound
     \<or> member d u cid = Inl errNotParticipant"
  using GetConversation_cases [of d cid] by (auto simp: member_def)

section \<open>Announcing\<close>

definition EventDeliveryPending :: string where "EventDeliveryPending = ''delivery.pending''"
definition EventDeliveryUpdated :: string where "EventDeliveryUpdated = ''delivery.updated''"
definition EventMessageCreated' :: string where "EventMessageCreated' = ''message.created''"
definition EventMessageStarted :: string where "EventMessageStarted = ''message.started''"
definition EventMessageDelta :: string where "EventMessageDelta = ''message.delta''"
definition EventMessageCompleted :: string where "EventMessageCompleted = ''message.completed''"
definition EventActivity :: string where "EventActivity = ''activity''"
definition EventConversationRead :: string where "EventConversationRead = ''conversation.read''"
definition EventScheduleChanged :: string where "EventScheduleChanged = ''schedule.changed''"

lemmas event_names = EventDeliveryPending_def EventDeliveryUpdated_def EventMessageCreated'_def
  EventMessageStarted_def EventMessageDelta_def EventMessageCompleted_def EventActivity_def
  EventConversationRead_def EventScheduleChanged_def

definition notifyTo :: "string \<Rightarrow> uuid list \<Rightarrow> live_payload \<Rightarrow> world \<Rightarrow> world" where
  "notifyTo t users p w =
     (if users = [] then w else publish \<lparr>ev_type = t, ev_recipients = users, ev_payload = p\<rparr> w)"

definition nudge :: "uuid list \<Rightarrow> world \<Rightarrow> world" where
  "nudge agents w =
     (if agents = [] then w
      else publish \<lparr>ev_type = EventDeliveryPending, ev_recipients = agents, ev_payload = EmptyPayload\<rparr> w)"

text \<open>Only an agent's words, and not a reply the person stopped, reach a phone.\<close>

definition pushed :: "env \<Rightarrow> uuid \<Rightarrow> uuid list \<Rightarrow> message \<Rightarrow> world \<Rightarrow> world" where
  "pushed e cid users m w =
     (if \<not> env_push e \<or> snd_kind (mg_sender m) \<noteq> ParticipantAgent \<or> mg_stopped m then w
      else w\<lparr>w_landed := w_landed w @ [\<lparr>ld_conversation_id = cid, ld_message_id = mg_id m,
        ld_agent_id = snd_id (mg_sender m), ld_text = bd_text (mg_body m), ld_recipients = users,
        ld_sender_id = snd_id (mg_sender m), ld_has_attachments = bd_attachments (mg_body m) \<noteq> []\<rparr>]\<rparr>)"

definition notify :: "env \<Rightarrow> string \<Rightarrow> uuid \<Rightarrow> live_payload \<Rightarrow> world \<Rightarrow> world" where
  "notify e t cid p w =
     (let users = ListUserParticipants (w_db w) cid in
      if users = [] then w
      else let w1 = publish \<lparr>ev_type = t, ev_recipients = users, ev_payload = p\<rparr> w in
        if t = EventMessageCreated' \<or> t = EventMessageCompleted then
          (case p of MessageCreatedEvent c m \<Rightarrow> pushed e cid users m w1 | _ \<Rightarrow> w1)
        else w1)"

lemma pushed_fields [simp]:
  "w_db (pushed e cid us m w) = w_db w" "w_streams (pushed e cid us m w) = w_streams w"
  "w_now (pushed e cid us m w) = w_now w" "w_ids (pushed e cid us m w) = w_ids w"
  "w_limiter (pushed e cid us m w) = w_limiter w" "w_events (pushed e cid us m w) = w_events w"
  by (simp_all add: pushed_def)

lemma notify_fields [simp]:
  "w_db (notify e t cid p w) = w_db w" "w_streams (notify e t cid p w) = w_streams w"
  "w_now (notify e t cid p w) = w_now w" "w_ids (notify e t cid p w) = w_ids w"
  "w_limiter (notify e t cid p w) = w_limiter w"
  by (simp_all add: notify_def Let_def split: live_payload.splits)

lemma notifyTo_fields [simp]:
  "w_db (notifyTo t us p w) = w_db w" "w_streams (notifyTo t us p w) = w_streams w"
  "w_now (notifyTo t us p w) = w_now w" "w_ids (notifyTo t us p w) = w_ids w"
  "w_limiter (notifyTo t us p w) = w_limiter w" "w_landed (notifyTo t us p w) = w_landed w"
  by (simp_all add: notifyTo_def)

lemma nudge_fields [simp]:
  "w_db (nudge as w) = w_db w" "w_streams (nudge as w) = w_streams w" "w_now (nudge as w) = w_now w"
  "w_ids (nudge as w) = w_ids w" "w_limiter (nudge as w) = w_limiter w" "w_landed (nudge as w) = w_landed w"
  by (simp_all add: nudge_def)

section \<open>Membership events\<close>

text \<open>
  \<open>Enqueue\<close>: an outbox row for an event that is not about a message. Pending when the agent
  has a backend, failed at once when it has none; the result says whether anything is pending.
\<close>

definition Enqueue :: "env \<Rightarrow> uuid \<Rightarrow> uuid \<Rightarrow> event_type \<Rightarrow> payload \<Rightarrow> bool handler" where
  "Enqueue e agentID cid t p w =
     (let b = GetActiveBinding (w_db w) agentID;
          go = (\<lambda>status lastError pending.
             let (i, w1) = NewID e w;
                 (r, w2) = on_db (CreateDelivery (w_now w) \<lparr>cdp_ID = i, cdp_MessageID = None,
                     cdp_ConversationID = cid, cdp_AgentID = agentID, cdp_EventType = t,
                     cdp_Payload = Some p, cdp_Status = status, cdp_LastError = lastError\<rparr>) w1 in
             needs (internal r) w2 (\<lambda>_. (Inr pending, w2))) in
      case b of
        Inr _ \<Rightarrow> go DeliveryPending None True
      | Inl err \<Rightarrow> if \<not> IsNoRows err then (Inl (Internal err), w)
                  else go DeliveryFailed (Some ''no_binding'') False)"

lemma GetActiveBinding_cases:
  "GetActiveBinding d a = Inl (PlainError NoRows) \<or> (\<exists>b. GetActiveBinding d a = Inr b)"
  by (cases "find (live_binding a) (db_bindings d)") (auto simp: GetActiveBinding_def)

lemma Enqueue_ok:
  assumes "Enqueue e a cid t p w = (Inr pending, w')"
  shows "\<exists>row. w_db w' = (w_db w)\<lparr>db_deliveries := db_deliveries (w_db w) @ [row]\<rparr>
    \<and> dlv_agent_id row = a \<and> dlv_conversation_id row = cid \<and> dlv_event_type row = t
    \<and> dlv_payload row = Some (Doc p) \<and> dlv_message_id row = None
    \<and> dlv_status row = (if pending then DeliveryPending else DeliveryFailed)
    \<and> pending = (\<exists>b. GetActiveBinding (w_db w) a = Inr b)"
proof -
  consider "GetActiveBinding (w_db w) a = Inl (PlainError NoRows)"
    | b where "GetActiveBinding (w_db w) a = Inr b" using GetActiveBinding_cases by blast
  then show ?thesis
  proof cases
    case 1
    with assms show ?thesis
      by (auto simp: Enqueue_def Let_def NewID_def on_db_def CreateDelivery_def delivery_of_params_def
          ok_iffs split: prod.splits)
  next
    case 2
    with assms show ?thesis
      by (auto simp: Enqueue_def Let_def NewID_def on_db_def CreateDelivery_def delivery_of_params_def
          ok_iffs split: prod.splits)
  qed
qed

lemma Enqueue_step: "Enqueue e a cid t p w = (r, w') \<Longrightarrow> outbox_kept (w_db w) (w_db w') \<and> (db_ok (w_db w) \<longrightarrow> db_ok (w_db w'))"
  by (auto simp: Enqueue_def Let_def NewID_def on_db_def needs_def outbox_kept_refl
      split: prod.splits sum.splits if_splits intro: CreateDelivery_kept db_ok_CreateDelivery)

end
