(* ===== verification/History.thy ===== *)
theory History
  imports Members
begin

text \<open>
  Reading messages: \<open>messageFromRow\<close> (\<open>conversations.go\<close>), \<open>decorate\<close> (\<open>decorate.go\<close>,
  \<open>deliveries.go\<close>, \<open>streaming.go\<close>, \<open>schedules_agent.go\<close>), pages of history (\<open>history.go\<close>),
  and what a person may do to their own view (\<open>read.go\<close>, \<open>hiding.go\<close>).

  The locale \<open>pager\<close> is the contract between a page query and a client that walks it with the
  cursors it is given.
\<close>

section \<open>From row to message\<close>

definition derefID :: "uuid option \<Rightarrow> uuid" where
  "derefID p = (case p of None \<Rightarrow> uuid_Nil | Some i \<Rightarrow> i)"

definition sender_of_row :: "message_row \<Rightarrow> sender" where
  "sender_of_row r = \<lparr>snd_kind = msg_sender_kind r,
     snd_id = (case msg_sender_kind r of ParticipantUser \<Rightarrow> derefID (msg_sender_user_id r)
                | ParticipantAgent \<Rightarrow> derefID (msg_sender_agent_id r))\<rparr>"

definition messageFromRow :: "message_row \<Rightarrow> go_error + message" where
  "messageFromRow r = (case msg_body r of
       Corrupt \<Rightarrow> Inl (Internal (PlainError OtherCause))
     | Doc b \<Rightarrow> Inr \<lparr>mg_id = msg_id r, mg_conversation_id = msg_conversation_id r,
         mg_sender = sender_of_row r, mg_body = b,
         mg_reply_to = map_option (\<lambda>i. \<lparr>rr_id = i, rr_sender_kind = None, rr_preview = []\<rparr>)
                         (msg_reply_to_message_id r),
         mg_status = msg_status r, mg_truncated = msg_truncated r, mg_stopped = msg_stopped r,
         mg_schedule_id = msg_schedule_id r, mg_schedule_title = [], mg_delivery_status = None,
         mg_created_at = msg_created_at r, mg_signature = msg_signature r\<rparr>)"

lemma messageFromRow_Inr:
  "messageFromRow r = Inr m \<Longrightarrow> mg_id m = msg_id r \<and> mg_conversation_id m = msg_conversation_id r
     \<and> mg_sender m = sender_of_row r \<and> msg_body r = Doc (mg_body m) \<and> mg_status m = msg_status r
     \<and> mg_truncated m = msg_truncated r \<and> mg_stopped m = msg_stopped r
     \<and> mg_signature m = msg_signature r \<and> mg_created_at m = msg_created_at r
     \<and> mg_schedule_id m = msg_schedule_id r
     \<and> map_option rr_id (mg_reply_to m) = msg_reply_to_message_id r"
  by (auto simp: messageFromRow_def option.map_comp o_def option.map_ident split: json.splits)

lemma messageFromRow_Doc: "msg_body r = Doc b \<Longrightarrow> \<exists>m. messageFromRow r = Inr m"
  by (simp add: messageFromRow_def)

section \<open>What a stored row does not carry\<close>

definition summarize :: "SummarizeDeliveriesRow \<Rightarrow> delivery_status" where
  "summarize r =
     (if sdr_Delivered r + sdr_Failed r < sdr_Total r then DeliveryPending
      else if sdr_Delivered r = 0 then DeliveryFailed
      else DeliveryDelivered)"

definition attachDeliveryStatus :: "db \<Rightarrow> message list \<Rightarrow> message list" where
  "attachDeliveryStatus d msgs =
     (let rows = SummarizeDeliveries d (map mg_id msgs) in
      map (\<lambda>m. case find (\<lambda>r. sdr_MessageID r = mg_id m) rows of
          None \<Rightarrow> m | Some r \<Rightarrow> m\<lparr>mg_delivery_status := Some (summarize r)\<rparr>) msgs)"

definition attachStreamText :: "int \<Rightarrow> streams option \<Rightarrow> message list \<Rightarrow> message list" where
  "attachStreamText now st msgs = (case st of None \<Rightarrow> msgs | Some s \<Rightarrow>
     let refs = map (\<lambda>m. (snd_id (mg_sender m), mg_id m))
           (filter (\<lambda>m. mg_status m = MessageStreaming \<and> snd_kind (mg_sender m) = ParticipantAgent) msgs);
         texts = stream_texts now refs s in
     map (\<lambda>m. case texts (mg_id m) of None \<Rightarrow> m
        | Some t \<Rightarrow> m\<lparr>mg_body := (mg_body m)\<lparr>bd_text := t\<rparr>\<rparr>) msgs)"

definition attachScheduleTitles :: "db \<Rightarrow> message list \<Rightarrow> message list" where
  "attachScheduleTitles d msgs =
     (let titles = map_of (rev (ListScheduleTitles d (List.map_filter mg_schedule_id msgs))) in
      map (\<lambda>m. case mg_schedule_id m of None \<Rightarrow> m
         | Some i \<Rightarrow> m\<lparr>mg_schedule_title := (case titles i of None \<Rightarrow> [] | Some t \<Rightarrow> t)\<rparr>) msgs)"

definition previewOfAttachments :: "attachment list \<Rightarrow> gotext" where
  "previewOfAttachments atts = (case atts of
       [] \<Rightarrow> []
     | [a] \<Rightarrow> if att_kind a = ''image'' then str ''Photo''
              else if att_kind a = ''video'' then str ''Video''
              else if att_kind a = ''audio'' then str ''Voice note''
              else att_file_name a
     | _ \<Rightarrow> str (decimal (length atts) @ '' files''))"

definition previewOfBody :: "body \<Rightarrow> gotext" where
  "previewOfBody b =
     (if TrimSpace (bd_text b) = [] then previewOfAttachments (bd_attachments b) else previewOf (bd_text b))"

definition quoted :: "message list \<Rightarrow> message \<Rightarrow> message" where
  "quoted originals m = (case mg_reply_to m of None \<Rightarrow> m
     | Some r \<Rightarrow> (case find (\<lambda>q. mg_id q = rr_id r) originals of None \<Rightarrow> m
        | Some orig \<Rightarrow> m\<lparr>mg_reply_to := Some (r\<lparr>rr_sender_kind := Some (snd_kind (mg_sender orig)),
            rr_preview := previewOfBody (mg_body orig)\<rparr>)\<rparr>))"

definition attachReplyPreviews :: "db \<Rightarrow> message list \<Rightarrow> go_error + message list" where
  "attachReplyPreviews d msgs =
     (let ids = remdups (List.map_filter (\<lambda>m. map_option rr_id (mg_reply_to m)) msgs) in
      if ids = [] then Inr msgs
      else ok_then (map_ok messageFromRow (ListMessagesByIDs d ids)) (\<lambda>originals.
        Inr (map (quoted originals) msgs)))"

definition decorate :: "world \<Rightarrow> bool \<Rightarrow> message list \<Rightarrow> go_error + message list" where
  "decorate w forSender msgs =
     attachReplyPreviews (w_db w) (attachScheduleTitles (w_db w)
       (attachStreamText (w_now w) (w_streams w)
         (if forSender then attachDeliveryStatus (w_db w) msgs else msgs)))"

text \<open>Decorating adds to a message; it never changes which message it is or who said it.\<close>

definition mg_core :: "message \<Rightarrow> uuid \<times> uuid \<times> sender \<times> message_status \<times> bool \<times> bool \<times> int \<times> signature option \<times> uuid option" where
  "mg_core m = (mg_id m, mg_conversation_id m, mg_sender m, mg_status m, mg_truncated m, mg_stopped m,
     mg_created_at m, mg_signature m, mg_schedule_id m)"

lemma core_attachDeliveryStatus: "map mg_core (attachDeliveryStatus d ms) = map mg_core ms"
  by (simp add: attachDeliveryStatus_def Let_def mg_core_def split: option.splits)

lemma core_attachStreamText: "map mg_core (attachStreamText now st ms) = map mg_core ms"
  by (simp add: attachStreamText_def Let_def mg_core_def split: option.splits)

lemma core_attachScheduleTitles: "map mg_core (attachScheduleTitles d ms) = map mg_core ms"
  by (simp add: attachScheduleTitles_def Let_def mg_core_def split: option.splits)

lemma core_quoted [simp]: "mg_core (quoted originals m) = mg_core m"
  by (simp add: quoted_def mg_core_def split: option.splits)

lemma core_attachReplyPreviews: "attachReplyPreviews d ms = Inr ms' \<Longrightarrow> map mg_core ms' = map mg_core ms"
  by (auto simp: attachReplyPreviews_def Let_def ok_then_Inr split: if_splits)

lemma decorate_core: "decorate w fs ms = Inr ms' \<Longrightarrow> map mg_core ms' = map mg_core ms"
  unfolding decorate_def
  by (drule core_attachReplyPreviews)
    (simp add: core_attachScheduleTitles core_attachStreamText core_attachDeliveryStatus)

lemma decorate_ids:
  assumes "decorate w fs ms = Inr ms'"
  shows "map mg_id ms' = map mg_id ms"
proof -
  have "map fst (map mg_core ms') = map fst (map mg_core ms)"
    by (simp only: decorate_core [OF assms])
  then show ?thesis by (simp add: mg_core_def comp_def)
qed

section \<open>Pages\<close>

record page =
  pg_Messages :: "message list"
  pg_NextBefore :: "uuid option"
  pg_NextAfter :: "uuid option"
  pg_ConversationStarted :: "int option" \<comment> \<open>the zero time for an agent's page\<close>

record list_input =
  li_Before :: "uuid option"
  li_After :: "uuid option"
  li_Limit :: int

definition pageOf :: "message_row list \<Rightarrow> nat \<Rightarrow> go_error + page" where
  "pageOf rows limit =
     ok_then (map_ok messageFromRow (take limit rows)) (\<lambda>msgs.
       Inr \<lparr>pg_Messages = msgs,
            pg_NextBefore = (if length rows > limit then Some (mg_id (last msgs)) else None),
            pg_NextAfter = None, pg_ConversationStarted = None\<rparr>)"

definition ListMessages :: "world \<Rightarrow> uuid \<Rightarrow> uuid \<Rightarrow> list_input \<Rightarrow> go_error + page" where
  "ListMessages w callerID cid inp =
     ok_then (member (w_db w) callerID cid) (\<lambda>conv.
     ok_then (pageSize (li_Limit inp)) (\<lambda>limit.
     ok_then (refuse_if (li_Before inp \<noteq> None \<and> li_After inp \<noteq> None)
               (InvalidField ''after'' ''invalid_cursor'')) (\<lambda>_.
     ok_then (case li_After inp of
         Some a \<Rightarrow> ok_then (pageOf (ListMessagesAfter (w_db w) callerID cid a (limit + 1)) limit) (\<lambda>p.
             Inr (p\<lparr>pg_NextAfter := pg_NextBefore p, pg_NextBefore := None,
                    pg_ConversationStarted := Some (cnv_created_at conv)\<rparr>))
       | None \<Rightarrow> ok_then (pageOf (ListMessagesBefore (w_db w) callerID cid (li_Before inp) (limit + 1)) limit)
             (\<lambda>p. Inr (p\<lparr>pg_ConversationStarted := Some (cnv_created_at conv)\<rparr>))) (\<lambda>p.
     ok_then (decorate w True (pg_Messages p)) (\<lambda>msgs. Inr (p\<lparr>pg_Messages := msgs\<rparr>))))))"

definition ListMessagesForAgent :: "world \<Rightarrow> uuid \<Rightarrow> uuid \<Rightarrow> list_input \<Rightarrow> go_error + page" where
  "ListMessagesForAgent w agentID cid inp =
     ok_then (agentMember (w_db w) agentID cid) (\<lambda>_.
     ok_then (pageSize (li_Limit inp)) (\<lambda>limit.
     ok_then (pageOf (ListMessagesBeforeForAgent (w_db w) agentID cid (li_Before inp) (limit + 1)) limit) (\<lambda>p.
     ok_then (decorate w False (pg_Messages p)) (\<lambda>msgs. Inr (p\<lparr>pg_Messages := msgs\<rparr>)))))"

definition GetMessages :: "world \<Rightarrow> uuid list \<Rightarrow> go_error + message list" where
  "GetMessages w ids =
     ok_then (map_ok messageFromRow (ListMessagesByIDs (w_db w) ids)) (\<lambda>msgs. decorate w False msgs)"

section \<open>A person's own view\<close>

definition errMessageNotFound :: go_error where "errMessageNotFound = NotFound ''message_not_found''"

definition MarkRead :: "uuid \<Rightarrow> uuid \<Rightarrow> uuid \<Rightarrow> unit handler" where
  "MarkRead userID cid mid w =
     needs (member (w_db w) userID cid) w (\<lambda>_.
     (case GetMessage (w_db w) mid of
        Inl err \<Rightarrow> if IsNoRows err then (Inl (NotFound ''message_not_found''), w) else (Inl (Internal err), w)
      | Inr row \<Rightarrow>
          if msg_conversation_id row \<noteq> cid then (Inl (NotFound ''message_not_found''), w)
          else let (moved, w1) = on_db (MarkRead_sql cid userID mid) w in
            (Inr (), if 0 < moved then notifyTo EventConversationRead [userID] (ReadEvent cid mid) w1 else w1)))"

definition Clear :: "uuid \<Rightarrow> uuid \<Rightarrow> unit handler" where
  "Clear callerID cid w =
     needs (member (w_db w) callerID cid) w (\<lambda>_. (Inr (), exec (ClearConversation cid callerID) w))"

definition Hide :: "uuid \<Rightarrow> uuid \<Rightarrow> uuid \<Rightarrow> unit handler" where
  "Hide callerID cid mid w =
     needs (member (w_db w) callerID cid) w (\<lambda>_.
     (case GetMessage (w_db w) mid of
        Inl err \<Rightarrow> (Inl (if IsNoRows err then errMessageNotFound else Internal err), w)
      | Inr row \<Rightarrow>
          if msg_conversation_id row \<noteq> cid then (Inl errMessageNotFound, w)
          else (Inr (), exec (HideMessage callerID mid) w)))"

end
