(* ===== verification/Sample.thy ===== *)
theory Sample
  imports World
begin

text \<open>
  A small hub used by the witnesses: Ada (user 1) talks to agent 2 in conversation 10, where
  agent 3 is present too; agent 2 has a webhook, agent 3 nothing. Three messages have been said.
\<close>

definition sample_user :: user_row where
  "sample_user = \<lparr>usr_id = 1, usr_display_name = str ''Ada'', usr_locale = ''en'', usr_created_at = 0, usr_updated_at = 0,
     usr_deleted_at = None, usr_avatar_media_id = None, usr_timezone = ''UTC''\<rparr>"

definition sample_agent :: "uuid \<Rightarrow> agent_row" where
  "sample_agent i = \<lparr>agt_id = i, agt_owner_user_id = 1, agt_handle = (if i = 2 then ''helper'' else ''scribe''), agt_display_name = str ''Helper'',
     agt_description = [], agt_created_at = 0, agt_updated_at = 0, agt_deleted_at = None,
     agt_avatar_media_id = None, agt_starters = Doc [], agt_private = False, agt_listed = True,
     agt_supports_schedules = True\<rparr>"

definition sample_webhook :: binding_row where
  "sample_webhook = \<lparr>bnd_id = 9, bnd_agent_id = 2, bnd_mode = ModeWebhook, bnd_webhook_url = Some [],
     bnd_secret_hash = [], bnd_status = StatusIdle, bnd_last_seen_at = None, bnd_created_at = 0,
     bnd_revoked_at = None, bnd_failure_streak_started_at = None\<rparr>"

definition sample_member :: "participant_kind \<Rightarrow> uuid \<Rightarrow> int \<Rightarrow> participant_row" where
  "sample_member k i joined = \<lparr>prt_conversation_id = 10, prt_kind = k,
     prt_user_id = (if k = ParticipantUser then Some i else None),
     prt_agent_id = (if k = ParticipantAgent then Some i else None),
     prt_joined_at = joined, prt_cleared_before = None, prt_read_up_to = None\<rparr>"

definition sample_message :: "uuid \<Rightarrow> uuid option \<Rightarrow> uuid option \<Rightarrow> int \<Rightarrow> message_status \<Rightarrow> body \<Rightarrow> message_row" where
  "sample_message i u a t st b = \<lparr>msg_id = i, msg_conversation_id = 10,
     msg_sender_kind = (if u = None then ParticipantAgent else ParticipantUser),
     msg_sender_user_id = u, msg_sender_agent_id = a, msg_body = Doc b, msg_created_at = t,
     msg_idempotency_key = None, msg_status = st, msg_truncated = False,
     msg_reply_to_message_id = None, msg_signature = None, msg_stopped = False, msg_schedule_id = None\<rparr>"

definition sample_offer :: body where
  "sample_offer = empty_body\<lparr>bd_text := str ''Pay now?'',
     bd_buttons := [[\<lparr>btn_id = ''yes'', btn_url = [], btn_label = str ''Yes'', btn_style = ''''\<rparr>]]\<rparr>"

definition sample_messages :: "message_row list" where
  "sample_messages = [
     sample_message 101 (Some 1) None 5 MessageComplete (empty_body\<lparr>bd_text := str ''Hello''\<rparr>),
     sample_message 102 None (Some 2) 20 MessageComplete sample_offer,
     sample_message 103 None (Some 2) 30 MessageStreaming empty_body]"

definition sample_db :: db where
  "sample_db = empty_db\<lparr>db_users := [sample_user], db_agents := [sample_agent 2, sample_agent 3],
     db_bindings := [sample_webhook],
     db_conversations := [\<lparr>cnv_id = 10, cnv_kind = ''dm'', cnv_created_at = 0\<rparr>],
     db_participants := [sample_member ParticipantUser 1 0, sample_member ParticipantAgent 2 0,
       sample_member ParticipantAgent 3 10],
     db_messages := sample_messages\<rparr>"

definition sample_env :: env where
  "sample_env = \<lparr>env_new_id = (\<lambda>n. of_nat (1000 + n)), env_signer = Some (\<lambda>c. [length (sc_Text c)]),
     env_url_parse = (\<lambda>_. None), env_push = True,
     env_random = of_nat, env_sha256 = (\<lambda>s. take 32 (map of_char (rev s) @ replicate 32 0)),
     env_zone = (\<lambda>tz. if tz = ''UTC'' then Some (\<lambda>s. (0, - (2 ^ 63), 2 ^ 63 - 1)) else None),
     env_lower = (\<lambda>t. t), env_mail_address = Some, env_code = (\<lambda>n. n), env_mailer = (\<lambda>m. True)\<rparr>"

definition sample_world :: world where
  "sample_world = \<lparr>w_db = sample_db, w_limiter = Redis Map.empty,
     w_streams = Some (stream_open 30 (2, 103) 10 [1] no_streams), w_now = 40, w_ids = 0,
     w_events = [], w_landed = [], w_mail = [], w_blobs = Map.empty\<rparr>"

lemmas sample_row_defs = sample_user_def sample_agent_def sample_webhook_def sample_member_def
  sample_message_def sample_messages_def sample_offer_def empty_body_def

lemmas sample_defs = sample_row_defs sample_db_def sample_world_def sample_env_def empty_db_def

lemma sample_db_ok: "db_ok sample_db"
  by (simp add: sample_db_def empty_db_def sample_row_defs db_ok_def participants_ok_def messages_ok_def
      deliveries_ok_def bindings_ok_def contacts_ok_def agents_ok_def tokens_ok_def)

lemma sample_world_db [simp]: "w_db sample_world = sample_db"
  by (simp add: sample_world_def)

lemma sample_tables:
  "db_users sample_db = [sample_user]" "db_agents sample_db = [sample_agent 2, sample_agent 3]"
  "db_bindings sample_db = [sample_webhook]" "db_messages sample_db = sample_messages"
  "db_conversations sample_db = [\<lparr>cnv_id = 10, cnv_kind = ''dm'', cnv_created_at = 0\<rparr>]"
  "db_participants sample_db = [sample_member ParticipantUser 1 0, sample_member ParticipantAgent 2 0,
       sample_member ParticipantAgent 3 10]"
  "db_deliveries sample_db = []" "db_contacts sample_db = []" "db_media sample_db = []"
  "db_schedules sample_db = []" "db_hides sample_db = []" "db_tokens sample_db = []"
  by (simp_all add: sample_db_def empty_db_def)

end
