(* ===== verification/Paging.thy ===== *)
theory Paging
  imports History Sample
begin

text \<open>
  Walking history page by page. \<open>pager\<close> is the contract of a page query: it returns the first
  rows of an ordered view that come after a cursor. Inside it, once: a client that follows
  the cursors reads the whole view, in order, each row once. The queries of a person, of an
  agent, of a device catching up and of a backend reading its events are its instances.
\<close>

text \<open>A client that asks for pages until a page names no further cursor.\<close>

fun read_pages :: "('k option \<Rightarrow> 'e + ('m list \<times> 'k option)) \<Rightarrow> nat \<Rightarrow> 'k option \<Rightarrow> 'e + 'm list" where
  "read_pages fetch 0 cur = Inr []"
| "read_pages fetch (Suc fuel) cur =
     ok_then (fetch cur) (\<lambda>(ms, more_from). case more_from of
         None \<Rightarrow> Inr ms
       | Some c \<Rightarrow> ok_then (read_pages fetch fuel (Some c)) (\<lambda>rest. Inr (ms @ rest)))"

locale pager =
  fixes ok :: "'s \<Rightarrow> bool"
    and query :: "'s \<Rightarrow> 'k option \<Rightarrow> nat \<Rightarrow> 'r list"
    and view :: "'s \<Rightarrow> 'r list"
    and key :: "'r \<Rightarrow> 'k"
    and before :: "'k \<Rightarrow> 'k \<Rightarrow> bool"
  assumes before_trans: "before a b \<Longrightarrow> before b c \<Longrightarrow> before a c"
    and before_irrefl: "\<not> before a a"
    and ordered: "ok s \<Longrightarrow> sorted_wrt (\<lambda>a b. before (key a) (key b)) (view s)"
    and query: "ok s \<Longrightarrow> query s cur n =
        take n (filter (\<lambda>r. case cur of None \<Rightarrow> True | Some c \<Rightarrow> before c (key r)) (view s))"
begin

definition remaining :: "'s \<Rightarrow> 'k option \<Rightarrow> 'r list" where
  "remaining s cur = filter (\<lambda>r. case cur of None \<Rightarrow> True | Some c \<Rightarrow> before c (key r)) (view s)"

lemma remaining_sorted: "ok s \<Longrightarrow> sorted_wrt (\<lambda>a b. before (key a) (key b)) (remaining s cur)"
  unfolding remaining_def by (rule sorted_wrt_filter [OF ordered])

lemma filter_after_nth:
  "sorted_wrt (\<lambda>a b. before (key a) (key b)) L \<Longrightarrow> i < length L \<Longrightarrow>
     filter (\<lambda>r. before (key (L ! i)) (key r)) L = drop (Suc i) L"
proof (induction L arbitrary: i)
  case (Cons x L)
  show ?case
  proof (cases i)
    case 0
    have "filter (\<lambda>r. before (key x) (key r)) L = L"
      using Cons.prems(1) by (simp add: filter_id_conv)
    then show ?thesis using 0 before_irrefl by simp
  next
    case (Suc j)
    have "before (key x) (key (L ! j))" using Cons.prems Suc by simp
    then have "\<not> before (key (L ! j)) (key x)" using before_trans before_irrefl by blast
    then show ?thesis using Cons Suc by simp
  qed
qed simp

lemma remaining_after:
  assumes "ok s" "i < length (remaining s cur)"
  shows "remaining s (Some (key (remaining s cur ! i))) = drop (Suc i) (remaining s cur)"
proof -
  let ?L = "remaining s cur" let ?k = "key (remaining s cur ! i)"
  have "(case cur of None \<Rightarrow> True | Some c \<Rightarrow> before c ?k)"
  proof -
    have "remaining s cur ! i \<in> set (remaining s cur)" using assms(2) by (rule nth_mem)
    then show ?thesis unfolding remaining_def set_filter by blast
  qed
  then have "filter (\<lambda>r. before ?k (key r)) (view s) = filter (\<lambda>r. before ?k (key r)) ?L"
    unfolding remaining_def filter_filter
    by (intro filter_cong refl) (auto intro: before_trans split: option.splits)
  then show ?thesis
    using filter_after_nth [OF remaining_sorted [OF assms(1)] assms(2)] by (simp add: remaining_def)
qed

text \<open>A client asking for \<open>n + 1\<close> rows, keeping \<open>n\<close>, and going on from the last one kept.\<close>

fun walk :: "'s \<Rightarrow> nat \<Rightarrow> nat \<Rightarrow> 'k option \<Rightarrow> 'r list list" where
  "walk s n 0 cur = []"
| "walk s n (Suc fuel) cur =
     (let rows = query s cur (n + 1) in
      if n < length rows then take n rows # walk s n fuel (Some (key (last (take n rows))))
      else [rows])"

lemma query_remaining: "ok s \<Longrightarrow> query s cur n = take n (remaining s cur)"
  by (simp add: query remaining_def)

lemma page_step:
  assumes "ok s" "0 < n" "n < length (query s cur (n + 1))"
  shows "take n (query s cur (n + 1)) = take n (remaining s cur)"
    and "remaining s (Some (key (last (take n (query s cur (n + 1)))))) = drop n (remaining s cur)"
proof -
  have len: "n < length (remaining s cur)" using assms by (simp add: query_remaining)
  show t: "take n (query s cur (n + 1)) = take n (remaining s cur)"
    using assms(1) by (simp add: query_remaining min_def)
  have "last (take n (remaining s cur)) = remaining s cur ! (n - 1)"
    using len assms(2) by (subst last_conv_nth) (auto simp: min_def)
  then show "remaining s (Some (key (last (take n (query s cur (n + 1)))))) = drop n (remaining s cur)"
    using remaining_after [OF assms(1), of "n - 1" cur] len assms(2) t by simp
qed

lemma page_last:
  assumes "ok s" "\<not> n < length (query s cur (n + 1))"
  shows "query s cur (n + 1) = remaining s cur"
  using assms by (simp add: query_remaining)

lemma walk_complete:
  "ok s \<Longrightarrow> 0 < n \<Longrightarrow> length (remaining s cur) < fuel \<Longrightarrow> concat (walk s n fuel cur) = remaining s cur"
proof (induction fuel arbitrary: cur)
  case (Suc fuel)
  show ?case
  proof (cases "n < length (query s cur (n + 1))")
    case True
    note step = page_step [OF Suc.prems(1,2) True]
    have "n < length (remaining s cur)" using True Suc.prems(1) by (simp add: query_remaining)
    then have "length (remaining s (Some (key (last (take n (query s cur (n + 1))))))) < fuel"
      using Suc.prems(2,3) step(2) by simp
    with Suc.IH Suc.prems(1,2) True step show ?thesis by (simp add: Let_def)
  next
    case False
    with page_last [OF Suc.prems(1)] show ?thesis by (simp add: Let_def)
  qed
qed simp

text \<open>A service method that serves such pages, one client reading them all.\<close>

lemma read_pages_complete:
  assumes serve: "\<And>cur. \<exists>ms. fetch cur = Inr (ms, if n < length (query s cur (n + 1))
        then Some (key (last (take n (query s cur (n + 1))))) else None)
      \<and> map mkey ms = map key (take n (query s cur (n + 1)))"
    and "ok s" "0 < n" "length (remaining s cur) < fuel"
  shows "\<exists>ms. read_pages fetch fuel cur = Inr ms \<and> map mkey ms = map key (remaining s cur)"
proof -
  have "\<exists>ms. read_pages fetch f cur = Inr ms \<and> map mkey ms = map key (concat (walk s n f cur))" for f
  proof (induction f arbitrary: cur)
    case (Suc f)
    obtain ms where ms: "fetch cur = Inr (ms, if n < length (query s cur (n + 1))
          then Some (key (last (take n (query s cur (n + 1))))) else None)"
      "map mkey ms = map key (take n (query s cur (n + 1)))"
      using serve by blast
    obtain rest where
      "read_pages fetch f (Some (key (last (take n (query s cur (n + 1)))))) = Inr rest"
      "map mkey rest = map key (concat (walk s n f (Some (key (last (take n (query s cur (n + 1))))))))"
      using Suc by blast
    with ms show ?case by (auto simp: Let_def)
  qed simp
  with walk_complete [OF assms(2-4)] show ?thesis by metis
qed

end

section \<open>What each reader may see\<close>

text \<open>A message a person sees: in a conversation they are in, not cleared and not hidden.\<close>

definition person_sees :: "db \<Rightarrow> uuid \<Rightarrow> message_row \<Rightarrow> bool" where
  "person_sees d uid m \<longleftrightarrow> (\<exists>p\<in>set (db_participants d).
     prt_conversation_id p = msg_conversation_id m \<and> prt_user_id p = Some uid \<and> visible_to d p m)"

text \<open>An agent sees what was said in a conversation since it joined it.\<close>

definition agent_sees :: "db \<Rightarrow> uuid \<Rightarrow> message_row \<Rightarrow> bool" where
  "agent_sees d aid m \<longleftrightarrow> (\<exists>p\<in>set (db_participants d).
     prt_conversation_id p = msg_conversation_id m \<and> prt_agent_id p = Some aid
     \<and> prt_joined_at p \<le> msg_created_at m)"

definition person_view :: "uuid \<Rightarrow> uuid \<Rightarrow> db \<Rightarrow> message_row list" where
  "person_view uid cid d =
     newest_first msg_id (filter (\<lambda>m. msg_conversation_id m = cid \<and> person_sees d uid m) (db_messages d))"

definition agent_view :: "uuid \<Rightarrow> uuid \<Rightarrow> db \<Rightarrow> message_row list" where
  "agent_view aid cid d =
     newest_first msg_id (filter (\<lambda>m. msg_conversation_id m = cid \<and> agent_sees d aid m) (db_messages d))"

definition event_view :: "uuid \<Rightarrow> db \<Rightarrow> delivery_row list" where
  "event_view aid d = sort_key dlv_id (filter (\<lambda>r. dlv_agent_id r = aid) (db_deliveries d))"

lemma join_at_most_one:
  "(\<And>l. l \<in> set ls \<Longrightarrow> length (filter (C l) rs) \<le> 1) \<Longrightarrow>
     join_select ls rs C = filter (\<lambda>l. \<exists>r\<in>set rs. C l r) ls"
proof (induction ls)
  case (Cons l ls)
  have "map (\<lambda>_. l) (filter (C l) rs) = (if \<exists>r\<in>set rs. C l r then [l] else [])"
  proof (cases "filter (C l) rs")
    case Nil
    then show ?thesis by (simp add: filter_empty_conv)
  next
    case (Cons r rest)
    with Cons.prems [of l] have "rest = []" by simp
    have "r \<in> set (filter (C l) rs)" using Cons by simp
    then have "\<exists>r\<in>set rs. C l r" by auto
    with Cons \<open>rest = []\<close> show ?thesis by simp
  qed
  with Cons show ?case by (simp add: join_select_def)
qed (simp add: join_select_def)

lemma length_filter_conj: "length (filter (\<lambda>x. P x \<and> Q x) xs) \<le> length (filter P xs)"
  by (induction xs) auto

lemma user_rows_le_1:
  assumes "participants_ok ps"
  shows "length (filter (\<lambda>p. (prt_conversation_id p = cid \<and> prt_user_id p = Some u) \<and> Q p) ps) \<le> 1"
proof -
  let ?J = "\<lambda>p. prt_conversation_id p = cid \<and> prt_user_id p = Some u"
  have "length (filter ?J ps) \<le> 1"
    using user_row_unique [OF assms, of _ cid u] by (cases "filter ?J ps = []") (fastforce simp: filter_empty_conv)+
  with length_filter_conj [of ?J Q ps] show ?thesis by linarith
qed

lemma agent_rows_le_1:
  assumes "participants_ok ps"
  shows "length (filter (\<lambda>p. (prt_conversation_id p = cid \<and> prt_agent_id p = Some a) \<and> Q p) ps) \<le> 1"
proof -
  let ?J = "\<lambda>p. prt_conversation_id p = cid \<and> prt_agent_id p = Some a"
  have "length (filter ?J ps) \<le> 1"
    using agent_row_unique [OF assms, of _ cid a] by (cases "filter ?J ps = []") (fastforce simp: filter_empty_conv)+
  with length_filter_conj [of ?J Q ps] show ?thesis by linarith
qed

lemma ListMessagesBefore_view:
  assumes "db_ok d"
  shows "ListMessagesBefore d u c cur n =
    take n (filter (\<lambda>m. case cur of None \<Rightarrow> True | Some b \<Rightarrow> b > msg_id m) (person_view u c d))"
proof -
  have "join_select (db_messages d) (db_participants d)
       (\<lambda>m p. (prt_conversation_id p = c \<and> prt_user_id p = Some u)
            \<and> msg_conversation_id m = c \<and> visible_to d p m \<and> before_cursor cur m)
      = filter (\<lambda>m. \<exists>p\<in>set (db_participants d). (prt_conversation_id p = c \<and> prt_user_id p = Some u)
            \<and> msg_conversation_id m = c \<and> visible_to d p m \<and> before_cursor cur m) (db_messages d)"
    by (rule join_at_most_one) (rule user_rows_le_1 [OF db_okD(2) [OF assms]])
  also have "\<dots> = filter (before_cursor cur)
      (filter (\<lambda>m. msg_conversation_id m = c \<and> person_sees d u m) (db_messages d))"
    unfolding filter_filter by (rule filter_cong) (auto simp: person_sees_def)
  finally show ?thesis
    unfolding ListMessagesBefore_def person_view_def
    by (simp add: filter_newest_first before_cursor_def [abs_def] cong: option.case_cong)
qed

lemma ListMessagesAfter_view:
  assumes "db_ok d"
  shows "ListMessagesAfter d u c after n = take n (filter (\<lambda>m. after < msg_id m) (rev (person_view u c d)))"
proof -
  have "join_select (db_messages d) (db_participants d)
       (\<lambda>m p. (prt_conversation_id p = c \<and> prt_user_id p = Some u)
            \<and> msg_conversation_id m = c \<and> visible_to d p m \<and> after < msg_id m)
      = filter (\<lambda>m. \<exists>p\<in>set (db_participants d). (prt_conversation_id p = c \<and> prt_user_id p = Some u)
            \<and> msg_conversation_id m = c \<and> visible_to d p m \<and> after < msg_id m) (db_messages d)"
    by (rule join_at_most_one) (rule user_rows_le_1 [OF db_okD(2) [OF assms]])
  also have "\<dots> = filter (\<lambda>m. after < msg_id m)
      (filter (\<lambda>m. msg_conversation_id m = c \<and> person_sees d u m) (db_messages d))"
    unfolding filter_filter by (rule filter_cong) (auto simp: person_sees_def)
  finally show ?thesis
    unfolding ListMessagesAfter_def person_view_def newest_first_def by (simp add: filter_sort)
qed

lemma ListMessagesBeforeForAgent_view:
  assumes "db_ok d"
  shows "ListMessagesBeforeForAgent d a c cur n =
    take n (filter (\<lambda>m. case cur of None \<Rightarrow> True | Some b \<Rightarrow> b > msg_id m) (agent_view a c d))"
proof -
  have "join_select (db_messages d) (db_participants d)
       (\<lambda>m p. (prt_conversation_id p = c \<and> prt_agent_id p = Some a)
            \<and> msg_conversation_id m = c \<and> prt_joined_at p \<le> msg_created_at m \<and> before_cursor cur m)
      = filter (\<lambda>m. \<exists>p\<in>set (db_participants d). (prt_conversation_id p = c \<and> prt_agent_id p = Some a)
            \<and> msg_conversation_id m = c \<and> prt_joined_at p \<le> msg_created_at m \<and> before_cursor cur m) (db_messages d)"
    by (rule join_at_most_one) (rule agent_rows_le_1 [OF db_okD(2) [OF assms]])
  also have "\<dots> = filter (before_cursor cur)
      (filter (\<lambda>m. msg_conversation_id m = c \<and> agent_sees d a m) (db_messages d))"
    unfolding filter_filter by (rule filter_cong) (auto simp: agent_sees_def)
  finally show ?thesis
    unfolding ListMessagesBeforeForAgent_def agent_view_def
    by (simp add: filter_newest_first before_cursor_def [abs_def] cong: option.case_cong)
qed

lemma distinct_map_filter: "distinct (map k xs) \<Longrightarrow> distinct (map k (filter P xs))"
  by (induction xs) auto

lemma view_strict: "db_ok d \<Longrightarrow> sorted_wrt (\<lambda>a b. msg_id a > msg_id b) (newest_first msg_id (filter P (db_messages d)))"
  by (rule newest_first_strict, rule distinct_map_filter) (auto dest: db_okD(3) simp: messages_ok_def)

interpretation person_pager: pager db_ok "\<lambda>d. ListMessagesBefore d u c" "person_view u c" msg_id "(>)"
proof
  fix d :: db and cur n assume "db_ok d"
  then show "ListMessagesBefore d u c cur n =
      take n (filter (\<lambda>m. case cur of None \<Rightarrow> True | Some b \<Rightarrow> b > msg_id m) (person_view u c d))"
    by (rule ListMessagesBefore_view)
qed (auto simp: person_view_def view_strict)

interpretation agent_pager: pager db_ok "\<lambda>d. ListMessagesBeforeForAgent d a c" "agent_view a c" msg_id "(>)"
proof
  fix d :: db and cur n assume "db_ok d"
  then show "ListMessagesBeforeForAgent d a c cur n =
      take n (filter (\<lambda>m. case cur of None \<Rightarrow> True | Some b \<Rightarrow> b > msg_id m) (agent_view a c d))"
    by (rule ListMessagesBeforeForAgent_view)
qed (auto simp: agent_view_def view_strict)

lemma event_view_strict: "db_ok d \<Longrightarrow> sorted_wrt (\<lambda>x y. dlv_id x < dlv_id y) (event_view a d)"
proof -
  assume "db_ok d"
  then have "distinct (map dlv_id (filter (\<lambda>r. dlv_agent_id r = a) (db_deliveries d)))"
    by (intro distinct_map_filter) (auto dest: db_okD(4) simp: deliveries_ok_def)
  from newest_first_strict [OF this]
  show ?thesis by (simp add: event_view_def newest_first_def sorted_wrt_rev)
qed

interpretation event_pager: pager db_ok "\<lambda>d. ListDeliveriesSince d a" "event_view a" dlv_id "(<)"
proof
  fix d :: db and cur n
  show "ListDeliveriesSince d a cur n =
      take n (filter (\<lambda>r. case cur of None \<Rightarrow> True | Some s \<Rightarrow> s < dlv_id r) (event_view a d))"
    by (simp add: ListDeliveriesSince_def event_view_def filter_sort conj_commute)
qed (auto simp: event_view_strict)

interpretation catch_up_pager: pager db_ok
  "\<lambda>d cur n. case cur of None \<Rightarrow> take n (rev (person_view u c d)) | Some a \<Rightarrow> ListMessagesAfter d u c a n"
  "\<lambda>d. rev (person_view u c d)" msg_id "(<)"
proof
  fix d :: db assume "db_ok d"
  then show "sorted_wrt (\<lambda>a b. msg_id a < msg_id b) (rev (person_view u c d))"
    by (simp add: person_view_def view_strict sorted_wrt_rev)
qed (auto simp: ListMessagesAfter_view split: option.splits)

section \<open>Reading the whole history\<close>

definition no_corrupt :: "db \<Rightarrow> bool" where
  "no_corrupt d \<longleftrightarrow> (\<forall>m\<in>set (db_messages d). msg_body m \<noteq> Corrupt)"

lemma messageFromRow_total: "msg_body r \<noteq> Corrupt \<Longrightarrow> \<exists>m. messageFromRow r = Inr m"
  by (cases "msg_body r") (auto simp: messageFromRow_def)

lemma messages_total:
  "\<forall>r\<in>set rows. msg_body r \<noteq> Corrupt \<Longrightarrow> \<exists>ms. map_ok messageFromRow rows = Inr ms"
proof (induction rows)
  case (Cons r rows)
  then show ?case using messageFromRow_total [of r] by auto
qed simp

lemma messages_ids: "map_ok messageFromRow rows = Inr ms \<Longrightarrow> map mg_id ms = map msg_id rows"
  by (rule map_ok_proj) (auto dest: messageFromRow_Inr)

lemma decorate_total: "no_corrupt (w_db w) \<Longrightarrow> \<exists>ms'. decorate w fs ms = Inr ms'"
proof -
  assume nc: "no_corrupt (w_db w)"
  have "\<exists>os. map_ok messageFromRow (ListMessagesByIDs (w_db w) ids) = Inr os" for ids
    using nc by (intro messages_total) (auto simp: no_corrupt_def ListMessagesByIDs_def)
  then show ?thesis
    unfolding decorate_def attachReplyPreviews_def Let_def by (metis ok_then_simps(2))
qed

lemma pageOf_total:
  assumes "\<forall>r\<in>set rows. msg_body r \<noteq> Corrupt" "0 < n"
  shows "\<exists>p. pageOf rows n = Inr p \<and> map mg_id (pg_Messages p) = map msg_id (take n rows)
    \<and> pg_NextBefore p = (if n < length rows then Some (msg_id (last (take n rows))) else None)"
proof -
  have "\<forall>r\<in>set (take n rows). msg_body r \<noteq> Corrupt" using assms(1) by (auto dest: in_set_takeD)
  then obtain ms where ms: "map_ok messageFromRow (take n rows) = Inr ms"
    using messages_total by blast
  have "mg_id (last ms) = msg_id (last (take n rows))" if "n < length rows"
  proof -
    have "ms \<noteq> []" using map_ok_length [OF ms] that assms(2) by auto
    then have "mg_id (last ms) = last (map mg_id ms)" by (simp add: last_map)
    also have "\<dots> = last (map msg_id (take n rows))" by (simp only: messages_ids [OF ms])
    also have "\<dots> = msg_id (last (take n rows))" using that assms(2) by (subst last_map) auto
    finally show ?thesis .
  qed
  with ms messages_ids [OF ms] show ?thesis by (simp add: pageOf_def)
qed

definition person_page :: "world \<Rightarrow> uuid \<Rightarrow> uuid \<Rightarrow> int \<Rightarrow> uuid option \<Rightarrow> go_error + (message list \<times> uuid option)" where
  "person_page w u c limit cur =
     ok_then (ListMessages w u c \<lparr>li_Before = cur, li_After = None, li_Limit = limit\<rparr>)
       (\<lambda>p. Inr (pg_Messages p, pg_NextBefore p))"

definition agent_page :: "world \<Rightarrow> uuid \<Rightarrow> uuid \<Rightarrow> int \<Rightarrow> uuid option \<Rightarrow> go_error + (message list \<times> uuid option)" where
  "agent_page w a c limit cur =
     ok_then (ListMessagesForAgent w a c \<lparr>li_Before = cur, li_After = None, li_Limit = limit\<rparr>)
       (\<lambda>p. Inr (pg_Messages p, pg_NextBefore p))"

lemma set_ListMessagesBefore: "set (ListMessagesBefore d u c cur n) \<subseteq> set (db_messages d)"
  by (auto simp: ListMessagesBefore_def set_join_select dest: in_set_takeD)

lemma set_ListMessagesBeforeForAgent: "set (ListMessagesBeforeForAgent d a c cur n) \<subseteq> set (db_messages d)"
  by (auto simp: ListMessagesBeforeForAgent_def set_join_select dest: in_set_takeD)

lemma person_page_serves:
  assumes "no_corrupt (w_db w)" "member (w_db w) u c = Inr conv" "pageSize limit = Inr n"
  shows "\<exists>ms. person_page w u c limit cur = Inr (ms,
        if n < length (ListMessagesBefore (w_db w) u c cur (n + 1))
        then Some (msg_id (last (take n (ListMessagesBefore (w_db w) u c cur (n + 1))))) else None)
      \<and> map mg_id ms = map msg_id (take n (ListMessagesBefore (w_db w) u c cur (n + 1)))"
proof -
  let ?rows = "ListMessagesBefore (w_db w) u c cur (n + 1)"
  have "\<forall>r\<in>set ?rows. msg_body r \<noteq> Corrupt"
    using assms(1) set_ListMessagesBefore [of "w_db w" u c cur "n + 1"] by (auto simp: no_corrupt_def)
  moreover have "0 < n" using pageSize_ok [OF assms(3)] by simp
  ultimately obtain p where p: "pageOf ?rows n = Inr p" "map mg_id (pg_Messages p) = map msg_id (take n ?rows)"
      "pg_NextBefore p = (if n < length ?rows then Some (msg_id (last (take n ?rows))) else None)"
    using pageOf_total by blast
  obtain ms where ms: "decorate w True (pg_Messages p) = Inr ms" using decorate_total [OF assms(1)] by blast
  show ?thesis
    using p ms decorate_ids [OF ms] assms(2,3) by (simp add: person_page_def ListMessages_def)
qed

lemma agent_page_serves:
  assumes "no_corrupt (w_db w)" "agentMember (w_db w) a c = Inr conv" "pageSize limit = Inr n"
  shows "\<exists>ms. agent_page w a c limit cur = Inr (ms,
        if n < length (ListMessagesBeforeForAgent (w_db w) a c cur (n + 1))
        then Some (msg_id (last (take n (ListMessagesBeforeForAgent (w_db w) a c cur (n + 1))))) else None)
      \<and> map mg_id ms = map msg_id (take n (ListMessagesBeforeForAgent (w_db w) a c cur (n + 1)))"
proof -
  let ?rows = "ListMessagesBeforeForAgent (w_db w) a c cur (n + 1)"
  have "\<forall>r\<in>set ?rows. msg_body r \<noteq> Corrupt"
    using assms(1) set_ListMessagesBeforeForAgent [of "w_db w" a c cur "n + 1"] by (auto simp: no_corrupt_def)
  moreover have "0 < n" using pageSize_ok [OF assms(3)] by simp
  ultimately obtain p where p: "pageOf ?rows n = Inr p" "map mg_id (pg_Messages p) = map msg_id (take n ?rows)"
      "pg_NextBefore p = (if n < length ?rows then Some (msg_id (last (take n ?rows))) else None)"
    using pageOf_total by blast
  obtain ms where ms: "decorate w False (pg_Messages p) = Inr ms" using decorate_total [OF assms(1)] by blast
  show ?thesis
    using p ms decorate_ids [OF ms] assms(2,3) by (simp add: agent_page_def ListMessagesForAgent_def)
qed

text \<open>
  C32. A person who follows the cursors of \<open>ListMessages\<close> from the newest page reads exactly the
  messages they may see, newest first, each once: nothing said in the conversation is missing
  unless they cleared or hid it, nothing appears twice, and the walk ends.
\<close>

theorem person_reads_whole_history:
  assumes "db_ok (w_db w)" "no_corrupt (w_db w)" "member (w_db w) u c = Inr conv"
    and "pageSize limit = Inr n" "length (person_view u c (w_db w)) < fuel"
  shows "\<exists>ms. read_pages (person_page w u c limit) fuel None = Inr ms
    \<and> map mg_id ms = map msg_id (person_view u c (w_db w))"
  using person_pager.read_pages_complete
    [OF person_page_serves [OF assms(2-4)] assms(1), of None fuel] pageSize_ok [OF assms(4)] assms(5)
  by (simp add: person_pager.remaining_def)

theorem person_reads_whole_history_witness:
  "\<exists>ms. read_pages (person_page sample_world 1 10 2) 5 None = Inr ms
    \<and> map mg_id ms = map msg_id (person_view 1 10 sample_db)"
proof -
  have v: "length (person_view 1 10 sample_db) \<le> 3"
    unfolding person_view_def newest_first_def length_rev length_sort sample_tables
    by (rule order_trans [OF length_filter_le]) (simp add: sample_messages_def)
  have "member sample_db 1 10 = Inr \<lparr>cnv_id = 10, cnv_kind = ''dm'', cnv_created_at = 0\<rparr>"
    by (simp add: member_def GetConversation_def IsUserParticipant_def sample_tables sample_member_def)
  then show ?thesis
    using person_reads_whole_history [of sample_world 1 10 _ 2 2 5] sample_db_ok v
    by (simp add: no_corrupt_def sample_tables sample_messages_def sample_message_def pageSize_def limit_defs)
qed

text \<open>
  An agent walking its history reads exactly what was said in the conversation since the
  moment it joined, newest first, each message once: nothing from before it joined is ever
  handed to it, on any page.
\<close>

theorem agent_reads_history_since_joining:
  assumes "db_ok (w_db w)" "no_corrupt (w_db w)" "agentMember (w_db w) a c = Inr conv"
    and "pageSize limit = Inr n" "length (agent_view a c (w_db w)) < fuel"
  shows "\<exists>ms. read_pages (agent_page w a c limit) fuel None = Inr ms
    \<and> map mg_id ms = map msg_id (agent_view a c (w_db w))
    \<and> (\<forall>r\<in>set (agent_view a c (w_db w)). \<exists>p\<in>set (db_participants (w_db w)).
         prt_agent_id p = Some a \<and> prt_conversation_id p = c \<and> prt_joined_at p \<le> msg_created_at r)"
  using agent_pager.read_pages_complete
    [OF agent_page_serves [OF assms(2-4)] assms(1), of None fuel] pageSize_ok [OF assms(4)] assms(5)
  by (auto simp: agent_pager.remaining_def agent_view_def agent_sees_def)

theorem agent_reads_history_since_joining_witness:
  "\<exists>ms. read_pages (agent_page sample_world 3 10 0) 5 None = Inr ms
    \<and> map mg_id ms = map msg_id (agent_view 3 10 sample_db)"
proof -
  have v: "length (agent_view 3 10 sample_db) \<le> 3"
    unfolding agent_view_def newest_first_def length_rev length_sort sample_tables
    by (rule order_trans [OF length_filter_le]) (simp add: sample_messages_def)
  have "agentMember sample_db 3 10 = Inr \<lparr>cnv_id = 10, cnv_kind = ''dm'', cnv_created_at = 0\<rparr>"
    by (simp add: agentMember_def GetConversation_def IsAgentParticipant_def sample_tables sample_member_def)
  then show ?thesis
    using agent_reads_history_since_joining [of sample_world 3 10 _ 0 50 5] sample_db_ok v
    by (auto simp: no_corrupt_def sample_tables sample_messages_def sample_message_def pageSize_def limit_defs)
qed

end
