(* ===== verification/View.thy ===== *)
theory View
  imports Paging
begin

text \<open>
  A person's own view of a conversation: how far they have read (\<open>read.go\<close>) and what they put
  out of their sight (\<open>hiding.go\<close>). None of it touches what anyone else sees.
\<close>

lemma MarkRead_ok:
  "MarkRead u c mid w = (Inr (), w') \<Longrightarrow>
     w_db w' = snd (MarkRead_sql c u mid (w_db w)) \<and> IsUserParticipant (w_db w) c u"
  by (auto simp: MarkRead_def ok_iffs Let_def on_db_def split: sum.splits if_splits prod.splits)

lemma MarkRead_refused: "MarkRead u c mid w = (Inl e, w') \<Longrightarrow> w' = w"
  by (auto simp: MarkRead_def needs_def Let_def split: sum.splits if_splits prod.splits)

definition at_least :: "uuid option \<Rightarrow> uuid \<Rightarrow> bool" where
  "at_least r mid \<longleftrightarrow> (case r of None \<Rightarrow> False | Some i \<Rightarrow> mid \<le> i)"

definition forward :: "uuid option \<Rightarrow> uuid option \<Rightarrow> bool" where
  "forward r r' \<longleftrightarrow> (case r of None \<Rightarrow> True | Some i \<Rightarrow> at_least r' i)"

text \<open>
  \<open>MarkRead\<close> only ever moves forward. It changes at most how far the caller has read in that
  one conversation: no other column, no other row. Afterwards the caller has read at least up
  to the message, and never less than before, so a device that was behind unreads nothing.
\<close>

theorem MarkRead_only_forward:
  assumes "MarkRead u c mid w = (Inr (), w')"
  shows "list_all2 (\<lambda>p p'. p' = p\<lparr>prt_read_up_to := prt_read_up_to p'\<rparr>
      \<and> forward (prt_read_up_to p) (prt_read_up_to p')
      \<and> (if prt_user_id p = Some u \<and> prt_conversation_id p = c
         then at_least (prt_read_up_to p') mid else p' = p))
    (db_participants (w_db w)) (db_participants (w_db w'))"
  using MarkRead_ok [OF assms]
  by (auto simp: MarkRead_sql_def update_where_def MarkRead_row_def list_all2_map2 forward_def at_least_def
      not_less intro!: list.rel_refl_strong split: option.splits)

theorem MarkRead_only_forward_witness:
  "\<exists>w'. MarkRead 1 10 102 sample_world = (Inr (), w')
    \<and> length (db_participants (w_db w')) = 3"
proof -
  obtain w' where w': "MarkRead 1 10 102 sample_world = (Inr (), w')"
    by (simp add: MarkRead_def member_def GetConversation_def IsUserParticipant_def GetMessage_def
        sample_tables sample_member_def sample_messages_def sample_message_def Let_def split_def)
  from MarkRead_only_forward [OF this] have "length (db_participants (w_db w')) = 3"
    by (auto dest!: list_all2_lengthD simp: sample_tables)
  with w' show ?thesis by blast
qed

section \<open>Clearing and hiding\<close>

lemma bex_update_where:
  "(\<exists>r\<in>set (update_where P f rows). Q r) \<longleftrightarrow> (\<exists>r\<in>set rows. Q (if P r then f r else r))"
  by (auto simp: update_where_def)

lemma Clear_ok: "Clear u c w = (Inr (), w') \<Longrightarrow> w_db w' = ClearConversation c u (w_db w)"
  by (auto simp: Clear_def ok_iffs)

lemma Hide_ok:
  "Hide u c mid w = (Inr (), w') \<Longrightarrow> w_db w' = HideMessage u mid (w_db w) \<and> (\<exists>r. GetMessage (w_db w) mid = Inr r)"
  by (auto simp: Hide_def ok_iffs split: sum.splits if_splits)

lemma visible_to_hidden:
  assumes "prt_user_id p = Some v"
  shows "visible_to (HideMessage u mid d) p m \<longleftrightarrow> visible_to d p m \<and> \<not> (v = u \<and> msg_id m = mid)"
  using assms by (auto simp: visible_to_def HideMessage_def Let_def)

lemma person_sees_hidden:
  "person_sees (HideMessage u mid d) v m \<longleftrightarrow> person_sees d v m \<and> \<not> (v = u \<and> msg_id m = mid)"
proof -
  have "db_participants (HideMessage u mid d) = db_participants d"
    by (simp add: HideMessage_def Let_def)
  then show ?thesis using visible_to_hidden [of _ v u mid d m] by (auto simp: person_sees_def)
qed

text \<open>
  Hiding takes one message out of the caller's view and nothing else: everything else they
  saw they still see in the same order, every other person's view of every conversation and
  every agent's view are exactly as they were.
\<close>

theorem Hide_is_only_for_the_caller:
  assumes "Hide u c mid w = (Inr (), w')"
  shows "person_view v c' (w_db w') =
      (if v = u then filter (\<lambda>m. msg_id m \<noteq> mid) (person_view v c' (w_db w)) else person_view v c' (w_db w))
    \<and> agent_view a c' (w_db w') = agent_view a c' (w_db w)"
proof -
  have d: "w_db w' = HideMessage u mid (w_db w)" using Hide_ok [OF assms] by simp
  have t: "db_messages (HideMessage u mid (w_db w)) = db_messages (w_db w)"
    "db_participants (HideMessage u mid (w_db w)) = db_participants (w_db w)"
    by (simp_all add: HideMessage_def Let_def)
  have "agent_view a c' (w_db w') = agent_view a c' (w_db w)"
    by (simp add: d agent_view_def agent_sees_def t)
  moreover have "person_view v c' (w_db w') =
      (if v = u then filter (\<lambda>m. msg_id m \<noteq> mid) (person_view v c' (w_db w)) else person_view v c' (w_db w))"
    unfolding person_view_def d t(1) person_sees_hidden filter_newest_first filter_filter
    by (auto intro!: arg_cong [of _ _ "newest_first msg_id"] filter_cong)
  ultimately show ?thesis by blast
qed

theorem Hide_is_only_for_the_caller_witness:
  "\<exists>w'. Hide 1 10 101 sample_world = (Inr (), w') \<and> agent_view 2 10 (w_db w') = agent_view 2 10 sample_db"
proof -
  obtain w' where w': "Hide 1 10 101 sample_world = (Inr (), w')"
    by (simp add: Hide_def member_def GetConversation_def IsUserParticipant_def GetMessage_def
        sample_tables sample_member_def sample_messages_def sample_message_def)
  from Hide_is_only_for_the_caller [OF this] w' show ?thesis by auto
qed

lemma newest_first_Nil [simp]: "newest_first k [] = []"
  by (simp add: newest_first_def)

lemma hd_newest_first:
  "newest_first k rows = r # rest \<Longrightarrow> q \<in> set rows \<Longrightarrow> k q \<le> k r"
  using sorted_newest_first [of k rows] set_newest_first [of k rows] by auto

lemma cleared_before_everything:
  assumes "p' \<in> set (db_participants (ClearConversation c u d))" "prt_conversation_id p' = c"
    "prt_user_id p' = Some u" "m \<in> set (db_messages d)" "msg_conversation_id m = c"
  shows "\<not> visible_to (ClearConversation c u d) p' m"
proof -
  let ?new = "newest_first msg_id (filter (\<lambda>m. msg_conversation_id m = c) (db_messages d))"
  have "m \<in> set ?new" using assms by simp
  then obtain r rest where new: "?new = r # rest" by (cases ?new) auto
  have "prt_cleared_before p' = Some (msg_id r)"
    using assms(1-3) new by (auto simp: ClearConversation_def set_update_where)
  moreover have "msg_id m \<le> msg_id r" using hd_newest_first [OF new] assms(4,5) by simp
  ultimately show ?thesis by (auto simp: visible_to_def)
qed

lemma visible_to_cong: "db_hides d' = db_hides d \<Longrightarrow> visible_to d' p m = visible_to d p m"
  by (simp add: visible_to_def)

lemma person_sees_cleared_other:
  assumes "\<not> (v = u \<and> msg_conversation_id m = c)"
  shows "person_sees (ClearConversation c u d) v m = person_sees d v m"
proof -
  define f :: "participant_row \<Rightarrow> participant_row" where "f p = p\<lparr>prt_cleared_before :=
      (case newest_first msg_id (filter (\<lambda>m. msg_conversation_id m = prt_conversation_id p) (db_messages d))
       of [] \<Rightarrow> None | m # _ \<Rightarrow> Some (msg_id m))\<rparr>" for p
  have ps: "db_participants (ClearConversation c u d)
      = update_where (\<lambda>p. prt_conversation_id p = c \<and> prt_user_id p = Some u) f (db_participants d)"
    by (simp add: ClearConversation_def f_def [abs_def])
  have keys: "prt_conversation_id (f p) = prt_conversation_id p" "prt_user_id (f p) = prt_user_id p" for p
    by (simp_all add: f_def)
  have hides: "db_hides (ClearConversation c u d) = db_hides d" by (simp add: ClearConversation_def)
  show ?thesis
    unfolding person_sees_def ps bex_update_where visible_to_cong [OF hides]
    by (rule bex_cong [OF refl]) (use assms in \<open>simp add: keys split: if_split; blast\<close>)
qed

lemma agent_sees_cleared: "agent_sees (ClearConversation c u d) a m = agent_sees d a m"
proof -
  have "db_participants (ClearConversation c u d)
      = map (\<lambda>p. p\<lparr>prt_cleared_before := prt_cleared_before (if prt_conversation_id p = c \<and> prt_user_id p = Some u
          then p\<lparr>prt_cleared_before := (case newest_first msg_id (filter (\<lambda>m. msg_conversation_id m
            = prt_conversation_id p) (db_messages d)) of [] \<Rightarrow> None | m # _ \<Rightarrow> Some (msg_id m))\<rparr> else p)\<rparr>)
        (db_participants d)"
    by (simp add: ClearConversation_def update_where_def)
  then show ?thesis by (simp add: agent_sees_def)
qed

text \<open>
  Clearing empties the caller's view of that conversation, of everything said so far, and
  only that: their other conversations, every other person's view, and every agent's view are
  exactly as they were. What is said afterwards, under a newer id, they see.
\<close>

theorem Clear_empties_only_my_view:
  assumes "Clear u c w = (Inr (), w')"
  shows "person_view v c' (w_db w') = (if v = u \<and> c' = c then [] else person_view v c' (w_db w))
    \<and> agent_view a c' (w_db w') = agent_view a c' (w_db w)"
proof -
  let ?d = "w_db w" let ?d' = "ClearConversation c u (w_db w)"
  have d: "w_db w' = ?d'" by (rule Clear_ok [OF assms])
  have t: "db_messages ?d' = db_messages ?d" "db_hides ?d' = db_hides ?d"
    by (simp_all add: ClearConversation_def)
  have other: "person_sees ?d' v m = person_sees ?d v m" if "\<not> (v = u \<and> msg_conversation_id m = c)" for m
    using that by (rule person_sees_cleared_other)
  have mine: "\<not> person_sees ?d' u m" if "m \<in> set (db_messages ?d)" "msg_conversation_id m = c" for m
    using cleared_before_everything [of _ c u ?d m] that by (auto simp: person_sees_def)
  have ag: "agent_sees ?d' a m = agent_sees ?d a m" for m
    by (rule agent_sees_cleared)
  have "person_view v c' ?d' = (if v = u \<and> c' = c then [] else person_view v c' ?d)"
  proof (cases "v = u \<and> c' = c")
    case True
    then have "filter (\<lambda>m. msg_conversation_id m = c' \<and> person_sees ?d' v m) (db_messages ?d) = []"
      using mine by (auto simp: filter_empty_conv)
    with True t(1) show ?thesis by (simp add: person_view_def)
  next
    case False
    have "filter (\<lambda>m. msg_conversation_id m = c' \<and> person_sees ?d' v m) (db_messages ?d)
        = filter (\<lambda>m. msg_conversation_id m = c' \<and> person_sees ?d v m) (db_messages ?d)"
      by (rule filter_cong) (use False other in auto)
    with False t(1) show ?thesis unfolding person_view_def by (simp only: if_False)
  qed
  moreover have "agent_view a c' ?d' = agent_view a c' ?d" by (simp add: agent_view_def ag t(1))
  ultimately show ?thesis using d by simp
qed

theorem Clear_empties_only_my_view_witness:
  "\<exists>w'. Clear 1 10 sample_world = (Inr (), w') \<and> person_view 1 10 (w_db w') = []"
proof -
  obtain w' where w': "Clear 1 10 sample_world = (Inr (), w')"
    by (simp add: Clear_def member_def GetConversation_def IsUserParticipant_def sample_tables sample_member_def)
  from Clear_empties_only_my_view [OF this] w' show ?thesis by auto
qed

end
