(* ===== verification/Messages.thy ===== *)
theory Messages
  imports View
begin

text \<open>
  Sending (\<open>conversations/messages.go\<close>, \<open>attachments.go\<close>, \<open>signature.go\<close>, \<open>deliveries.go\<close>:
  \<open>fanOut\<close>, and the schedule tag of \<open>schedules_agent.go\<close>).

  \<open>create\<close> is the composition the code has: compose and check, answer a retry, spend from the
  limiter, one transaction (message, tap, attachments, outbox rows), then announce. The part up
  to the retry is \<open>prepare\<close>, the rest \<open>commit\<close>, so that two sends that were both prepared
  before either committed can be talked about.
\<close>

section \<open>Signatures\<close>

definition signedPayload :: "message \<Rightarrow> signed_content" where
  "signedPayload m = \<lparr>sc_ID = mg_id m, sc_ConversationID = mg_conversation_id m,
     sc_SenderKind = snd_kind (mg_sender m), sc_SenderID = snd_id (mg_sender m),
     sc_Text = bd_text (mg_body m), sc_Attachments = map att_media_id (bd_attachments (mg_body m)),
     sc_Buttons = bd_buttons (mg_body m), sc_QuickReplies = bd_quick_replies (mg_body m),
     sc_Action = bd_action (mg_body m),
     sc_ReplyTo = (case mg_reply_to m of None \<Rightarrow> None
        | Some r \<Rightarrow> if rr_id r \<noteq> uuid_Nil then Some (rr_id r) else None),
     sc_Truncated = mg_truncated m\<rparr>"

definition sign :: "env \<Rightarrow> message \<Rightarrow> signature option" where
  "sign e m = map_option (\<lambda>f. f (signedPayload m)) (env_signer e)"

definition Verify :: "env \<Rightarrow> message \<Rightarrow> bool" where
  "Verify e m = (case env_signer e of None \<Rightarrow> False
     | Some f \<Rightarrow> (case mg_signature m of None \<Rightarrow> False
        | Some sg \<Rightarrow> sg \<noteq> [] \<and> sg = f (signedPayload m)))"

section \<open>The schedule a message is sent for\<close>

definition scheduleFromRow :: "schedule_row \<Rightarrow> go_error + schedule" where
  "scheduleFromRow r = (case scd_cadence r of
       Corrupt \<Rightarrow> Inl (Internal (PlainError OtherCause))
     | Doc c \<Rightarrow> Inr \<lparr>sch_id = scd_id r, sch_agent_id = scd_agent_id r,
         sch_conversation_id = scd_conversation_id r, sch_title = scd_title r,
         sch_instruction = scd_instruction r, sch_cadence = c, sch_status = scd_status r,
         sch_created_by = scd_created_by r, sch_last_run_at = scd_last_run_at r,
         sch_created_at = scd_created_at r, sch_updated_at = scd_updated_at r,
         sch_deleted = (scd_deleted_at r \<noteq> None)\<rparr>)"

definition scheduleChanged :: "env \<Rightarrow> schedule \<Rightarrow> bool \<Rightarrow> world \<Rightarrow> world" where
  "scheduleChanged e s nudgeAgent w =
     (let w1 = notify e EventScheduleChanged (sch_conversation_id s)
                 (ScheduleChangedEvent (sch_conversation_id s) s) w in
      if nudgeAgent then nudge [sch_agent_id s] w1 else w1)"

definition ranSchedule :: "env \<Rightarrow> uuid \<Rightarrow> world \<Rightarrow> world" where
  "ranSchedule e i w =
     (let w1 = exec (MarkScheduleRan (w_now w) i) w in
      case GetSchedule (w_db w1) i of
        Inl _ \<Rightarrow> w1
      | Inr row \<Rightarrow> (case scheduleFromRow row of Inl _ \<Rightarrow> w1 | Inr s \<Rightarrow> scheduleChanged e s False w1))"

definition errScheduleNotFound :: go_error where "errScheduleNotFound = NotFound ''schedule_not_found''"

definition checkScheduleTag :: "db \<Rightarrow> sender \<Rightarrow> uuid \<Rightarrow> uuid option \<Rightarrow> go_error + unit" where
  "checkScheduleTag d sender cid sid = (case sid of None \<Rightarrow> Inr ()
     | Some i \<Rightarrow>
         if snd_kind sender \<noteq> ParticipantAgent then Inl (InvalidField ''schedule_id'' ''invalid_schedule_id'')
         else (case GetSchedule d i of
             Inl err \<Rightarrow> Inl (if IsNoRows err then errScheduleNotFound else Internal err)
           | Inr row \<Rightarrow>
               if scd_agent_id row \<noteq> snd_id sender \<or> scd_conversation_id row \<noteq> cid then Inl errScheduleNotFound
               else if scd_deleted_at row \<noteq> None then Inl (Conflict ''schedule_deleted'')
               else if scd_status row = SchedulePaused then Inl (Conflict ''schedule_paused'')
               else Inr ()))"

section \<open>Attachments\<close>

definition attachmentsMax :: nat where "attachmentsMax = 10"

definition errUnknownAttachment :: go_error where
  "errUnknownAttachment = InvalidField ''attachments'' ''unknown_attachment''"

definition attachment_of_row :: "media_row \<Rightarrow> attachment" where
  "attachment_of_row r = \<lparr>att_media_id = med_id r, att_kind = med_kind r, att_mime_type = med_mime_type r,
     att_byte_size = med_byte_size r, att_file_name = med_file_name r, att_width = med_width r,
     att_height = med_height r, att_has_thumbnail = (med_thumb_key r \<noteq> None),
     att_duration_ms = med_duration_ms r, att_waveform = med_waveform r\<rparr>"

definition resolveAttachment :: "media_row list \<Rightarrow> sender \<Rightarrow> uuid \<Rightarrow> go_error + attachment" where
  "resolveAttachment rows sender i = (case find (\<lambda>r. med_id r = i) rows of
       None \<Rightarrow> Inl errUnknownAttachment
     | Some r \<Rightarrow>
         if med_owner_kind r \<noteq> snd_kind sender \<or> med_owner_id r \<noteq> snd_id sender then Inl errUnknownAttachment
         else if med_message_id r \<noteq> None then Inl (InvalidField ''attachments'' ''attachment_already_sent'')
         else Inr (attachment_of_row r))"

definition resolveAttachments :: "db \<Rightarrow> sender \<Rightarrow> uuid list \<Rightarrow> go_error + attachment list" where
  "resolveAttachments d sender ids =
     (if ids = [] then Inr []
      else ok_then (refuse_if (length ids > attachmentsMax) (InvalidField ''attachments'' ''too_many_attachments'')) (\<lambda>_.
      ok_then (refuse_if (\<not> distinct ids) (InvalidField ''attachments'' ''invalid_attachment'')) (\<lambda>_.
      map_ok (resolveAttachment (ListMediaByIDs d ids) sender) ids)))"

text \<open>The row count is the whole check.\<close>

definition claimAttachments :: "sender \<Rightarrow> uuid \<Rightarrow> uuid list \<Rightarrow> unit handler" where
  "claimAttachments sender mid ids w =
     (if ids = [] then (Inr (), w)
      else let (n, w1) = on_db (ClaimMedia mid ids (snd_kind sender) (snd_id sender)) w in
        if n \<noteq> length ids then (Inl errUnknownAttachment, w1) else (Inr (), w1))"

section \<open>Composing the body\<close>

record tap =
  tap_source :: message
  tap_button_id :: string

definition invalid_action :: go_error where "invalid_action = InvalidField ''action'' ''invalid_action''"

text \<open>The first button of the message, row by row, that has this id; a url button has none.\<close>

definition find_button :: "button list list \<Rightarrow> string \<Rightarrow> button option" where
  "find_button rows bid = find (\<lambda>b. btn_id b \<noteq> '''' \<and> btn_id b = bid) (concat rows)"

definition resolveTap :: "db \<Rightarrow> uuid \<Rightarrow> action \<Rightarrow> go_error + message \<times> button" where
  "resolveTap d cid a = (case GetMessage d (act_source_message_id a) of
       Inl err \<Rightarrow> Inl (if IsNoRows err then invalid_action else Internal err)
     | Inr row \<Rightarrow> ok_then (messageFromRow row) (\<lambda>source.
         if mg_conversation_id source \<noteq> cid then Inl invalid_action
         else if snd_kind (mg_sender source) \<noteq> ParticipantAgent \<or> mg_status source \<noteq> MessageComplete
         then Inl invalid_action
         else (case find_button (bd_buttons (mg_body source)) (act_button_id a) of
             None \<Rightarrow> Inl invalid_action
           | Some b \<Rightarrow> Inr (source, b))))"

definition composeStream :: "world \<Rightarrow> send_input \<Rightarrow> go_error + body \<times> tap option" where
  "composeStream w inp =
     (if TrimSpace (si_text inp) \<noteq> [] then Inl (InvalidField ''text'' ''stream_with_text'')
      else if si_buttons inp \<noteq> [] \<or> si_quick_replies inp \<noteq> [] then
        Inl (InvalidField ''buttons'' ''stream_with_buttons'')
      else if si_action inp \<noteq> None then Inl (InvalidField ''action'' ''action_not_allowed'')
      else if si_attachments inp \<noteq> [] then Inl (InvalidField ''attachments'' ''stream_with_attachments'')
      else if w_streams w = None then Inl (Internal (PlainError OtherCause))
      else Inr (empty_body, None))"

definition composeUser :: "db \<Rightarrow> sender \<Rightarrow> uuid \<Rightarrow> send_input \<Rightarrow> go_error + body \<times> tap option" where
  "composeUser d sender cid inp =
     (if si_buttons inp \<noteq> [] \<or> si_quick_replies inp \<noteq> [] then
        Inl (InvalidField ''buttons'' ''buttons_not_allowed'')
      else (case si_action inp of
        Some a \<Rightarrow>
          if TrimSpace (si_text inp) \<noteq> [] then Inl (InvalidField ''text'' ''invalid_action'')
          else if si_attachments inp \<noteq> [] then Inl (InvalidField ''attachments'' ''invalid_action'')
          else ok_then (resolveTap d cid a) (\<lambda>(source, b).
            Inr (empty_body\<lparr>bd_text := btn_label b,
                   bd_action := Some \<lparr>act_button_id = btn_id b, act_source_message_id = mg_id source\<rparr>\<rparr>,
                 Some \<lparr>tap_source = source, tap_button_id = btn_id b\<rparr>))
      | None \<Rightarrow>
          ok_then (resolveAttachments d sender (si_attachments inp)) (\<lambda>atts.
          ok_then (validateCaption (si_text inp) (atts \<noteq> [])) (\<lambda>text.
            Inr (empty_body\<lparr>bd_text := text, bd_attachments := atts\<rparr>, None)))))"

definition composeAgent :: "env \<Rightarrow> db \<Rightarrow> sender \<Rightarrow> send_input \<Rightarrow> go_error + body \<times> tap option" where
  "composeAgent e d sender inp =
     (if si_action inp \<noteq> None then Inl (InvalidField ''action'' ''action_not_allowed'')
      else ok_then (resolveAttachments d sender (si_attachments inp)) (\<lambda>atts.
        ok_then (validateCaption (si_text inp) (atts \<noteq> [])) (\<lambda>text.
        ok_then (validateButtons (env_url_parse e) (si_buttons inp)) (\<lambda>buttons.
        ok_then (validateQuickReplies (si_quick_replies inp)) (\<lambda>quick.
          Inr (empty_body\<lparr>bd_text := text, bd_attachments := atts, bd_buttons := buttons,
                 bd_quick_replies := quick\<rparr>, None))))))"

definition composeBody ::
    "env \<Rightarrow> world \<Rightarrow> sender \<Rightarrow> uuid \<Rightarrow> send_input \<Rightarrow> bool \<Rightarrow> go_error + body \<times> tap option" where
  "composeBody e w sender cid inp streaming =
     (if streaming then composeStream w inp
      else (case snd_kind sender of
          ParticipantUser \<Rightarrow> composeUser (w_db w) sender cid inp
        | ParticipantAgent \<Rightarrow> composeAgent e (w_db w) sender inp))"

definition validateReplyTo :: "db \<Rightarrow> uuid \<Rightarrow> uuid option \<Rightarrow> go_error + uuid option" where
  "validateReplyTo d cid i = (case i of None \<Rightarrow> Inr None
     | Some mid \<Rightarrow> (case GetMessage d mid of
           Inl err \<Rightarrow> Inl (if IsNoRows err then InvalidField ''reply_to'' ''invalid_reply_to'' else Internal err)
         | Inr row \<Rightarrow>
             if msg_conversation_id row \<noteq> cid then Inl (InvalidField ''reply_to'' ''invalid_reply_to'')
             else Inr (Some mid)))"

text \<open>The message a sender already created under a key, if any.\<close>

definition GetMessageByKey :: "db \<Rightarrow> sender \<Rightarrow> gotext \<Rightarrow> go_error + message_row" where
  "GetMessageByKey d sender key = (case snd_kind sender of
       ParticipantUser \<Rightarrow> GetMessageByUserKey d (snd_id sender) key
     | ParticipantAgent \<Rightarrow> GetMessageByAgentKey d (snd_id sender) key)"

definition findByKey :: "world \<Rightarrow> sender \<Rightarrow> uuid \<Rightarrow> gotext \<Rightarrow> go_error + send_result option" where
  "findByKey w sender cid key = (case GetMessageByKey (w_db w) sender key of
       Inl err \<Rightarrow> if IsNoRows err then Inr None else Inl (Internal err)
     | Inr row \<Rightarrow> ok_then (messageFromRow row) (\<lambda>msg.
         if mg_conversation_id msg \<noteq> cid then Inl (Conflict ''idempotency_key_reused'')
         else ok_then (decorate w True [msg]) (\<lambda>found.
           Inr (Some \<lparr>sr_message = hd found, sr_created = False\<rparr>))))"

section \<open>Recording\<close>

text \<open>
  \<open>fanOut\<close>: every agent of the conversation but the sender gets an outbox row, already failed
  when it has no backend; the result is the agents with something pending.
\<close>

fun fanOut_loop :: "env \<Rightarrow> message \<Rightarrow> uuid list \<Rightarrow> uuid list handler" where
  "fanOut_loop e m [] w = (Inr [], w)"
| "fanOut_loop e m (a # as) w =
     (if snd_kind (mg_sender m) = ParticipantAgent \<and> snd_id (mg_sender m) = a then fanOut_loop e m as w
      else let b = GetActiveBinding (w_db w) a;
               (status, lastError, waits) = (case b of
                   Inr _ \<Rightarrow> (DeliveryPending, None, [a])
                 | Inl _ \<Rightarrow> (DeliveryFailed, Some ''no_binding'', []));
               (i, w1) = NewID e w in
        needs (case b of Inl err \<Rightarrow> if IsNoRows err then Inr () else Inl (Internal err) | Inr _ \<Rightarrow> Inr ()) w (\<lambda>_.
        let (r, w2) = on_db (CreateDelivery (w_now w) \<lparr>cdp_ID = i, cdp_MessageID = Some (mg_id m),
               cdp_ConversationID = mg_conversation_id m, cdp_AgentID = a,
               cdp_EventType = EventMessageCreated, cdp_Payload = None, cdp_Status = status,
               cdp_LastError = lastError\<rparr>) w1 in
        needs (internal r) w2 (\<lambda>_.
        runs (fanOut_loop e m as w2) (\<lambda>rest w3. (Inr (waits @ rest), w3)))))"

definition fanOut :: "env \<Rightarrow> message \<Rightarrow> uuid list handler" where
  "fanOut e m w = fanOut_loop e m (ListAgentParticipants (w_db w) (mg_conversation_id m)) w"

definition recordTap :: "tap \<Rightarrow> world \<Rightarrow> world" where
  "recordTap t = exec (UpdateMessageBody (mg_id (tap_source t))
     ((mg_body (tap_source t))\<lparr>bd_selected_button_id := tap_button_id t\<rparr>))"

text \<open>The body of the transaction.\<close>

definition sendTx ::
    "env \<Rightarrow> CreateMessageParams \<Rightarrow> tap option \<Rightarrow> sender \<Rightarrow> bool \<Rightarrow> (message \<times> uuid list) handler" where
  "sendTx e params tapped sender streaming w =
     (let (r, w1) = on_db (CreateMessage (w_now w) params) w in
      needs (internal r) w1 (\<lambda>row.
      needs (messageFromRow row) w1 (\<lambda>msg.
      let w2 = (case tapped of None \<Rightarrow> w1 | Some t \<Rightarrow> recordTap t w1) in
      runs (claimAttachments sender (mg_id msg) (map att_media_id (bd_attachments (cmp_Body params))) w2) (\<lambda>_ w3.
      if streaming then (Inr (msg, []), w3)
      else runs (fanOut e msg w3) (\<lambda>pending w4. (Inr (msg, pending), w4))))))"

record prepared =
  prep_body :: body
  prep_tap :: "tap option"
  prep_reply_to :: "uuid option"
  prep_key :: "gotext option"

definition prepare :: "env \<Rightarrow> world \<Rightarrow> sender \<Rightarrow> uuid \<Rightarrow> send_input \<Rightarrow> bool \<Rightarrow> go_error + prepared" where
  "prepare e w sender cid inp streaming =
     ok_then (composeBody e w sender cid inp streaming) (\<lambda>(b, tapped).
     ok_then (validateReplyTo (w_db w) cid (si_reply_to inp)) (\<lambda>replyTo.
     ok_then (validateIdempotencyKey (si_idempotency_key inp)) (\<lambda>key.
     ok_then (checkScheduleTag (w_db w) sender cid (si_schedule_id inp)) (\<lambda>_.
       Inr \<lparr>prep_body = b, prep_tap = tapped, prep_reply_to = replyTo, prep_key = key\<rparr>))))"

definition earlier :: "world \<Rightarrow> sender \<Rightarrow> uuid \<Rightarrow> gotext option \<Rightarrow> go_error + send_result option" where
  "earlier w sender cid key = (case key of None \<Rightarrow> Inr None | Some k \<Rightarrow> findByKey w sender cid k)"

text \<open>A message is signed over what it will say; a stream says nothing yet.\<close>

definition params_of :: "env \<Rightarrow> uuid \<Rightarrow> sender \<Rightarrow> uuid \<Rightarrow> send_input \<Rightarrow> prepared \<Rightarrow> bool \<Rightarrow> CreateMessageParams" where
  "params_of e i sender cid inp p streaming =
     \<lparr>cmp_ID = i, cmp_ConversationID = cid, cmp_SenderKind = snd_kind sender,
      cmp_SenderUserID = (if snd_kind sender = ParticipantUser then Some (snd_id sender) else None),
      cmp_SenderAgentID = (if snd_kind sender = ParticipantAgent then Some (snd_id sender) else None),
      cmp_Body = prep_body p, cmp_IdempotencyKey = prep_key p,
      cmp_Status = (if streaming then MessageStreaming else MessageComplete),
      cmp_ReplyToMessageID = prep_reply_to p,
      cmp_Signature = (if streaming then None else sign e \<lparr>mg_id = i, mg_conversation_id = cid,
         mg_sender = sender, mg_body = prep_body p,
         mg_reply_to = map_option (\<lambda>r. \<lparr>rr_id = r, rr_sender_kind = None, rr_preview = []\<rparr>) (prep_reply_to p),
         mg_status = MessageComplete, mg_truncated = False, mg_stopped = False, mg_schedule_id = None,
         mg_schedule_title = [], mg_delivery_status = None, mg_created_at = 0, mg_signature = None\<rparr>),
      cmp_ScheduleID = si_schedule_id inp\<rparr>"

definition classified :: "go_error \<Rightarrow> go_error" where
  "classified err = (if AsError err \<noteq> None then err else Internal err)"

definition openStream :: "message \<Rightarrow> world \<Rightarrow> world" where
  "openStream m w = on_streams (stream_open (w_now w) (snd_id (mg_sender m), mg_id m)
     (mg_conversation_id m) (ListUserParticipants (w_db w) (mg_conversation_id m))) w"

text \<open>What follows a committed transaction.\<close>

definition announce_sent :: "env \<Rightarrow> uuid \<Rightarrow> send_input \<Rightarrow> bool \<Rightarrow> message \<Rightarrow> uuid list \<Rightarrow> send_result handler" where
  "announce_sent e cid inp streaming msg pending w =
     (let w1 = (case si_schedule_id inp of None \<Rightarrow> w | Some i \<Rightarrow> ranSchedule e i w) in
      needs (decorate w1 True [msg]) w1 (\<lambda>sent.
      let m = hd sent in
      if streaming then
        (Inr \<lparr>sr_message = m, sr_created = True\<rparr>,
         notify e EventMessageStarted cid (MessageCreatedEvent cid m) (openStream m w1))
      else
        (Inr \<lparr>sr_message = m, sr_created = True\<rparr>,
         nudge pending (notify e EventMessageCreated' cid (MessageCreatedEvent cid m) w1))))"

definition commit ::
    "env \<Rightarrow> sender \<Rightarrow> uuid \<Rightarrow> send_input \<Rightarrow> Policy \<Rightarrow> bool \<Rightarrow> prepared \<Rightarrow> send_result handler" where
  "commit e sender cid inp policy streaming p w =
     (let (wait, w1) = allow (if snd_kind sender = ParticipantUser then ''send:user:'' else ''send:agent:'')
                         (snd_id sender) policy w in
      if 0 < wait then (Inl (RateLimited ''rate_limited'' wait), w1)
      else let (i, w2) = NewID e w1 in
        (case WithTx (sendTx e (params_of e i sender cid inp p streaming) (prep_tap p) sender streaming) w2 of
           (Inr (msg, pending), w3) \<Rightarrow> announce_sent e cid inp streaming msg pending w3
         | (Inl err, w3) \<Rightarrow>
             (case prep_key p of
                Some k \<Rightarrow>
                  if IsUniqueViolation err then
                    needs (findByKey w3 sender cid k) w3 (\<lambda>found. (case found of
                        Some r \<Rightarrow> (Inr r, w3) | None \<Rightarrow> (Inl (classified err), w3)))
                  else (Inl (classified err), w3)
              | None \<Rightarrow> (Inl (classified err), w3))))"

definition create :: "env \<Rightarrow> sender \<Rightarrow> uuid \<Rightarrow> send_input \<Rightarrow> Policy \<Rightarrow> bool \<Rightarrow> send_result handler" where
  "create e sender cid inp policy streaming w =
     needs (prepare e w sender cid inp streaming) w (\<lambda>p.
     needs (earlier w sender cid (prep_key p)) w (\<lambda>found. (case found of
         Some r \<Rightarrow> (Inr r, w)
       | None \<Rightarrow> commit e sender cid inp policy streaming p w)))"

definition user_sender :: "uuid \<Rightarrow> sender" where
  "user_sender u = \<lparr>snd_kind = ParticipantUser, snd_id = u\<rparr>"

definition agent_sender :: "uuid \<Rightarrow> sender" where
  "agent_sender a = \<lparr>snd_kind = ParticipantAgent, snd_id = a\<rparr>"

definition SendAsUser :: "env \<Rightarrow> uuid \<Rightarrow> uuid \<Rightarrow> send_input \<Rightarrow> send_result handler" where
  "SendAsUser e userID cid inp w =
     needs (member (w_db w) userID cid) w (\<lambda>_.
     needs (ensureOpen (w_db w) cid) w (\<lambda>_.
     create e (user_sender userID) cid inp userSendPolicy False w))"

definition SendAsAgent :: "env \<Rightarrow> uuid \<Rightarrow> uuid \<Rightarrow> send_input \<Rightarrow> send_result handler" where
  "SendAsAgent e agentID cid inp w =
     needs (agentMember (w_db w) agentID cid) w (\<lambda>_.
     needs (ensureOpen (w_db w) cid) w (\<lambda>_.
     create e (agent_sender agentID) cid inp agentSendPolicy False w))"

definition StartStream :: "env \<Rightarrow> uuid \<Rightarrow> uuid \<Rightarrow> send_input \<Rightarrow> send_result handler" where
  "StartStream e agentID cid inp w =
     needs (agentMember (w_db w) agentID cid) w (\<lambda>_.
     needs (ensureOpen (w_db w) cid) w (\<lambda>_.
     create e (agent_sender agentID) cid inp agentSendPolicy True w))"

end
