(* ===== verification/SendCore.thy ===== *)
theory SendCore
  imports Messages
begin

text \<open>
  What the transaction of a send does, step by step, and the three ways a send ends. The lemmas
  here carry the properties of theory \<open>Sending\<close>.
\<close>

section \<open>The outbox rows of a message\<close>

definition bound :: "db \<Rightarrow> uuid \<Rightarrow> bool" where
  "bound d a \<longleftrightarrow> (\<exists>b. GetActiveBinding d a = Inr b)"

definition is_sender :: "message \<Rightarrow> uuid \<Rightarrow> bool" where
  "is_sender m a \<longleftrightarrow> snd_kind (mg_sender m) = ParticipantAgent \<and> snd_id (mg_sender m) = a"

definition row_for :: "db \<Rightarrow> message \<Rightarrow> delivery_row \<Rightarrow> bool" where
  "row_for d m r \<longleftrightarrow> dlv_message_id r = Some (mg_id m) \<and> dlv_conversation_id r = mg_conversation_id m
     \<and> dlv_event_type r = EventMessageCreated
     \<and> dlv_status r = (if bound d (dlv_agent_id r) then DeliveryPending else DeliveryFailed)
     \<and> dlv_last_error r = (if bound d (dlv_agent_id r) then None else Some ''no_binding'')"

text \<open>Everything of a world but the database and the id counter.\<close>

definition same_surroundings :: "world \<Rightarrow> world \<Rightarrow> bool" where
  "same_surroundings w w' \<longleftrightarrow> w_limiter w' = w_limiter w \<and> w_streams w' = w_streams w
     \<and> w_now w' = w_now w \<and> w_events w' = w_events w \<and> w_landed w' = w_landed w"

lemma bound_append [simp]: "bound (d\<lparr>db_deliveries := ds\<rparr>) a = bound d a"
  by (simp add: bound_def GetActiveBinding_def)

lemma row_for_append [simp]: "row_for (d\<lparr>db_deliveries := ds\<rparr>) m r = row_for d m r"
  by (simp add: row_for_def)

lemma fanOut_loop_ok:
  assumes "fanOut_loop e m as w = (Inr pending, w')"
  shows "\<exists>rows. w_db w' = (w_db w)\<lparr>db_deliveries := db_deliveries (w_db w) @ rows\<rparr>
    \<and> map dlv_agent_id rows = filter (\<lambda>a. \<not> is_sender m a) as
    \<and> (\<forall>r\<in>set rows. row_for (w_db w) m r)
    \<and> pending = filter (bound (w_db w)) (filter (\<lambda>a. \<not> is_sender m a) as)
    \<and> same_surroundings w w'"
  using assms
proof (induction as arbitrary: w pending)
  case Nil
  then show ?case by (auto simp: same_surroundings_def intro!: exI [of _ "[]"])
next
  case (Cons a as)
  show ?case
  proof (cases "is_sender m a")
    case True
    then have "fanOut_loop e m as w = (Inr pending, w')" using Cons.prems by (simp add: is_sender_def)
    from Cons.IH [OF this] True show ?thesis by simp
  next
    case False
    let ?st = "if bound (w_db w) a then DeliveryPending else DeliveryFailed"
    let ?err = "if bound (w_db w) a then None else Some ''no_binding''"
    let ?p = "\<lparr>cdp_ID = env_new_id e (w_ids w), cdp_MessageID = Some (mg_id m),
               cdp_ConversationID = mg_conversation_id m, cdp_AgentID = a,
               cdp_EventType = EventMessageCreated, cdp_Payload = None, cdp_Status = ?st,
               cdp_LastError = ?err\<rparr>"
    let ?row = "delivery_of_params (w_now w) ?p"
    let ?d1 = "(w_db w)\<lparr>db_deliveries := db_deliveries (w_db w) @ [?row]\<rparr>"
    let ?w2 = "w\<lparr>w_ids := Suc (w_ids w), w_db := ?d1\<rparr>"
    obtain rest where rest: "fanOut_loop e m as ?w2 = (Inr rest, w')"
      and pend: "pending = (if bound (w_db w) a then [a] else []) @ rest"
      using Cons.prems False GetActiveBinding_cases [of "w_db w" a]
      by (auto simp: is_sender_def Let_def NewID_def on_db_def bound_def ok_iffs CreateDelivery_def
          split: prod.splits)
    obtain rows where rows: "w_db w' = ?d1\<lparr>db_deliveries := db_deliveries ?d1 @ rows\<rparr>"
      "map dlv_agent_id rows = filter (\<lambda>a. \<not> is_sender m a) as" "\<forall>r\<in>set rows. row_for (w_db w) m r"
      "rest = filter (bound (w_db w)) (filter (\<lambda>a. \<not> is_sender m a) as)" "same_surroundings ?w2 w'"
      using Cons.IH [OF rest] by auto
    have "row_for (w_db w) m ?row" by (simp add: row_for_def delivery_of_params_def)
    with rows pend False show ?thesis
      by (intro exI [of _ "?row # rows"]) (auto simp: delivery_of_params_def same_surroundings_def)
  qed
qed

section \<open>The transaction\<close>

definition tapped_rows :: "tap option \<Rightarrow> message_row list \<Rightarrow> message_row list" where
  "tapped_rows t ms = (case t of None \<Rightarrow> ms | Some t \<Rightarrow>
     update_where (\<lambda>m. msg_id m = mg_id (tap_source t))
       (\<lambda>m. m\<lparr>msg_body := Doc ((mg_body (tap_source t))\<lparr>bd_selected_button_id := tap_button_id t\<rparr>)\<rparr>) ms)"

definition claimed_media :: "uuid \<Rightarrow> sender \<Rightarrow> uuid list \<Rightarrow> media_row list \<Rightarrow> media_row list" where
  "claimed_media mid s ids rows =
     update_where (ClaimMedia_row ids (snd_kind s) (snd_id s)) (\<lambda>r. r\<lparr>med_message_id := Some mid\<rparr>) rows"

lemma claimed_media_Nil [simp]: "claimed_media mid s [] rows = rows"
  by (simp add: claimed_media_def ClaimMedia_row_def update_where_def)

lemma claimAttachments_ok:
  "claimAttachments s mid ids w = (Inr (), w') \<Longrightarrow>
     w' = w\<lparr>w_db := (w_db w)\<lparr>db_media := claimed_media mid s ids (db_media (w_db w))\<rparr>\<rparr>
   \<and> count_where (ClaimMedia_row ids (snd_kind s) (snd_id s)) (db_media (w_db w)) = length ids"
  by (auto simp: claimAttachments_def Let_def on_db_def ClaimMedia_def claimed_media_def ClaimMedia_row_def
      update_where_def count_where_def split: if_splits prod.splits)

lemma CreateMessage_ok:
  assumes "CreateMessage now a d = (Inr row, d')"
  shows "row = message_of_params now a" "d' = d\<lparr>db_messages := db_messages d @ [row]\<rparr>"
    "\<forall>m\<in>set (db_messages d). msg_id m \<noteq> cmp_ID a"
    "\<not> key_used (db_messages d) (message_of_params now a)"
    "\<exists>c\<in>set (db_conversations d). cnv_id c = cmp_ConversationID a"
  using assms by (auto simp: CreateMessage_def Let_def insert_row_def split: if_splits)

text \<open>What a committed send did to the database.\<close>

definition sent_db :: "CreateMessageParams \<Rightarrow> tap option \<Rightarrow> sender \<Rightarrow> int \<Rightarrow> delivery_row list \<Rightarrow> db \<Rightarrow> db" where
  "sent_db a t s now rows d = d\<lparr>
     db_messages := tapped_rows t (db_messages d @ [message_of_params now a]),
     db_media := claimed_media (cmp_ID a) s (map att_media_id (bd_attachments (cmp_Body a))) (db_media d),
     db_deliveries := db_deliveries d @ rows\<rparr>"

lemma ListAgentParticipants_cong: "db_participants d' = db_participants d \<Longrightarrow> ListAgentParticipants d' c = ListAgentParticipants d c"
  by (simp add: ListAgentParticipants_def)

lemma ListUserParticipants_cong: "db_participants d' = db_participants d \<Longrightarrow> ListUserParticipants d' c = ListUserParticipants d c"
  by (simp add: ListUserParticipants_def)

lemma bound_cong: "db_bindings d' = db_bindings d \<Longrightarrow> bound d' = bound d"
  by (rule ext) (simp add: bound_def GetActiveBinding_def)

lemma row_for_cong: "db_bindings d' = db_bindings d \<Longrightarrow> row_for d' = row_for d"
  by (drule bound_cong) (simp add: row_for_def [abs_def])

definition told :: "db \<Rightarrow> message \<Rightarrow> uuid list" where
  "told d m = filter (\<lambda>a. \<not> is_sender m a) (ListAgentParticipants d (mg_conversation_id m))"

lemma sendTx_ok:
  assumes "sendTx e a t s streaming w = (Inr (msg, pending), w')"
  obtains rows where
    "w_db w' = sent_db a t s (w_now w) rows (w_db w)"
    "messageFromRow (message_of_params (w_now w) a) = Inr msg"
    "streaming \<Longrightarrow> rows = [] \<and> pending = []"
    "\<not> streaming \<Longrightarrow> map dlv_agent_id rows = told (w_db w) msg \<and> (\<forall>r\<in>set rows. row_for (w_db w) msg r)
       \<and> pending = filter (bound (w_db w)) (told (w_db w) msg)"
    "\<forall>m\<in>set (db_messages (w_db w)). msg_id m \<noteq> cmp_ID a"
    "\<not> key_used (db_messages (w_db w)) (message_of_params (w_now w) a)"
    "count_where (ClaimMedia_row (map att_media_id (bd_attachments (cmp_Body a))) (snd_kind s) (snd_id s))
       (db_media (w_db w)) = length (bd_attachments (cmp_Body a))"
    "same_surroundings w w'"
proof -
  obtain r d1 where cm0: "CreateMessage (w_now w) a (w_db w) = (r, d1)" by fastforce
  have "needs (internal r) (w\<lparr>w_db := d1\<rparr>) (\<lambda>row. needs (messageFromRow row) (w\<lparr>w_db := d1\<rparr>) (\<lambda>msg.
      runs (claimAttachments s (mg_id msg) (map att_media_id (bd_attachments (cmp_Body a)))
        (case t of None \<Rightarrow> w\<lparr>w_db := d1\<rparr> | Some t \<Rightarrow> recordTap t (w\<lparr>w_db := d1\<rparr>))) (\<lambda>_ w3.
      if streaming then (Inr (msg, []), w3)
      else runs (fanOut e msg w3) (\<lambda>pending w4. (Inr (msg, pending), w4))))) = (Inr (msg, pending), w')"
    using assms by (simp add: sendTx_def Let_def on_db_def cm0)
  then obtain row msg1 where row: "r = Inr row" and msg1: "messageFromRow row = Inr msg1"
    and rest1: "runs (claimAttachments s (mg_id msg1) (map att_media_id (bd_attachments (cmp_Body a)))
        (case t of None \<Rightarrow> w\<lparr>w_db := d1\<rparr> | Some t \<Rightarrow> recordTap t (w\<lparr>w_db := d1\<rparr>))) (\<lambda>_ w3.
      if streaming then (Inr (msg1, []), w3)
      else runs (fanOut e msg1 w3) (\<lambda>pending w4. (Inr (msg1, pending), w4))) = (Inr (msg, pending), w')"
    unfolding needs_Inr internal_Inr by blast
  have "msg1 = msg" using rest1 unfolding runs_Inr by (cases streaming) (auto simp: runs_Inr)
  note msg = msg1 [unfolded this] and rest = rest1 [unfolded this] and cm = cm0 [unfolded row]
  note c = CreateMessage_ok [OF cm]
  have mid: "mg_id msg = cmp_ID a" using messageFromRow_Inr [OF msg] c(1) by (simp add: message_of_params_def)
  let ?d2 = "(w_db w)\<lparr>db_messages := tapped_rows t (db_messages (w_db w) @ [message_of_params (w_now w) a])\<rparr>"
  have w2: "(case t of None \<Rightarrow> w\<lparr>w_db := d1\<rparr> | Some t \<Rightarrow> recordTap t (w\<lparr>w_db := d1\<rparr>)) = w\<lparr>w_db := ?d2\<rparr>"
    using c(1,2) by (cases t) (auto simp: recordTap_def exec_def UpdateMessageBody_def tapped_rows_def)
  obtain w3 where cl: "claimAttachments s (mg_id msg) (map att_media_id (bd_attachments (cmp_Body a))) (w\<lparr>w_db := ?d2\<rparr>)
      = (Inr (), w3)"
    and fan: "(if streaming then (Inr (msg, []), w3)
      else runs (fanOut e msg w3) (\<lambda>pending w4. (Inr (msg, pending), w4))) = (Inr (msg, pending), w')"
    using rest unfolding w2 by (auto simp: runs_Inr)
  note k = claimAttachments_ok [OF cl]
  show ?thesis
  proof (cases streaming)
    case True
    then have w': "w' = w3" and pend: "pending = []" using fan by simp_all
    show ?thesis
    proof (rule that [of "[]"])
      show "w_db w' = sent_db a t s (w_now w) [] (w_db w)"
        using k mid by (simp add: w' sent_db_def)
      show "same_surroundings w w'" using k by (simp add: w' same_surroundings_def)
    qed (use True pend k c msg in simp_all)
  next
    case False
    then have "fanOut_loop e msg (ListAgentParticipants (w_db w3) (mg_conversation_id msg)) w3 = (Inr pending, w')"
      using fan by (auto simp: runs_Inr fanOut_def)
    from fanOut_loop_ok [OF this] obtain rows where r:
      "w_db w' = (w_db w3)\<lparr>db_deliveries := db_deliveries (w_db w3) @ rows\<rparr>"
      "map dlv_agent_id rows = filter (\<lambda>a. \<not> is_sender msg a) (ListAgentParticipants (w_db w3) (mg_conversation_id msg))"
      "\<forall>r\<in>set rows. row_for (w_db w3) msg r"
      "pending = filter (bound (w_db w3)) (filter (\<lambda>a. \<not> is_sender msg a)
          (ListAgentParticipants (w_db w3) (mg_conversation_id msg)))" "same_surroundings w3 w'" by blast
    have d3: "w_db w3 = (?d2)\<lparr>db_media := claimed_media (cmp_ID a) s (map att_media_id (bd_attachments (cmp_Body a))) (db_media (w_db w))\<rparr>"
      using k mid by simp
    have same: "ListAgentParticipants (w_db w3) = ListAgentParticipants (w_db w)" "bound (w_db w3) = bound (w_db w)"
      "row_for (w_db w3) = row_for (w_db w)"
      by (auto simp: d3 intro!: ListAgentParticipants_cong bound_cong row_for_cong)
    show ?thesis
    proof (rule that [of rows])
      show "w_db w' = sent_db a t s (w_now w) rows (w_db w)"
        by (simp add: r(1) d3 sent_db_def)
      show "same_surroundings w w'" using r(5) k by (simp add: same_surroundings_def)
    qed (use r(2-4) k c(1,3,4) msg same False in \<open>simp_all add: told_def\<close>)
  qed
qed

section \<open>A committed send\<close>

definition ran_db :: "uuid option \<Rightarrow> int \<Rightarrow> db \<Rightarrow> db" where
  "ran_db i now d = (case i of None \<Rightarrow> d | Some i \<Rightarrow> MarkScheduleRan now i d)"

lemma scheduleChanged_fields [simp]:
  "w_db (scheduleChanged e s b w) = w_db w" "w_streams (scheduleChanged e s b w) = w_streams w"
  "w_now (scheduleChanged e s b w) = w_now w" "w_limiter (scheduleChanged e s b w) = w_limiter w"
  by (simp_all add: scheduleChanged_def Let_def)

lemma ranSchedule_fields [simp]:
  "w_db (ranSchedule e i w) = MarkScheduleRan (w_now w) i (w_db w)"
  "w_streams (ranSchedule e i w) = w_streams w" "w_now (ranSchedule e i w) = w_now w"
  by (simp_all add: ranSchedule_def Let_def split: sum.splits)

lemma openStream_fields [simp]: "w_db (openStream m w) = w_db w" "w_now (openStream m w) = w_now w"
  by (simp_all add: openStream_def)

lemma announce_sent_ok:
  assumes "announce_sent e c inp streaming msg pending w = (Inr r, w')"
  shows "w_db w' = ran_db (si_schedule_id inp) (w_now w) (w_db w) \<and> sr_created r
    \<and> mg_core (sr_message r) = mg_core msg"
proof -
  let ?w1 = "case si_schedule_id inp of None \<Rightarrow> w | Some i \<Rightarrow> ranSchedule e i w"
  obtain sent where sent: "decorate ?w1 True [msg] = Inr sent"
    and r: "sr_message r = hd sent" "sr_created r" and w': "w_db w' = w_db ?w1"
    using assms unfolding announce_sent_def Let_def needs_Inr
    by (elim exE conjE, cases streaming) (clarsimp, fastforce)+
  have "hd (map mg_core sent) = mg_core msg" using decorate_core [OF sent] by simp
  moreover have "sent \<noteq> []" using decorate_core [OF sent] by auto
  ultimately show ?thesis
    using r w' by (auto simp: hd_map ran_db_def split: option.splits)
qed

lemma no_corrupt_sent_db:
  "no_corrupt d \<Longrightarrow> no_corrupt (ran_db i t (sent_db a tp s now rows d))"
  by (auto simp: no_corrupt_def ran_db_def MarkScheduleRan_def sent_db_def tapped_rows_def
      message_of_params_def update_where_def split: option.splits)

lemma announce_sent_total:
  assumes "no_corrupt (ran_db (si_schedule_id inp) (w_now w) (w_db w))"
  shows "\<exists>r w'. announce_sent e c inp streaming msg pending w = (Inr r, w')"
proof -
  let ?w1 = "case si_schedule_id inp of None \<Rightarrow> w | Some i \<Rightarrow> ranSchedule e i w"
  have "no_corrupt (w_db ?w1)" using assms by (simp add: ran_db_def split: option.splits)
  then obtain sent where "decorate ?w1 True [msg] = Inr sent" using decorate_total by blast
  then show ?thesis by (simp add: announce_sent_def Let_def)
qed

lemma findByKey_not_created: "findByKey w s c k = Inr (Some r) \<Longrightarrow> \<not> sr_created r"
  by (auto simp: findByKey_def ok_iffs split: sum.splits if_splits)

abbreviation sent_params :: "env \<Rightarrow> sender \<Rightarrow> uuid \<Rightarrow> send_input \<Rightarrow> prepared \<Rightarrow> bool \<Rightarrow> world \<Rightarrow> CreateMessageParams" where
  "sent_params e s c inp p streaming w \<equiv> params_of e (env_new_id e (w_ids w)) s c inp p streaming"

text \<open>The world in which the transaction runs: one token spent, one id drawn.\<close>

definition at_tx :: "env \<Rightarrow> sender \<Rightarrow> Policy \<Rightarrow> world \<Rightarrow> world" where
  "at_tx e s pol w = snd (NewID e (snd (allow
     (if snd_kind s = ParticipantUser then ''send:user:'' else ''send:agent:'') (snd_id s) pol w)))"

lemma at_tx_fields [simp]:
  "w_db (at_tx e s pol w) = w_db w" "w_now (at_tx e s pol w) = w_now w"
  "w_streams (at_tx e s pol w) = w_streams w"
  by (simp_all add: at_tx_def)

text \<open>The three ways a commit ends.\<close>

lemma commit_cases:
  assumes "commit e s c inp pol streaming p w = (res, w')"
  obtains (limited) wait where "res = Inl (RateLimited ''rate_limited'' wait)" "w_db w' = w_db w"
  | (recorded) msg pending w3 where
      "sendTx e (sent_params e s c inp p streaming w) (prep_tap p) s streaming (at_tx e s pol w)
        = (Inr (msg, pending), w3)"
      "announce_sent e c inp streaming msg pending w3 = (res, w')"
  | (failed) err w3 where
      "sendTx e (sent_params e s c inp p streaming w) (prep_tap p) s streaming (at_tx e s pol w) = (Inl err, w3)"
      "w_db w' = w_db w"
      "case prep_key p of
         Some k \<Rightarrow> (if IsUniqueViolation err then res = (case findByKey w' s c k of Inl x \<Rightarrow> Inl x
             | Inr (Some r) \<Rightarrow> Inr r | Inr None \<Rightarrow> Inl (classified err)) else res = Inl (classified err))
       | None \<Rightarrow> res = Inl (classified err)"
proof -
  let ?k = "if snd_kind s = ParticipantUser then ''send:user:'' else ''send:agent:''"
  obtain wait w1 where al: "allow ?k (snd_id s) pol w = (wait, w1)" by fastforce
  have f: "w_db w1 = w_db w" "w_ids w1 = w_ids w"
    using allow_fields(6,3) [of ?k "snd_id s" pol w] by (simp_all add: al)
  have tx: "at_tx e s pol w = snd (NewID e w1)" by (simp add: at_tx_def al)
  let ?st = "sendTx e (sent_params e s c inp p streaming w) (prep_tap p) s streaming"
  show thesis
  proof (cases "0 < wait")
    case True
    then show thesis using limited [of wait] assms f by (auto simp: commit_def al)
  next
    case False
    obtain r w3 where st: "?st (at_tx e s pol w) = (r, w3)" by fastforce
    show thesis
    proof (cases r)
      case (Inr x)
      obtain msg pending where x: "x = (msg, pending)" by (cases x)
      have "announce_sent e c inp streaming msg pending w3 = (res, w')"
        using assms False st Inr x f by (simp add: commit_def al NewID_def WithTx_def tx Let_def)
      then show thesis using recorded st Inr x by simp
    next
      case (Inl err)
      let ?w' = "w3\<lparr>w_db := w_db w\<rparr>"
      have c: "(case prep_key p of
                Some k \<Rightarrow>
                  if IsUniqueViolation err then
                    needs (findByKey ?w' s c k) ?w' (\<lambda>found. (case found of
                        Some r \<Rightarrow> (Inr r, ?w') | None \<Rightarrow> (Inl (classified err), ?w')))
                  else (Inl (classified err), ?w')
              | None \<Rightarrow> (Inl (classified err), ?w')) = (res, w')"
        using assms False st Inl f by (simp add: commit_def al NewID_def WithTx_def tx Let_def)
      then have "w' = ?w'"
        by (auto simp: needs_def split: option.splits if_splits sum.splits)
      with c show thesis
        by (intro failed [of err w3])
          (use st Inl in \<open>auto simp: needs_def split: option.splits if_splits sum.splits\<close>)
    qed
  qed
qed

lemma create_Inr:
  "create e s c inp pol st w = (Inr r, w') \<Longrightarrow>
     \<exists>p. prepare e w s c inp st = Inr p
       \<and> (earlier w s c (prep_key p) = Inr (Some r) \<and> w' = w
          \<or> earlier w s c (prep_key p) = Inr None \<and> commit e s c inp pol st p w = (Inr r, w'))"
  by (auto simp: create_def needs_Inr split: option.splits)

lemma commit_error_db:
  assumes "no_corrupt (w_db w)" "commit e s c inp pol st p w = (Inl err, w')"
  shows "w_db w' = w_db w"
  using assms(2)
proof (cases rule: commit_cases)
  case (recorded msg pending w3)
  obtain rows where "w_db w3 = sent_db (sent_params e s c inp p st w) (prep_tap p) s (w_now w) rows (w_db w)"
    by (rule sendTx_ok [OF recorded(1)]) simp
  then have "no_corrupt (ran_db (si_schedule_id inp) (w_now w3) (w_db w3))"
    using no_corrupt_sent_db [OF assms(1)] by simp
  from announce_sent_total [OF this] recorded(2) show ?thesis by (metis prod.inject sum.distinct(1))
qed

lemma create_error_db:
  assumes "no_corrupt (w_db w)" "create e s c inp pol st w = (Inl err, w')"
  shows "w_db w' = w_db w"
  using assms commit_error_db [OF assms(1)]
  by (auto simp: create_def needs_def split: sum.splits option.splits)

lemma earlier_not_created: "earlier w s c k = Inr (Some r) \<Longrightarrow> \<not> sr_created r"
  by (auto simp: earlier_def findByKey_not_created split: option.splits)

lemma earlier_found: "earlier w s c key = Inr (Some r) \<Longrightarrow> \<exists>k. key = Some k \<and> findByKey w s c k = Inr (Some r)"
  by (auto simp: earlier_def split: option.splits)

text \<open>A send that reports a new message recorded it; one that does not found it.\<close>

lemma commit_ok:
  assumes "commit e s c inp pol st p w = (Inr r, w')"
  shows "if sr_created r
    then \<exists>msg pending w3. sendTx e (sent_params e s c inp p st w) (prep_tap p) s st (at_tx e s pol w) = (Inr (msg, pending), w3)
      \<and> announce_sent e c inp st msg pending w3 = (Inr r, w')
    else w_db w' = w_db w \<and> (\<exists>k. prep_key p = Some k \<and> findByKey w' s c k = Inr (Some r))"
  using assms
proof (cases rule: commit_cases)
  case (recorded msg pending w3)
  then show ?thesis using announce_sent_ok [OF recorded(2)] by auto
next
  case (failed err w3)
  then obtain k where "prep_key p = Some k" "findByKey w' s c k = Inr (Some r)"
    by (auto split: option.splits if_splits sum.splits)
  with failed(2) findByKey_not_created show ?thesis by auto
qed simp

lemma create_ok:
  assumes "create e s c inp pol st w = (Inr r, w')"
  obtains p where "prepare e w s c inp st = Inr p"
    "if sr_created r
     then earlier w s c (prep_key p) = Inr None
      \<and> (\<exists>msg pending w3. sendTx e (sent_params e s c inp p st w) (prep_tap p) s st (at_tx e s pol w) = (Inr (msg, pending), w3)
      \<and> announce_sent e c inp st msg pending w3 = (Inr r, w'))
     else w_db w' = w_db w \<and> (\<exists>k. prep_key p = Some k \<and> findByKey w' s c k = Inr (Some r))"
proof -
  obtain p where p: "prepare e w s c inp st = Inr p" and "earlier w s c (prep_key p) = Inr (Some r) \<and> w' = w
      \<or> earlier w s c (prep_key p) = Inr None \<and> commit e s c inp pol st p w = (Inr r, w')"
    using create_Inr [OF assms] by blast
  then show thesis
    using that [OF p] earlier_not_created [of w s c "prep_key p" r] earlier_found [of w s c "prep_key p" r]
      commit_ok [of e s c inp pol st p w r w'] by auto
qed

text \<open>The whole effect of a new message on the database.\<close>

lemma created_effect:
  assumes "create e s c inp pol st w = (Inr r, w')" "sr_created r"
  obtains p msg rows where "prepare e w s c inp st = Inr p"
    "earlier w s c (prep_key p) = Inr None"
    "messageFromRow (message_of_params (w_now w) (sent_params e s c inp p st w)) = Inr msg"
    "mg_core (sr_message r) = mg_core msg"
    "w_db w' = ran_db (si_schedule_id inp) (w_now w)
       (sent_db (sent_params e s c inp p st w) (prep_tap p) s (w_now w) rows (w_db w))"
    "st \<Longrightarrow> rows = []"
    "\<not> st \<Longrightarrow> map dlv_agent_id rows = told (w_db w) msg \<and> (\<forall>x\<in>set rows. row_for (w_db w) msg x)"
    "\<forall>m\<in>set (db_messages (w_db w)). msg_id m \<noteq> env_new_id e (w_ids w)"
    "\<not> key_used (db_messages (w_db w)) (message_of_params (w_now w) (sent_params e s c inp p st w))"
    "count_where (ClaimMedia_row (map att_media_id (bd_attachments (prep_body p))) (snd_kind s) (snd_id s))
       (db_media (w_db w)) = length (bd_attachments (prep_body p))"
proof -
  obtain p msg pending w3 where p: "prepare e w s c inp st = Inr p" "earlier w s c (prep_key p) = Inr None"
    and tx: "sendTx e (sent_params e s c inp p st w) (prep_tap p) s st (at_tx e s pol w) = (Inr (msg, pending), w3)"
    and an: "announce_sent e c inp st msg pending w3 = (Inr r, w')"
    by (rule create_ok [OF assms(1)]) (use assms(2) in auto)
  note a = announce_sent_ok [OF an]
  show thesis
  proof (rule sendTx_ok [OF tx], goal_cases)
    case (1 rows)
    then have now: "w_now w3 = w_now w" by (simp add: same_surroundings_def)
    show thesis
      by (rule that [OF p 1(2) [unfolded at_tx_fields], of rows])
        (use 1 a now in \<open>simp_all add: params_of_def\<close>)
  qed
qed

end
