(* ===== verification/Sending.thy ===== *)
theory Sending
  imports SendCore
begin

text \<open>
  The properties of sending: who may send, that a send is all or nothing, who is told, that a
  retry is answered with the first message, that racing retries make one message, that a file
  is sent once, what a tap records, and that the hub's mark verifies.
\<close>

section \<open>A send that succeeds\<close>

lemma commit_succeeds:
  assumes "no_corrupt (w_db w)"
    and "fst (allow (if snd_kind s = ParticipantUser then ''send:user:'' else ''send:agent:'') (snd_id s) pol w) \<le> 0"
    and "sendTx e (sent_params e s c inp p st w) (prep_tap p) s st (at_tx e s pol w) = (Inr x, w3)"
  shows "\<exists>r w'. commit e s c inp pol st p w = (Inr r, w') \<and> sr_created r"
proof -
  obtain msg pending where x: "x = (msg, pending)" by (cases x)
  obtain rows where "w_db w3 = sent_db (sent_params e s c inp p st w) (prep_tap p) s (w_now w) rows (w_db w)"
    by (rule sendTx_ok [OF assms(3) [unfolded x]]) simp
  then have "no_corrupt (ran_db (si_schedule_id inp) (w_now w3) (w_db w3))"
    using no_corrupt_sent_db [OF assms(1)] by simp
  from announce_sent_total [OF this, of e c st msg pending] obtain r w'
    where an: "announce_sent e c inp st msg pending w3 = (Inr r, w')" by blast
  have "commit e s c inp pol st p w = (Inr r, w')"
    using assms(2,3) an x
    by (simp add: commit_def at_tx_def NewID_def WithTx_def Let_def split_def allow_def)
  then show ?thesis using announce_sent_ok [OF an] by blast
qed

definition hi :: send_input where "hi = (text_input (str ''Hi''))\<lparr>si_idempotency_key := str ''k1''\<rparr>"

definition hi_prepared :: prepared where
  "hi_prepared = \<lparr>prep_body = empty_body\<lparr>bd_text := str ''Hi''\<rparr>, prep_tap = None, prep_reply_to = None,
     prep_key = Some (str ''k1'')\<rparr>"

lemmas text_check_defs = validateCaption_def validateText_def TrimSpace_def str_def ValidString_def
  contains_any_def RuneCount_def limit_defs validateIdempotencyKey_def

lemma hi_prepare: "prepare sample_env sample_world (user_sender 1) 10 hi False = Inr hi_prepared"
  by (simp add: prepare_def composeBody_def composeUser_def user_sender_def hi_def text_input_def
      resolveAttachments_def text_check_defs validateReplyTo_def checkScheduleTag_def Let_def
      empty_body_def hi_prepared_def)

lemmas tx_defs = sendTx_def on_db_def CreateMessage_def Let_def insert_row_def params_of_def
  message_of_params_def user_sender_def text_input_def key_used_def sample_tables sample_user_def
  sample_messages_def sample_message_def sample_env_def messageFromRow_def empty_body_def
  claimAttachments_def fanOut_def ListAgentParticipants_def sample_member_def sender_of_row_def
  GetActiveBinding_def live_binding_def sample_webhook_def NewID_def CreateDelivery_def
  delivery_of_params_def sample_agent_def derefID_def sample_world_def

lemmas bucket_defs = allow_def tokenBucket_def refilled_def live_bucket_def userSendPolicy_def

lemma hi_tx: "\<exists>x w3. sendTx sample_env (sent_params sample_env (user_sender 1) 10 hi hi_prepared False sample_world)
    (prep_tap hi_prepared) (user_sender 1) False (at_tx sample_env (user_sender 1) userSendPolicy sample_world) = (Inr x, w3)"
  by (simp add: tx_defs bucket_defs at_tx_def hi_def hi_prepared_def RuneCount_def str_def)

lemma sample_no_corrupt: "no_corrupt sample_db"
  by (simp add: no_corrupt_def sample_tables sample_messages_def sample_message_def)

lemma hi_commit: "\<exists>r w'. commit sample_env (user_sender 1) 10 hi userSendPolicy False hi_prepared sample_world = (Inr r, w')
    \<and> sr_created r"
proof -
  obtain x w3 where "sendTx sample_env (sent_params sample_env (user_sender 1) 10 hi hi_prepared False sample_world)
    (prep_tap hi_prepared) (user_sender 1) False (at_tx sample_env (user_sender 1) userSendPolicy sample_world) = (Inr x, w3)"
    using hi_tx by blast
  from commit_succeeds [OF _ _ this] show ?thesis
    by (simp add: sample_no_corrupt user_sender_def bucket_defs sample_world_def Let_def)
qed

lemma hi_create: "\<exists>r w'. create sample_env (user_sender 1) 10 hi userSendPolicy False sample_world = (Inr r, w')
    \<and> sr_created r"
proof -
  have "earlier sample_world (user_sender 1) 10 (prep_key hi_prepared) = Inr None"
    by (simp add: earlier_def hi_prepared_def findByKey_def GetMessageByKey_def user_sender_def
        GetMessageByUserKey_def sample_tables sample_messages_def sample_message_def)
  with hi_commit show ?thesis by (simp add: create_def hi_prepare)
qed

lemma hi_send: "\<exists>r w'. SendAsUser sample_env 1 10 hi sample_world = (Inr r, w') \<and> sr_created r"
  using hi_create
  by (simp add: SendAsUser_def member_def GetConversation_def IsUserParticipant_def sample_tables
      sample_member_def ensureOpen_def IsConversationBlocked_def)

section \<open>Who may send, and all or nothing\<close>

lemma mg_core_eq:
  "mg_core m = mg_core m' \<Longrightarrow> mg_id m = mg_id m' \<and> mg_conversation_id m = mg_conversation_id m' \<and> mg_sender m = mg_sender m'
     \<and> mg_status m = mg_status m' \<and> mg_signature m = mg_signature m' \<and> mg_stopped m = mg_stopped m' \<and> mg_truncated m = mg_truncated m'"
  by (simp add: mg_core_def)

lemma findByKey_Some:
  assumes "findByKey w s c k = Inr (Some r)"
  obtains row msg where "GetMessageByKey (w_db w) s k = Inr row" "messageFromRow row = Inr msg"
    "mg_conversation_id msg = c" "mg_core (sr_message r) = mg_core msg" "\<not> sr_created r"
proof -
  obtain row msg found where *: "GetMessageByKey (w_db w) s k = Inr row" "messageFromRow row = Inr msg"
    "mg_conversation_id msg = c" "decorate w True [msg] = Inr found" "r = \<lparr>sr_message = hd found, sr_created = False\<rparr>"
    using assms by (auto simp: findByKey_def ok_iffs split: sum.splits if_splits)
  have "map mg_core found = [mg_core msg]" using decorate_core [OF *(4)] by simp
  then have "mg_core (hd found) = mg_core msg" by (cases found) auto
  with * that show thesis by simp
qed

lemma GetMessageByKey_Inr:
  "GetMessageByKey d s k = Inr row \<Longrightarrow> row \<in> set (db_messages d) \<and> msg_idempotency_key row = Some k
     \<and> (case snd_kind s of ParticipantUser \<Rightarrow> msg_sender_user_id row | ParticipantAgent \<Rightarrow> msg_sender_agent_id row) = Some (snd_id s)"
  by (auto simp: GetMessageByKey_def GetMessageByUserKey_def GetMessageByAgentKey_def ok_iffs
      dest: find_in_set split: participant_kind.splits)

lemma sender_of_keyed_row:
  assumes "messages_ok ms" "row \<in> set ms"
    "(case snd_kind s of ParticipantUser \<Rightarrow> msg_sender_user_id row | ParticipantAgent \<Rightarrow> msg_sender_agent_id row) = Some (snd_id s)"
  shows "sender_of_row row = s"
proof -
  have "(msg_sender_kind row = ParticipantUser) = (msg_sender_user_id row \<noteq> None)"
    "(msg_sender_kind row = ParticipantAgent) = (msg_sender_agent_id row \<noteq> None)"
    using assms(1,2) by (auto simp: messages_ok_def)
  then show ?thesis
    using assms(3) by (cases "snd_kind s"; cases "msg_sender_kind row") (auto simp: sender_of_row_def derefID_def)
qed

lemma sender_of_new_row: "sender_of_row (message_of_params now (params_of e i s c inp p st)) = s"
  by (cases "snd_kind s") (auto simp: sender_of_row_def message_of_params_def params_of_def derefID_def)

lemma new_row_fields:
  "msg_id (message_of_params now (params_of e i s c inp p st)) = i"
  "msg_conversation_id (message_of_params now (params_of e i s c inp p st)) = c"
  "msg_idempotency_key (message_of_params now (params_of e i s c inp p st)) = prep_key p"
  "msg_body (message_of_params now (params_of e i s c inp p st)) = Doc (prep_body p)"
  "msg_sender_user_id (message_of_params now (params_of e i s c inp p st)) =
     (if snd_kind s = ParticipantUser then Some (snd_id s) else None)"
  "msg_sender_agent_id (message_of_params now (params_of e i s c inp p st)) =
     (if snd_kind s = ParticipantAgent then Some (snd_id s) else None)"
  by (simp_all add: message_of_params_def params_of_def)

lemma create_sender:
  assumes "db_ok (w_db w)" "create e s c inp pol st w = (Inr r, w')"
  shows "mg_sender (sr_message r) = s \<and> mg_conversation_id (sr_message r) = c"
proof (cases "sr_created r")
  case True
  then obtain p msg where m: "messageFromRow (message_of_params (w_now w) (sent_params e s c inp p st w)) = Inr msg"
    "mg_core (sr_message r) = mg_core msg"
    using created_effect [OF assms(2)] by metis
  then show ?thesis
    using messageFromRow_Inr [OF m(1)] mg_core_eq [OF m(2)]
    by (simp add: sender_of_new_row new_row_fields)
next
  case False
  then obtain k where k: "w_db w' = w_db w" "findByKey w' s c k = Inr (Some r)"
    using create_ok [OF assms(2)] by metis
  show ?thesis
  proof (rule findByKey_Some [OF k(2)])
    fix row msg
    assume *: "GetMessageByKey (w_db w') s k = Inr row" "messageFromRow row = Inr msg"
      "mg_conversation_id msg = c" "mg_core (sr_message r) = mg_core msg"
    have "sender_of_row row = s"
      using GetMessageByKey_Inr [OF *(1)] sender_of_keyed_row db_okD(3) [OF assms(1)] k(1) by metis
    then show ?thesis using messageFromRow_Inr [OF *(2)] mg_core_eq [OF *(4)] *(3) by simp
  qed
qed





section \<open>Who is told\<close>

lemma bound_live: "bound d a \<longleftrightarrow> (\<exists>b\<in>set (db_bindings d). live_binding a b)"
  using find_none [of "live_binding a" "db_bindings d"] find_in_set [of "live_binding a" "db_bindings d"]
  by (cases "find (live_binding a) (db_bindings d)") (auto simp: bound_def GetActiveBinding_def)

lemma ran_db_tables [simp]:
  "db_deliveries (ran_db i t d) = db_deliveries d" "db_messages (ran_db i t d) = db_messages d"
  "db_media (ran_db i t d) = db_media d" "db_participants (ran_db i t d) = db_participants d"
  "db_contacts (ran_db i t d) = db_contacts d" "db_conversations (ran_db i t d) = db_conversations d"
  "db_bindings (ran_db i t d) = db_bindings d"
  by (simp_all add: ran_db_def MarkScheduleRan_def split: option.splits)

lemma sent_db_tables [simp]:
  "db_deliveries (sent_db a t s now rows d) = db_deliveries d @ rows"
  "db_messages (sent_db a t s now rows d) = tapped_rows t (db_messages d @ [message_of_params now a])"
  "db_media (sent_db a t s now rows d) =
     claimed_media (cmp_ID a) s (map att_media_id (bd_attachments (cmp_Body a))) (db_media d)"
  "db_participants (sent_db a t s now rows d) = db_participants d"
  "db_contacts (sent_db a t s now rows d) = db_contacts d"
  "db_conversations (sent_db a t s now rows d) = db_conversations d"
  "db_schedules (sent_db a t s now rows d) = db_schedules d"
  by (simp_all add: sent_db_def)

text \<open>
  C5. Every agent in the conversation except the sender is told of a new message, exactly once
  and in the order they joined: one outbox row each, for this message and this conversation,
  pending when the agent has a live binding and already failed when it has none. Nothing else
  in the outbox changes.
\<close>

theorem every_other_agent_is_told_once:
  assumes "create e s c inp pol False w = (Inr r, w')" "sr_created r"
  shows "\<exists>rows. db_deliveries (w_db w') = db_deliveries (w_db w) @ rows
    \<and> map dlv_agent_id rows = filter (\<lambda>a. s \<noteq> agent_sender a) (ListAgentParticipants (w_db w) c)
    \<and> (\<forall>x\<in>set rows. dlv_message_id x = Some (mg_id (sr_message r)) \<and> dlv_conversation_id x = c
         \<and> dlv_event_type x = EventMessageCreated
         \<and> dlv_status x = (if \<exists>b\<in>set (db_bindings (w_db w)). live_binding (dlv_agent_id x) b
                            then DeliveryPending else DeliveryFailed))"
proof (rule created_effect [OF assms])
  fix p msg rows
  assume m: "messageFromRow (message_of_params (w_now w) (sent_params e s c inp p False w)) = Inr msg"
    "mg_core (sr_message r) = mg_core msg"
    and db: "w_db w' = ran_db (si_schedule_id inp) (w_now w)
       (sent_db (sent_params e s c inp p False w) (prep_tap p) s (w_now w) rows (w_db w))"
    and rows: "\<not> False \<Longrightarrow> map dlv_agent_id rows = told (w_db w) msg \<and> (\<forall>x\<in>set rows. row_for (w_db w) msg x)"
  have msg: "mg_conversation_id msg = c" "mg_sender msg = s" "mg_id msg = mg_id (sr_message r)"
    using messageFromRow_Inr [OF m(1)] mg_core_eq [OF m(2)] by (simp_all add: sender_of_new_row new_row_fields)
  have "is_sender msg a \<longleftrightarrow> s = agent_sender a" for a
    using msg(2) by (cases s) (auto simp: is_sender_def agent_sender_def)
  then have "told (w_db w) msg = filter (\<lambda>a. s \<noteq> agent_sender a) (ListAgentParticipants (w_db w) c)"
    by (simp add: told_def msg)
  then show ?thesis
    using rows db msg by (intro exI [of _ rows]) (auto simp: row_for_def bound_live)
qed

theorem every_other_agent_is_told_once_witness:
  "\<exists>r w' rows. create sample_env (user_sender 1) 10 hi userSendPolicy False sample_world = (Inr r, w')
    \<and> db_deliveries (w_db w') = rows \<and> map dlv_agent_id rows = [2, 3]"
proof -
  obtain r w' where c: "create sample_env (user_sender 1) 10 hi userSendPolicy False sample_world = (Inr r, w')"
    "sr_created r" using hi_create by blast
  have "ListAgentParticipants sample_db 10 = [2, 3]"
    by (simp add: ListAgentParticipants_def sample_tables sample_member_def)
  with every_other_agent_is_told_once [OF c] c(1) show ?thesis
    by (auto simp: sample_tables user_sender_def agent_sender_def)
qed

section \<open>Retries\<close>

lemma key_used_new_row:
  assumes "prep_key p = Some k" "prep_key p' = Some k"
  shows "key_used (ms @ [message_of_params t (params_of e i s c inp p st)])
      (message_of_params t' (params_of e' i' s c' inp' p' st'))"
  using assms by (cases "snd_kind s") (auto simp: key_used_def new_row_fields)

definition keyed :: "sender \<Rightarrow> gotext \<Rightarrow> message_row \<Rightarrow> bool" where
  "keyed s k m \<longleftrightarrow> (case snd_kind s of ParticipantUser \<Rightarrow> msg_sender_user_id m | ParticipantAgent \<Rightarrow> msg_sender_agent_id m)
      = Some (snd_id s) \<and> msg_idempotency_key m = Some k"

lemma GetMessageByKey_find: "GetMessageByKey d s k = one_row (find (keyed s k) (db_messages d))"
  by (auto simp: GetMessageByKey_def GetMessageByUserKey_def GetMessageByAgentKey_def keyed_def [abs_def]
      split: participant_kind.splits)

lemma keyed_new_row:
  "prep_key p = Some k \<Longrightarrow> keyed s k (message_of_params t (params_of e i s c inp p st))"
  by (cases "snd_kind s") (simp_all add: keyed_def new_row_fields)

lemma not_key_used_keyed:
  assumes "\<not> key_used ms (message_of_params t (params_of e i s c inp p st))" "prep_key p = Some k" "m \<in> set ms"
  shows "\<not> keyed s k m"
  using assms by (cases "snd_kind s") (auto simp: key_used_def keyed_def new_row_fields)

text \<open>A tap changes the body of a message that was there before; the new row it leaves alone.\<close>

definition tap_earlier :: "db \<Rightarrow> tap option \<Rightarrow> bool" where
  "tap_earlier d t \<longleftrightarrow> (case t of None \<Rightarrow> True | Some t \<Rightarrow> \<exists>m\<in>set (db_messages d). msg_id m = mg_id (tap_source t))"

lemma find_tapped:
  assumes "tap_earlier d t" "\<forall>m\<in>set (db_messages d). msg_id m \<noteq> msg_id row"
    and "\<forall>m\<in>set (db_messages d). \<not> keyed s k m" "keyed s k row"
  shows "find (keyed s k) (tapped_rows t (db_messages d @ [row])) = Some row"
proof -
  have none: "find (keyed s k) (db_messages d) = None" using assms(3) by (simp add: find_none)
  show ?thesis
  proof (cases t)
  case None
  then show ?thesis using assms none by (simp add: tapped_rows_def find_append)
next
  case (Some tp)
  have "msg_id row \<noteq> mg_id (tap_source tp)" using assms(1,2) Some by (auto simp: tap_earlier_def)
  moreover have "find (keyed s k) (db_messages d @ [row]) = Some row"
    using assms(4) none by (simp add: find_append)
  moreover have "keyed s k (m\<lparr>msg_body := b\<rparr>) = keyed s k m" for m b
    by (cases "snd_kind s") (simp_all add: keyed_def)
  ultimately show ?thesis
    using Some by (simp add: tapped_rows_def find_update_where del: update_where_append)
  qed
qed

lemma resolveTap_Inr:
  assumes "resolveTap d c a = Inr (source, b)"
  obtains row where "GetMessage d (act_source_message_id a) = Inr row" "messageFromRow row = Inr source"
    "mg_conversation_id source = c" "snd_kind (mg_sender source) = ParticipantAgent"
    "mg_status source = MessageComplete" "find_button (bd_buttons (mg_body source)) (act_button_id a) = Some b"
  using assms by (auto simp: resolveTap_def ok_iffs split: sum.splits if_splits option.splits)

lemma GetMessage_Inr: "GetMessage d i = Inr row \<Longrightarrow> row \<in> set (db_messages d) \<and> msg_id row = i"
  by (auto simp: GetMessage_def ok_iffs dest: find_in_set)

text \<open>A tap names a message that is there.\<close>

definition tap_of :: "db \<Rightarrow> tap option \<Rightarrow> bool" where
  "tap_of d t \<longleftrightarrow> (case t of None \<Rightarrow> True | Some t \<Rightarrow>
     \<exists>row. GetMessage d (mg_id (tap_source t)) = Inr row \<and> messageFromRow row = Inr (tap_source t))"

lemma composeBody_tap_of:
  assumes "composeBody e w s c inp st = Inr (b, t)"
  shows "tap_of (w_db w) t"
proof (cases t)
  case (Some tp)
  then obtain a bt where "resolveTap (w_db w) c a = Inr (tap_source tp, bt)"
    using assms
    by (auto simp: composeBody_def composeStream_def composeUser_def composeAgent_def ok_iffs
        split: if_splits participant_kind.splits option.splits)
  then show ?thesis
    using Some GetMessage_Inr messageFromRow_Inr by (auto elim!: resolveTap_Inr simp: tap_of_def)
qed (simp add: tap_of_def)

lemma composeBody_tap_earlier: "composeBody e w s c inp st = Inr (b, t) \<Longrightarrow> tap_earlier (w_db w) t"
  by (drule composeBody_tap_of) (auto simp: tap_of_def tap_earlier_def dest: GetMessage_Inr split: option.splits)

lemma prepare_Inr:
  assumes "prepare e w s c inp st = Inr p"
  shows "composeBody e w s c inp st = Inr (prep_body p, prep_tap p)"
    "validateReplyTo (w_db w) c (si_reply_to inp) = Inr (prep_reply_to p)"
    "validateIdempotencyKey (si_idempotency_key inp) = Inr (prep_key p)"
    "checkScheduleTag (w_db w) s c (si_schedule_id inp) = Inr ()"
  using assms by (auto simp: prepare_def ok_iffs)

text \<open>Where the row of a new keyed message is found again.\<close>

lemma created_is_found:
  assumes "create e s c inp pol st w = (Inr r, w')" "sr_created r" "no_corrupt (w_db w)"
    and "validateIdempotencyKey (si_idempotency_key inp) = Inr (Some k)" "w_db w2 = w_db w'"
  shows "\<exists>r2. findByKey w2 s c k = Inr (Some r2) \<and> \<not> sr_created r2 \<and> mg_id (sr_message r2) = mg_id (sr_message r)"
proof (rule created_effect [OF assms(1,2)], goal_cases)
  case (1 p msg rows)
  let ?row = "message_of_params (w_now w) (sent_params e s c inp p st w)"
  note pr = prepare_Inr [OF 1(1)]
  have key: "prep_key p = Some k" using pr(3) assms(4) by simp
  have "find (keyed s k) (db_messages (w_db w2)) = Some ?row"
    unfolding assms(5) 1(5) ran_db_tables sent_db_tables
  proof (rule find_tapped)
    show "tap_earlier (w_db w) (prep_tap p)" by (rule composeBody_tap_earlier [OF pr(1)])
    show "\<forall>m\<in>set (db_messages (w_db w)). msg_id m \<noteq> msg_id ?row" using 1(8) by (simp add: new_row_fields)
    show "\<forall>m\<in>set (db_messages (w_db w)). \<not> keyed s k m" using not_key_used_keyed [OF 1(9) key] by blast
    show "keyed s k ?row" by (rule keyed_new_row [OF key])
  qed
  then have g: "GetMessageByKey (w_db w2) s k = Inr ?row" by (simp add: GetMessageByKey_find)
  have mc: "mg_conversation_id msg = c" "mg_id msg = mg_id (sr_message r)"
    using messageFromRow_Inr [OF 1(3)] mg_core_eq [OF 1(4)] by (simp_all add: new_row_fields)
  have "no_corrupt (w_db w2)" using no_corrupt_sent_db [OF assms(3)] assms(5) 1(5) by simp
  then obtain found where f: "decorate w2 True [msg] = Inr found" using decorate_total by blast
  have "map mg_core found = [mg_core msg]" using decorate_core [OF f] by simp
  then have "mg_core (hd found) = mg_core msg" by (cases found) auto
  from mg_core_eq [OF this] show ?case using g 1(3) mc f by (simp add: findByKey_def)
qed


lemma sendTx_key_used:
  assumes "key_used (db_messages (w_db w)) (message_of_params (w_now w) (params_of e i s c inp p st))"
    and "prep_key p = Some k" "1 \<le> RuneCount k" "RuneCount k \<le> 200"
  shows "sendTx e (params_of e i s c inp p st) t s st w = (Inl (Internal (PlainError UniqueViolation)), w)"
  using assms
  by (cases "snd_kind s") (simp_all add: sendTx_def on_db_def CreateMessage_def Let_def params_of_def insert_row_def)

lemma hi_race:
  assumes "create sample_env (user_sender 1) 10 hi userSendPolicy False sample_world = (Inr r1, w1)" "sr_created r1"
  shows "\<exists>r2 w3. commit sample_env (user_sender 1) 10 hi userSendPolicy False hi_prepared
    (sample_world\<lparr>w_db := w_db w1\<rparr>) = (Inr r2, w3)"
proof -
  let ?w2 = "sample_world\<lparr>w_db := w_db w1\<rparr>"
  have k: "validateIdempotencyKey (si_idempotency_key hi) = Inr (Some (str ''k1''))"
    using prepare_Inr(3) [OF hi_prepare] by (simp add: hi_prepared_def)
  have *: "\<And>w. w_db w = w_db w1 \<Longrightarrow> \<exists>r2. findByKey w (user_sender 1) 10 (str ''k1'') = Inr (Some r2)"
    using created_is_found [OF assms _ k] sample_no_corrupt by fastforce
  obtain r where "findByKey ?w2 (user_sender 1) 10 (str ''k1'') = Inr (Some r)" using * [of ?w2] by auto
  then obtain row where "row \<in> set (db_messages (w_db w1))" "msg_idempotency_key row = Some (str ''k1'')"
    "msg_sender_user_id row = Some 1"
    by (rule findByKey_Some) (auto simp: user_sender_def dest!: GetMessageByKey_Inr)
  then have "key_used (db_messages (w_db w1)) (message_of_params t (params_of sample_env i (user_sender 1) 10 hi hi_prepared False))" for t i
    by (auto simp: key_used_def message_of_params_def params_of_def hi_prepared_def user_sender_def)
  then have tx: "sendTx sample_env (params_of sample_env i (user_sender 1) 10 hi hi_prepared False)
      t (user_sender 1) False w = (Inl (Internal (PlainError UniqueViolation)), w)" if "w_db w = w_db w1" for i t w
    using that by (intro sendTx_key_used [where k = "str ''k1''"])
      (simp_all add: hi_prepared_def str_def RuneCount_def)
  have "\<not> 0 < fst (allow ''send:user:'' 1 userSendPolicy ?w2)"
    by (simp add: bucket_defs sample_world_def Let_def)
  moreover have "IsUniqueViolation (Internal (PlainError UniqueViolation))" by (simp add: IsUniqueViolation_def Internal_def)
  moreover obtain r2 where "findByKey ((snd (allow ''send:user:'' 1 userSendPolicy ?w2))
      \<lparr>w_ids := Suc (w_ids sample_world), w_db := w_db w1\<rparr>) (user_sender 1) 10 (str ''k1'') = Inr (Some r2)"
    using * by fastforce
  ultimately show ?thesis
    using tx by (auto simp: commit_def split_def Let_def WithTx_def NewID_def hi_prepared_def user_sender_def)
qed


text \<open>What a send without files is checked against is still so after it was made.\<close>

definition tapped_row :: "tap option \<Rightarrow> message_row \<Rightarrow> message_row" where
  "tapped_row t m = (case t of None \<Rightarrow> m | Some t \<Rightarrow>
     if msg_id m = mg_id (tap_source t)
     then m\<lparr>msg_body := Doc ((mg_body (tap_source t))\<lparr>bd_selected_button_id := tap_button_id t\<rparr>)\<rparr> else m)"

lemma GetMessage_after:
  assumes "GetMessage d i = Inr row"
  shows "GetMessage (ran_db j t' (sent_db a t s now rows d)) i = Inr (tapped_row t row)"
proof -
  have f: "find (\<lambda>m. msg_id m = i) (db_messages d) = Some row"
    using assms by (simp add: GetMessage_def ok_iffs)
  then show ?thesis
    by (cases t) (auto simp: GetMessage_def find_append tapped_rows_def tapped_row_def one_row_def
        find_update_where simp del: update_where_append)
qed

lemma messageFromRow_body:
  "messageFromRow row = Inr m \<Longrightarrow> messageFromRow (row\<lparr>msg_body := Doc b\<rparr>) = Inr (m\<lparr>mg_body := b\<rparr>)"
  by (auto simp: messageFromRow_def sender_of_row_def split: json.splits participant_kind.splits)

lemma resolveTap_after:
  assumes "resolveTap d c x = Inr (source, b)" "t = Some \<lparr>tap_source = source, tap_button_id = bid\<rparr>"
  shows "\<exists>source'. resolveTap (ran_db j t' (sent_db a t s now rows d)) c x = Inr (source', b)"
  using assms(1)
proof (rule resolveTap_Inr)
  fix row
  assume r: "GetMessage d (act_source_message_id x) = Inr row" "messageFromRow row = Inr source"
    "mg_conversation_id source = c" "snd_kind (mg_sender source) = ParticipantAgent"
    "mg_status source = MessageComplete" "find_button (bd_buttons (mg_body source)) (act_button_id x) = Some b"
  let ?b = "(mg_body source)\<lparr>bd_selected_button_id := bid\<rparr>"
  have "tapped_row t row = row\<lparr>msg_body := Doc ?b\<rparr>"
    using messageFromRow_Inr [OF r(2)] by (simp add: tapped_row_def assms(2))
  then show ?thesis
    using GetMessage_after [OF r(1), of j t' a t s now rows] messageFromRow_body [OF r(2), of ?b] r(3-)
    by (simp add: resolveTap_def)
qed

lemma validateReplyTo_after:
  assumes "validateReplyTo d c i = Inr x"
  shows "validateReplyTo (ran_db j t' (sent_db a t s now rows d)) c i = Inr x"
proof (cases i)
  case (Some mid)
  then obtain row where "GetMessage d mid = Inr row" "msg_conversation_id row = c" "x = Some mid"
    using assms by (auto simp: validateReplyTo_def split: sum.splits if_splits)
  then show ?thesis
    using Some GetMessage_after by (auto simp: validateReplyTo_def tapped_row_def split: option.splits)
qed (use assms in \<open>simp add: validateReplyTo_def\<close>)

lemma checkScheduleTag_after:
  assumes "checkScheduleTag d s' c i = Inr ()"
  shows "checkScheduleTag (ran_db j t' (sent_db a t s now rows d)) s' c i = Inr ()"
proof (cases i)
  case (Some k)
  then obtain row where row: "GetSchedule d k = Inr row" "snd_kind s' = ParticipantAgent"
    "scd_agent_id row = snd_id s'" "scd_conversation_id row = c" "scd_deleted_at row = None"
    "scd_status row \<noteq> SchedulePaused"
    using assms by (auto simp: checkScheduleTag_def split: sum.splits if_splits)
  have f: "find (\<lambda>s. scd_id s = k) (db_schedules d) = Some row"
    using row(1) by (simp add: GetSchedule_def ok_iffs)
  have "\<exists>r. GetSchedule (ran_db j t' (sent_db a t s now rows d)) k = Inr r \<and> scd_agent_id r = scd_agent_id row
    \<and> scd_conversation_id r = scd_conversation_id row \<and> scd_deleted_at r = scd_deleted_at row \<and> scd_status r = scd_status row"
    using f by (auto simp: ran_db_def MarkScheduleRan_def GetSchedule_def one_row_def find_update_where split: option.splits)
  with row(2-) show ?thesis by (auto simp: checkScheduleTag_def Some)
qed (simp add: checkScheduleTag_def)

lemma prepare_after:
  assumes "prepare e w s c inp False = Inr p" "si_attachments inp = []"
    and "w_db w2 = ran_db j t' (sent_db a (prep_tap p) s now rows (w_db w))"
  shows "\<exists>p2. prepare e w2 s c inp False = Inr p2 \<and> prep_key p2 = prep_key p"
proof -
  note pr = prepare_Inr [OF assms(1)]
  have "\<exists>b t. composeBody e w2 s c inp False = Inr (b, t)"
  proof (cases "snd_kind s")
    case ParticipantAgent
    then show ?thesis
      using pr(1) assms(2) by (auto simp: composeBody_def composeAgent_def resolveAttachments_def ok_iffs split: if_splits)
  next
    case ParticipantUser
    show ?thesis
    proof (cases "si_action inp")
      case None
      then show ?thesis
        using pr(1) assms(2) ParticipantUser
        by (auto simp: composeBody_def composeUser_def resolveAttachments_def ok_iffs split: if_splits)
    next
      case (Some x)
      then obtain source b where "resolveTap (w_db w) c x = Inr (source, b)"
        "prep_tap p = Some \<lparr>tap_source = source, tap_button_id = btn_id b\<rparr>"
        using pr(1) ParticipantUser by (auto simp: composeBody_def composeUser_def ok_iffs split: if_splits)
      from resolveTap_after [OF this] obtain source' where "resolveTap (w_db w2) c x = Inr (source', b)"
        unfolding assms(3) by blast
      then show ?thesis
        using pr(1) ParticipantUser Some by (auto simp: composeBody_def composeUser_def ok_iffs split: if_splits)
    qed
  qed
  then show ?thesis
    using pr(3) validateReplyTo_after [OF pr(2)] checkScheduleTag_after [OF pr(4)]
    by (auto simp: prepare_def assms(3))
qed



end
