(* ===== verification/Keeps.thy ===== *)
theory Keeps
  imports SendCore
begin

text \<open>
  That the handlers keep the schema's constraints (\<open>db_ok\<close>): one rule for each way a handler is
  put together, and the operations on messages as the first clients. The other components add
  their own, and the root theory joins them into one step relation of the hub.
\<close>

abbreviation well :: "world \<Rightarrow> bool" where "well w \<equiv> db_ok (w_db w)"

named_theorems keeps "handlers that keep the schema's constraints"

lemma well_needs [keeps]:
  "well w \<Longrightarrow> (\<And>x. m = Inr x \<Longrightarrow> well (snd (k x))) \<Longrightarrow> well (snd (needs m w k))"
  by (cases m) auto

lemma well_runs [keeps]:
  "well (snd r) \<Longrightarrow> (\<And>x w1. r = (Inr x, w1) \<Longrightarrow> well w1 \<Longrightarrow> well (snd (k x w1))) \<Longrightarrow> well (snd (runs r k))"
  by (cases r; cases "fst r") auto

lemma well_WithTx [keeps]: "well w \<Longrightarrow> well (snd (fn w)) \<Longrightarrow> well (snd (WithTx fn w))"
  by (auto simp: WithTx_def split: prod.splits sum.splits)

text \<open>A statement whose error ends the handler, and what follows when there was none.\<close>

lemma step_Inr:
  "(case X of (r, w1) \<Rightarrow> needs (internal r) w1 (k w1)) = (Inr y, w')
     \<longleftrightarrow> (\<exists>x w1. X = (Inr x, w1) \<and> k w1 x = (Inr y, w'))"
  by (cases X; cases "fst X") (auto simp: ok_iffs)

lemma well_step [keeps]:
  assumes "well (snd X)" "\<And>x w1. X = (Inr x, w1) \<Longrightarrow> well w1 \<Longrightarrow> well (snd (k w1 x))"
  shows "well (snd (case X of (r, w1) \<Rightarrow> needs (internal r) w1 (k w1)))"
  using assms by (cases X; cases "fst X") auto

text \<open>The same where the error is passed on as it is.\<close>

lemma raw_step_Inr:
  "(case X of (r, w1) \<Rightarrow> needs r w1 (k w1)) = (Inr y, w') \<longleftrightarrow> (\<exists>x w1. X = (Inr x, w1) \<and> k w1 x = (Inr y, w'))"
  by (cases X; cases "fst X") (auto simp: ok_iffs)

lemma well_raw_step [keeps]:
  assumes "well (snd X)" "\<And>x w1. X = (Inr x, w1) \<Longrightarrow> well w1 \<Longrightarrow> well (snd (k w1 x))"
  shows "well (snd (case X of (r, w1) \<Rightarrow> needs r w1 (k w1)))"
  using assms by (cases X; cases "fst X") auto

section \<open>Sending\<close>

lemma well_fanOut_loop: "well w \<Longrightarrow> well (snd (fanOut_loop e m as w))"
proof (induction as arbitrary: w)
  case (Cons a as)
  have "well (snd (on_db (CreateDelivery now p) (snd (NewID e w))))" for now p
    using db_ok_CreateDelivery [of now p "w_db w"] Cons.prems by (cases "CreateDelivery now p (w_db w)") simp
  then show ?case
    using Cons by (auto simp: Let_def split_def intro!: keeps)
qed simp

lemma well_claimAttachments: "well w \<Longrightarrow> well (snd (claimAttachments s mid ids w))"
  using db_ok_ClaimMedia by (simp add: claimAttachments_def Let_def split_def)

lemma well_recorded: "well w \<Longrightarrow> well (case t of None \<Rightarrow> w | Some t \<Rightarrow> recordTap t w)"
  by (simp add: recordTap_def db_ok_UpdateMessageBody split: option.splits)

lemma well_sendTx: "well w \<Longrightarrow> well (snd (sendTx e a t s st w))"
proof -
  assume w: "well w"
  obtain r d1 where c: "CreateMessage (w_now w) a (w_db w) = (r, d1)" by fastforce
  have w1: "well (w\<lparr>w_db := d1\<rparr>)" using db_ok_CreateMessage [OF c] w by simp
  show ?thesis
    unfolding sendTx_def Let_def on_db_def c prod.case
    by (rule well_needs [OF w1], rule well_needs [OF w1], rule well_runs [OF well_claimAttachments [OF well_recorded [OF w1]]])
      (simp add: fanOut_def well_runs well_fanOut_loop)
qed

lemma well_announce_sent: "well w \<Longrightarrow> well (snd (announce_sent e c inp st msg pending w))"
  unfolding announce_sent_def Let_def
  by (rule well_needs) (auto simp: db_ok_MarkScheduleRan split: option.splits)

lemma well_commit: "well w \<Longrightarrow> well (snd (commit e s c inp pol st p w))"
proof -
  assume w: "well w"
  obtain res w' where c: "commit e s c inp pol st p w = (res, w')" by fastforce
  from c show ?thesis
  proof (cases rule: commit_cases)
    case (recorded msg pending w3)
    have "well w3" using well_sendTx [of "at_tx e s pol w"] w recorded(1) by (metis at_tx_fields(1) snd_conv)
    then show ?thesis using well_announce_sent recorded(2) c by (metis snd_conv)
  qed (use c w in simp_all)
qed

lemma well_Enqueue [keeps]: "well w \<Longrightarrow> well (snd (Enqueue e a c t p w))"
  using Enqueue_step [of e a c t p w] by (cases "Enqueue e a c t p w") simp

lemma well_create [keeps]: "well w \<Longrightarrow> well (snd (create e s c inp pol st w))"
  unfolding create_def by (intro keeps) (auto simp: well_commit split: option.splits)

lemma well_sends [keeps]:
  assumes "well w"
  shows "well (snd (SendAsUser e u c inp w))" "well (snd (SendAsAgent e a c inp w))"
    "well (snd (StartStream e a c inp w))"
  unfolding SendAsUser_def SendAsAgent_def StartStream_def by (intro keeps assms)+

section \<open>A person's own view\<close>

lemma well_view [keeps]:
  assumes "well w"
  shows "well (snd (MarkRead u c m w))" "well (snd (Clear u c w))" "well (snd (Hide u c m w))"
  using assms
  by (auto intro!: keeps simp: MarkRead_def Clear_def Hide_def Let_def split_def db_ok_MarkRead
      db_ok_ClearConversation db_ok_HideMessage split: sum.splits)

end
