(* ===== verification/SendFiles.thy ===== *)
theory SendFiles
  imports Sending Keeps
begin

text \<open>
  More on sending: the files of a message (claimed by the send that carries them, once), the
  tap a person sends on a button, and the hub's signature over what was said.
\<close>

section \<open>Files\<close>

definition sendable :: "sender \<Rightarrow> media_row \<Rightarrow> bool" where
  "sendable s r \<longleftrightarrow> med_owner_kind r = snd_kind s \<and> med_owner_id r = snd_id s \<and> med_message_id r = None"

lemma resolveAttachment_Inr:
  "resolveAttachment rows s i = Inr a \<Longrightarrow> att_media_id a = i \<and> (\<exists>r\<in>set rows. med_id r = i \<and> sendable s r)"
  by (auto simp: resolveAttachment_def attachment_of_row_def sendable_def
      dest: find_in_set split: option.splits if_splits)

lemma resolveAttachments_Inr:
  assumes "resolveAttachments d s ids = Inr atts"
  shows "map att_media_id atts = ids \<and> (\<forall>i\<in>set ids. \<exists>r\<in>set (db_media d). med_id r = i \<and> sendable s r)"
proof (cases "ids = []")
  case False
  then have m: "map_ok (resolveAttachment (ListMediaByIDs d ids) s) ids = Inr atts"
    using assms by (auto simp: resolveAttachments_def ok_iffs)
  have "\<exists>r\<in>set (db_media d). med_id r = i \<and> sendable s r" if "i \<in> set ids" for i
  proof -
    obtain n where n: "n < length ids" "ids ! n = i" using \<open>i \<in> set ids\<close> by (auto simp: in_set_conv_nth)
    from resolveAttachment_Inr [OF map_ok_nth [OF m n(1)]] n(2) show ?thesis
      by (auto simp: ListMediaByIDs_def)
  qed
  moreover have "map att_media_id atts = map (\<lambda>i. i) ids"
    by (rule map_ok_proj [OF m]) (simp add: resolveAttachment_Inr)
  ultimately show ?thesis by simp
qed (use assms in \<open>auto simp: resolveAttachments_def\<close>)

lemma composed_attachments:
  assumes "composeBody e w s c inp st = Inr (b, t)"
  shows "map att_media_id (bd_attachments b) = si_attachments inp
    \<and> (\<forall>i\<in>set (si_attachments inp). \<exists>r\<in>set (db_media (w_db w)). med_id r = i \<and> sendable s r)"
  using assms
  by (cases "snd_kind s"; cases "si_action inp")
    (auto simp: composeBody_def composeStream_def composeUser_def composeAgent_def ok_iffs empty_body_def
      dest!: resolveAttachments_Inr split: if_splits)

lemmas prepared_attachments = composed_attachments [OF prepare_Inr(1)]

lemma claimed_media_all:
  assumes "distinct (map med_id rows)" "\<forall>i\<in>set ids. \<exists>r\<in>set rows. med_id r = i \<and> sendable s r"
  shows "claimed_media mid s ids rows =
    update_where (\<lambda>r. med_id r \<in> set ids) (\<lambda>r. r\<lparr>med_message_id := Some mid\<rparr>) rows"
proof -
  have "ClaimMedia_row ids (snd_kind s) (snd_id s) r = (med_id r \<in> set ids)" if "r \<in> set rows" for r
    using assms(2) key_unique [OF assms(1) that] by (fastforce simp: ClaimMedia_row_def sendable_def)
  then show ?thesis by (simp add: claimed_media_def update_where_def cong: map_cong)
qed

lemma created_media:
  assumes "db_ok (w_db w)" "create e s c inp pol st w = (Inr r, w')" "sr_created r"
  shows "(\<forall>i\<in>set (si_attachments inp). \<exists>x\<in>set (db_media (w_db w)). med_id x = i \<and> sendable s x)
    \<and> db_media (w_db w') = update_where (\<lambda>x. med_id x \<in> set (si_attachments inp))
        (\<lambda>x. x\<lparr>med_message_id := Some (mg_id (sr_message r))\<rparr>) (db_media (w_db w))"
proof (rule created_effect [OF assms(2,3)], goal_cases)
  case (1 p msg rows)
  note att = prepared_attachments [OF 1(1)]
  have "mg_id (sr_message r) = env_new_id e (w_ids w)"
    using messageFromRow_Inr [OF 1(3)] mg_core_eq [OF 1(4)] by (simp add: new_row_fields)
  then show ?case
    using att claimed_media_all [OF db_okD(7) [OF assms(1)]]
    by (simp add: 1(5) params_of_def)
qed

text \<open>
  C35. A file is sent once. When a send with files has made a message, every one of its files was
  the sender's own and in no message, is now in this message, and no other file was touched; and
  from then on no send, by anybody, to any conversation, streamed or not, that names one of them
  makes or finds a message: it is refused and changes nothing.
\<close>

theorem a_file_is_sent_once:
  assumes "db_ok (w_db w)" "create e s c inp pol st w = (Inr r, w')" "sr_created r"
    and "i \<in> set (si_attachments inp)" "i \<in> set (si_attachments inp2)" "w_db w2 = w_db w'"
  shows "(\<exists>x\<in>set (db_media (w_db w)). med_id x = i \<and> med_owner_kind x = snd_kind s
      \<and> med_owner_id x = snd_id s \<and> med_message_id x = None)
    \<and> db_media (w_db w') = update_where (\<lambda>x. med_id x \<in> set (si_attachments inp))
        (\<lambda>x. x\<lparr>med_message_id := Some (mg_id (sr_message r))\<rparr>) (db_media (w_db w))
    \<and> (\<exists>err. create e2 s2 c2 inp2 pol2 st2 w2 = (Inl err, w2))"
proof -
  note m = created_media [OF assms(1-3)]
  have "\<forall>x\<in>set (db_media (w_db w2)). med_id x = i \<longrightarrow> med_message_id x \<noteq> None"
    using m assms(4,6) by (auto simp: set_update_where)
  then have "\<nexists>p. prepare e2 w2 s2 c2 inp2 st2 = Inr p"
    using prepared_attachments assms(5) by (fastforce simp: sendable_def)
  then have "\<exists>err. prepare e2 w2 s2 c2 inp2 st2 = Inl err"
    by (cases "prepare e2 w2 s2 c2 inp2 st2") auto
  then show ?thesis using m assms(4) by (auto simp: create_def sendable_def)
qed

definition errAlreadySent :: go_error where
  "errAlreadySent = InvalidField ''attachments'' ''attachment_already_sent''"

lemma resolved_then_taken:
  assumes "distinct (map med_id (db_media d))" "resolveAttachments d s ids = Inr atts" "ids \<noteq> []"
    and "db_media d2 = update_where (\<lambda>x. med_id x \<in> set ids) (\<lambda>x. x\<lparr>med_message_id := Some mid\<rparr>) (db_media d)"
  shows "resolveAttachments d2 s ids = Inl errAlreadySent"
proof -
  obtain i rest where ids: "ids = i # rest" using assms(3) by (cases ids) auto
  obtain r where r: "r \<in> set (db_media d)" "med_id r = i" "sendable s r"
    using resolveAttachments_Inr [OF assms(2)] ids by auto
  have "find (\<lambda>x. med_id x = i) (db_media d) = Some r" using find_key_iff [OF assms(1)] r by simp
  then have "find (\<lambda>x. med_id x = i) (db_media d2) = Some (r\<lparr>med_message_id := Some mid\<rparr>)"
    using r(2) by (simp add: assms(4) find_update_where ids)
  moreover have "find (\<lambda>x. med_id x = i) (ListMediaByIDs d2 ids) = find (\<lambda>x. med_id x = i) (db_media d2)"
    unfolding ListMediaByIDs_def ids by (rule find_filter) simp
  ultimately have "resolveAttachment (ListMediaByIDs d2 ids) s i = Inl errAlreadySent"
    using r(3) by (simp add: resolveAttachment_def sendable_def errAlreadySent_def)
  then show ?thesis using assms(2) ids by (auto simp: resolveAttachments_def ok_iffs)
qed

text \<open>
  The retry of a send that carries files is refused. When such a send has made a message
  under an idempotency key, the very same send under the same key is not answered with that
  message: the files are checked before the key is, they are in the first message by now, and the
  caller is told \<open>attachment_already_sent\<close>.
\<close>

theorem retry_of_files_is_refused:
  assumes "db_ok (w_db w)" "create e s c inp pol False w = (Inr r, w')" "sr_created r"
    and "si_attachments inp \<noteq> []" "w_db w2 = w_db w'"
  shows "create e s c inp pol2 False w2 = (Inl (InvalidField ''attachments'' ''attachment_already_sent''), w2)"
proof -
  obtain p where "prepare e w s c inp False = Inr p" using create_ok [OF assms(2)] by metis
  note co = prepare_Inr(1) [OF this]
  have act: "si_action inp = None"
    using co assms(4) by (cases "si_action inp"; cases "snd_kind s")
      (auto simp: composeBody_def composeUser_def composeAgent_def split: if_splits)
  then obtain atts where "resolveAttachments (w_db w) s (si_attachments inp) = Inr atts"
    using co by (cases "snd_kind s") (auto simp: composeBody_def composeUser_def composeAgent_def ok_iffs split: if_splits)
  from resolved_then_taken [OF db_okD(7) [OF assms(1)] this assms(4)] created_media [OF assms(1-3)] assms(5)
  have taken: "resolveAttachments (w_db w2) s (si_attachments inp) = Inl errAlreadySent" by simp
  have "si_buttons inp = [] \<and> si_quick_replies inp = []" if "snd_kind s = ParticipantUser"
    using co that by (auto simp: composeBody_def composeUser_def split: if_splits)
  with act taken have "composeBody e w2 s c inp False = Inl errAlreadySent"
    by (cases "snd_kind s") (simp_all add: composeBody_def composeUser_def composeAgent_def)
  then show ?thesis by (simp add: create_def prepare_def errAlreadySent_def)
qed

section \<open>A photo, sent\<close>

definition sample_photo :: media_row where
  "sample_photo = \<lparr>med_id = 50, med_owner_kind = ParticipantUser, med_owner_id = 1, med_kind = ''image'',
     med_mime_type = ''image/png'', med_byte_size = 9, med_file_name = [], med_width = 1, med_height = 1,
     med_storage_key = ''k'', med_thumb_key = None, med_message_id = None, med_created_at = 0,
     med_duration_ms = 0, med_waveform = None\<rparr>"

definition photo :: send_input where "photo = (text_input [])\<lparr>si_attachments := [50], si_idempotency_key := str ''k1''\<rparr>"

definition photo_world :: world where
  "photo_world = sample_world\<lparr>w_db := sample_db\<lparr>db_media := [sample_photo]\<rparr>\<rparr>"

definition photo_prepared :: prepared where
  "photo_prepared = \<lparr>prep_body = empty_body\<lparr>bd_attachments := [attachment_of_row sample_photo]\<rparr>, prep_tap = None,
     prep_reply_to = None, prep_key = Some (str ''k1'')\<rparr>"

lemma photo_db_ok: "db_ok (w_db photo_world)"
  using sample_db_ok by (simp add: photo_world_def db_ok_def)

lemma photo_prepare: "prepare sample_env photo_world (user_sender 1) 10 photo False = Inr photo_prepared"
  by (simp add: prepare_def composeBody_def composeUser_def user_sender_def photo_def text_input_def
      resolveAttachments_def resolveAttachment_def ListMediaByIDs_def photo_world_def sample_photo_def attachmentsMax_def
      text_check_defs validateReplyTo_def checkScheduleTag_def Let_def empty_body_def photo_prepared_def)

lemma photo_create: "\<exists>r w'. create sample_env (user_sender 1) 10 photo userSendPolicy False photo_world = (Inr r, w')
    \<and> sr_created r"
proof -
  have n: "no_corrupt (w_db photo_world)" using sample_no_corrupt by (simp add: photo_world_def no_corrupt_def)
  have a: "fst (allow ''send:user:'' 1 userSendPolicy photo_world) \<le> 0"
    by (simp add: bucket_defs photo_world_def sample_world_def Let_def)
  have "\<exists>x w3. sendTx sample_env (sent_params sample_env (user_sender 1) 10 photo photo_prepared False photo_world)
    (prep_tap photo_prepared) (user_sender 1) False (at_tx sample_env (user_sender 1) userSendPolicy photo_world) = (Inr x, w3)"
    by (simp add: tx_defs bucket_defs at_tx_def photo_def photo_prepared_def photo_world_def RuneCount_def str_def
        sample_photo_def attachment_of_row_def ClaimMedia_def ClaimMedia_row_def)
  then obtain x w3 where "sendTx sample_env (sent_params sample_env (user_sender 1) 10 photo photo_prepared False photo_world)
    (prep_tap photo_prepared) (user_sender 1) False (at_tx sample_env (user_sender 1) userSendPolicy photo_world) = (Inr x, w3)"
    by blast
  from commit_succeeds [OF n _ this] a
  obtain r w' where m: "commit sample_env (user_sender 1) 10 photo userSendPolicy False photo_prepared photo_world = (Inr r, w')"
    "sr_created r" by (auto simp: user_sender_def)
  have "earlier photo_world (user_sender 1) 10 (prep_key photo_prepared) = Inr None"
    by (simp add: earlier_def photo_prepared_def findByKey_def GetMessageByKey_def user_sender_def photo_world_def
        GetMessageByUserKey_def sample_tables sample_messages_def sample_message_def)
  with m show ?thesis by (simp add: create_def photo_prepare)
qed

theorem a_file_is_sent_once_witness:
  "\<exists>r w' err. create sample_env (user_sender 1) 10 photo userSendPolicy False photo_world = (Inr r, w')
    \<and> create sample_env (user_sender 1) 10 (photo\<lparr>si_idempotency_key := []\<rparr>) userSendPolicy False w' = (Inl err, w')"
proof -
  obtain r w' where c: "create sample_env (user_sender 1) 10 photo userSendPolicy False photo_world = (Inr r, w')"
    "sr_created r" using photo_create by blast
  from a_file_is_sent_once [OF photo_db_ok c, of 50 "photo\<lparr>si_idempotency_key := []\<rparr>" w' sample_env "user_sender 1" 10] c
  show ?thesis by (auto simp: photo_def)
qed

theorem retry_of_files_is_refused_witness:
  "\<exists>r w'. create sample_env (user_sender 1) 10 photo userSendPolicy False photo_world = (Inr r, w')
    \<and> create sample_env (user_sender 1) 10 photo userSendPolicy False w'
      = (Inl (InvalidField ''attachments'' ''attachment_already_sent''), w')"
proof -
  obtain r w' where c: "create sample_env (user_sender 1) 10 photo userSendPolicy False photo_world = (Inr r, w')"
    "sr_created r" using photo_create by blast
  from retry_of_files_is_refused [OF photo_db_ok c] c show ?thesis by (auto simp: photo_def)
qed

section \<open>Signatures\<close>

text \<open>What a signature says of a message once it is complete; decorating it changes none of it.\<close>

definition sealed_part :: "message \<Rightarrow> uuid \<times> message_status \<times> participant_kind \<times> uuid option \<times> (signed_content \<times> signature option) option" where
  "sealed_part m = (mg_id m, mg_status m, snd_kind (mg_sender m), map_option rr_id (mg_reply_to m),
     if mg_status m = MessageComplete then Some (signedPayload m, mg_signature m) else None)"

lemma sealed_attachDeliveryStatus: "map sealed_part (attachDeliveryStatus d ms) = map sealed_part ms"
  by (simp add: attachDeliveryStatus_def Let_def sealed_part_def signedPayload_def split: option.splits)

lemma sealed_attachScheduleTitles: "map sealed_part (attachScheduleTitles d ms) = map sealed_part ms"
  by (simp add: attachScheduleTitles_def Let_def sealed_part_def signedPayload_def split: option.splits)

lemma sealed_quoted [simp]: "sealed_part (quoted originals m) = sealed_part m"
  by (simp add: quoted_def sealed_part_def signedPayload_def split: option.splits)

lemma sealed_attachReplyPreviews: "attachReplyPreviews d ms = Inr ms' \<Longrightarrow> map sealed_part ms' = map sealed_part ms"
  by (auto simp: attachReplyPreviews_def Let_def ok_then_Inr split: if_splits)

lemma stream_texts_dom: "stream_texts now refs s i = Some t \<Longrightarrow> i \<in> snd ` set refs"
proof (induction refs arbitrary: i t rule: rev_induct)
  case (snoc r refs)
  then show ?case by (auto simp: stream_texts_def split: option.splits if_splits)
qed (simp add: stream_texts_def)

lemma sealed_attachStreamText:
  assumes "distinct (map mg_id ms)"
  shows "map sealed_part (attachStreamText now st ms) = map sealed_part ms"
proof (cases st)
  case (Some s)
  have "sealed_part (m\<lparr>mg_body := (mg_body m)\<lparr>bd_text := t\<rparr>\<rparr>) = sealed_part m"
    if "m \<in> set ms" and t: "stream_texts now (map (\<lambda>m. (snd_id (mg_sender m), mg_id m))
        (filter (\<lambda>m. mg_status m = MessageStreaming \<and> snd_kind (mg_sender m) = ParticipantAgent) ms)) s (mg_id m) = Some t" for m t
  proof -
    obtain q where "q \<in> set ms" "mg_status q = MessageStreaming" "mg_id q = mg_id m"
      using stream_texts_dom [OF t] by auto
    then have "mg_status m = MessageStreaming" using key_unique [OF assms \<open>m \<in> set ms\<close>] by metis
    then show ?thesis by (simp add: sealed_part_def)
  qed
  then show ?thesis by (auto simp: attachStreamText_def Some Let_def split: option.splits)
qed (simp add: attachStreamText_def)

lemma decorate_sealed:
  assumes "decorate w fs ms = Inr ms'" "distinct (map mg_id ms)"
  shows "map sealed_part ms' = map sealed_part ms"
proof -
  let ?ms = "if fs then attachDeliveryStatus (w_db w) ms else ms"
  have "map mg_id ?ms = map fst (map sealed_part ?ms)" by (simp add: sealed_part_def comp_def)
  also have "\<dots> = map fst (map sealed_part ms)" by (cases fs) (simp_all only: sealed_attachDeliveryStatus if_True if_False)
  also have "\<dots> = map mg_id ms" by (simp add: sealed_part_def comp_def)
  finally have "distinct (map mg_id ?ms)" using assms(2) by simp
  with sealed_attachReplyPreviews [OF assms(1) [unfolded decorate_def]] show ?thesis
    by (simp add: sealed_attachScheduleTitles sealed_attachStreamText sealed_attachDeliveryStatus)
qed

lemma Verify_sealed:
  "sealed_part m = sealed_part m' \<Longrightarrow> mg_status m = MessageComplete \<Longrightarrow> Verify e m = Verify e m'"
  by (auto simp: sealed_part_def Verify_def split: if_splits option.splits)

text \<open>Every complete message of the table carries the hub's mark.\<close>

definition all_signed :: "env \<Rightarrow> db \<Rightarrow> bool" where
  "all_signed e d \<longleftrightarrow> (\<forall>row\<in>set (db_messages d). msg_status row = MessageComplete \<longrightarrow>
     (case messageFromRow row of Inl _ \<Rightarrow> True | Inr m \<Rightarrow> Verify e m))"

lemma Verify_selected:
  "Verify e (m\<lparr>mg_body := (mg_body m)\<lparr>bd_selected_button_id := x\<rparr>\<rparr>) = Verify e m"
  by (simp add: Verify_def signedPayload_def split: option.splits)

lemma new_row_signed:
  assumes "env_signer e = Some f" "\<And>p. f p \<noteq> []"
    and "messageFromRow (message_of_params now (params_of e i s c inp p False)) = Inr m"
  shows "Verify e m"
  using assms
  by (cases "snd_kind s"; cases "prep_reply_to p") (auto simp: messageFromRow_def message_of_params_def params_of_def Verify_def sign_def
      signedPayload_def sender_of_row_def derefID_def)

lemma all_signed_sent:
  assumes "all_signed e d" "env_signer e = Some f" "\<And>p. f p \<noteq> []" "tap_of d t" "db_ok d"
    and "\<forall>m\<in>set (db_messages d). msg_id m \<noteq> i"
  shows "all_signed e (ran_db j t' (sent_db (params_of e i s c inp p False) t s' now rows d))"
proof -
  let ?row = "message_of_params now (params_of e i s c inp p False)"
  have old: "case messageFromRow (tapped_row t row) of Inl _ \<Rightarrow> True | Inr m \<Rightarrow> Verify e m"
    if row: "row \<in> set (db_messages d)" "msg_status row = MessageComplete" for row
  proof (cases "\<exists>tp. t = Some tp \<and> msg_id row = mg_id (tap_source tp)")
    case True
    then obtain tp q where tp: "t = Some tp" "msg_id row = mg_id (tap_source tp)"
      and q: "GetMessage d (msg_id row) = Inr q" "messageFromRow q = Inr (tap_source tp)"
      using assms(4) by (auto simp: tap_of_def)
    have "q = row"
      using GetMessage_Inr [OF q(1)] row(1) db_okD(3) [OF assms(5)] key_unique [of msg_id]
      by (auto simp: messages_ok_def)
    with q row have "Verify e (tap_source tp)" using assms(1) by (auto simp: all_signed_def)
    then show ?thesis
      using messageFromRow_body [OF q(2)] tp \<open>q = row\<close> by (simp add: tapped_row_def Verify_selected)
  next
    case False
    then have "tapped_row t row = row" by (auto simp: tapped_row_def split: option.splits)
    with assms(1) row show ?thesis by (simp add: all_signed_def)
  qed
  have new: "case messageFromRow (tapped_row t ?row) of Inl _ \<Rightarrow> True | Inr m \<Rightarrow> Verify e m"
  proof -
    have "tapped_row t ?row = ?row"
      using assms(4,6) GetMessage_Inr by (fastforce simp: tapped_row_def tap_of_def new_row_fields split: option.splits)
    then show ?thesis using new_row_signed [OF assms(2,3)] by (simp split: sum.splits)
  qed
  have "tapped_rows t ms = map (tapped_row t) ms" for ms
    by (cases t) (simp_all add: tapped_rows_def tapped_row_def update_where_def map_idI)
  moreover have "msg_status (tapped_row t row) = msg_status row" for row
    by (simp add: tapped_row_def split: option.splits)
  ultimately show ?thesis using old new by (auto simp: all_signed_def)
qed

lemma create_signed:
  assumes "all_signed e (w_db w)" "env_signer e = Some f" "\<And>p. f p \<noteq> []" "db_ok (w_db w)"
    and "no_corrupt (w_db w)" "create e s c inp pol False w = (res, w')"
  shows "all_signed e (w_db w')"
proof (cases res)
  case (Inl err)
  with assms(1) create_error_db [OF assms(5)] assms(6) show ?thesis by simp
next
  case (Inr r)
  note cr = assms(6) [unfolded Inr]
  show ?thesis
  proof (cases "sr_created r")
    case True
    show ?thesis
    proof (rule created_effect [OF cr True], goal_cases)
      case (1 p msg rows)
      show ?case unfolding 1(5)
        by (rule all_signed_sent [OF assms(1-3) composeBody_tap_of [OF prepare_Inr(1) [OF 1(1)]] assms(4) 1(8)])
    qed
  next
    case False
    then show ?thesis using create_ok [OF cr] assms(1) by metis
  qed
qed

lemma read_verifies:
  assumes "all_signed e (w_db w)" "db_ok (w_db w)" "GetMessages w ids = Inr ms"
    and "m \<in> set ms" "mg_status m = MessageComplete"
  shows "Verify e m"
proof -
  let ?rows = "ListMessagesByIDs (w_db w) ids"
  obtain msgs where msgs: "map_ok messageFromRow ?rows = Inr msgs" "decorate w False msgs = Inr ms"
    using assms(3) by (auto simp: GetMessages_def ok_iffs)
  have "distinct (map msg_id ?rows)"
    using db_okD(3) [OF assms(2)] by (auto simp: messages_ok_def ListMessagesByIDs_def intro: distinct_map_filter)
  moreover have "map mg_id msgs = map msg_id ?rows"
    by (rule map_ok_proj [OF msgs(1)]) (simp add: messageFromRow_Inr)
  ultimately have d: "distinct (map mg_id msgs)" by simp
  have "sealed_part m \<in> set (map sealed_part msgs)"
    using assms(4) by (simp flip: decorate_sealed [OF msgs(2) d])
  then obtain q where q: "q \<in> set msgs" "sealed_part m = sealed_part q" by auto
  then have st: "mg_status q = MessageComplete" using assms(5) by (simp add: sealed_part_def)
  obtain row where "row \<in> set ?rows" "messageFromRow row = Inr q" using map_ok_in_set [OF msgs(1) q(1)] by blast
  then have "Verify e q"
    using assms(1) st messageFromRow_Inr by (fastforce simp: all_signed_def ListMessagesByIDs_def)
  with Verify_sealed [OF q(2) assms(5)] show ?thesis by simp
qed

text \<open>
  C22. What was said carries the hub's mark, for good. In a hub that signs, where every complete
  message of the table verifies, every send keeps it so, whether it makes a message, taps a
  button of an earlier one or is refused; and every complete message that is then read back,
  with its reply preview, delivery status and titles filled in, verifies.
\<close>

theorem messages_keep_their_signature:
  assumes "all_signed e (w_db w)" "env_signer e = Some f" "\<forall>p. f p \<noteq> []" "db_ok (w_db w)"
    and "no_corrupt (w_db w)" "create e s c inp pol False w = (res, w')"
    and "GetMessages w' ids = Inr ms" "m \<in> set ms" "mg_status m = MessageComplete"
  shows "all_signed e (w_db w') \<and> Verify e m"
proof -
  have "all_signed e (w_db w')" using create_signed [OF assms(1,2) _ assms(4-6)] assms(3) by blast
  moreover have "db_ok (w_db w')" using well_create [OF assms(4)] assms(6) by (metis snd_conv)
  ultimately show ?thesis using read_verifies [OF _ _ assms(7-9)] by blast
qed

text \<open>A hub whose only message so far is unsigned because it is still being written.\<close>

definition quiet_world :: world where
  "quiet_world = sample_world\<lparr>w_db := sample_db\<lparr>db_messages := []\<rparr>\<rparr>"

lemma quiet_create: "\<exists>r w'. create sample_env (user_sender 1) 10 hi userSendPolicy False quiet_world = (Inr r, w')
    \<and> sr_created r"
proof -
  have prep: "prepare sample_env quiet_world (user_sender 1) 10 hi False = Inr hi_prepared"
    by (simp add: prepare_def composeBody_def composeUser_def user_sender_def hi_def text_input_def
      resolveAttachments_def text_check_defs validateReplyTo_def checkScheduleTag_def Let_def
      empty_body_def hi_prepared_def)
  have n: "no_corrupt (w_db quiet_world)" by (simp add: quiet_world_def no_corrupt_def)
  have a: "fst (allow ''send:user:'' 1 userSendPolicy quiet_world) \<le> 0"
    by (simp add: bucket_defs quiet_world_def sample_world_def Let_def)
  have "\<exists>x w3. sendTx sample_env (sent_params sample_env (user_sender 1) 10 hi hi_prepared False quiet_world)
    (prep_tap hi_prepared) (user_sender 1) False (at_tx sample_env (user_sender 1) userSendPolicy quiet_world) = (Inr x, w3)"
    by (simp add: tx_defs bucket_defs at_tx_def hi_def hi_prepared_def quiet_world_def RuneCount_def str_def)
  then obtain x w3 where "sendTx sample_env (sent_params sample_env (user_sender 1) 10 hi hi_prepared False quiet_world)
    (prep_tap hi_prepared) (user_sender 1) False (at_tx sample_env (user_sender 1) userSendPolicy quiet_world) = (Inr x, w3)"
    by blast
  from commit_succeeds [OF n _ this] a
  obtain r w' where m: "commit sample_env (user_sender 1) 10 hi userSendPolicy False hi_prepared quiet_world = (Inr r, w')"
    "sr_created r" by (auto simp: user_sender_def)
  have "earlier quiet_world (user_sender 1) 10 (prep_key hi_prepared) = Inr None"
    by (simp add: earlier_def hi_prepared_def findByKey_def GetMessageByKey_def user_sender_def quiet_world_def
        GetMessageByUserKey_def)
  with m show ?thesis by (simp add: create_def prep)
qed

theorem messages_keep_their_signature_witness:
  "\<exists>r w' m. create sample_env (user_sender 1) 10 hi userSendPolicy False quiet_world = (Inr r, w')
    \<and> GetMessages w' [1000] = Inr [m] \<and> Verify sample_env m"
proof -
  obtain r w' where c: "create sample_env (user_sender 1) 10 hi userSendPolicy False quiet_world = (Inr r, w')"
    "sr_created r" using quiet_create by blast
  have rows: "\<exists>row. db_messages (w_db w') = [row] \<and> msg_id row = 1000 \<and> msg_status row = MessageComplete
    \<and> msg_body row = Doc (prep_body hi_prepared)"
  proof (rule created_effect [OF c], goal_cases)
    case (1 p msg rows)
    have "prep_tap p = None" using prepare_Inr(1) [OF 1(1)]
      by (auto simp: composeBody_def composeUser_def hi_def text_input_def user_sender_def ok_iffs)
    moreover have "prep_body p = prep_body hi_prepared" using prepare_Inr(1) [OF 1(1)]
      by (simp add: composeBody_def composeUser_def hi_def text_input_def user_sender_def
        resolveAttachments_def text_check_defs empty_body_def hi_prepared_def Let_def)
    ultimately show ?case
      by (simp add: 1(5) tapped_rows_def quiet_world_def new_row_fields sample_world_def sample_env_def)
        (simp add: message_of_params_def params_of_def)
  qed
  then obtain row where row: "db_messages (w_db w') = [row]" "msg_id row = 1000" "msg_status row = MessageComplete"
    "msg_body row = Doc (prep_body hi_prepared)" by blast
  then obtain q where q: "messageFromRow row = Inr q" using messageFromRow_Doc by blast
  have "no_corrupt (w_db w')" by (simp add: no_corrupt_def row)
  then obtain ms where ms: "decorate w' False [q] = Inr ms" using decorate_total by blast
  have core: "map mg_core ms = [mg_core q]" using decorate_core [OF ms] by simp
  then obtain m where m: "ms = [m]" "mg_core m = mg_core q" by auto
  have g: "GetMessages w' [1000] = Inr [m]"
    using ms m by (simp add: GetMessages_def ListMessagesByIDs_def row q)
  have "mg_status m = MessageComplete"
    using mg_core_eq [OF m(2)] messageFromRow_Inr [OF q] row(3) by simp
  moreover have "all_signed sample_env (w_db quiet_world)" "no_corrupt (w_db quiet_world)" "db_ok (w_db quiet_world)"
    using sample_db_ok by (simp_all add: quiet_world_def all_signed_def no_corrupt_def db_ok_def messages_ok_def)
  moreover have "env_signer sample_env = Some (\<lambda>p. [length (sc_Text p)])" by (simp add: sample_env_def)
  ultimately show ?thesis
    using messages_keep_their_signature [of sample_env quiet_world _ "user_sender 1" 10 hi userSendPolicy _ w' "[1000]" "[m]" m] c(1) g
    by auto
qed

section \<open>Taps\<close>

text \<open>
  C34. A tap says what the button said. When a person's tap has made a message, the message it
  names is an agent's, complete, in the same conversation, and offers a button with that id; the
  new message says that button's label and names button and message;
  and the offer is marked with the tapped button, which is the only change to any
  earlier message.
\<close>

theorem tap_says_the_label:
  assumes "create e (user_sender u) c inp pol False w = (Inr r, w')" "sr_created r" "si_action inp = Some x"
  shows "\<exists>offer b body row. offer \<in> set (db_messages (w_db w)) \<and> msg_id offer = act_source_message_id x
    \<and> msg_conversation_id offer = c \<and> msg_sender_kind offer = ParticipantAgent \<and> msg_status offer = MessageComplete
    \<and> msg_body offer = Doc body \<and> b \<in> set (concat (bd_buttons body)) \<and> btn_id b = act_button_id x
    \<and> msg_id row = mg_id (sr_message r)
    \<and> msg_body row = Doc (empty_body\<lparr>bd_text := btn_label b, bd_action := Some x\<rparr>)
    \<and> db_messages (w_db w') = update_where (\<lambda>m. msg_id m = act_source_message_id x)
        (\<lambda>m. m\<lparr>msg_body := Doc (body\<lparr>bd_selected_button_id := act_button_id x\<rparr>)\<rparr>) (db_messages (w_db w)) @ [row]"
proof (rule created_effect [OF assms(1,2)], goal_cases)
  case (1 p msg rows)
  let ?row = "message_of_params (w_now w) (sent_params e (user_sender u) c inp p False w)"
  obtain source b where t: "resolveTap (w_db w) c x = Inr (source, b)"
    "prep_tap p = Some \<lparr>tap_source = source, tap_button_id = btn_id b\<rparr>"
    "prep_body p = empty_body\<lparr>bd_text := btn_label b,
       bd_action := Some \<lparr>act_button_id = btn_id b, act_source_message_id = mg_id source\<rparr>\<rparr>"
    using prepare_Inr(1) [OF 1(1)] assms(3)
    by (auto simp: composeBody_def composeUser_def user_sender_def ok_iffs split: if_splits)
  show ?case
  proof (rule resolveTap_Inr [OF t(1)])
    fix offer
    assume o: "GetMessage (w_db w) (act_source_message_id x) = Inr offer" "messageFromRow offer = Inr source"
      "mg_conversation_id source = c" "snd_kind (mg_sender source) = ParticipantAgent"
      "mg_status source = MessageComplete" "find_button (bd_buttons (mg_body source)) (act_button_id x) = Some b"
    note m = messageFromRow_Inr [OF o(2)] and g = GetMessage_Inr [OF o(1)]
    have id: "mg_id source = act_source_message_id x" using m g by simp
    have b: "b \<in> set (concat (bd_buttons (mg_body source)))" "btn_id b = act_button_id x"
      using find_in_set [OF o(6) [unfolded find_button_def]] by simp_all
    have new: "msg_id ?row \<noteq> mg_id source" using 1(8) g id by (auto simp: new_row_fields)
    have sk: "msg_sender_kind offer = ParticipantAgent" using o(4) m by (simp add: sender_of_row_def)
    have rid: "msg_id ?row = mg_id (sr_message r)"
      using messageFromRow_Inr [OF 1(3)] mg_core_eq [OF 1(4)] by simp
    have "db_messages (w_db w') = tapped_rows (prep_tap p) (db_messages (w_db w) @ [?row])"
      by (simp add: 1(5))
    also have "\<dots> = update_where (\<lambda>m. msg_id m = act_source_message_id x)
        (\<lambda>m. m\<lparr>msg_body := Doc ((mg_body source)\<lparr>bd_selected_button_id := act_button_id x\<rparr>)\<rparr>) (db_messages (w_db w)) @ [?row]"
      using new by (simp add: tapped_rows_def t(2) id b(2))
    finally show ?thesis
      using g m o(3,5) b sk rid id t(3)
      by (intro exI [of _ offer] exI [of _ b] exI [of _ "mg_body source"] exI [of _ ?row])
        (auto simp: new_row_fields)
  qed
qed

definition say_yes :: send_input where
  "say_yes = (text_input [])\<lparr>si_action := Some \<lparr>act_button_id = ''yes'', act_source_message_id = 102\<rparr>\<rparr>"

definition yes_prepared :: prepared where
  "yes_prepared = \<lparr>prep_body = empty_body\<lparr>bd_text := str ''Yes'',
       bd_action := Some \<lparr>act_button_id = ''yes'', act_source_message_id = 102\<rparr>\<rparr>,
     prep_tap = Some \<lparr>tap_source = projr (messageFromRow (sample_message 102 None (Some 2) 20 MessageComplete sample_offer)),
       tap_button_id = ''yes''\<rparr>, prep_reply_to = None, prep_key = None\<rparr>"

lemma yes_prepare: "prepare sample_env sample_world (user_sender 1) 10 say_yes False = Inr yes_prepared"
  by (simp add: prepare_def composeBody_def composeUser_def user_sender_def say_yes_def text_input_def
      resolveTap_def GetMessage_def sample_tables sample_messages_def sample_message_def sample_offer_def
      messageFromRow_def sender_of_row_def find_button_def one_row_def
      text_check_defs validateReplyTo_def checkScheduleTag_def Let_def empty_body_def yes_prepared_def)

lemma yes_create: "\<exists>r w'. create sample_env (user_sender 1) 10 say_yes userSendPolicy False sample_world = (Inr r, w')
    \<and> sr_created r"
proof -
  have a: "fst (allow ''send:user:'' 1 userSendPolicy sample_world) \<le> 0"
    by (simp add: bucket_defs sample_world_def Let_def)
  have "\<exists>x w3. sendTx sample_env (sent_params sample_env (user_sender 1) 10 say_yes yes_prepared False sample_world)
    (prep_tap yes_prepared) (user_sender 1) False (at_tx sample_env (user_sender 1) userSendPolicy sample_world) = (Inr x, w3)"
    by (simp add: tx_defs bucket_defs at_tx_def say_yes_def yes_prepared_def RuneCount_def str_def recordTap_def
        exec_def UpdateMessageBody_def sample_offer_def)
  then obtain x w3 where "sendTx sample_env (sent_params sample_env (user_sender 1) 10 say_yes yes_prepared False sample_world)
    (prep_tap yes_prepared) (user_sender 1) False (at_tx sample_env (user_sender 1) userSendPolicy sample_world) = (Inr x, w3)"
    by blast
  from commit_succeeds [OF _ _ this] a
  obtain r w' where m: "commit sample_env (user_sender 1) 10 say_yes userSendPolicy False yes_prepared sample_world = (Inr r, w')"
    "sr_created r" by (auto simp: user_sender_def sample_no_corrupt)
  with m show ?thesis by (simp add: create_def yes_prepare earlier_def) (simp add: yes_prepared_def)
qed

theorem tap_says_the_label_witness:
  "\<exists>r w' row. create sample_env (user_sender 1) 10 say_yes userSendPolicy False sample_world = (Inr r, w')
    \<and> last (db_messages (w_db w')) = row \<and> msg_body row = Doc (prep_body yes_prepared)"
proof -
  obtain r w' where c: "create sample_env (user_sender 1) 10 say_yes userSendPolicy False sample_world = (Inr r, w')"
    "sr_created r" using yes_create by blast
  have "si_action say_yes = Some \<lparr>act_button_id = ''yes'', act_source_message_id = 102\<rparr>" by (simp add: say_yes_def)
  from tap_says_the_label [OF c this] c(1) show ?thesis
    by (auto simp: sample_tables sample_messages_def sample_message_def sample_offer_def empty_body_def yes_prepared_def
      split: if_splits)
qed

end
