(* ===== verification/Streaming.thy ===== *)
theory Streaming
  imports SendFiles
begin

text \<open>
  A message written a piece at a time (\<open>conversations/streaming.go\<close>), a person's stop
  (\<open>stop.go\<close>) and what an agent says it is doing (\<open>activity.go\<close>).

  A stream ends once, whoever ends it: the agent, the hub that found it idle, the person. Its
  text moves from the buffer to the row in one transaction with the outbox rows; afterwards the
  buffer is gone and nothing can be appended.
\<close>

section \<open>Activity\<close>

definition activityFor :: int where "activityFor = seconds 10"
definition activityLabelMax :: nat where "activityLabelMax = 40"
definition ActivityThinking :: string where "ActivityThinking = ''thinking''"
definition ActivityWorking :: string where "ActivityWorking = ''working''"
definition ActivityIdle :: string where "ActivityIdle = ''idle''"
definition TypingStart :: string where "TypingStart = ''start''"
definition TypingStop :: string where "TypingStop = ''stop''"

lemmas activity_names = ActivityThinking_def ActivityWorking_def ActivityIdle_def TypingStart_def TypingStop_def

text \<open>
  \<open>strings.ToLower\<close> on the ASCII letters; no other code point has \<open>w\<close>, \<open>:\<close>, \<open>/\<close> or \<open>.\<close> as its
  lower case, so the two containment tests below see what the code sees.
\<close>

fun rune_lower :: "rune \<Rightarrow> rune" where
  "rune_lower (Rune c) = (if 65 \<le> c \<and> c \<le> 90 then Rune (c + 32) else Rune c)"
| "rune_lower (Stray b) = Stray b"

fun has_prefix :: "gotext \<Rightarrow> gotext \<Rightarrow> bool" where
  "has_prefix [] s = True"
| "has_prefix (p # ps) [] = False"
| "has_prefix (p # ps) (r # rs) = (p = r \<and> has_prefix ps rs)"

fun contains_text :: "gotext \<Rightarrow> gotext \<Rightarrow> bool" where
  "contains_text sub [] = (sub = [])"
| "contains_text sub (r # rs) = (has_prefix sub (r # rs) \<or> contains_text sub rs)"

definition invalid_label :: go_error where "invalid_label = InvalidField ''label'' ''invalid_label''"

definition validateActivity :: "string \<Rightarrow> gotext \<Rightarrow> go_error + gotext" where
  "validateActivity state label =
     (if state = ActivityThinking \<or> state = ActivityIdle then
        (if label \<noteq> [] then Inl invalid_label else Inr [])
      else if state \<noteq> ActivityWorking then Inl (InvalidField ''state'' ''invalid_state'')
      else let t = TrimSpace label in
        if t = [] then Inr []
        else if \<not> ValidString t \<or> activityLabelMax < RuneCount t then Inl invalid_label
        else if list_ex is_control t then Inl invalid_label
        else let lower = map rune_lower t in
          if contains_text (str ''://'') lower \<or> contains_text (str ''www.'') lower then Inl invalid_label
          else Inr t)"

definition announceActivity :: "env \<Rightarrow> uuid \<Rightarrow> uuid \<Rightarrow> string \<Rightarrow> gotext \<Rightarrow> world \<Rightarrow> world" where
  "announceActivity e agentID cid state label w =
     (let expires = (if state \<noteq> ActivityIdle then w_now w + activityFor else w_now w) in
      notify e EventActivity cid (ActivityEvent cid agentID state label expires) w)"

definition Activity :: "env \<Rightarrow> uuid \<Rightarrow> uuid \<Rightarrow> string \<Rightarrow> gotext \<Rightarrow> unit handler" where
  "Activity e agentID cid state label w =
     needs (validateActivity state label) w (\<lambda>shown.
     needs (agentMember (w_db w) agentID cid) w (\<lambda>_.
     needs (ensureOpen (w_db w) cid) w (\<lambda>_.
     let (wait, w1) = allow ''activity:agent:'' agentID agentDeltaPolicy w in
     if 0 < wait then (Inl (RateLimited ''rate_limited'' wait), w1)
     else (Inr (), announceActivity e agentID cid state shown w1))))"

definition Typing :: "env \<Rightarrow> uuid \<Rightarrow> uuid \<Rightarrow> string \<Rightarrow> unit handler" where
  "Typing e agentID cid state w =
     (if state = TypingStart then Activity e agentID cid ActivityThinking [] w
      else if state = TypingStop then Activity e agentID cid ActivityIdle [] w
      else (Inl (InvalidField ''state'' ''invalid_state''), w))"

section \<open>Appending\<close>

definition whyNotStreaming :: "db \<Rightarrow> uuid \<Rightarrow> uuid \<Rightarrow> go_error" where
  "whyNotStreaming d agentID mid = (case GetMessage d mid of
       Inr row \<Rightarrow> if msg_stopped row \<and> msg_sender_agent_id row = Some agentID then Conflict ''stopped''
                  else Conflict ''not_streaming''
     | Inl _ \<Rightarrow> Conflict ''not_streaming'')"

definition AppendStream :: "uuid \<Rightarrow> uuid \<Rightarrow> gotext \<Rightarrow> unit handler" where
  "AppendStream agentID mid text w = (case w_streams w of
       None \<Rightarrow> (Inl (Internal (PlainError OtherCause)), w)
     | Some st \<Rightarrow>
         if text = [] then (Inl (InvalidField ''text'' ''invalid_text''), w)
         else if \<not> ValidString text \<or> contains_any [0] text then (Inl (InvalidField ''text'' ''invalid_text''), w)
         else let (wait, w1) = allow ''delta:agent:'' agentID agentDeltaPolicy w in
           if 0 < wait then (Inl (RateLimited ''rate_limited'' wait), w1)
           else let (r, st') = stream_append (w_now w1) (agentID, mid) text st;
                    w2 = w1\<lparr>w_streams := Some st'\<rparr> in
             (case r of
                Inl errNotStreaming \<Rightarrow> (Inl (whyNotStreaming (w_db w2) agentID mid), w2)
              | Inl errStreamTooLong \<Rightarrow> (Inl (Invalid ''stream_too_long''), w2)
              | Inr (cid, users) \<Rightarrow>
                  (Inr (), notifyTo EventMessageDelta users (MessageDeltaEvent cid mid text) w2)))"

section \<open>Finishing\<close>

datatype ending = endedByAgent | endedByHub | endedByPerson

definition errNotOwnStream :: go_error where "errNotOwnStream = NotFound ''stream_not_found''"

definition ownFinishedMessage :: "db \<Rightarrow> uuid \<Rightarrow> uuid \<Rightarrow> go_error + message" where
  "ownFinishedMessage d agentID mid = (case GetMessage d mid of
       Inl err \<Rightarrow> Inl (if IsNoRows err then errNotOwnStream else Internal err)
     | Inr row \<Rightarrow> ok_then (messageFromRow row) (\<lambda>m.
         if snd_kind (mg_sender m) \<noteq> ParticipantAgent \<or> snd_id (mg_sender m) \<noteq> agentID
            \<or> mg_status m \<noteq> MessageComplete then Inl errNotOwnStream
         else Inr m))"

text \<open>
  The transaction. \<open>errAlreadyFinished\<close> is the result \<open>None\<close>: the update met no row, so there is
  nothing to roll back.
\<close>

definition finishTx ::
    "env \<Rightarrow> uuid \<Rightarrow> uuid \<Rightarrow> body \<Rightarrow> bool \<Rightarrow> bool \<Rightarrow> (message \<times> uuid list) option handler" where
  "finishTx e agentID mid b truncated stopped w =
     (let (r, w1) = on_db (FinishMessage mid agentID b truncated stopped) w in
      (case r of
         Inl err \<Rightarrow> if IsNoRows err then (Inr None, w1) else (Inl (Internal err), w1)
       | Inr row \<Rightarrow> needs (messageFromRow row) w1 (\<lambda>unsigned.
           let m = unsigned\<lparr>mg_signature := sign e unsigned\<rparr>;
               w2 = (case mg_signature m of None \<Rightarrow> w1
                     | Some sg \<Rightarrow> exec (SetMessageSignature (mg_id m) (Some sg)) w1) in
           runs (fanOut e m w2) (\<lambda>pending w3. (Inr (Some (m, pending)), w3)))))"

definition finishStream :: "env \<Rightarrow> uuid \<Rightarrow> uuid \<Rightarrow> finish_input \<Rightarrow> ending \<Rightarrow> message handler" where
  "finishStream e agentID mid inp how w = (case w_streams w of
       None \<Rightarrow> (Inl (Internal (PlainError OtherCause)), w)
     | Some st \<Rightarrow>
         let (text, clamped) = clampText (stream_text (w_now w) (agentID, mid) st);
             b = empty_body\<lparr>bd_text := text, bd_buttons := fi_buttons inp, bd_quick_replies := fi_quick_replies inp\<rparr> in
         (case WithTx (finishTx e agentID mid b (how \<noteq> endedByAgent \<or> clamped) (how = endedByPerson)) w of
            (Inl err, w1) \<Rightarrow> (Inl (classified err), w1)
          | (Inr None, w1) \<Rightarrow> (ownFinishedMessage (w_db w1) agentID mid, w1)
          | (Inr (Some (m, pending)), w1) \<Rightarrow>
              let w2 = on_streams (stream_remove (agentID, mid)) w1 in
              needs (decorate w2 True [m]) w2 (\<lambda>final.
                (Inr (hd final), nudge pending (notify e EventMessageCompleted (mg_conversation_id m)
                   (MessageCreatedEvent (mg_conversation_id m) (hd final)) w2)))))"

definition FinishStream :: "env \<Rightarrow> uuid \<Rightarrow> uuid \<Rightarrow> finish_input \<Rightarrow> message handler" where
  "FinishStream e agentID mid inp w =
     needs (validateButtons (env_url_parse e) (fi_buttons inp)) w (\<lambda>buttons.
     needs (validateQuickReplies (fi_quick_replies inp)) w (\<lambda>quick.
     finishStream e agentID mid \<lparr>fi_buttons = buttons, fi_quick_replies = quick\<rparr> endedByAgent w))"

section \<open>Sweeping\<close>

definition streamIdleFor :: int where "streamIdleFor = seconds 30"
definition streamStuckFor :: int where "streamStuckFor = minutes 5"

definition no_finish_input :: finish_input where
  "no_finish_input = \<lparr>fi_buttons = [], fi_quick_replies = []\<rparr>"

fun sweep_loop :: "env \<Rightarrow> stream_ref list \<Rightarrow> world \<Rightarrow> nat \<times> world" where
  "sweep_loop e [] w = (0, w)"
| "sweep_loop e (r # rs) w =
     (case finishStream e (fst r) (snd r) no_finish_input endedByHub w of
        (Inl err, w1) \<Rightarrow> sweep_loop e rs (on_streams (stream_remove r) w1)
      | (Inr m, w1) \<Rightarrow> (let (n, w2) = sweep_loop e rs w1 in (Suc n, w2)))"

definition SweepStreams :: "env \<Rightarrow> int \<Rightarrow> nat handler" where
  "SweepStreams e idleFor w = (case w_streams w of
       None \<Rightarrow> (Inr 0, w)
     | Some st \<Rightarrow>
         let refs = stream_idle (w_now w) idleFor st;
             stale = List.map_filter (\<lambda>m. map_option (\<lambda>a. (a, msg_id m)) (msg_sender_agent_id m))
               (ListStaleStreamingMessages (w_db w) (w_now w - streamStuckFor));
             (n, w1) = sweep_loop e (refs @ stale) w in
         (Inr n, w1))"

section \<open>Stop\<close>

text \<open>Ending the open replies, and which agent had one.\<close>

fun stop_loop :: "env \<Rightarrow> (uuid \<times> uuid) list \<Rightarrow> (message list \<times> (uuid \<Rightarrow> uuid option)) handler" where
  "stop_loop e [] w = (Inr ([], Map.empty), w)"
| "stop_loop e ((mid, agentID) # rows) w =
     (case finishStream e agentID mid no_finish_input endedByPerson w of
        (Inl err, w1) \<Rightarrow> if CodeOf err = ''stream_not_found'' then stop_loop e rows w1 else (Inl err, w1)
      | (Inr m, w1) \<Rightarrow> runs (stop_loop e rows w1) (\<lambda>(ended, byAgent) w2.
          if mg_stopped m
          then (Inr (m # ended, \<lambda>a. case byAgent a of Some i \<Rightarrow> Some i
                                  | None \<Rightarrow> if a = agentID then Some mid else None), w2)
          else (Inr (ended, byAgent), w2)))"

fun stop_announce :: "env \<Rightarrow> uuid \<Rightarrow> (uuid \<Rightarrow> uuid option) \<Rightarrow> uuid list \<Rightarrow> uuid list handler" where
  "stop_announce e cid byAgent [] w = (Inr [], w)"
| "stop_announce e cid byAgent (a # as) w =
     runs (Enqueue e a cid EventStopRequested (StopPayload (byAgent a)) (announceActivity e a cid ActivityIdle [] w))
       (\<lambda>queued w1. runs (stop_announce e cid byAgent as w1) (\<lambda>pending w2.
          (Inr (if queued then a # pending else pending), w2)))"

definition Stop :: "env \<Rightarrow> uuid \<Rightarrow> uuid \<Rightarrow> message list handler" where
  "Stop e userID cid w =
     needs (member (w_db w) userID cid) w (\<lambda>_.
     needs (ensureOpen (w_db w) cid) w (\<lambda>_.
     let (wait, w1) = allow ''stop:user:'' userID stopPolicy w in
     if 0 < wait then (Inl (RateLimited ''rate_limited'' wait), w1)
     else runs (stop_loop e (ListStreamingInConversation (w_db w1) cid) w1) (\<lambda>(ended, byAgent) w2.
       runs (stop_announce e cid byAgent (ListAgentParticipants (w_db w2) cid) w2) (\<lambda>pending w3.
         (Inr ended, nudge pending w3)))))"

end
