(* ===== verification/StreamEnd.thy ===== *)
theory StreamEnd
  imports Streaming
begin

text \<open>
  The properties of streams: a stream is finished once and says what was appended to it, nothing
  can be appended afterwards, a stop ends every reply being written, and the sweeper forgets
  what it has looked at.
\<close>

section \<open>The transaction that ends a stream\<close>

definition ended_row :: "env \<Rightarrow> body \<Rightarrow> bool \<Rightarrow> bool \<Rightarrow> message_row \<Rightarrow> message_row" where
  "ended_row e b truncated stopped row =
     (let fin = row\<lparr>msg_body := Doc b, msg_status := MessageComplete, msg_truncated := truncated, msg_stopped := stopped\<rparr>;
          sg = (case messageFromRow fin of Inl _ \<Rightarrow> None | Inr m \<Rightarrow> sign e m) in
      case sg of None \<Rightarrow> fin | Some _ \<Rightarrow> fin\<lparr>msg_signature := sg\<rparr>)"

lemma ended_row_fields [simp]:
  "msg_id (ended_row e b t s row) = msg_id row" "msg_status (ended_row e b t s row) = MessageComplete"
  "msg_body (ended_row e b t s row) = Doc b" "msg_truncated (ended_row e b t s row) = t"
  "msg_stopped (ended_row e b t s row) = s" "msg_conversation_id (ended_row e b t s row) = msg_conversation_id row"
  "msg_sender_kind (ended_row e b t s row) = msg_sender_kind row"
  "msg_sender_agent_id (ended_row e b t s row) = msg_sender_agent_id row"
  "msg_sender_user_id (ended_row e b t s row) = msg_sender_user_id row"
  by (simp_all add: ended_row_def Let_def split: option.splits)

definition ended_db :: "env \<Rightarrow> uuid \<Rightarrow> uuid \<Rightarrow> body \<Rightarrow> bool \<Rightarrow> bool \<Rightarrow> delivery_row list \<Rightarrow> db \<Rightarrow> db" where
  "ended_db e aid mid b t s rows d = d\<lparr>
     db_messages := update_where (FinishMessage_row mid aid) (ended_row e b t s) (db_messages d),
     db_deliveries := db_deliveries d @ rows\<rparr>"

lemma FinishMessage_Inr:
  assumes "FinishMessage mid aid b t s d = (Inr row, d')"
  obtains old where "old \<in> set (db_messages d)" "FinishMessage_row mid aid old"
    "row = old\<lparr>msg_body := Doc b, msg_status := MessageComplete, msg_truncated := t, msg_stopped := s\<rparr>"
    "d' = d\<lparr>db_messages := update_where (FinishMessage_row mid aid)
       (\<lambda>m. m\<lparr>msg_body := Doc b, msg_status := MessageComplete, msg_truncated := t, msg_stopped := s\<rparr>) (db_messages d)\<rparr>"
  using assms by (auto simp: FinishMessage_def Let_def ok_iffs dest!: find_in_set)

lemma FinishMessage_Inl:
  assumes "FinishMessage mid aid b t s d = (Inl err, d')"
  shows "IsNoRows err \<and> d' = d \<and> (\<forall>m\<in>set (db_messages d). \<not> FinishMessage_row mid aid m)"
proof -
  have n: "find (FinishMessage_row mid aid) (db_messages d) = None"
    using assms by (cases "find (FinishMessage_row mid aid) (db_messages d)") (auto simp: FinishMessage_def Let_def one_row_def)
  then have "\<forall>m\<in>set (db_messages d). \<not> FinishMessage_row mid aid m" by (simp add: find_none)
  with assms n show ?thesis
    by (auto simp: FinishMessage_def Let_def one_row_def IsNoRows_def update_where_none)
qed

lemma finishTx_None:
  assumes "finishTx e aid mid b t s w = (Inr None, w')"
  shows "w' = w \<and> (\<forall>m\<in>set (db_messages (w_db w)). \<not> FinishMessage_row mid aid m)"
proof -
  obtain r d1 where f: "FinishMessage mid aid b t s (w_db w) = (r, d1)" by fastforce
  then show ?thesis
    using assms FinishMessage_Inl [of mid aid b t s "w_db w"]
    by (cases r) (auto simp: finishTx_def on_db_def Let_def ok_iffs split: if_splits)
qed

lemma finishTx_Some:
  assumes "finishTx e aid mid b t s w = (Inr (Some (m, pending)), w')" "distinct (map msg_id (db_messages (w_db w)))"
  obtains row rows where "row \<in> set (db_messages (w_db w))" "FinishMessage_row mid aid row"
    "w_db w' = ended_db e aid mid b t s rows (w_db w)"
    "map dlv_agent_id rows = told (w_db w) m" "\<forall>r\<in>set rows. row_for (w_db w) m r"
    "pending = filter (bound (w_db w)) (told (w_db w) m)"
    "messageFromRow (ended_row e b t s row) = Inr (m\<lparr>mg_signature := msg_signature (ended_row e b t s row)\<rparr>)"
    "same_surroundings w w'"
proof -
  let ?fin = "\<lambda>m. m\<lparr>msg_body := Doc b, msg_status := MessageComplete, msg_truncated := t, msg_stopped := s\<rparr>"
  let ?P = "FinishMessage_row mid aid"
  obtain r d1 where f: "FinishMessage mid aid b t s (w_db w) = (r, d1)" by fastforce
  obtain row where r: "r = Inr row"
    using assms(1) f FinishMessage_Inl [of mid aid b t s "w_db w"]
    by (cases r) (auto simp: finishTx_def on_db_def Let_def split: if_splits)
  obtain old where old: "old \<in> set (db_messages (w_db w))" "?P old" "row = ?fin old"
    and d1: "d1 = (w_db w)\<lparr>db_messages := update_where ?P ?fin (db_messages (w_db w))\<rparr>"
    using FinishMessage_Inr f r by metis
  obtain u where u: "messageFromRow row = Inr u" using messageFromRow_Doc [of row b] old(3) by auto
  let ?w1 = "w\<lparr>w_db := d1\<rparr>"
  let ?w2 = "case sign e u of None \<Rightarrow> ?w1 | Some sg \<Rightarrow> exec (SetMessageSignature (mg_id u) (Some sg)) ?w1"
  have fan: "fanOut e m ?w2 = (Inr pending, w')" and m: "m = u\<lparr>mg_signature := sign e u\<rparr>"
    using assms(1) f r u by (auto simp: finishTx_def on_db_def Let_def ok_iffs cong: option.case_cong)
  have uniq: "?P x \<longleftrightarrow> x = old" "msg_id x = mid \<longleftrightarrow> x = old" if "x \<in> set (db_messages (w_db w))" for x
    using key_unique [OF assms(2) that old(1)] old(2) by (auto simp: FinishMessage_row_def)
  have er: "ended_row e b t s old = (case sign e u of None \<Rightarrow> row | Some sg \<Rightarrow> row\<lparr>msg_signature := Some sg\<rparr>)"
    using u old(3) by (auto simp: ended_row_def Let_def split: option.splits)
  have "mg_id u = mid" using messageFromRow_Inr [OF u] old by (simp add: FinishMessage_row_def)
  then have w2: "w_db ?w2 = (w_db w)\<lparr>db_messages := update_where ?P (ended_row e b t s) (db_messages (w_db w))\<rparr>"
    using uniq er old(2,3)
    by (cases "sign e u") (auto simp: d1 SetMessageSignature_def update_where_def FinishMessage_row_def)
  have sur: "same_surroundings w ?w2" by (auto simp: same_surroundings_def split: option.splits)
  have cong: "ListAgentParticipants (w_db ?w2) = ListAgentParticipants (w_db w)" "bound (w_db ?w2) = bound (w_db w)"
    "row_for (w_db ?w2) = row_for (w_db w)"
    by (auto simp: w2 intro!: ListAgentParticipants_cong bound_cong row_for_cong)
  have er': "messageFromRow (ended_row e b t s old) = Inr (m\<lparr>mg_signature := msg_signature (ended_row e b t s old)\<rparr>)"
    using u m er by (cases "sign e u") (auto simp: messageFromRow_def sender_of_row_def split: json.splits participant_kind.splits)
  from fanOut_loop_ok [OF fan [unfolded fanOut_def]] show ?thesis
    using that [of old] old er' w2 cong sur
    by (auto simp: ended_db_def told_def same_surroundings_def)
qed

section \<open>The ways a finish ends\<close>

lemma body_kept:
  assumes "decorate w fs ms = Inr ms'" "\<forall>m\<in>set ms. mg_status m = MessageComplete"
  shows "map mg_body ms' = map mg_body ms"
proof -
  define ms1 where "ms1 = (if fs then attachDeliveryStatus (w_db w) ms else ms)"
  define ms2 where "ms2 = attachStreamText (w_now w) (w_streams w) ms1"
  have 1: "map mg_body ms1 = map mg_body ms" "map mg_core ms1 = map mg_core ms"
    by (simp_all add: ms1_def core_attachDeliveryStatus) (simp add: attachDeliveryStatus_def Let_def split: option.splits)
  have "mg_status m = MessageComplete" if "m \<in> set ms1" for m
  proof -
    have "mg_core m \<in> set (map mg_core ms)" unfolding 1(2) [symmetric] using that by simp
    then obtain q where "q \<in> set ms" "mg_core m = mg_core q" by auto
    then show ?thesis using mg_core_eq assms(2) by metis
  qed
  then have "filter (\<lambda>m. mg_status m = MessageStreaming \<and> snd_kind (mg_sender m) = ParticipantAgent) ms1 = []"
    by (auto simp: filter_empty_conv)
  then have 2: "ms2 = ms1" by (simp add: ms2_def attachStreamText_def stream_texts_def split: option.splits)
  have "map mg_body (attachScheduleTitles d xs) = map mg_body xs" for d xs
    by (simp add: attachScheduleTitles_def Let_def split: option.splits)
  moreover have "attachReplyPreviews d xs = Inr ys \<Longrightarrow> map mg_body ys = map mg_body xs" for d xs ys
    by (auto simp: attachReplyPreviews_def Let_def ok_iffs quoted_def split: if_splits option.splits)
  ultimately show ?thesis using assms(1) 1(1) 2 by (simp add: decorate_def flip: ms1_def ms2_def)
qed

lemma no_corrupt_ended_db: "no_corrupt d \<Longrightarrow> no_corrupt (ended_db e aid mid b t s rows d)"
  by (auto simp: no_corrupt_def ended_db_def set_update_where)

text \<open>What the stream will say, and whether that is less than was appended.\<close>

definition final_body :: "uuid \<Rightarrow> uuid \<Rightarrow> finish_input \<Rightarrow> world \<Rightarrow> body" where
  "final_body aid mid inp w = empty_body\<lparr>bd_text := fst (clampText (case w_streams w of None \<Rightarrow> []
      | Some st \<Rightarrow> stream_text (w_now w) (aid, mid) st)),
    bd_buttons := fi_buttons inp, bd_quick_replies := fi_quick_replies inp\<rparr>"

definition cut_short :: "uuid \<Rightarrow> uuid \<Rightarrow> ending \<Rightarrow> world \<Rightarrow> bool" where
  "cut_short aid mid how w \<longleftrightarrow> how \<noteq> endedByAgent \<or> snd (clampText (case w_streams w of None \<Rightarrow> []
      | Some st \<Rightarrow> stream_text (w_now w) (aid, mid) st))"

lemma fanOut_loop_error: "fanOut_loop e m as w = (Inl err, w') \<Longrightarrow> CodeOf err = ''internal_error''"
proof (induction as arbitrary: w)
  case (Cons a as)
  then show ?case
    by (auto simp: Let_def needs_Inl runs_Inl internal_Inl Internal_def split: if_splits prod.splits sum.splits)
qed simp

lemma finishTx_error_code:
  assumes "finishTx e aid mid b t s w = (Inl err, w')"
  shows "CodeOf (classified err) \<noteq> ''stream_not_found''"
proof -
  obtain r d1 where f: "FinishMessage mid aid b t s (w_db w) = (r, d1)" by fastforce
  have "CodeOf err = ''internal_error''"
  proof (cases r)
    case (Inl x)
    then show ?thesis using assms f FinishMessage_Inl by (fastforce simp: finishTx_def on_db_def Let_def)
  next
    case (Inr row)
    then obtain u where "messageFromRow row = Inr u"
      using f by (auto simp: FinishMessage_def Let_def ok_iffs messageFromRow_def)
    then show ?thesis
      using assms f Inr by (auto simp: finishTx_def on_db_def Let_def runs_Inl fanOut_def dest: fanOut_loop_error)
  qed
  then show ?thesis by (cases err) (auto simp: classified_def Internal_def)
qed

lemma finishStream_eq:
  assumes "w_streams w \<noteq> None"
  shows "finishStream e aid mid inp how w =
    (case WithTx (finishTx e aid mid (final_body aid mid inp w) (cut_short aid mid how w) (how = endedByPerson)) w of
       (Inl err, w1) \<Rightarrow> (Inl (classified err), w1)
     | (Inr None, w1) \<Rightarrow> (ownFinishedMessage (w_db w1) aid mid, w1)
     | (Inr (Some (m, pending)), w1) \<Rightarrow>
         let w2 = on_streams (stream_remove (aid, mid)) w1 in
         needs (decorate w2 True [m]) w2 (\<lambda>final.
           (Inr (hd final), nudge pending (notify e EventMessageCompleted (mg_conversation_id m)
              (MessageCreatedEvent (mg_conversation_id m) (hd final)) w2))))"
proof -
  obtain st where st: "w_streams w = Some st" using assms by auto
  obtain t cl where c: "clampText (stream_text (w_now w) (aid, mid) st) = (t, cl)" by fastforce
  show ?thesis by (simp add: finishStream_def final_body_def cut_short_def st c)
qed

lemma finishStream_cases:
  assumes "finishStream e aid mid inp how w = (res, w')" "no_corrupt (w_db w)" "db_ok (w_db w)"
  obtains (failed) err where "res = Inl err" "w_db w' = w_db w" "CodeOf err \<noteq> ''stream_not_found''"
  | (again) "res = ownFinishedMessage (w_db w) aid mid" "w' = w" "w_streams w \<noteq> None"
      "\<forall>m\<in>set (db_messages (w_db w)). \<not> FinishMessage_row mid aid m"
  | (ended) m m' row rows where "res = Inr m'" "w_streams w \<noteq> None"
      "row \<in> set (db_messages (w_db w))" "FinishMessage_row mid aid row"
      "w_db w' = ended_db e aid mid (final_body aid mid inp w) (cut_short aid mid how w) (how = endedByPerson) rows (w_db w)"
      "w_streams w' = map_option (stream_remove (aid, mid)) (w_streams w)"
      "map dlv_agent_id rows = told (w_db w) m" "\<forall>r\<in>set rows. row_for (w_db w) m r"
      "messageFromRow (ended_row e (final_body aid mid inp w) (cut_short aid mid how w) (how = endedByPerson) row)
         = Inr (m\<lparr>mg_signature := msg_signature (ended_row e (final_body aid mid inp w) (cut_short aid mid how w) (how = endedByPerson) row)\<rparr>)"
      "mg_core m' = mg_core m" "mg_body m' = mg_body m" "w_now w' = w_now w"
proof (cases "w_streams w")
  case None
  then show thesis
    using failed assms(1) by (auto simp: finishStream_def Internal_def)
next
  case (Some st)
  then have str: "w_streams w \<noteq> None" by simp
  let ?b = "final_body aid mid inp w" and ?t = "cut_short aid mid how w" and ?s = "how = endedByPerson"
  obtain r w1 where tx: "finishTx e aid mid ?b ?t ?s w = (r, w1)" by fastforce
  note fin = assms(1) [unfolded finishStream_eq [OF str] WithTx_def tx]
  show thesis
  proof (cases r)
    case (Inl err)
    with fin have "res = Inl (classified err)" "w_db w' = w_db w" by auto
    with finishTx_error_code [OF tx [unfolded Inl]] failed show thesis by blast
  next
    case (Inr x)
    show thesis
    proof (cases x)
      case None
      note no = finishTx_None [OF tx [unfolded Inr None]]
      with fin Inr None have "res = ownFinishedMessage (w_db w) aid mid" "w' = w" by auto
      with no str again show thesis by blast
    next
      case x: (Some mp)
      obtain m pending where mp: "mp = (m, pending)" by (cases mp)
      have dist: "distinct (map msg_id (db_messages (w_db w)))" using db_okD(3) [OF assms(3)] by (simp add: messages_ok_def)
      show thesis
      proof (rule finishTx_Some [OF tx [unfolded Inr x mp] dist])
        fix row rows
        assume f: "row \<in> set (db_messages (w_db w))" "FinishMessage_row mid aid row"
          "w_db w1 = ended_db e aid mid ?b ?t ?s rows (w_db w)"
          "map dlv_agent_id rows = told (w_db w) m" "\<forall>r\<in>set rows. row_for (w_db w) m r"
          "messageFromRow (ended_row e ?b ?t ?s row) = Inr (m\<lparr>mg_signature := msg_signature (ended_row e ?b ?t ?s row)\<rparr>)"
          "same_surroundings w w1"
        let ?w2 = "on_streams (stream_remove (aid, mid)) w1"
        have "no_corrupt (w_db ?w2)" using no_corrupt_ended_db [OF assms(2)] f(3) by simp
        then obtain final where d: "decorate ?w2 True [m] = Inr final" using decorate_total by blast
        have st: "mg_status m = MessageComplete" using messageFromRow_Inr [OF f(6)] by simp
        have core: "map mg_core final = [mg_core m]" using decorate_core [OF d] by simp
        then obtain m' where m': "final = [m']" "mg_core m' = mg_core m" by auto
        have body: "mg_body m' = mg_body m" using body_kept [OF d] st m'(1) by simp
        have "res = Inr m'" "w' = nudge pending (notify e EventMessageCompleted (mg_conversation_id m)
                   (MessageCreatedEvent (mg_conversation_id m) m') ?w2)"
          using fin Inr x mp d m'(1) by (simp_all add: Let_def)
        then show thesis
          using ended [of m' row rows m] f m'(2) body Some by (simp add: same_surroundings_def)
      qed
    qed
  qed
qed

section \<open>A stream ends once\<close>

lemma finishStream_no_row:
  assumes "\<forall>m\<in>set (db_messages (w_db w)). \<not> FinishMessage_row mid aid m" "w_streams w \<noteq> None"
  shows "finishStream e aid mid inp how w = (ownFinishedMessage (w_db w) aid mid, w)"
proof -
  have "find (FinishMessage_row mid aid) (db_messages (w_db w)) = None" using assms(1) by (simp add: find_none)
  then have "finishTx e aid mid b t s w = (Inr None, w)" for b t s
    using assms(1) by (auto simp: finishTx_def on_db_def FinishMessage_def Let_def one_row_def IsNoRows_def update_where_none)
  then show ?thesis by (simp add: finishStream_eq [OF assms(2)] WithTx_def)
qed

text \<open>The row of a stream that has just ended, found by its id.\<close>

lemma ended_row_found:
  assumes "distinct (map msg_id (db_messages d))" "row \<in> set (db_messages d)" "FinishMessage_row mid aid row"
  shows "GetMessage (ended_db e aid mid b t s rows d) mid = Inr (ended_row e b t s row)"
    and "\<forall>m\<in>set (db_messages (ended_db e aid mid b t s rows d)). \<not> FinishMessage_row mid aid m"
proof -
  have "msg_id row = mid" using assms(3) by (simp add: FinishMessage_row_def)
  then have "find (\<lambda>m. msg_id m = mid) (db_messages d) = Some row"
    using find_key_iff [OF assms(1)] assms(2) by simp
  then show "GetMessage (ended_db e aid mid b t s rows d) mid = Inr (ended_row e b t s row)"
    using assms(3) by (simp add: GetMessage_def ended_db_def find_update_where one_row_def FinishMessage_row_def)
  show "\<forall>m\<in>set (db_messages (ended_db e aid mid b t s rows d)). \<not> FinishMessage_row mid aid m"
    by (auto simp: ended_db_def set_update_where) (simp add: FinishMessage_row_def)
qed

lemma ownFinishedMessage_Inr:
  "ownFinishedMessage d aid mid = Inr m \<longleftrightarrow> (\<exists>row. GetMessage d mid = Inr row \<and> messageFromRow row = Inr m
     \<and> mg_sender m = agent_sender aid \<and> mg_status m = MessageComplete)"
  by (cases "GetMessage d mid"; cases "messageFromRow (projr (GetMessage d mid))")
    (auto simp: ownFinishedMessage_def agent_sender_def)

text \<open>
  C8. A stream ends once. Whoever ends it, agent, hub or person, what is returned is the agent's
  complete message; ending it again, by anyone and with whatever buttons, returns the same text,
  buttons and marks and changes nothing at all: no outbox row, no event.
\<close>

theorem a_stream_ends_once:
  assumes "db_ok (w_db w)" "no_corrupt (w_db w)" "finishStream e aid mid inp how w = (Inr m, w')"
    and "w_db w2 = w_db w'" "w_streams w2 \<noteq> None"
  shows "mg_id m = mid \<and> mg_sender m = agent_sender aid \<and> mg_status m = MessageComplete
    \<and> (\<exists>m2. finishStream e aid mid inp2 how2 w2 = (Inr m2, w2) \<and> mg_id m2 = mid \<and> mg_body m2 = mg_body m
        \<and> mg_truncated m2 = mg_truncated m \<and> mg_stopped m2 = mg_stopped m)"
proof (cases rule: finishStream_cases [OF assms(3,2,1), case_names failed again ended])
  case (failed err)
  then show ?thesis by simp
next
  case again
  then have own: "ownFinishedMessage (w_db w) aid mid = Inr m" by simp
  then obtain row where row: "GetMessage (w_db w) mid = Inr row" "messageFromRow row = Inr m"
    "mg_sender m = agent_sender aid" "mg_status m = MessageComplete" by (auto simp: ownFinishedMessage_Inr)
  have "finishStream e aid mid inp2 how2 w2 = (Inr m, w2)"
  proof -
    have "\<forall>m\<in>set (db_messages (w_db w2)). \<not> FinishMessage_row mid aid m" using again(2,4) assms(4) by simp
    from finishStream_no_row [OF this assms(5)] show ?thesis by (simp add: assms(4) again(2) own)
  qed
  moreover have "mg_id m = mid" using messageFromRow_Inr [OF row(2)] GetMessage_Inr [OF row(1)] by simp
  ultimately show ?thesis using row(3,4) by simp
next
  case (ended m1 m1' row rows)
  let ?b = "final_body aid mid inp w" and ?t = "cut_short aid mid how w" and ?s = "how = endedByPerson"
  have dist: "distinct (map msg_id (db_messages (w_db w)))" using db_okD(3) [OF assms(1)] by (simp add: messages_ok_def)
  note found = ended_row_found [OF dist ended(3,4), of e ?b ?t ?s rows, folded ended(5) assms(4)]
  let ?row = "ended_row e ?b ?t ?s row" let ?m2 = "m1\<lparr>mg_signature := msg_signature ?row\<rparr>"
  note r = messageFromRow_Inr [OF ended(9)]
  have row: "msg_id row = mid" "msg_sender_kind row = ParticipantAgent" "msg_sender_agent_id row = Some aid"
    using ended(3,4) db_okD(3) [OF assms(1)] by (auto simp: FinishMessage_row_def messages_ok_def)
  have s: "mg_sender m1 = agent_sender aid" using r row by (simp add: sender_of_row_def agent_sender_def derefID_def)
  have own: "ownFinishedMessage (w_db w2) aid mid = Inr ?m2"
    using found(1) ended(9) s r by (auto simp: ownFinishedMessage_Inr)
  have m: "m = m1'" using ended(1) by simp
  note c = mg_core_eq [OF ended(10)]
  have "finishStream e aid mid inp2 how2 w2 = (Inr ?m2, w2)"
    using finishStream_no_row [OF found(2) assms(5)] own by simp
  then show ?thesis using c r row(1) s ended(11) m by auto
qed

text \<open>
  C18. What a stream ends with. When a stream of the agent's is ended, the message is the text
  that was appended, cut to the longest a message may be; it is marked truncated unless the
  agent ended it and nothing was cut, and stopped exactly when a person ended it; every other
  agent of the conversation is told once; and the buffer is gone, so that whatever the agent
  sends for this message afterwards is refused and changes neither a row nor a buffer.
\<close>

theorem an_ended_stream_says_what_was_appended:
  assumes "db_ok (w_db w)" "no_corrupt (w_db w)" "finishStream e aid mid inp how w = (Inr m, w')"
    and "w_streams w = Some st" "row \<in> set (db_messages (w_db w))" "msg_id row = mid"
    and "msg_sender_agent_id row = Some aid" "msg_status row = MessageStreaming"
    and "w_db w2 = w_db w'" "w_streams w2 = w_streams w'"
  shows "bd_text (mg_body m) = fst (clampText (stream_text (w_now w) (aid, mid) st))
    \<and> mg_truncated m = (how \<noteq> endedByAgent \<or> snd (clampText (stream_text (w_now w) (aid, mid) st)))
    \<and> mg_stopped m = (how = endedByPerson)
    \<and> (\<exists>rows. db_deliveries (w_db w') = db_deliveries (w_db w) @ rows \<and> map dlv_agent_id rows
        = filter (\<lambda>a. a \<noteq> aid) (ListAgentParticipants (w_db w) (msg_conversation_id row)))
    \<and> (\<exists>err w3. AppendStream aid mid text w2 = (Inl err, w3) \<and> w_db w3 = w_db w2 \<and> w_streams w3 = w_streams w2)"
proof (cases rule: finishStream_cases [OF assms(3,2,1), case_names failed again ended])
  case (failed err)
  then show ?thesis by simp
next
  case again
  then show ?thesis using assms(5-8) by (auto simp: FinishMessage_row_def)
next
  case (ended m1 m1' row1 rows)
  let ?b = "final_body aid mid inp w" and ?t = "cut_short aid mid how w" and ?s = "how = endedByPerson"
  have "row1 = row"
    using ended(3,4) assms(5,6) db_okD(3) [OF assms(1)] key_unique [of msg_id "db_messages (w_db w)"]
    by (auto simp: FinishMessage_row_def messages_ok_def)
  note r = messageFromRow_Inr [OF ended(9), unfolded this]
  have m: "m = m1'" using ended(1) by simp
  note c = mg_core_eq [OF ended(10)]
  have "msg_sender_kind row = ParticipantAgent"
    using assms(5,7) db_okD(3) [OF assms(1)] by (auto simp: messages_ok_def)
  then have s: "mg_sender m1 = agent_sender aid"
    using r assms(7) by (simp add: sender_of_row_def agent_sender_def derefID_def)
  have told: "told (w_db w) m1 = filter (\<lambda>a. a \<noteq> aid) (ListAgentParticipants (w_db w) (msg_conversation_id row))"
  proof -
    have "is_sender m1 a = (a = aid)" for a by (auto simp: is_sender_def s agent_sender_def)
    moreover have "mg_conversation_id m1 = msg_conversation_id row" using r by simp
    ultimately show ?thesis by (simp add: told_def)
  qed
  have "w_streams w2 = Some (stream_remove (aid, mid) st)" using assms(4,10) ended(6) by simp
  then have "\<exists>err w3. AppendStream aid mid text w2 = (Inl err, w3) \<and> w_db w3 = w_db w2 \<and> w_streams w3 = w_streams w2"
    using allow_fields [of "''delta:agent:''" aid agentDeltaPolicy w2]
    by (auto simp: AppendStream_def split_def Let_def removed_not_streaming)
  moreover have "mg_body m = final_body aid mid inp w" "mg_truncated m = cut_short aid mid how w"
    "mg_stopped m = (how = endedByPerson)"
    using r c m ended(11) by simp_all
  moreover have "db_deliveries (w_db w') = db_deliveries (w_db w) @ rows" by (simp add: ended(5) ended_db_def)
  ultimately show ?thesis
    using ended(7) told assms(4) by (simp add: final_body_def cut_short_def)
qed

section \<open>What the operations on streams keep\<close>

lemma well_finishTx: "well w \<Longrightarrow> well (snd (finishTx e aid mid b t s w))"
proof -
  assume w: "well w"
  obtain r d1 where f: "FinishMessage mid aid b t s (w_db w) = (r, d1)" by fastforce
  have w1: "well (w\<lparr>w_db := d1\<rparr>)" using db_ok_FinishMessage [OF w, of mid aid b t s] f by simp
  have "well (case sg of None \<Rightarrow> w\<lparr>w_db := d1\<rparr> | Some x \<Rightarrow> exec (SetMessageSignature i (Some x)) (w\<lparr>w_db := d1\<rparr>))" for sg i
    using w1 by (simp add: db_ok_SetMessageSignature split: option.splits)
  with w1 show ?thesis
    by (cases r) (auto simp: finishTx_def on_db_def f Let_def fanOut_def well_fanOut_loop intro!: keeps)
qed

lemma well_finishStream [keeps]: "well w \<Longrightarrow> well (snd (finishStream e aid mid inp how w))"
proof (cases "w_streams w")
  case (Some st)
  assume w: "well w"
  let ?tx = "finishTx e aid mid (final_body aid mid inp w) (cut_short aid mid how w) (how = endedByPerson)"
  have "well (snd (WithTx ?tx w))" using w by (intro keeps well_finishTx)
  with Some show ?thesis
    by (cases "WithTx ?tx w"; cases "fst (WithTx ?tx w)") (auto simp: finishStream_eq Let_def intro!: keeps split: option.splits)
qed (simp add: finishStream_def)

lemma well_sweep_loop: "well w \<Longrightarrow> well (snd (sweep_loop e rs w))"
proof (induction rs arbitrary: w)
  case (Cons r rs)
  obtain res w1 where f: "finishStream e (fst r) (snd r) no_finish_input endedByHub w = (res, w1)" by fastforce
  then have "well w1" using well_finishStream [OF Cons.prems] by (metis snd_conv)
  then show ?case using f Cons.IH by (cases res) (simp_all add: split_def Let_def)
qed simp

lemma well_stop_loop: "well w \<Longrightarrow> well (snd (stop_loop e rs w))"
proof (induction rs arbitrary: w)
  case (Cons r rs)
  obtain res w1 where f: "finishStream e (snd r) (fst r) no_finish_input endedByPerson w = (res, w1)" by fastforce
  then have w1: "well w1" using well_finishStream [OF Cons.prems] by (metis snd_conv)
  have "well (snd (runs (stop_loop e rs w1) (\<lambda>(ended, byAgent) w2. if P then (X ended byAgent, w2) else (Y ended byAgent, w2))))"
    for P and X Y :: "message list \<Rightarrow> (uuid \<Rightarrow> uuid option) \<Rightarrow> go_error + message list \<times> (uuid \<Rightarrow> uuid option)"
    by (rule well_runs [OF Cons.IH [OF w1]]) (simp add: split_def)
  then show ?case using f Cons.IH [OF w1] w1 by (cases r; cases res) simp_all
qed simp

lemma well_announceActivity [simp]: "w_db (announceActivity e a c s l w) = w_db w"
  by (simp add: announceActivity_def Let_def)

lemma well_stop_announce: "well w \<Longrightarrow> well (snd (stop_announce e c b as w))"
proof (induction as arbitrary: w)
  case (Cons a as)
  show ?case unfolding stop_announce.simps
    by (rule well_runs [OF well_Enqueue], simp add: Cons.prems, rule well_runs [OF Cons.IH], assumption, simp)
qed simp

lemma well_streaming [keeps]:
  assumes "well w"
  shows "well (snd (FinishStream e a m inp w))" "well (snd (SweepStreams e t w))" "well (snd (Stop e u c w))"
    "well (snd (AppendStream a m text w))" "well (snd (Activity e a c state label w))"
    "well (snd (Typing e a c state w))"
proof -
  show act: "well (snd (Activity e a c state label w))" for state label
    using assms by (auto simp: Activity_def Let_def split_def intro!: keeps)
  show "well (snd (Typing e a c state w))" using act assms by (simp add: Typing_def)
  show "well (snd (FinishStream e a m inp w))" using assms by (auto simp: FinishStream_def intro!: keeps)
  show "well (snd (SweepStreams e t w))"
    using assms well_sweep_loop by (auto simp: SweepStreams_def Let_def split_def split: option.splits)
  show "well (snd (AppendStream a m text w))"
    using assms by (auto simp: AppendStream_def Let_def split_def split: option.splits sum.splits stream_error.splits)
  show "well (snd (Stop e u c w))"
    using assms by (auto simp: Stop_def Let_def split_def intro!: keeps well_stop_loop well_stop_announce)
qed

section \<open>Stopping\<close>

text \<open>How the messages of a conversation may change while a person's stop is carried out.\<close>

definition was_stopped :: "message_row \<Rightarrow> message_row \<Rightarrow> bool" where
  "was_stopped m m' \<longleftrightarrow> msg_id m' = msg_id m \<and> msg_conversation_id m' = msg_conversation_id m
     \<and> msg_status m = MessageStreaming \<and> msg_status m' = MessageComplete \<and> msg_stopped m' \<and> msg_truncated m'"

definition stopped_from :: "db \<Rightarrow> db \<Rightarrow> bool" where
  "stopped_from d d' \<longleftrightarrow>
     (\<forall>m\<in>set (db_messages d). \<exists>m'\<in>set (db_messages d'). m' = m \<or> was_stopped m m')
   \<and> (\<forall>m'\<in>set (db_messages d'). msg_status m' = MessageStreaming \<longrightarrow> m' \<in> set (db_messages d))
   \<and> db_participants d' = db_participants d \<and> set (db_deliveries d) \<subseteq> set (db_deliveries d')"

lemma stopped_from_refl [simp]: "stopped_from d d"
  by (auto simp: stopped_from_def)

lemma stopped_from_trans: "stopped_from d1 d2 \<Longrightarrow> stopped_from d2 d3 \<Longrightarrow> stopped_from d1 d3"
  unfolding stopped_from_def
proof (elim conjE, intro conjI ballI impI)
  fix m assume 1: "\<forall>m\<in>set (db_messages d1). \<exists>m'\<in>set (db_messages d2). m' = m \<or> was_stopped m m'"
    "\<forall>m\<in>set (db_messages d2). \<exists>m'\<in>set (db_messages d3). m' = m \<or> was_stopped m m'" "m \<in> set (db_messages d1)"
  then obtain m' where m': "m' \<in> set (db_messages d2)" "m' = m \<or> was_stopped m m'" by blast
  with 1(2) obtain m'' where "m'' \<in> set (db_messages d3)" "m'' = m' \<or> was_stopped m' m''" by blast
  with m'(2) show "\<exists>m'\<in>set (db_messages d3). m' = m \<or> was_stopped m m'"
    by (intro bexI [of _ m'']) (auto simp: was_stopped_def)
qed auto

lemma stopped_from_ended:
  "stopped_from d (ended_db e aid mid b True True rows d)"
proof -
  let ?f = "\<lambda>m. if FinishMessage_row mid aid m then ended_row e b True True m else m"
  have "?f m = m \<or> was_stopped m (?f m)" for m by (simp add: was_stopped_def FinishMessage_row_def)
  moreover have "?f m \<in> set (update_where (FinishMessage_row mid aid) (ended_row e b True True) (db_messages d))"
    if "m \<in> set (db_messages d)" for m using that by (auto simp: update_where_def)
  ultimately show ?thesis
    unfolding stopped_from_def ended_db_def by (fastforce simp: set_update_where)
qed

lemma ended_none: "\<forall>m\<in>set (db_messages (ended_db e aid mid b t s rows d)). \<not> FinishMessage_row mid aid m"
  by (auto simp: ended_db_def set_update_where) (simp add: FinishMessage_row_def)

lemma stop_one:
  assumes "finishStream e aid mid inp endedByPerson w = (res, w')" "no_corrupt (w_db w)" "db_ok (w_db w)"
    and "\<And>err. res = Inl err \<Longrightarrow> CodeOf err = ''stream_not_found''"
  shows "stopped_from (w_db w) (w_db w') \<and> no_corrupt (w_db w')
    \<and> (\<forall>m\<in>set (db_messages (w_db w')). \<not> FinishMessage_row mid aid m)"
proof (cases rule: finishStream_cases [OF assms(1-3), case_names failed again ended])
  case (failed err)
  then show ?thesis using assms(4) by simp
next
  case again
  then show ?thesis using assms(2) by simp
next
  case (ended m m' row rows)
  have "cut_short aid mid endedByPerson w" by (simp add: cut_short_def)
  then show ?thesis
    using ended(5) stopped_from_ended ended_none no_corrupt_ended_db [OF assms(2)] by simp
qed

lemma stop_loop_ok:
  assumes "stop_loop e rows w = (Inr x, w')" "no_corrupt (w_db w)" "db_ok (w_db w)"
  shows "stopped_from (w_db w) (w_db w') \<and> no_corrupt (w_db w')
    \<and> (\<forall>(mid, aid)\<in>set rows. \<forall>m\<in>set (db_messages (w_db w')). \<not> FinishMessage_row mid aid m)"
  using assms
proof (induction rows arbitrary: w x)
  case (Cons r rows)
  obtain mid aid where r: "r = (mid, aid)" by (cases r)
  obtain res w1 where f: "finishStream e aid mid no_finish_input endedByPerson w = (res, w1)" by fastforce
  have code: "\<And>err. res = Inl err \<Longrightarrow> CodeOf err = ''stream_not_found''"
    using Cons.prems(1) r f by (auto split: if_splits)
  obtain y where rest: "stop_loop e rows w1 = (Inr y, w')"
    using Cons.prems(1) r f code by (cases res) (auto simp: ok_iffs split: if_splits)
  have w1: "db_ok (w_db w1)" using well_finishStream [OF Cons.prems(3)] f by (metis snd_conv)
  note s = stop_one [OF f Cons.prems(2,3) code]
  note ih = Cons.IH [OF rest _ w1]
  have "FinishMessage_row mid aid m \<Longrightarrow> m \<in> set (db_messages (w_db w')) \<Longrightarrow> m \<in> set (db_messages (w_db w1))" for m
    using ih s by (auto simp: stopped_from_def FinishMessage_row_def)
  then show ?case using s ih stopped_from_trans r by fastforce
qed simp

lemma stop_announce_ok:
  assumes "stop_announce e c b as w = (Inr x, w')"
  shows "\<exists>rows. w_db w' = (w_db w)\<lparr>db_deliveries := db_deliveries (w_db w) @ rows\<rparr> \<and> map dlv_agent_id rows = as
    \<and> (\<forall>r\<in>set rows. dlv_event_type r = EventStopRequested \<and> dlv_conversation_id r = c
         \<and> dlv_payload r = Some (Doc (StopPayload (b (dlv_agent_id r)))))"
  using assms
proof (induction as arbitrary: w x)
  case Nil
  then show ?case by (intro exI [of _ "[]"]) simp
next
  case (Cons a as)
  then obtain q w1 y where q: "Enqueue e a c EventStopRequested (StopPayload (b a)) (announceActivity e a c ActivityIdle [] w) = (Inr q, w1)"
    and y: "stop_announce e c b as w1 = (Inr y, w')"
    by (auto simp: ok_iffs)
  obtain row where row: "w_db w1 = (w_db w)\<lparr>db_deliveries := db_deliveries (w_db w) @ [row]\<rparr>"
    "dlv_agent_id row = a" "dlv_conversation_id row = c" "dlv_event_type row = EventStopRequested"
    "dlv_payload row = Some (Doc (StopPayload (b a)))"
    using Enqueue_ok [OF q] by auto
  obtain rows where "w_db w' = (w_db w1)\<lparr>db_deliveries := db_deliveries (w_db w1) @ rows\<rparr>" "map dlv_agent_id rows = as"
    "\<forall>r\<in>set rows. dlv_event_type r = EventStopRequested \<and> dlv_conversation_id r = c
         \<and> dlv_payload r = Some (Doc (StopPayload (b (dlv_agent_id r))))"
    using Cons.IH [OF y] by blast
  with row show ?case by (intro exI [of _ "row # rows"]) auto
qed

text \<open>
  C19. A stop stops. When a person's stop succeeds, the person is in the conversation, no agent's
  message there is being written any more, every one that was is now complete and marked
  stopped and truncated, every other message is as it was, and every agent of the conversation
  has a request to stop in its outbox.
\<close>

theorem stop_ends_every_reply:
  assumes "db_ok (w_db w)" "no_corrupt (w_db w)" "Stop e u c w = (Inr ended, w')"
  shows "IsUserParticipant (w_db w) c u \<and> ListStreamingInConversation (w_db w') c = []
    \<and> (\<forall>m\<in>set (db_messages (w_db w)). \<exists>m'\<in>set (db_messages (w_db w')). m' = m
        \<or> msg_id m' = msg_id m \<and> msg_status m = MessageStreaming \<and> msg_status m' = MessageComplete
          \<and> msg_stopped m' \<and> msg_truncated m')
    \<and> (\<forall>a\<in>set (ListAgentParticipants (w_db w) c). \<exists>x\<in>set (db_deliveries (w_db w')).
          dlv_agent_id x = a \<and> dlv_conversation_id x = c \<and> dlv_event_type x = EventStopRequested)"
proof -
  let ?w1 = "snd (allow ''stop:user:'' u stopPolicy w)"
  have w1: "w_db ?w1 = w_db w" by simp
  obtain by' w2 pending w3 where mem: "IsUserParticipant (w_db w) c u"
    and loop: "stop_loop e (ListStreamingInConversation (w_db w) c) ?w1 = (Inr (ended, by'), w2)"
    and ann: "stop_announce e c by' (ListAgentParticipants (w_db w2) c) w2 = (Inr pending, w3)"
    and w': "w_db w' = w_db w3"
    using assms(3) by (auto simp: Stop_def ok_iffs split_def Let_def split: if_splits)
  note l = stop_loop_ok [OF loop, unfolded w1, OF assms(2,1)]
  obtain rows where rows: "w_db w3 = (w_db w2)\<lparr>db_deliveries := db_deliveries (w_db w2) @ rows\<rparr>"
    "map dlv_agent_id rows = ListAgentParticipants (w_db w2) c"
    "\<forall>r\<in>set rows. dlv_event_type r = EventStopRequested \<and> dlv_conversation_id r = c"
    using stop_announce_ok [OF ann] by blast
  have agents: "ListAgentParticipants (w_db w2) c = ListAgentParticipants (w_db w) c"
    using l by (intro ListAgentParticipants_cong) (simp add: stopped_from_def)
  have "ListStreamingInConversation (w_db w2) c = []"
  proof (rule ccontr)
    assume "ListStreamingInConversation (w_db w2) c \<noteq> []"
    then obtain m where m: "m \<in> set (db_messages (w_db w2))" "msg_conversation_id m = c" "msg_status m = MessageStreaming"
      "msg_sender_kind m = ParticipantAgent"
      by (auto simp: ListStreamingInConversation_def filter_empty_conv simp flip: set_empty)
    then have old: "m \<in> set (db_messages (w_db w))" using l by (simp add: stopped_from_def)
    then obtain a where a: "msg_sender_agent_id m = Some a"
      using m(4) db_okD(3) [OF assms(1)] by (auto simp: messages_ok_def)
    then have "(msg_id m, a) \<in> set (ListStreamingInConversation (w_db w) c)"
      using old m by (force simp: ListStreamingInConversation_def)
    then have "\<not> FinishMessage_row (msg_id m) a m" using l m(1) by blast
    then show False using m a by (simp add: FinishMessage_row_def)
  qed
  moreover have "\<exists>x\<in>set rows. dlv_agent_id x = a" if "a \<in> set (ListAgentParticipants (w_db w) c)" for a
    using that rows(2) agents by (metis (no_types, lifting) image_iff list.set_map)
  ultimately show ?thesis
    using mem l rows(1,3) w' by (fastforce simp: stopped_from_def was_stopped_def ListStreamingInConversation_def)
qed

section \<open>A stream in the sample hub\<close>

text \<open>The sample hub without agent 3: agent 2 is writing message 103.\<close>

definition stream_world :: world where
  "stream_world = sample_world\<lparr>w_db := sample_db\<lparr>db_participants :=
     [sample_member ParticipantUser 1 0, sample_member ParticipantAgent 2 0]\<rparr>\<rparr>"

lemma stream_world_ok: "db_ok (w_db stream_world)" "no_corrupt (w_db stream_world)"
  using sample_db_ok sample_no_corrupt
  by (simp_all add: stream_world_def db_ok_def no_corrupt_def participants_ok_def sample_member_def)

definition streaming_row :: message_row where
  "streaming_row = sample_message 103 None (Some 2) 30 MessageStreaming empty_body"

lemma stream_world_fields [simp]:
  "db_messages (w_db stream_world) = sample_messages" "w_streams stream_world = w_streams sample_world"
  "w_now stream_world = 40"
  by (simp_all add: stream_world_def sample_tables sample_world_def)

lemma streams_there: "w_streams w = w_streams sample_world \<Longrightarrow> w_streams w \<noteq> None"
  by (simp add: sample_world_def)

lemma sample_find: "find (FinishMessage_row 103 2) sample_messages = Some streaming_row"
  by (simp add: sample_messages_def FinishMessage_row_def sample_message_def streaming_row_def)

lemma stream_finishes:
  assumes "w_db w = w_db stream_world" "w_streams w = w_streams sample_world"
  shows "\<exists>m w'. finishStream sample_env 2 103 inp how w = (Inr m, w')"
proof -
  let ?b = "final_body 2 103 inp w" and ?t = "cut_short 2 103 how w" and ?s = "how = endedByPerson"
  have fan: "fanOut sample_env m x = (Inr [], x)"
    if "mg_sender m = agent_sender 2" "mg_conversation_id m = 10" "db_participants (w_db x) = db_participants (w_db stream_world)" for m x
    using that by (simp add: fanOut_def ListAgentParticipants_def stream_world_def sample_member_def agent_sender_def)
  let ?fin = "streaming_row\<lparr>msg_body := Doc ?b, msg_status := MessageComplete, msg_truncated := ?t, msg_stopped := ?s\<rparr>"
  obtain u where u: "messageFromRow ?fin = Inr u" "mg_sender u = agent_sender 2" "mg_conversation_id u = 10"
    by (simp add: messageFromRow_def sender_of_row_def streaming_row_def sample_message_def derefID_def agent_sender_def)
  have p: "db_participants (w_db (case x of None \<Rightarrow> w1 | Some sg \<Rightarrow> exec (SetMessageSignature i (Some sg)) w1))
      = db_participants (w_db w1)" for x i w1
    by (cases x) (simp_all add: SetMessageSignature_def)
  have "\<exists>m w3. finishTx sample_env 2 103 ?b ?t ?s w = (Inr (Some (m, [])), w3)"
    using assms(1) by (simp add: finishTx_def on_db_def FinishMessage_def Let_def sample_find one_row_def u fan p)
  then obtain m w3 where tx: "finishTx sample_env 2 103 ?b ?t ?s w = (Inr (Some (m, [])), w3)" by blast
  have "distinct (map msg_id (db_messages (w_db w)))" using db_okD(3) [OF stream_world_ok(1)] assms(1) unfolding messages_ok_def by simp
  from finishTx_Some [OF tx this] obtain row rows where "w_db w3 = ended_db sample_env 2 103 ?b ?t ?s rows (w_db w)" by metis
  then have "no_corrupt (w_db (on_streams (stream_remove (2, 103)) w3))"
    using no_corrupt_ended_db stream_world_ok assms(1) by simp
  then obtain ms where "decorate (on_streams (stream_remove (2, 103)) w3) True [m] = Inr ms" using decorate_total by blast
  then show ?thesis using streams_there [OF assms(2)] tx by (simp add: finishStream_eq WithTx_def)
qed

theorem a_stream_ends_once_witness:
  "\<exists>m w' m2. finishStream sample_env 2 103 no_finish_input endedByAgent stream_world = (Inr m, w')
    \<and> finishStream sample_env 2 103 no_finish_input endedByHub (w'\<lparr>w_streams := Some no_streams\<rparr>)
      = (Inr m2, w'\<lparr>w_streams := Some no_streams\<rparr>) \<and> mg_body m2 = mg_body m"
proof -
  obtain m w' where f: "finishStream sample_env 2 103 no_finish_input endedByAgent stream_world = (Inr m, w')"
    using stream_finishes [OF refl stream_world_fields(2)] by blast
  from a_stream_ends_once [OF stream_world_ok f, of "w'\<lparr>w_streams := Some no_streams\<rparr>" no_finish_input endedByHub] f
  show ?thesis by auto
qed

theorem an_ended_stream_says_what_was_appended_witness:
  "\<exists>m w' err w3. finishStream sample_env 2 103 no_finish_input endedByPerson stream_world = (Inr m, w')
    \<and> mg_truncated m \<and> mg_stopped m \<and> AppendStream 2 103 (str ''more'') w' = (Inl err, w3)"
proof -
  obtain m w' where f: "finishStream sample_env 2 103 no_finish_input endedByPerson stream_world = (Inr m, w')"
    using stream_finishes [OF refl stream_world_fields(2)] by blast
  obtain st where st: "w_streams stream_world = Some st" using streams_there by auto
  have r: "streaming_row \<in> set (db_messages (w_db stream_world))" "msg_id streaming_row = 103"
    "msg_sender_agent_id streaming_row = Some 2" "msg_status streaming_row = MessageStreaming"
    by (simp_all add: sample_messages_def streaming_row_def) (simp_all add: sample_message_def)
  from an_ended_stream_says_what_was_appended [OF stream_world_ok f st r, of w' "str ''more''"] f
  show ?thesis by auto
qed

lemma stream_stop: "\<exists>ended w'. Stop sample_env 1 10 stream_world = (Inr ended, w')"
proof -
  let ?w1 = "snd (allow ''stop:user:'' 1 stopPolicy stream_world)"
  have a: "\<not> 0 < fst (allow ''stop:user:'' 1 stopPolicy stream_world)"
    by (simp add: bucket_defs stopPolicy_def stream_world_def sample_world_def Let_def)
  obtain m w2 where f: "finishStream sample_env 2 103 no_finish_input endedByPerson ?w1 = (Inr m, w2)"
    using stream_finishes [of ?w1 no_finish_input endedByPerson] by auto
  have ok: "no_corrupt (w_db ?w1)" "db_ok (w_db ?w1)" using stream_world_ok by simp_all
  have list: "ListStreamingInConversation (w_db stream_world) 10 = [(103, 2)]"
    by (simp add: ListStreamingInConversation_def sample_messages_def) (simp add: sample_message_def)
  have db: "\<exists>b rows. w_db w2 = ended_db sample_env 2 103 b True True rows (w_db stream_world) \<and> rows = []"
  proof (cases rule: finishStream_cases [OF f ok, case_names failed again ended])
    case again
    then show ?thesis using sample_find find_none [of "FinishMessage_row 103 2" sample_messages] by simp
  next
    case (ended m1 m' row rows)
    have "mg_sender m1 = agent_sender 2 \<and> mg_conversation_id m1 = 10"
      using messageFromRow_Inr [OF ended(9)] ended(3,4)
      by (auto simp: sample_messages_def sample_message_def FinishMessage_row_def sender_of_row_def derefID_def agent_sender_def)
    then have "told (w_db ?w1) m1 = []"
      by (simp add: told_def is_sender_def agent_sender_def ListAgentParticipants_def stream_world_def sample_member_def)
    then show ?thesis using ended(5,7) by (auto simp: cut_short_def)
  qed simp
  then have "stop_announce sample_env 10 b (ListAgentParticipants (w_db w2) 10) w2 = (Inr [2], snd (stop_announce sample_env 10 b [2] w2))" for b
    by (auto simp: ListAgentParticipants_def ended_db_def stream_world_def sample_member_def Enqueue_def Let_def
        GetActiveBinding_def sample_tables one_row_def live_binding_def sample_webhook_def on_db_def NewID_def
        CreateDelivery_def delivery_of_params_def insert_row_def sample_agent_def)
  moreover have "\<exists>row. member (w_db stream_world) 1 10 = Inr row" "ensureOpen (w_db stream_world) 10 = Inr ()"
    by (simp_all add: member_def GetConversation_def IsUserParticipant_def stream_world_def
      sample_tables sample_member_def ensureOpen_def IsConversationBlocked_def)
  moreover have "\<exists>x b. stop_loop sample_env [(103, 2)] ?w1 = (Inr (x, b), w2)" using f by auto
  ultimately show ?thesis using a by (auto simp: Stop_def list Let_def split_def)
qed

theorem stop_ends_every_reply_witness:
  "\<exists>ended w'. Stop sample_env 1 10 stream_world = (Inr ended, w') \<and> ListStreamingInConversation (w_db w') 10 = []"
  using stream_stop stop_ends_every_reply [OF stream_world_ok, of sample_env 1 10] by blast

end
