(* ===== verification/ConvList.thy ===== *)
theory ConvList
  imports Keeps Sending
begin

text \<open>
  Conversations as they are shown (\<open>conversations/service.go\<close>, \<open>conversations.go\<close>,
  \<open>membership.go\<close>, \<open>read.go\<close>): the members with the names they go by now, the latest message a
  reader may see, how much is unread; and opening the private chat of a person and an agent.
\<close>

section \<open>Statements\<close>

record ListParticipantsRow =
  lp_ConversationID :: uuid
  lp_Kind :: participant_kind
  lp_UserID :: "uuid option"
  lp_AgentID :: "uuid option"
  lp_JoinedAt :: int
  lp_UserDisplayName :: "gotext option"
  lp_UserTimezone :: "string option"
  lp_AgentDisplayName :: "gotext option"
  lp_AgentHandle :: "string option"
  lp_AgentHasAvatar :: bool
  lp_AgentStarters :: "gotext list json option"
  lp_AgentSupportsSchedules :: bool
  lp_AgentStatus :: "binding_status option"

text \<open>The left joins: a key that is not null names at most one row.\<close>

definition participant_join :: "db \<Rightarrow> participant_row \<Rightarrow> ListParticipantsRow" where
  "participant_join d p =
     (let u = Option.bind (prt_user_id p) (\<lambda>i. find (\<lambda>u. usr_id u = i) (db_users d));
          a = Option.bind (prt_agent_id p) (\<lambda>i. find (\<lambda>a. agt_id a = i) (db_agents d));
          b = Option.bind (prt_agent_id p) (\<lambda>i. find (live_binding i) (db_bindings d)) in
      \<lparr>lp_ConversationID = prt_conversation_id p, lp_Kind = prt_kind p, lp_UserID = prt_user_id p,
       lp_AgentID = prt_agent_id p, lp_JoinedAt = prt_joined_at p,
       lp_UserDisplayName = map_option usr_display_name u, lp_UserTimezone = map_option usr_timezone u,
       lp_AgentDisplayName = map_option agt_display_name a, lp_AgentHandle = map_option agt_handle a,
       lp_AgentHasAvatar = (Option.bind a agt_avatar_media_id \<noteq> None),
       lp_AgentStarters = map_option agt_starters a,
       lp_AgentSupportsSchedules = (case a of None \<Rightarrow> False | Some x \<Rightarrow> agt_supports_schedules x),
       lp_AgentStatus = map_option bnd_status b\<rparr>)"

text \<open>
  \<open>ORDER BY conversation_id, joined_at, kind, user_id, agent_id\<close>: stable sorts, the last key
  first. \<open>agent\<close> sorts before \<open>user\<close>; of the two ids the one the kind names is not null.
\<close>

definition kind_rank :: "participant_kind \<Rightarrow> nat" where
  "kind_rank k = (case k of ParticipantAgent \<Rightarrow> 0 | ParticipantUser \<Rightarrow> 1)"

definition ListParticipants :: "db \<Rightarrow> uuid list \<Rightarrow> ListParticipantsRow list" where
  "ListParticipants d cids =
     sort_key lp_ConversationID (sort_key lp_JoinedAt (sort_key (\<lambda>r. kind_rank (lp_Kind r))
       (sort_key (\<lambda>r. derefID (lp_UserID r)) (sort_key (\<lambda>r. derefID (lp_AgentID r))
         (map (participant_join d) (filter (\<lambda>p. prt_conversation_id p \<in> set cids) (db_participants d)))))))"

definition ListConversationsByIDs :: "db \<Rightarrow> uuid list \<Rightarrow> conversation_row list" where
  "ListConversationsByIDs d cids = filter (\<lambda>c. cnv_id c \<in> set cids) (db_conversations d)"

text \<open>The newest message of a conversation, or the conversation itself: when it was last active.\<close>

definition last_activity :: "db \<Rightarrow> conversation_row \<Rightarrow> uuid" where
  "last_activity d c = (case newest_first msg_id (filter (\<lambda>m. msg_conversation_id m = cnv_id c) (db_messages d)) of
       [] \<Rightarrow> cnv_id c | m # _ \<Rightarrow> msg_id m)"

definition removed_from_list :: "db \<Rightarrow> uuid \<Rightarrow> conversation_row \<Rightarrow> bool" where
  "removed_from_list d uid c \<longleftrightarrow> (\<exists>pa\<in>set (db_participants d). \<exists>ct\<in>set (db_contacts d).
     prt_conversation_id pa = cnv_id c \<and> prt_agent_id pa = Some (ctc_agent_id ct)
     \<and> ctc_user_id ct = uid \<and> ctc_removed_at ct \<noteq> None)"

definition ListUserConversations :: "db \<Rightarrow> uuid \<Rightarrow> conversation_row list" where
  "ListUserConversations d uid =
     newest_first (last_activity d) (join_select (db_conversations d) (db_participants d)
       (\<lambda>c p. prt_conversation_id p = cnv_id c \<and> prt_user_id p = Some uid \<and> \<not> removed_from_list d uid c))"

section \<open>Conversations as shown\<close>

record participant =
  pc_Kind :: participant_kind
  pc_ID :: uuid
  pc_DisplayName :: gotext
  pc_Handle :: string
  pc_Status :: "binding_status option" \<comment> \<open>none when no backend is connected\<close>
  pc_HasAvatar :: bool
  pc_Starters :: "gotext list"
  pc_SupportsSchedules :: bool
  pc_Timezone :: string
  pc_JoinedAt :: int

record conversation =
  cv_ID :: uuid
  cv_Kind :: string
  cv_Participants :: "participant list"
  cv_LastMessage :: "message option"
  cv_Unread :: nat
  cv_CreatedAt :: int

definition derefString :: "'a list option \<Rightarrow> 'a list" where
  "derefString p = (case p of None \<Rightarrow> [] | Some s \<Rightarrow> s)"

definition participantFromRow :: "ListParticipantsRow \<Rightarrow> participant" where
  "participantFromRow r = (case lp_Kind r of
       ParticipantUser \<Rightarrow> \<lparr>pc_Kind = ParticipantUser, pc_ID = derefID (lp_UserID r),
         pc_DisplayName = derefString (lp_UserDisplayName r), pc_Handle = '''', pc_Status = None,
         pc_HasAvatar = False, pc_Starters = [], pc_SupportsSchedules = False,
         pc_Timezone = derefString (lp_UserTimezone r), pc_JoinedAt = lp_JoinedAt r\<rparr>
     | ParticipantAgent \<Rightarrow> \<lparr>pc_Kind = ParticipantAgent, pc_ID = derefID (lp_AgentID r),
         pc_DisplayName = derefString (lp_AgentDisplayName r), pc_Handle = derefString (lp_AgentHandle r),
         pc_Status = lp_AgentStatus r, pc_HasAvatar = lp_AgentHasAvatar r,
         pc_Starters = (case lp_AgentStarters r of Some (Doc s) \<Rightarrow> s | _ \<Rightarrow> []),
         pc_SupportsSchedules = lp_AgentSupportsSchedules r, pc_Timezone = '''', pc_JoinedAt = lp_JoinedAt r\<rparr>)"

definition shown :: "ListParticipantsRow list \<Rightarrow> message list \<Rightarrow> conversation_row \<Rightarrow> conversation" where
  "shown members previews r =
     \<lparr>cv_ID = cnv_id r, cv_Kind = cnv_kind r,
      cv_Participants = map participantFromRow (filter (\<lambda>m. lp_ConversationID m = cnv_id r) members),
      cv_LastMessage = find (\<lambda>p. mg_conversation_id p = cnv_id r) (rev previews),
      cv_Unread = 0, cv_CreatedAt = cnv_created_at r\<rparr>"

definition hydrateWith ::
    "world \<Rightarrow> conversation_row list \<Rightarrow> (uuid list \<Rightarrow> message_row list) \<Rightarrow> go_error + conversation list" where
  "hydrateWith w rows latestOf =
     (if rows = [] then Inr []
      else let ids = map cnv_id rows; members = ListParticipants (w_db w) ids in
        ok_then (map_ok messageFromRow (latestOf ids)) (\<lambda>latest.
        ok_then (decorate w True latest) (\<lambda>previews. Inr (map (shown members previews) rows))))"

definition attachUnread :: "db \<Rightarrow> uuid \<Rightarrow> conversation list \<Rightarrow> conversation list" where
  "attachUnread d viewer convs =
     (let rows = CountUnread d viewer (map cv_ID convs) in
      map (\<lambda>c. case find (\<lambda>r. fst r = cv_ID c) (rev rows) of
          None \<Rightarrow> c | Some r \<Rightarrow> c\<lparr>cv_Unread := snd r\<rparr>) convs)"

definition hydrate :: "world \<Rightarrow> conversation_row list \<Rightarrow> go_error + conversation list" where
  "hydrate w rows = hydrateWith w rows (ListLatestMessages (w_db w))"

definition hydrateFor :: "world \<Rightarrow> uuid \<Rightarrow> conversation_row list \<Rightarrow> go_error + conversation list" where
  "hydrateFor w viewer rows =
     ok_then (hydrateWith w rows (ListLatestVisibleMessages (w_db w) viewer)) (\<lambda>convs.
       Inr (attachUnread (w_db w) viewer convs))"

definition ListMine :: "world \<Rightarrow> uuid \<Rightarrow> go_error + conversation list" where
  "ListMine w callerID = hydrateFor w callerID (ListUserConversations (w_db w) callerID)"

definition GetMine :: "world \<Rightarrow> uuid \<Rightarrow> uuid \<Rightarrow> go_error + conversation" where
  "GetMine w callerID cid =
     ok_then (member (w_db w) callerID cid) (\<lambda>row.
     ok_then (hydrateFor w callerID [row]) (\<lambda>convs. Inr (hd convs)))"

definition GetForAgent :: "world \<Rightarrow> uuid \<Rightarrow> uuid \<Rightarrow> go_error + conversation" where
  "GetForAgent w agentID cid =
     ok_then (agentMember (w_db w) agentID cid) (\<lambda>row.
     ok_then (hydrate w [row]) (\<lambda>convs. Inr (hd convs)))"

definition GetConversations :: "world \<Rightarrow> uuid list \<Rightarrow> go_error + conversation list" where
  "GetConversations w ids = hydrate w (ListConversationsByIDs (w_db w) ids)"

section \<open>Opening a private chat\<close>

definition createDMTx :: "env \<Rightarrow> uuid \<Rightarrow> uuid \<Rightarrow> conversation_row handler" where
  "createDMTx e userID agentID w =
     (let (i, w0) = NewID e w; (r, w1) = on_db (CreateConversation (w_now w) i ''dm'') w0 in
      needs (internal r) w1 (\<lambda>row.
      let (r2, w2) = on_db (AddParticipant (w_now w) (cnv_id row) ParticipantUser (Some userID) None) w1 in
      needs (internal r2) w2 (\<lambda>_.
      let (r3, w3) = on_db (AddParticipant (w_now w) (cnv_id row) ParticipantAgent None (Some agentID)) w2 in
      needs (internal r3) w3 (\<lambda>_. (Inr row, w3)))))"

definition CreateDM :: "env \<Rightarrow> uuid \<Rightarrow> uuid \<Rightarrow> conversation handler" where
  "CreateDM e userID agentID w =
     runs (WithTx (createDMTx e userID agentID) w) (\<lambda>row w1.
     needs (hydrate w1 [row]) w1 (\<lambda>convs. (Inr (hd convs), w1)))"

definition FindOrCreateDM :: "env \<Rightarrow> uuid \<Rightarrow> uuid \<Rightarrow> (conversation \<times> bool) handler" where
  "FindOrCreateDM e userID agentID w = (case FindDM (w_db w) userID agentID of
       Inr row \<Rightarrow> needs (hydrate w [row]) w (\<lambda>convs. (Inr (hd convs, False), w))
     | Inl err \<Rightarrow>
         if \<not> IsNoRows err then (Inl (Internal err), w)
         else runs (CreateDM e userID agentID w) (\<lambda>conv w1. (Inr (conv, True), w1)))"

section \<open>The newest message of each conversation\<close>

lemma find_distinct_on: "find (\<lambda>r. k r = x) (distinct_on k rows) = find (\<lambda>r. k r = x) rows"
proof (induction rows)
  case (Cons r rows)
  have "k r \<noteq> x \<Longrightarrow> find (\<lambda>r. k r = x) (filter (\<lambda>q. k q \<noteq> k r) ys) = find (\<lambda>r. k r = x) ys" for ys
    by (rule find_filter) auto
  with Cons show ?case by simp
qed simp

lemma distinct_distinct_on: "distinct (map k (distinct_on k rows))"
  by (induction rows) (auto intro: distinct_map_filter)

lemma find_first: "find P rows = (case filter P rows of [] \<Rightarrow> None | r # _ \<Rightarrow> Some r)"
  by (induction rows) auto

lemma newest_of_each:
  "find (\<lambda>r. k r = x) (distinct_on k (sort_key k (newest_first f rows)))
     = (case newest_first f (filter (\<lambda>r. k r = x) rows) of [] \<Rightarrow> None | r # _ \<Rightarrow> Some r)"
  by (simp add: find_distinct_on find_first [of _ "sort_key k (newest_first f rows)"] sort_key_stable filter_newest_first)

lemma find_rev:
  assumes "distinct (map k rows)"
  shows "find (\<lambda>r. k r = x) (rev rows) = find (\<lambda>r. k r = x) rows"
proof (cases "find (\<lambda>r. k r = x) rows")
  case None
  then have "\<forall>r\<in>set (rev rows). k r \<noteq> x" by (simp add: find_none)
  then have "find (\<lambda>r. k r = x) (rev rows) = None" by (simp only: find_none)
  with None show ?thesis by simp
next
  case (Some r)
  with find_key_iff [of k "rev rows" x r] find_key_iff [of k rows x r] assms
  show ?thesis by (simp add: rev_map [symmetric])
qed

lemma latest_visible:
  assumes "db_ok d" "c \<in> set cids"
  shows "find (\<lambda>r. msg_conversation_id r = c) (ListLatestVisibleMessages d u cids)
    = (case person_view u c d of [] \<Rightarrow> None | r # _ \<Rightarrow> Some r)"
proof -
  have "filter (\<lambda>r. msg_conversation_id r = c) (join_select (db_messages d) (db_participants d)
         (\<lambda>m p. prt_conversation_id p = msg_conversation_id m \<and> prt_user_id p = Some u
              \<and> msg_conversation_id m \<in> set cids \<and> visible_to d p m))
    = join_select (db_messages d) (db_participants d)
       (\<lambda>m p. (prt_conversation_id p = c \<and> prt_user_id p = Some u) \<and> msg_conversation_id m = c \<and> visible_to d p m)"
    unfolding join_select_def filter_concat map_map
  proof (intro arg_cong [where f = concat] map_cong refl, goal_cases)
    case (1 m)
    show ?case using assms(2)
      by (cases "msg_conversation_id m = c") (auto simp: filter_map comp_def intro!: arg_cong [where f = "map _"] filter_cong)
  qed
  also have "\<dots> = filter (\<lambda>m. \<exists>p\<in>set (db_participants d). (prt_conversation_id p = c \<and> prt_user_id p = Some u)
       \<and> msg_conversation_id m = c \<and> visible_to d p m) (db_messages d)"
    by (rule join_at_most_one) (rule user_rows_le_1 [OF db_okD(2) [OF assms(1)]])
  also have "\<dots> = filter (\<lambda>m. msg_conversation_id m = c \<and> person_sees d u m) (db_messages d)"
    by (rule filter_cong) (auto simp: person_sees_def)
  finally show ?thesis
    unfolding ListLatestVisibleMessages_def newest_of_each by (simp add: person_view_def)
qed

lemma hydrateWith_total:
  assumes "no_corrupt (w_db w)" "\<And>ids. set (latest ids) \<subseteq> set (db_messages (w_db w))"
  shows "\<exists>convs. hydrateWith w rows latest = Inr convs \<and> map cv_ID convs = map cnv_id rows"
proof (cases "rows = []")
  case False
  have "\<forall>r\<in>set (latest (map cnv_id rows)). msg_body r \<noteq> Corrupt"
    using assms by (auto simp: no_corrupt_def)
  then obtain ms where "map_ok messageFromRow (latest (map cnv_id rows)) = Inr ms" using messages_total by blast
  moreover obtain ms' where "decorate w True ms = Inr ms'" using decorate_total [OF assms(1)] by blast
  ultimately show ?thesis using False by (simp add: hydrateWith_def Let_def shown_def comp_def)
qed (simp add: hydrateWith_def)

lemma set_latest: "set (ListLatestMessages d ids) \<subseteq> set (db_messages d)"
  "set (ListLatestVisibleMessages d u ids) \<subseteq> set (db_messages d)"
  unfolding ListLatestMessages_def ListLatestVisibleMessages_def
  by (auto dest!: subsetD [OF set_distinct_on] simp: set_join_select)

lemma hydrate_total:
  "no_corrupt (w_db w) \<Longrightarrow> \<exists>convs. hydrate w rows = Inr convs \<and> map cv_ID convs = map cnv_id rows"
  unfolding hydrate_def by (rule hydrateWith_total [OF _ set_latest(1)])

text \<open>The preview a conversation is shown with.\<close>

lemma preview_id:
  assumes "map_ok messageFromRow rows = Inr ms" "decorate w True ms = Inr previews"
    and "distinct (map msg_conversation_id rows)"
  shows "map_option mg_id (find (\<lambda>p. mg_conversation_id p = c) (rev previews))
    = map_option msg_id (find (\<lambda>r. msg_conversation_id r = c) rows)"
proof -
  let ?f = "\<lambda>m. (mg_conversation_id m, mg_id m)"
  have "map ?f previews = map (\<lambda>x. (fst (snd x), fst x)) (map mg_core previews)" by (simp add: mg_core_def)
  also have "\<dots> = map (\<lambda>x. (fst (snd x), fst x)) (map mg_core ms)" by (simp only: decorate_core [OF assms(2)])
  also have "\<dots> = map (\<lambda>r. (msg_conversation_id r, msg_id r)) rows"
    using map_ok_proj [OF assms(1), of ?f "\<lambda>r. (msg_conversation_id r, msg_id r)"] messageFromRow_Inr
    by (simp add: mg_core_def comp_def)
  finally have eq: "map ?f previews = map (\<lambda>r. (msg_conversation_id r, msg_id r)) rows" .
  have "map mg_conversation_id previews = map fst (map ?f previews)" by simp
  also have "\<dots> = map msg_conversation_id rows" by (simp add: eq comp_def)
  finally have d: "distinct (map mg_conversation_id previews)" using assms(3) by simp
  have "find (\<lambda>p. mg_conversation_id p = c) (rev previews) = find (\<lambda>p. mg_conversation_id p = c) previews"
    using d by (rule find_rev)
  moreover have "map_option mg_id (find (\<lambda>p. mg_conversation_id p = c) previews)
      = map_option snd (find (\<lambda>x. fst x = c) (map ?f previews))"
    by (induction previews) auto
  moreover have "map_option msg_id (find (\<lambda>r. msg_conversation_id r = c) rows)
      = map_option snd (find (\<lambda>x. fst x = c) (map (\<lambda>r. (msg_conversation_id r, msg_id r)) rows))"
    by (induction rows) auto
  ultimately show ?thesis using eq by simp
qed

section \<open>A person's chat list\<close>

text \<open>What of a conversation counts as unread: said by somebody else, after the mark.\<close>

definition unread_by :: "db \<Rightarrow> uuid \<Rightarrow> message_row \<Rightarrow> bool" where
  "unread_by d u m \<longleftrightarrow> msg_sender_user_id m \<noteq> Some u
     \<and> (\<exists>p\<in>set (db_participants d). prt_conversation_id p = msg_conversation_id m \<and> prt_user_id p = Some u
          \<and> (case prt_read_up_to p of None \<Rightarrow> True | Some r \<Rightarrow> r < msg_id m))"

lemma user_row_the:
  assumes "db_ok d" "p \<in> set (db_participants d)" "prt_conversation_id p = c" "prt_user_id p = Some u"
  shows "(\<exists>q\<in>set (db_participants d). prt_conversation_id q = c \<and> prt_user_id q = Some u \<and> Q q) \<longleftrightarrow> Q p"
proof -
  have "q = p" if "q \<in> set (db_participants d)" "prt_conversation_id q = c" "prt_user_id q = Some u" for q
  proof -
    have "q \<in> set (filter (\<lambda>q. prt_conversation_id q = c \<and> prt_user_id q = Some u) (db_participants d))"
      using that by simp
    then show ?thesis unfolding user_row_unique [OF db_okD(2) [OF assms(1)] assms(2-4)] by simp
  qed
  with assms show ?thesis by blast
qed

lemma length_newest_first: "length (newest_first k rows) = length rows"
  by (simp add: newest_first_def)

lemma count_unread:
  assumes "db_ok d" "c \<in> set cids"
    and p: "p \<in> set (db_participants d)" "prt_conversation_id p = c" "prt_user_id p = Some u"
  shows "find (\<lambda>r. fst r = c) (rev (CountUnread d u cids))
    = Some (c, min 100 (length (filter (unread_by d u) (person_view u c d))))"
proof -
  let ?rows = "CountUnread d u cids"
  let ?of = "\<lambda>p. (prt_conversation_id p, length (take 100 (filter (\<lambda>m. msg_conversation_id m = prt_conversation_id p
             \<and> msg_sender_user_id m \<noteq> prt_user_id p
             \<and> (case prt_read_up_to p of None \<Rightarrow> True | Some r \<Rightarrow> r < msg_id m)
             \<and> visible_to d p m) (db_messages d))))"
  have "filter (\<lambda>r. fst r = c) ?rows = map ?of (filter (\<lambda>q. prt_conversation_id q = c \<and> prt_user_id q = Some u) (db_participants d))"
    unfolding CountUnread_def filter_map filter_filter
    using assms(2) by (auto simp: comp_def intro!: arg_cong [where f = "map _"] filter_cong)
  also have "\<dots> = [?of p]" by (simp add: user_row_unique [OF db_okD(2) [OF assms(1)] p] del: length_take)
  finally have one: "filter (\<lambda>r. fst r = c) ?rows = [?of p]" .
  have "filter (unread_by d u) (person_view u c d)
      = newest_first msg_id (filter (\<lambda>m. msg_conversation_id m = c \<and> msg_sender_user_id m \<noteq> prt_user_id p
             \<and> (case prt_read_up_to p of None \<Rightarrow> True | Some r \<Rightarrow> r < msg_id m) \<and> visible_to d p m) (db_messages d))"
    unfolding person_view_def filter_newest_first filter_filter
  proof (intro arg_cong [where f = "newest_first msg_id"] filter_cong refl, goal_cases)
    case (1 m)
    show ?case
    proof (cases "msg_conversation_id m = c")
      case True
      then show ?thesis
        using user_row_the [OF assms(1) p, of "\<lambda>p. visible_to d p m"]
          user_row_the [OF assms(1) p, of "\<lambda>p. case prt_read_up_to p of None \<Rightarrow> True | Some r \<Rightarrow> r < msg_id m"] p(3)
        by (auto simp: unread_by_def person_sees_def)
    qed simp
  qed
  then show ?thesis using one p(2)
    by (simp add: find_first rev_filter [symmetric] length_newest_first)
qed

lemma set_ListUserConversations:
  "c \<in> set (ListUserConversations d u) \<longleftrightarrow> c \<in> set (db_conversations d)
     \<and> (\<exists>p\<in>set (db_participants d). prt_conversation_id p = cnv_id c \<and> prt_user_id p = Some u)
     \<and> \<not> removed_from_list d u c"
  by (auto simp: ListUserConversations_def set_join_select)

lemma distinct_ListUserConversations:
  assumes "db_ok d"
  shows "distinct (map cnv_id (ListUserConversations d u))"
proof -
  have "join_select (db_conversations d) (db_participants d)
       (\<lambda>c p. prt_conversation_id p = cnv_id c \<and> prt_user_id p = Some u \<and> \<not> removed_from_list d u c)
    = filter (\<lambda>c. \<exists>p\<in>set (db_participants d). prt_conversation_id p = cnv_id c \<and> prt_user_id p = Some u
         \<and> \<not> removed_from_list d u c) (db_conversations d)"
    by (rule join_at_most_one) (use user_rows_le_1 [OF db_okD(2) [OF assms]] in \<open>simp add: conj_assoc\<close>)
  then show ?thesis using db_okD(1) [OF assms] 
    by (auto simp: ListUserConversations_def newest_first_def distinct_map rev_map [symmetric] intro: inj_on_subset)
qed

lemma cv_ID_attachUnread: "map cv_ID (attachUnread d u convs) = map cv_ID convs"
  by (auto simp: attachUnread_def Let_def split: option.splits)

text \<open>
  C28. A person's chat list is exactly the conversations they are in and have not removed, each
  once, the most recently active first. Each shows as its preview the newest message this person
  can see there (not one they hid or cleared), and as its badge how many of the messages they
  can see are unread and not their own, counted up to a hundred.
\<close>

theorem chat_list_shows_what_the_person_sees:
  assumes "db_ok (w_db w)" "no_corrupt (w_db w)"
  shows "\<exists>convs. ListMine w u = Inr convs
    \<and> map cv_ID convs = map cnv_id (ListUserConversations (w_db w) u)
    \<and> distinct (map cv_ID convs)
    \<and> set (map cv_ID convs) = {cnv_id c |c. c \<in> set (db_conversations (w_db w)) \<and> \<not> removed_from_list (w_db w) u c
        \<and> (\<exists>p\<in>set (db_participants (w_db w)). prt_conversation_id p = cnv_id c \<and> prt_user_id p = Some u)}
    \<and> sorted_wrt (\<ge>) (map (last_activity (w_db w)) (ListUserConversations (w_db w) u))
    \<and> (\<forall>c\<in>set convs. map_option mg_id (cv_LastMessage c)
          = (case person_view u (cv_ID c) (w_db w) of [] \<Rightarrow> None | m # _ \<Rightarrow> Some (msg_id m))
        \<and> cv_Unread c = min 100 (length (filter (unread_by (w_db w) u) (person_view u (cv_ID c) (w_db w)))))"
proof -
  let ?d = "w_db w" and ?rows = "ListUserConversations (w_db w) u"
  let ?ids = "map cnv_id ?rows"
  let ?latest = "ListLatestVisibleMessages ?d u ?ids"
  have "\<forall>r\<in>set ?latest. msg_body r \<noteq> Corrupt"
    using assms(2) set_latest(2) [of ?d u ?ids] by (auto simp: no_corrupt_def)
  then obtain ms where ms: "map_ok messageFromRow ?latest = Inr ms" using messages_total by blast
  obtain previews where pv: "decorate w True ms = Inr previews" using decorate_total [OF assms(2)] by blast
  let ?convs = "map (shown (ListParticipants ?d ?ids) previews) ?rows"
  have run: "ListMine w u = Inr (attachUnread ?d u ?convs)"
    by (cases "?rows = []") (simp_all add: ListMine_def hydrateFor_def hydrateWith_def Let_def ms pv attachUnread_def)
  have ids: "map cv_ID ?convs = ?ids" by (simp add: shown_def comp_def)
  have each: "map_option mg_id (cv_LastMessage c)
          = (case person_view u (cv_ID c) ?d of [] \<Rightarrow> None | m # _ \<Rightarrow> Some (msg_id m))
        \<and> cv_Unread c = min 100 (length (filter (unread_by ?d u) (person_view u (cv_ID c) ?d)))"
    if "c \<in> set (attachUnread ?d u ?convs)" for c
  proof -
    from that obtain r where r: "r \<in> set ?rows"
      "c = (case find (\<lambda>x. fst x = cnv_id r) (rev (CountUnread ?d u ?ids)) of
          None \<Rightarrow> shown (ListParticipants ?d ?ids) previews r
        | Some x \<Rightarrow> (shown (ListParticipants ?d ?ids) previews r)\<lparr>cv_Unread := snd x\<rparr>)"
      unfolding attachUnread_def Let_def ids by (auto simp: shown_def)
    then obtain p where p: "p \<in> set (db_participants ?d)" "prt_conversation_id p = cnv_id r" "prt_user_id p = Some u"
      by (auto simp: set_ListUserConversations)
    have in_ids: "cnv_id r \<in> set ?ids" using r(1) by simp
    have c: "c = (shown (ListParticipants ?d ?ids) previews r)
        \<lparr>cv_Unread := min 100 (length (filter (unread_by ?d u) (person_view u (cnv_id r) ?d)))\<rparr>"
      using r(2) count_unread [OF assms(1) in_ids p] by simp
    have "map_option mg_id (find (\<lambda>p. mg_conversation_id p = cnv_id r) (rev previews))
        = map_option msg_id (case person_view u (cnv_id r) ?d of [] \<Rightarrow> None | m # _ \<Rightarrow> Some m)"
      using preview_id [OF ms pv] latest_visible [OF assms(1) in_ids, of u]
      by (simp add: ListLatestVisibleMessages_def distinct_distinct_on)
    then show ?thesis by (simp add: c shown_def split: list.splits)
  qed
  have "sorted_wrt (\<ge>) (map (last_activity ?d) ?rows)"
    unfolding ListUserConversations_def using sorted_newest_first by (simp add: sorted_wrt_map)
  moreover have "set ?ids = {cnv_id c |c. c \<in> set (db_conversations ?d) \<and> \<not> removed_from_list ?d u c
        \<and> (\<exists>p\<in>set (db_participants ?d). prt_conversation_id p = cnv_id c \<and> prt_user_id p = Some u)}"
    using set_ListUserConversations [of _ ?d u] by (simp add: set_eq_iff image_iff) blast
  moreover have "map cv_ID (attachUnread ?d u ?convs) = ?ids" by (simp only: cv_ID_attachUnread ids)
  ultimately show ?thesis
    using run each distinct_ListUserConversations [OF assms(1), of u]
    by (intro exI [of _ "attachUnread ?d u ?convs"]) (simp only: simp_thms ball_simps, blast)
qed

theorem chat_list_shows_what_the_person_sees_witness:
  "\<exists>convs. ListMine sample_world 1 = Inr convs
    \<and> map cv_ID convs = map cnv_id (ListUserConversations sample_db 1)"
  using chat_list_shows_what_the_person_sees [of sample_world 1] sample_db_ok sample_no_corrupt by auto

section \<open>The private chat\<close>

lemma set_dm: "c \<in> set (join_select (join_select (db_conversations d) (db_participants d)
             (\<lambda>c pu. prt_conversation_id pu = cnv_id c \<and> prt_user_id pu = Some uid))
           (db_participants d)
           (\<lambda>c pa. prt_conversation_id pa = cnv_id c \<and> prt_agent_id pa = Some aid \<and> cnv_kind c = ''dm''))
  \<longleftrightarrow> c \<in> set (db_conversations d) \<and> cnv_kind c = ''dm'' \<and> IsUserParticipant d (cnv_id c) uid
      \<and> IsAgentParticipant d (cnv_id c) aid"
  by (auto simp: set_join_select IsUserParticipant_def IsAgentParticipant_def)

lemma sort_key_Nil: "sort_key k xs = [] \<longleftrightarrow> xs = []"
  using length_sort [of k xs] by (metis length_0_conv)

lemma first_sorted_Inr:
  assumes "one_row (case take 1 (sort_key k xs) of [] \<Rightarrow> None | c # _ \<Rightarrow> Some c) = Inr r"
  shows "r \<in> set xs"
proof -
  have "r \<in> set (sort_key k xs)" using assms by (cases "sort_key k xs") auto
  then show ?thesis by simp
qed

lemma first_sorted_Inl:
  assumes "one_row (case take 1 (sort_key k xs) of [] \<Rightarrow> None | c # _ \<Rightarrow> Some c) = Inl e"
  shows "e = PlainError NoRows \<and> c \<notin> set xs"
proof (cases "sort_key k xs")
  case Nil
  then have "xs = []" by (simp only: sort_key_Nil)
  with Nil assms show ?thesis by simp
qed (use assms in auto)

lemma FindDM_Inr:
  assumes "FindDM d u a = Inr c"
  shows "c \<in> set (db_conversations d) \<and> cnv_kind c = ''dm'' \<and> IsUserParticipant d (cnv_id c) u
    \<and> IsAgentParticipant d (cnv_id c) a"
  by (rule iffD1 [OF set_dm], rule first_sorted_Inr, rule assms [unfolded FindDM_def])

lemma FindDM_Inl:
  assumes "FindDM d u a = Inl err"
  shows "err = PlainError NoRows
    \<and> \<not> (c \<in> set (db_conversations d) \<and> cnv_kind c = ''dm'' \<and> IsUserParticipant d (cnv_id c) u
      \<and> IsAgentParticipant d (cnv_id c) a)"
  unfolding set_dm [symmetric] by (rule first_sorted_Inl, rule assms [unfolded FindDM_def])

lemma CreateConversation_Inr:
  "CreateConversation now i k d = (Inr row, d') \<longleftrightarrow> k \<in> {''dm'', ''group''}
    \<and> (\<forall>c\<in>set (db_conversations d). cnv_id c \<noteq> i) \<and> row = \<lparr>cnv_id = i, cnv_kind = k, cnv_created_at = now\<rparr>
    \<and> d' = d\<lparr>db_conversations := db_conversations d @ [row]\<rparr>"
  unfolding CreateConversation_def Let_def insert_row_def by auto

lemma AddParticipant_Inr:
  "AddParticipant now c k u a d = (Inr r, d') \<Longrightarrow>
     r = \<lparr>prt_conversation_id = c, prt_kind = k, prt_user_id = u, prt_agent_id = a,
           prt_joined_at = now, prt_cleared_before = None, prt_read_up_to = None\<rparr>
     \<and> d' = d\<lparr>db_participants := db_participants d @ [r]\<rparr>"
  unfolding AddParticipant_def Let_def insert_row_def by (simp split: if_splits) blast

text \<open>What \<open>createDMTx\<close> leaves: one conversation, and the two of them in it.\<close>

lemma createDMTx_ok:
  assumes "createDMTx e u a w = (Inr row, w')"
  shows "cnv_id row = env_new_id e (w_ids w) \<and> cnv_kind row = ''dm''
    \<and> (\<forall>c\<in>set (db_conversations (w_db w)). cnv_id c \<noteq> cnv_id row)
    \<and> w_db w' = (w_db w)\<lparr>db_conversations := db_conversations (w_db w) @ [row],
        db_participants := db_participants (w_db w)
          @ [\<lparr>prt_conversation_id = cnv_id row, prt_kind = ParticipantUser, prt_user_id = Some u, prt_agent_id = None,
              prt_joined_at = w_now w, prt_cleared_before = None, prt_read_up_to = None\<rparr>,
             \<lparr>prt_conversation_id = cnv_id row, prt_kind = ParticipantAgent, prt_user_id = None, prt_agent_id = Some a,
              prt_joined_at = w_now w, prt_cleared_before = None, prt_read_up_to = None\<rparr>]\<rparr>"
proof -
  let ?w0 = "snd (NewID e w)"
  obtain w1 w2 p q where 1: "on_db (CreateConversation (w_now w) (env_new_id e (w_ids w)) ''dm'') ?w0 = (Inr row, w1)"
    and 2: "on_db (AddParticipant (w_now w) (cnv_id row) ParticipantUser (Some u) None) w1 = (Inr p, w2)"
    and 3: "on_db (AddParticipant (w_now w) (cnv_id row) ParticipantAgent None (Some a)) w2 = (Inr q, w')"
    using assms unfolding createDMTx_def Let_def step_Inr NewID_def prod.case by auto
  from 1 obtain d1 where c: "CreateConversation (w_now w) (env_new_id e (w_ids w)) ''dm'' (w_db w) = (Inr row, d1)"
    and w1: "w1 = ?w0\<lparr>w_db := d1\<rparr>" by (auto simp: on_db_iff)
  from 2 obtain d2 where p: "AddParticipant (w_now w) (cnv_id row) ParticipantUser (Some u) None d1 = (Inr p, d2)"
    and w2: "w2 = ?w0\<lparr>w_db := d2\<rparr>" by (auto simp: on_db_iff w1)
  from 3 obtain d3 where q: "AddParticipant (w_now w) (cnv_id row) ParticipantAgent None (Some a) d2 = (Inr q, d3)"
    and w3: "w' = ?w0\<lparr>w_db := d3\<rparr>" by (auto simp: on_db_iff w2)
  show ?thesis
    using c AddParticipant_Inr [OF p] AddParticipant_Inr [OF q] w3 by (simp add: CreateConversation_Inr)
qed

lemma hydrate_Inr:
  assumes "hydrate w rows = Inr convs"
  shows "map cv_ID convs = map cnv_id rows" "map cv_Kind convs = map cnv_kind rows"
  using assms by (auto simp: hydrate_def hydrateWith_def Let_def ok_iffs shown_def split: if_splits)

lemma hydrate_one:
  assumes "hydrate w [row] = Inr convs"
  shows "cv_ID (hd convs) = cnv_id row" "cv_Kind (hd convs) = cnv_kind row"
  using hydrate_Inr [OF assms] by (cases convs; simp)+

lemma FindOrCreateDM_cases [consumes 1, case_names found made]:
  assumes "FindOrCreateDM e u a w = (Inr (conv, created), w')"
  obtains row convs where "FindDM (w_db w) u a = Inr row" "hydrate w [row] = Inr convs" "conv = hd convs"
      "\<not> created" "w' = w"
  | row convs where "FindDM (w_db w) u a = Inl (PlainError NoRows)" "createDMTx e u a w = (Inr row, w')"
      "hydrate w' [row] = Inr convs" "conv = hd convs" "created"
proof (cases "FindDM (w_db w) u a")
  case (Inl err)
  then have "err = PlainError NoRows" using FindDM_Inl by blast
  with Inl assms that(2) show ?thesis by (auto simp: FindOrCreateDM_def CreateDM_def ok_iffs)
next
  case (Inr row)
  with assms that(1) show ?thesis by (auto simp: FindOrCreateDM_def ok_iffs)
qed

text \<open>
  A person and an agent have one private chat. Opening it gives back a conversation of kind
  \<open>dm\<close> that both are in. If there was one nothing changes; if not, exactly one conversation
  with a new id is made, with exactly the two of them in it and nothing else touched. Opening it
  again gives the same chat, made by nobody, and changes nothing.
\<close>

theorem a_private_chat_is_opened_once:
  assumes "FindOrCreateDM e u a w = (Inr (conv, created), w')"
  shows "IsUserParticipant (w_db w') (cv_ID conv) u \<and> IsAgentParticipant (w_db w') (cv_ID conv) a
    \<and> cv_Kind conv = ''dm''
    \<and> (if created
       then (\<forall>c\<in>set (db_conversations (w_db w)). cnv_id c \<noteq> cv_ID conv)
         \<and> (\<exists>c p q. w_db w' = (w_db w)\<lparr>db_conversations := db_conversations (w_db w) @ [c],
               db_participants := db_participants (w_db w) @ [p, q]\<rparr> \<and> cnv_id c = cv_ID conv
             \<and> prt_conversation_id p = cv_ID conv \<and> prt_user_id p = Some u \<and> prt_agent_id p = None
             \<and> prt_conversation_id q = cv_ID conv \<and> prt_user_id q = None \<and> prt_agent_id q = Some a)
       else w' = w)
    \<and> (\<exists>conv'. FindOrCreateDM e u a w' = (Inr (conv', False), w') \<and> cv_ID conv' = cv_ID conv)"
  using assms(1)
proof (cases rule: FindOrCreateDM_cases)
  case (found row convs)
  then show ?thesis
    using FindDM_Inr [OF found(1)] hydrate_one [OF found(2)] assms(1) by auto
next
  case (made row convs)
  note new = createDMTx_ok [OF made(2)]
  have here: "IsUserParticipant (w_db w') (cnv_id row) u" "IsAgentParticipant (w_db w') (cnv_id row) a"
    "row \<in> set (db_conversations (w_db w'))" "cnv_kind row = ''dm''"
    using new by (auto simp: IsUserParticipant_def IsAgentParticipant_def)
  obtain c where c: "FindDM (w_db w') u a = Inr c"
    using FindDM_Inl [of "w_db w'" u a _ row] here by (cases "FindDM (w_db w') u a") auto
  have "c = row"
  proof (rule ccontr)
    assume "c \<noteq> row"
    with FindDM_Inr [OF c] new have old: "c \<in> set (db_conversations (w_db w))" "cnv_id c \<noteq> cnv_id row" by auto
    with FindDM_Inr [OF c] new have "IsUserParticipant (w_db w) (cnv_id c) u" "IsAgentParticipant (w_db w) (cnv_id c) a"
      by (auto simp: IsUserParticipant_def IsAgentParticipant_def)
    with old(1) FindDM_Inr [OF c] FindDM_Inl [OF made(1), of c] show False by blast
  qed
  with c made(3,4) have "FindOrCreateDM e u a w' = (Inr (conv, False), w')" by (simp add: FindOrCreateDM_def)
  moreover have "\<exists>c p q. w_db w' = (w_db w)\<lparr>db_conversations := db_conversations (w_db w) @ [c],
               db_participants := db_participants (w_db w) @ [p, q]\<rparr> \<and> cnv_id c = cnv_id row
             \<and> prt_conversation_id p = cnv_id row \<and> prt_user_id p = Some u \<and> prt_agent_id p = None
             \<and> prt_conversation_id q = cnv_id row \<and> prt_user_id q = None \<and> prt_agent_id q = Some a"
    using new by (elim conjE) (intro exI conjI, assumption, simp_all)
  moreover have "\<forall>c\<in>set (db_conversations (w_db w)). cnv_id c \<noteq> cnv_id row" using new by blast
  ultimately show ?thesis using here(1,2,4) hydrate_one [OF made(3)] made(4,5) by (simp only: simp_thms if_True) blast
qed

theorem a_private_chat_is_opened_once_witness:
  "\<exists>conv w'. FindOrCreateDM sample_env 1 3 sample_world = (Inr (conv, False), w')
    \<and> IsAgentParticipant (w_db w') (cv_ID conv) 3"
proof -
  obtain convs where h: "hydrate sample_world [\<lparr>cnv_id = 10, cnv_kind = ''dm'', cnv_created_at = 0\<rparr>] = Inr convs"
    using hydrate_total [of sample_world "[\<lparr>cnv_id = 10, cnv_kind = ''dm'', cnv_created_at = 0\<rparr>]"]
      sample_no_corrupt by auto
  have "FindDM sample_db 1 3 = Inr \<lparr>cnv_id = 10, cnv_kind = ''dm'', cnv_created_at = 0\<rparr>"
    by (simp add: FindDM_def sample_tables join_select_def sample_member_def)
  with h have "FindOrCreateDM sample_env 1 3 sample_world = (Inr (hd convs, False), sample_world)"
    by (simp add: FindOrCreateDM_def)
  from a_private_chat_is_opened_once [OF this] this show ?thesis by auto
qed

section \<open>What opening a chat keeps\<close>

lemma well_FindOrCreateDM [keeps]: 
  assumes "well w"
  shows "well (snd (CreateDM e u a w))" "well (snd (FindOrCreateDM e u a w))"
proof -
  have tx: "well (snd (createDMTx e u a w))"
    unfolding createDMTx_def Let_def NewID_def prod.case
    by (intro well_step)
      (simp_all add: assms db_ok_CreateConversation [OF prod.collapse [symmetric]] db_ok_AddParticipant [OF prod.collapse [symmetric]])
  show "well (snd (CreateDM e u a w))"
    unfolding CreateDM_def
    by (rule well_runs, rule well_WithTx, rule assms, rule tx, rule well_needs) simp_all
  then show "well (snd (FindOrCreateDM e u a w))"
    using assms by (auto simp: FindOrCreateDM_def intro!: well_runs well_needs split: sum.splits)
qed

end
