(* ===== verification/Addresses.thy ===== *)
theory Addresses
  imports World
begin

unbundle bit_operations_syntax

text \<open>
  Which addresses the hub connects to (\<open>delivery/webhook.go\<close>). A webhook URL is chosen by whoever
  owns the binding, so the dialer checks every address a name resolves to and dials the address
  it checked.

  An address is \<open>net.IP\<close>: 4 or 16 bytes. What \<open>net\<close> offers on it is modelled here as the
  library defines it (\<open>ParseIP\<close>, \<open>To4\<close>, \<open>IsLoopback\<close> and so on), bitwise on bytes. Resolving a
  name and connecting are parameters.
\<close>

type_synonym byte = "8 word"
type_synonym ip = "byte list"

section \<open>Reading an address\<close>

fun split_on :: "'a \<Rightarrow> 'a list \<Rightarrow> 'a list list" where
  "split_on c [] = [[]]"
| "split_on c (x # xs) = (if x = c then [] # split_on c xs
     else (case split_on c xs of [] \<Rightarrow> [[x]] | w # ws \<Rightarrow> (x # w) # ws))"

definition dec_digit :: "char \<Rightarrow> nat option" where
  "dec_digit c = digit_of ''0123456789'' c"

definition hex_digit :: "char \<Rightarrow> nat option" where
  "hex_digit c = (case digit_of ''0123456789abcdef'' c of Some d \<Rightarrow> Some d
     | None \<Rightarrow> map_option (\<lambda>d. 10 + d) (digit_of ''ABCDEF'' c))"

fun number :: "(char \<Rightarrow> nat option) \<Rightarrow> nat \<Rightarrow> nat \<Rightarrow> string \<Rightarrow> nat option" where
  "number dig base acc [] = Some acc"
| "number dig base acc (c # cs) = (case dig c of None \<Rightarrow> None | Some d \<Rightarrow> number dig base (base * acc + d) cs)"

text \<open>A field of a dotted address: digits, no leading zero, at most 255.\<close>

definition octet :: "string \<Rightarrow> byte option" where
  "octet s = (if s = '''' \<or> (1 < length s \<and> hd s = CHR ''0'') then None
     else case number dec_digit 10 0 s of None \<Rightarrow> None | Some n \<Rightarrow> if 255 < n then None else Some (of_nat n))"

definition parseIPv4 :: "string \<Rightarrow> ip option" where
  "parseIPv4 s = (case map octet (split_on CHR ''.'' s) of
       [Some a, Some b, Some c, Some d] \<Rightarrow> Some [a, b, c, d] | _ \<Rightarrow> None)"

definition v4InV6Prefix :: ip where
  "v4InV6Prefix = [0, 0, 0, 0, 0, 0, 0, 0, 0, 0, 0xff, 0xff]"

text \<open>
  The loop over the colon-separated fields of an IPv6 address: \<open>bytes\<close> were read, \<open>ell\<close> is where
  the double colon was; the last four bytes may be dotted.
\<close>

fun parseIPv6_fields :: "nat \<Rightarrow> ip \<Rightarrow> nat option \<Rightarrow> string \<Rightarrow> (ip \<times> nat option) option" where
  "parseIPv6_fields 0 bytes ell s = (if s = '''' then Some (bytes, ell) else None)"
| "parseIPv6_fields (Suc n) bytes ell s =
     (let run = takeWhile (\<lambda>c. hex_digit c \<noteq> None) s; rest = drop (length run) s in
      if run = '''' \<or> 4 < length run then None
      else if rest \<noteq> '''' \<and> hd rest = CHR ''.'' then
        (if ell = None \<and> length bytes \<noteq> 12 \<or> 12 < length bytes then None
         else map_option (\<lambda>v4. (bytes @ v4, ell)) (parseIPv4 s))
      else case number hex_digit 16 0 run of None \<Rightarrow> None | Some v \<Rightarrow>
        (let bytes' = bytes @ [of_nat (v div 256), of_nat v] in
         case rest of
           [] \<Rightarrow> Some (bytes', ell)
         | c # r \<Rightarrow>
             if c \<noteq> CHR '':'' \<or> r = '''' then None
             else if hd r = CHR '':'' then
               (if ell \<noteq> None then None
                else if tl r = '''' then Some (bytes', Some (length bytes'))
                else parseIPv6_fields n bytes' (Some (length bytes')) (tl r))
             else parseIPv6_fields n bytes' ell r))"

definition parseIPv6 :: "string \<Rightarrow> ip option" where
  "parseIPv6 s =
     (let open2 = (take 2 s = ''::''); s' = (if open2 then drop 2 s else s); ell0 = (if open2 then Some 0 else None) in
      if open2 \<and> s' = '''' then Some (replicate 16 0)
      else case parseIPv6_fields 8 [] ell0 s' of None \<Rightarrow> None | Some (bytes, ell) \<Rightarrow>
        (if length bytes < 16 then
           (case ell of None \<Rightarrow> None
            | Some k \<Rightarrow> Some (take k bytes @ replicate (16 - length bytes) 0 @ drop k bytes))
         else if ell \<noteq> None then None else Some bytes))"

text \<open>\<open>net.ParseIP\<close>: the first dot or colon decides; sixteen bytes either way. A zone is refused.\<close>

definition ParseIP :: "string \<Rightarrow> ip option" where
  "ParseIP s = (case filter (\<lambda>c. c = CHR ''.'' \<or> c = CHR '':'' \<or> c = CHR ''%'') s of
       [] \<Rightarrow> None
     | c # _ \<Rightarrow> if c = CHR ''.'' then map_option (\<lambda>v4. v4InV6Prefix @ v4) (parseIPv4 s)
         else if c = CHR '':'' then (if CHR ''%'' \<in> set s then None else parseIPv6 s) else None)"

section \<open>What kind of address it is\<close>

definition To4 :: "ip \<Rightarrow> ip option" where
  "To4 ip = (if length ip = 4 then Some ip
     else if length ip = 16 \<and> take 12 ip = v4InV6Prefix then Some (drop 12 ip) else None)"

definition ip_Equal :: "ip \<Rightarrow> ip \<Rightarrow> bool" where
  "ip_Equal a b \<longleftrightarrow> (if length a = length b then a = b
     else if length a = 4 \<and> length b = 16 then b = v4InV6Prefix @ a
     else if length a = 16 \<and> length b = 4 then a = v4InV6Prefix @ b else False)"

definition IsUnspecified :: "ip \<Rightarrow> bool" where
  "IsUnspecified ip \<longleftrightarrow> ip_Equal ip (v4InV6Prefix @ [0, 0, 0, 0]) \<or> ip_Equal ip (replicate 16 0)"

definition IsLoopback :: "ip \<Rightarrow> bool" where
  "IsLoopback ip \<longleftrightarrow> (case To4 ip of Some v4 \<Rightarrow> v4 ! 0 = 127 | None \<Rightarrow> ip_Equal ip (replicate 15 0 @ [1]))"

definition IsPrivate :: "ip \<Rightarrow> bool" where
  "IsPrivate ip \<longleftrightarrow> (case To4 ip of
       Some v4 \<Rightarrow> v4 ! 0 = 10 \<or> v4 ! 0 = 172 \<and> v4 ! 1 AND 0xf0 = 16 \<or> v4 ! 0 = 192 \<and> v4 ! 1 = 168
     | None \<Rightarrow> length ip = 16 \<and> ip ! 0 AND 0xfe = 0xfc)"

definition IsMulticast :: "ip \<Rightarrow> bool" where
  "IsMulticast ip \<longleftrightarrow> (case To4 ip of Some v4 \<Rightarrow> v4 ! 0 AND 0xf0 = 0xe0 | None \<Rightarrow> length ip = 16 \<and> ip ! 0 = 0xff)"

definition IsInterfaceLocalMulticast :: "ip \<Rightarrow> bool" where
  "IsInterfaceLocalMulticast ip \<longleftrightarrow> length ip = 16 \<and> ip ! 0 = 0xff \<and> ip ! 1 AND 0x0f = 1"

definition IsLinkLocalMulticast :: "ip \<Rightarrow> bool" where
  "IsLinkLocalMulticast ip \<longleftrightarrow> (case To4 ip of Some v4 \<Rightarrow> v4 ! 0 = 224 \<and> v4 ! 1 = 0 \<and> v4 ! 2 = 0
     | None \<Rightarrow> length ip = 16 \<and> ip ! 0 = 0xff \<and> ip ! 1 AND 0x0f = 2)"

definition IsLinkLocalUnicast :: "ip \<Rightarrow> bool" where
  "IsLinkLocalUnicast ip \<longleftrightarrow> (case To4 ip of Some v4 \<Rightarrow> v4 ! 0 = 169 \<and> v4 ! 1 = 254
     | None \<Rightarrow> length ip = 16 \<and> ip ! 0 = 0xfe \<and> ip ! 1 AND 0xc0 = 0x80)"

section \<open>The dialer\<close>

definition permitted :: "bool \<Rightarrow> ip \<Rightarrow> bool" where
  "permitted allowLoopback ip =
     (if IsLoopback ip then allowLoopback
      else if IsPrivate ip \<or> IsUnspecified ip \<or> IsMulticast ip
        \<or> IsLinkLocalUnicast ip \<or> IsLinkLocalMulticast ip \<or> IsInterfaceLocalMulticast ip then False
      else case To4 ip of Some v4 \<Rightarrow> \<not> (v4 ! 0 = 100 \<and> v4 ! 1 AND 0xc0 = 64) | None \<Rightarrow> True)"

text \<open>
  \<open>DialContext\<close>: \<open>resolve\<close> is what the resolver answers for a name, \<open>connect\<close> whether a connection
  to an address comes about. The result is the address connected to, and every address a
  connection was tried to, in order.
\<close>

fun dial_loop :: "bool \<Rightarrow> (ip \<Rightarrow> bool) \<Rightarrow> ip list \<Rightarrow> ip option \<times> ip list" where
  "dial_loop allowLoopback connect [] = (None, [])"
| "dial_loop allowLoopback connect (ip # ips) =
     (if \<not> permitted allowLoopback ip then dial_loop allowLoopback connect ips
      else if connect ip then (Some ip, [ip])
      else let (r, tried) = dial_loop allowLoopback connect ips in (r, ip # tried))"

definition DialContext ::
    "bool \<Rightarrow> (string \<Rightarrow> ip list option) \<Rightarrow> (ip \<Rightarrow> bool) \<Rightarrow> string \<Rightarrow> ip option \<times> ip list" where
  "DialContext allowLoopback resolve connect host = (case ParseIP host of
       Some ip \<Rightarrow> dial_loop allowLoopback connect [ip]
     | None \<Rightarrow> (case resolve host of None \<Rightarrow> (None, []) | Some ips \<Rightarrow> dial_loop allowLoopback connect ips))"

section \<open>The bit tests are address ranges\<close>

lemma byte_all:
  assumes "\<forall>i\<in>set [0..255]. P (word_of_int i :: byte)"
  shows "P b"
proof -
  have "uint b \<in> set [0..255]" using uint_lt2p [of b] by simp
  then have "P (word_of_int (uint b))" using assms by blast
  then show ?thesis by simp
qed

lemma mask_f0_10: "(b :: byte) AND 0xf0 = 16 \<longleftrightarrow> 16 \<le> b \<and> b \<le> 31"
  by (rule byte_all) code_simp

lemma mask_f0_e0: "(b :: byte) AND 0xf0 = 0xe0 \<longleftrightarrow> 224 \<le> b \<and> b \<le> 239"
  by (rule byte_all) code_simp

lemma mask_fe_fc: "(b :: byte) AND 0xfe = 0xfc \<longleftrightarrow> b = 0xfc \<or> b = 0xfd"
  by (rule byte_all) code_simp

lemma mask_c0_80: "(b :: byte) AND 0xc0 = 0x80 \<longleftrightarrow> 0x80 \<le> b \<and> b \<le> 0xbf"
  by (rule byte_all) code_simp

lemma mask_c0_40: "(b :: byte) AND 0xc0 = 64 \<longleftrightarrow> 64 \<le> b \<and> b \<le> 127"
  by (rule byte_all) code_simp

lemmas masks = mask_f0_10 mask_f0_e0 mask_fe_fc mask_c0_80 mask_c0_40

text \<open>
  What is inside: our own machine, the private and link-local networks, carrier-grade NAT,
  multicast and the unspecified address, as ranges of the address's numbers; a mapped IPv4
  address is its IPv4 address.
\<close>

definition inside_v4 :: "byte \<Rightarrow> byte \<Rightarrow> byte \<Rightarrow> byte \<Rightarrow> bool" where
  "inside_v4 a b c d \<longleftrightarrow> a = 127 \<or> a = 10 \<or> a = 172 \<and> 16 \<le> b \<and> b \<le> 31 \<or> a = 192 \<and> b = 168
     \<or> a = 169 \<and> b = 254 \<or> a = 100 \<and> 64 \<le> b \<and> b \<le> 127 \<or> 224 \<le> a \<and> a \<le> 239
     \<or> a = 0 \<and> b = 0 \<and> c = 0 \<and> d = 0"

definition inside_v6 :: "ip \<Rightarrow> bool" where
  "inside_v6 ip \<longleftrightarrow> ip = replicate 16 0 \<or> ip = replicate 15 0 @ [1] \<or> ip ! 0 = 0xfc \<or> ip ! 0 = 0xfd
     \<or> ip ! 0 = 0xfe \<and> 0x80 \<le> ip ! 1 \<and> ip ! 1 \<le> 0xbf \<or> ip ! 0 = 0xff"

definition inside :: "ip \<Rightarrow> bool" where
  "inside ip \<longleftrightarrow> (case To4 ip of Some v4 \<Rightarrow> inside_v4 (v4 ! 0) (v4 ! 1) (v4 ! 2) (v4 ! 3)
     | None \<Rightarrow> length ip = 16 \<and> inside_v6 ip)"

lemma To4_length: "To4 ip = Some v4 \<Longrightarrow> length v4 = 4"
  by (auto simp: To4_def split: if_splits)

lemma length_4: "length (v :: byte list) = 4 \<Longrightarrow> v = [v ! 0, v ! 1, v ! 2, v ! 3]"
  by (auto simp: list_eq_iff_nth_eq less_Suc_eq numeral_eq_Suc)

lemma mapped_prefix:
  assumes "take 12 ip = v4InV6Prefix"
  shows "ip ! 0 = 0" "ip ! 10 = 0xff"
proof -
  have "take 12 ip ! 0 = 0" "take 12 ip ! 10 = 0xff" unfolding assms by (simp_all add: v4InV6Prefix_def)
  then show "ip ! 0 = 0" "ip ! 10 = 0xff" by simp_all
qed

lemma Equal_zero4:
  assumes "To4 ip = Some v4"
  shows "ip_Equal ip (v4InV6Prefix @ [0, 0, 0, 0]) \<longleftrightarrow> v4 = [0, 0, 0, 0]" "\<not> ip_Equal ip (replicate 16 0)"
proof -
  from assms consider "length ip = 4" "v4 = ip" | "length ip = 16" "take 12 ip = v4InV6Prefix" "v4 = drop 12 ip"
    by (auto simp: To4_def split: if_splits)
  note c = this
  have l: "length v4InV6Prefix = 12" by (simp add: v4InV6Prefix_def)
  from c show "ip_Equal ip (v4InV6Prefix @ [0, 0, 0, 0]) \<longleftrightarrow> v4 = [0, 0, 0, 0]"
  proof cases
    case 1
    then show ?thesis by (auto simp: ip_Equal_def l)
  next
    case 2
    then have "ip = v4InV6Prefix @ v4" by (metis append_take_drop_id)
    with 2(1) l show ?thesis by (simp add: ip_Equal_def)
  qed
  from c show "\<not> ip_Equal ip (replicate 16 0)"
  proof cases
    case 1
    have "replicate 16 0 \<noteq> v4InV6Prefix @ ip"
    proof
      assume eq: "replicate 16 0 = v4InV6Prefix @ ip"
      have "take 12 (replicate 16 0) = v4InV6Prefix" unfolding eq by (simp add: l)
      from mapped_prefix(2) [OF this] show False by simp
    qed
    with 1 show ?thesis by (simp add: ip_Equal_def)
  next
    case 2
    have "take 12 ip ! 10 = 0xff" unfolding 2(2) by (simp add: v4InV6Prefix_def)
    then have "ip ! 10 = 0xff" by simp
    then have "ip \<noteq> replicate 16 0" by auto
    with 2(1) show ?thesis by (simp add: ip_Equal_def)
  qed
qed

lemma permitted_bools:
  assumes "e \<Longrightarrow> m" "\<not> y" "\<not> f"
  shows "(if l then False else if (a \<or> b \<or> c) \<or> (z \<or> y) \<or> m \<or> u \<or> e \<or> f then False else \<not> n)
    \<longleftrightarrow> \<not> (l \<or> a \<or> b \<or> c \<or> u \<or> n \<or> m \<or> z)"
  using assms by auto

lemma permitted_iff: "permitted False ip \<longleftrightarrow> \<not> inside ip"
proof (cases "To4 ip")
  case None
  have u: "\<not> ip_Equal ip (v4InV6Prefix @ [0, 0, 0, 0])"
    using None by (auto simp: ip_Equal_def To4_def v4InV6Prefix_def split: if_splits)
  have e: "ip_Equal ip (replicate 16 0) \<longleftrightarrow> ip = replicate 16 0"
    "ip_Equal ip (replicate 15 0 @ [1]) \<longleftrightarrow> ip = replicate 15 0 @ [1]"
    using None by (auto simp: ip_Equal_def To4_def split: if_splits)
  show ?thesis
    unfolding permitted_def inside_def inside_v6_def IsLoopback_def IsUnspecified_def IsPrivate_def IsMulticast_def
      IsLinkLocalUnicast_def IsLinkLocalMulticast_def IsInterfaceLocalMulticast_def None option.case e masks
    using u by auto
next
  case (Some v4)
  have l: "v4 = [v4 ! 0, v4 ! 1, v4 ! 2, v4 ! 3]" by (rule length_4 [OF To4_length [OF Some]])
  have z: "v4 = [0, 0, 0, 0] \<longleftrightarrow> v4 ! 0 = 0 \<and> v4 ! 1 = 0 \<and> v4 ! 2 = 0 \<and> v4 ! 3 = 0"
    by (subst l) simp
  have il: "\<not> IsInterfaceLocalMulticast ip \<or> length ip = 4"
    using Some mapped_prefix(1) [of ip] by (auto simp: IsInterfaceLocalMulticast_def To4_def split: if_splits)
  have ll: "v4 ! 0 = 224 \<Longrightarrow> 224 \<le> v4 ! 0 \<and> v4 ! 0 \<le> 239" by simp
  have ifl: "\<not> IsInterfaceLocalMulticast ip"
    using il by (auto simp: IsInterfaceLocalMulticast_def)
  show ?thesis
    unfolding permitted_def inside_def inside_v4_def IsLoopback_def IsUnspecified_def IsPrivate_def IsMulticast_def
      IsLinkLocalUnicast_def IsLinkLocalMulticast_def Some option.case Equal_zero4(1) [OF Some] z masks
    by (rule permitted_bools) (use ifl ll Equal_zero4(2) [OF Some] in simp_all)
qed

lemma dial_loop_spec:
  "dial_loop al connect ips = (r, tried) \<Longrightarrow>
     (\<forall>ip\<in>set tried. permitted al ip \<and> ip \<in> set ips)
   \<and> (r = find (\<lambda>ip. permitted al ip \<and> connect ip) ips)
   \<and> (\<forall>ip. r = Some ip \<longrightarrow> ip \<in> set tried)"
  by (induction ips arbitrary: r tried) (auto split: if_splits prod.splits)

lemma find_exists: "x \<in> set xs \<Longrightarrow> P x \<Longrightarrow> find P xs \<noteq> None"
  by (induction xs) auto

lemma dial_loop_outside:
  assumes "dial_loop False connect ips = (r, tried)"
  shows "\<forall>ip\<in>set tried. \<not> inside ip" "r = Some ip \<Longrightarrow> ip \<in> set tried \<and> connect ip"
    "ip \<in> set ips \<Longrightarrow> \<not> inside ip \<Longrightarrow> connect ip \<Longrightarrow> r \<noteq> None"
proof -
  note spec = dial_loop_spec [OF assms, unfolded permitted_iff]
  show "\<forall>ip\<in>set tried. \<not> inside ip" using spec by blast
  show "ip \<in> set tried \<and> connect ip" if "r = Some ip"
    using spec that find_in_set [of "\<lambda>ip. \<not> inside ip \<and> connect ip" ips ip] by metis
  show "r \<noteq> None" if "ip \<in> set ips" "\<not> inside ip" "connect ip"
    using spec find_exists [of ip ips "\<lambda>ip. \<not> inside ip \<and> connect ip"] that by metis
qed



end
