(* ===== verification/Agents.thy ===== *)
theory Agents
  imports ConvList Addresses
begin

text \<open>
  Agents (\<open>agents/service.go\<close>, \<open>agents/validate.go\<close>, \<open>store/gen/agents.sql.go\<close>): the identities in a
  chat list. An agent is made together with the chat its owner finds it in, changed by its owner
  only, and never removed, only retired.
\<close>

section \<open>Statements\<close>

definition GetAgent_sql :: "db \<Rightarrow> uuid \<Rightarrow> go_error + agent_row" where
  "GetAgent_sql d i = one_row (find (\<lambda>a. agt_id a = i \<and> agt_deleted_at a = None) (db_agents d))"

definition GetAgentByHandle :: "db \<Rightarrow> string \<Rightarrow> go_error + agent_row" where
  "GetAgentByHandle d h = one_row (find (\<lambda>a. agt_handle a = h \<and> agt_deleted_at a = None) (db_agents d))"

definition ListAgentsByOwner :: "db \<Rightarrow> uuid \<Rightarrow> agent_row list" where
  "ListAgentsByOwner d owner = sort_key agt_created_at (sort_key agt_id
     (filter (\<lambda>a. agt_owner_user_id a = owner \<and> agt_deleted_at a = None) (db_agents d)))"

definition ListCatalogue :: "db \<Rightarrow> nat \<Rightarrow> agent_row list" where
  "ListCatalogue d n = take n (sort_key agt_created_at (sort_key agt_id
     (filter (\<lambda>a. agt_listed a \<and> agt_deleted_at a = None) (db_agents d))))"

text \<open>The constraint on handles: \<open>^[a-z0-9][a-z0-9_-]{2,31}$\<close>, on code points.\<close>

fun handle_start :: "rune \<Rightarrow> bool" where
  "handle_start (Rune c) \<longleftrightarrow> 97 \<le> c \<and> c \<le> 122 \<or> 48 \<le> c \<and> c \<le> 57"
| "handle_start (Stray b) \<longleftrightarrow> False"

definition handle_char :: "rune \<Rightarrow> bool" where
  "handle_char r \<longleftrightarrow> handle_start r \<or> r = Rune 95 \<or> r = Rune 45"

definition handlePattern :: "gotext \<Rightarrow> bool" where
  "handlePattern s \<longleftrightarrow> 3 \<le> length s \<and> length s \<le> 32 \<and> handle_start (hd s) \<and> list_all handle_char s"

definition agent_checks :: "agent_row \<Rightarrow> bool" where
  "agent_checks r \<longleftrightarrow> handlePattern (str (agt_handle r)) \<and> 1 \<le> RuneCount (agt_display_name r)
     \<and> RuneCount (agt_display_name r) \<le> 80 \<and> RuneCount (agt_description r) \<le> 500
     \<and> \<not> (agt_private r \<and> agt_listed r)"

definition texts_storable :: "agent_row \<Rightarrow> bool" where
  "texts_storable r \<longleftrightarrow> storable (agt_display_name r) \<and> storable (agt_description r)"

definition media_known :: "db \<Rightarrow> uuid option \<Rightarrow> bool" where
  "media_known d i \<longleftrightarrow> i = None \<or> (\<exists>m\<in>set (db_media d). Some (med_id m) = i)"

text \<open>\<open>CreateAgent\<close> of the row its parameters make at \<open>now\<close>.\<close>

definition CreateAgent :: "agent_row \<Rightarrow> db \<Rightarrow> (go_error + agent_row) \<times> db" where
  "CreateAgent r d =
     (if \<not> texts_storable r then (Inl (PlainError OtherCause), d)
      else insert_row (agent_checks r)
        (\<forall>a\<in>set (db_agents d). agt_id a \<noteq> agt_id r \<and> agt_handle a \<noteq> agt_handle r)
        ((\<exists>u\<in>set (db_users d). usr_id u = agt_owner_user_id r) \<and> media_known d (agt_avatar_media_id r))
        r d (Inr r, d\<lparr>db_agents := db_agents d @ [r]\<rparr>))"

record UpdateAgentParams =
  uap_DisplayName :: "gotext option"
  uap_Description :: "gotext option"
  uap_AvatarMediaID :: "uuid option"
  uap_Starters :: "gotext list option"
  uap_Private :: "bool option"
  uap_Listed :: "bool option"
  uap_SupportsSchedules :: "bool option"

definition updated_agent :: "int \<Rightarrow> UpdateAgentParams \<Rightarrow> agent_row \<Rightarrow> agent_row" where
  "updated_agent now p r = r\<lparr>agt_display_name := coalesce (uap_DisplayName p) (agt_display_name r),
     agt_description := coalesce (uap_Description p) (agt_description r),
     agt_avatar_media_id := coalesce (map_option Some (uap_AvatarMediaID p)) (agt_avatar_media_id r),
     agt_starters := coalesce (map_option Doc (uap_Starters p)) (agt_starters r),
     agt_private := coalesce (uap_Private p) (agt_private r),
     agt_listed := coalesce (uap_Listed p) (agt_listed r),
     agt_supports_schedules := coalesce (uap_SupportsSchedules p) (agt_supports_schedules r),
     agt_updated_at := now\<rparr>"

definition live_agent :: "uuid \<Rightarrow> agent_row \<Rightarrow> bool" where
  "live_agent i a \<longleftrightarrow> agt_id a = i \<and> agt_deleted_at a = None"

text \<open>An update is refused whole by the first check the new row fails.\<close>

definition UpdateAgent_sql :: "int \<Rightarrow> uuid \<Rightarrow> UpdateAgentParams \<Rightarrow> db \<Rightarrow> (go_error + agent_row) \<times> db" where
  "UpdateAgent_sql now i p d = (case find (live_agent i) (db_agents d) of
       None \<Rightarrow> (Inl (PlainError NoRows), d)
     | Some r \<Rightarrow> let r' = updated_agent now p r in
         if \<not> texts_storable r' then (Inl (PlainError OtherCause), d)
         else if \<not> agent_checks r' then (Inl (PlainError CheckViolation), d)
         else if \<not> media_known d (agt_avatar_media_id r') then (Inl (PlainError ForeignKeyViolation), d)
         else (Inr r', d\<lparr>db_agents := update_where (live_agent i) (updated_agent now p) (db_agents d)\<rparr>))"

definition SoftDeleteAgent :: "int \<Rightarrow> uuid \<Rightarrow> db \<Rightarrow> nat \<times> db" where
  "SoftDeleteAgent now i d = (count_where (live_agent i) (db_agents d),
     d\<lparr>db_agents := update_where (live_agent i)
         (\<lambda>a. a\<lparr>agt_deleted_at := Some now, agt_updated_at := now\<rparr>) (db_agents d)\<rparr>)"

definition GetMedia :: "db \<Rightarrow> uuid \<Rightarrow> go_error + media_row" where
  "GetMedia d i = one_row (find (\<lambda>m. med_id m = i) (db_media d))"

section \<open>Checking what an owner says\<close>

text \<open>
  \<open>strings.ToLower\<close>, exactly on what becomes a letter a handle may have: the ASCII capitals, the
  dotted capital I and the Kelvin sign; every other code point stays outside the pattern.
\<close>

fun handle_lower :: "rune \<Rightarrow> rune" where
  "handle_lower (Rune c) = (if 65 \<le> c \<and> c \<le> 90 then Rune (c + 32) else if c = 304 then Rune 105
     else if c = 8490 then Rune 107 else Rune c)"
| "handle_lower (Stray b) = Stray b"

fun rune_char :: "rune \<Rightarrow> char" where
  "rune_char (Rune c) = char_of c"
| "rune_char (Stray b) = char_of b"

definition reservedHandles :: "string list" where
  "reservedHandles = [''admin'', ''administrator'', ''cuckoo'', ''system'', ''support'', ''help'', ''root'',
     ''api'', ''hub'', ''official'', ''staff'', ''team'', ''null'', ''undefined'']"

definition validateHandle :: "gotext \<Rightarrow> go_error + string" where
  "validateHandle raw =
     (let handle = map handle_lower (TrimSpace raw) in
      if \<not> handlePattern handle then Inl (InvalidField ''handle'' ''invalid_handle'')
      else if map rune_char handle \<in> set reservedHandles then Inl (InvalidField ''handle'' ''handle_reserved'')
      else Inr (map rune_char handle))"

definition displayNameMaxLen :: nat where "displayNameMaxLen = 80"
definition descriptionMaxLen :: nat where "descriptionMaxLen = 500"
definition startersMax :: nat where "startersMax = 4"
definition starterMaxLen :: nat where "starterMaxLen = 40"

definition validateDisplayName :: "gotext \<Rightarrow> go_error + gotext" where
  "validateDisplayName raw =
     (let name = TrimSpace raw; bad = InvalidField ''display_name'' ''invalid_display_name'' in
      if \<not> ValidString name then Inl bad
      else if RuneCount name < 1 \<or> displayNameMaxLen < RuneCount name then Inl bad
      else if contains_any [10, 13, 9] name then Inl bad
      else Inr name)"

definition validateDescription :: "gotext \<Rightarrow> go_error + gotext" where
  "validateDescription raw =
     (let desc = TrimSpace raw; bad = InvalidField ''description'' ''invalid_description'' in
      if \<not> ValidString desc then Inl bad
      else if descriptionMaxLen < RuneCount desc then Inl bad
      else Inr desc)"

fun validateStarters_loop :: "gotext list \<Rightarrow> gotext list \<Rightarrow> go_error + gotext list" where
  "validateStarters_loop out [] = Inr out"
| "validateStarters_loop out (r # raw) =
     (let label = TrimSpace r; bad = InvalidField ''starters'' ''invalid_starters'' in
      if \<not> ValidString label \<or> contains_any [10, 13, 9, 0] label then Inl bad
      else if RuneCount label < 1 \<or> starterMaxLen < RuneCount label then Inl bad
      else if label \<in> set out then Inl bad
      else validateStarters_loop (out @ [label]) raw)"

definition validateStarters :: "gotext list \<Rightarrow> go_error + gotext list" where
  "validateStarters raw =
     (if startersMax < length raw then Inl (InvalidField ''starters'' ''invalid_starters'')
      else validateStarters_loop [] raw)"

definition isLoopback :: "gotext \<Rightarrow> bool" where
  "isLoopback host \<longleftrightarrow> host = str ''localhost''
     \<or> (list_all (\<lambda>r. case r of Rune c \<Rightarrow> c < 128 | Stray b \<Rightarrow> False) host
        \<and> (case ParseIP (map rune_char host) of None \<Rightarrow> False | Some ip \<Rightarrow> IsLoopback ip))"

definition validateWebhookURL :: "url_parser \<Rightarrow> gotext \<Rightarrow> go_error + gotext" where
  "validateWebhookURL up raw =
     (let bad = InvalidField ''webhook_url'' ''invalid_webhook_url''; raw = TrimSpace raw in
      if raw = [] then Inl bad
      else case up raw of None \<Rightarrow> Inl bad | Some u \<Rightarrow>
        if url_host u = [] \<or> url_scheme u = '''' then Inl bad
        else if url_user u then Inl bad
        else if url_fragment u \<noteq> [] then Inl bad
        else if url_scheme u = ''https'' then Inr (url_String u)
        else if url_scheme u = ''http'' then
          (if isLoopback (url_hostname u) then Inr (url_String u) else Inl bad)
        else Inl bad)"

text \<open>What a profile may point at (\<open>media.Picture\<close>).\<close>

definition Picture :: "media_row option \<Rightarrow> participant_kind \<Rightarrow> uuid \<Rightarrow> go_error + unit" where
  "Picture found k owner = (case found of
       None \<Rightarrow> Inl (InvalidField ''avatar_media_id'' ''unknown_picture'')
     | Some row \<Rightarrow>
         if med_owner_kind row \<noteq> k \<or> med_owner_id row \<noteq> owner then
           Inl (InvalidField ''avatar_media_id'' ''unknown_picture'')
         else if med_kind row \<noteq> ''image'' then Inl (InvalidField ''avatar_media_id'' ''not_a_picture'')
         else if med_message_id row \<noteq> None then Inl (InvalidField ''avatar_media_id'' ''picture_already_sent'')
         else Inr ())"

definition checkPicture :: "db \<Rightarrow> uuid \<Rightarrow> uuid option \<Rightarrow> go_error + unit" where
  "checkPicture d ownerID mediaID = (case mediaID of None \<Rightarrow> Inr ()
     | Some i \<Rightarrow> (case GetMedia d i of
          Inr row \<Rightarrow> Picture (Some row) ParticipantUser ownerID
        | Inl err \<Rightarrow> if \<not> IsNoRows err then Inl (Internal err) else Picture None ParticipantUser ownerID))"

section \<open>The service\<close>

record agent =
  ag_ID :: uuid
  ag_OwnerID :: uuid
  ag_Handle :: string
  ag_DisplayName :: gotext
  ag_Description :: gotext
  ag_AvatarMediaID :: "uuid option"
  ag_Starters :: "gotext list"
  ag_Private :: bool
  ag_Listed :: bool
  ag_SupportsSchedules :: bool
  ag_CreatedAt :: int
  ag_UpdatedAt :: int

definition startersFromRow :: "gotext list json \<Rightarrow> gotext list" where
  "startersFromRow raw = (case raw of Doc s \<Rightarrow> s | Corrupt \<Rightarrow> [])"

definition agentFromRow :: "agent_row \<Rightarrow> agent" where
  "agentFromRow r = \<lparr>ag_ID = agt_id r, ag_OwnerID = agt_owner_user_id r, ag_Handle = agt_handle r,
     ag_DisplayName = agt_display_name r, ag_Description = agt_description r,
     ag_AvatarMediaID = agt_avatar_media_id r, ag_Starters = startersFromRow (agt_starters r),
     ag_Private = agt_private r, ag_Listed = agt_listed r, ag_SupportsSchedules = agt_supports_schedules r,
     ag_CreatedAt = agt_created_at r, ag_UpdatedAt = agt_updated_at r\<rparr>"

definition errAgentNotFound :: go_error where "errAgentNotFound = NotFound ''agent_not_found''"
definition errNotOwner :: go_error where "errNotOwner = Forbidden ''not_owner''"

definition GetAgent :: "db \<Rightarrow> uuid \<Rightarrow> go_error + agent" where
  "GetAgent d i = (case GetAgent_sql d i of
       Inl err \<Rightarrow> Inl (if IsNoRows err then errAgentNotFound else Internal err)
     | Inr row \<Rightarrow> Inr (agentFromRow row))"

definition GetOwned :: "db \<Rightarrow> uuid \<Rightarrow> uuid \<Rightarrow> go_error + agent" where
  "GetOwned d callerID i = ok_then (GetAgent d i) (\<lambda>agent.
     if ag_OwnerID agent \<noteq> callerID then Inl errNotOwner else Inr agent)"

definition GetByHandle :: "db \<Rightarrow> string \<Rightarrow> go_error + agent" where
  "GetByHandle d h = (case GetAgentByHandle d h of
       Inl err \<Rightarrow> Inl (if IsNoRows err then errAgentNotFound else Internal err)
     | Inr row \<Rightarrow> Inr (agentFromRow row))"

definition ListMineAgents :: "db \<Rightarrow> uuid \<Rightarrow> agent list" where
  "ListMineAgents d callerID = map agentFromRow (ListAgentsByOwner d callerID)"

record CreateInput =
  ci_Handle :: gotext
  ci_DisplayName :: gotext
  ci_Description :: gotext
  ci_AvatarMediaID :: "uuid option"
  ci_Starters :: "gotext list"
  ci_Private :: bool
  ci_Listed :: bool
  ci_SupportsSchedules :: bool

definition createAgentTx :: "env \<Rightarrow> uuid \<Rightarrow> agent_row \<Rightarrow> agent_row handler" where
  "createAgentTx e ownerID params w =
     (let (i, w0) = NewID e w; (r, w1) = on_db (CreateAgent (params\<lparr>agt_id := i\<rparr>)) w0 in
      needs r w1 (\<lambda>row.
      runs (CreateDM e ownerID (agt_id row) w1) (\<lambda>dm w2.
      let (r3, w3) = on_db (CreateContact (w_now w) ownerID (agt_id row) (cv_ID dm) ''owner'' None) w2 in
      needs r3 w3 (\<lambda>_. (Inr row, w3)))))"

text \<open>\<open>if err != nil { return classify(err) }; return shape(row)\<close>, after a step that changed the world.\<close>

definition outcome :: "('e \<Rightarrow> 'f) \<Rightarrow> ('a \<Rightarrow> 'b) \<Rightarrow> ('e + 'a) \<times> 'w \<Rightarrow> ('f + 'b) \<times> 'w" where
  "outcome classify shape r = (case fst r of Inl err \<Rightarrow> Inl (classify err) | Inr x \<Rightarrow> Inr (shape x), snd r)"

lemma outcome_Inr [ok_iffs]: "outcome f g r = (Inr y, w') \<longleftrightarrow> (\<exists>x. r = (Inr x, w') \<and> y = g x)"
  by (cases r; cases "fst r") (auto simp: outcome_def)

lemma outcome_Inl: "outcome f g r = (Inl e, w') \<longleftrightarrow> (\<exists>c. r = (Inl c, w') \<and> e = f c)"
  by (cases r; cases "fst r") (auto simp: outcome_def)

lemma well_outcome [keeps]: "well (snd r) \<Longrightarrow> well (snd (outcome f g r))"
  by (simp add: outcome_def)

text \<open>What a failed transaction is reported as.\<close>

definition create_error :: "go_error \<Rightarrow> go_error" where
  "create_error err = (if AsError err \<noteq> None then err
     else if IsUniqueViolation err then Conflict ''handle_taken'' else Internal err)"

definition CreateAnAgent :: "env \<Rightarrow> uuid \<Rightarrow> CreateInput \<Rightarrow> agent handler" where
  "CreateAnAgent e ownerID inp w =
     needs (validateHandle (ci_Handle inp)) w (\<lambda>handle.
     needs (validateDisplayName (ci_DisplayName inp)) w (\<lambda>name.
     needs (validateDescription (ci_Description inp)) w (\<lambda>desc.
     needs (validateStarters (ci_Starters inp)) w (\<lambda>starters.
     needs (checkPicture (w_db w) ownerID (ci_AvatarMediaID inp)) w (\<lambda>_.
     let params = \<lparr>agt_id = uuid_Nil, agt_owner_user_id = ownerID, agt_handle = handle, agt_display_name = name,
           agt_description = desc, agt_created_at = w_now w, agt_updated_at = w_now w, agt_deleted_at = None,
           agt_avatar_media_id = ci_AvatarMediaID inp, agt_starters = Doc starters, agt_private = ci_Private inp,
           agt_listed = ci_Listed inp, agt_supports_schedules = ci_SupportsSchedules inp\<rparr> in
     outcome create_error agentFromRow (WithTx (createAgentTx e ownerID params) w))))))"

record UpdateInput =
  ui_DisplayName :: "gotext option"
  ui_Description :: "gotext option"
  ui_AvatarMediaID :: "uuid option"
  ui_Starters :: "gotext list option"
  ui_Private :: "bool option"
  ui_Listed :: "bool option"
  ui_SupportsSchedules :: "bool option"

text \<open>An optional field: checked when it is given.\<close>

definition optional :: "('a \<Rightarrow> go_error + 'b) \<Rightarrow> 'a option \<Rightarrow> go_error + 'b option" where
  "optional f x = (case x of None \<Rightarrow> Inr None | Some v \<Rightarrow> ok_then (f v) (\<lambda>y. Inr (Some y)))"

definition UpdateAgent :: "env \<Rightarrow> uuid \<Rightarrow> uuid \<Rightarrow> UpdateInput \<Rightarrow> agent handler" where
  "UpdateAgent e callerID i inp w =
     needs (GetOwned (w_db w) callerID i) w (\<lambda>_.
     needs (checkPicture (w_db w) callerID (ui_AvatarMediaID inp)) w (\<lambda>_.
     needs (optional validateStarters (ui_Starters inp)) w (\<lambda>starters.
     needs (optional validateDisplayName (ui_DisplayName inp)) w (\<lambda>name.
     needs (optional validateDescription (ui_Description inp)) w (\<lambda>desc.
     let params = \<lparr>uap_DisplayName = name, uap_Description = desc, uap_AvatarMediaID = ui_AvatarMediaID inp,
           uap_Starters = starters, uap_Private = ui_Private inp, uap_Listed = ui_Listed inp,
           uap_SupportsSchedules = ui_SupportsSchedules inp\<rparr> in
     if params = \<lparr>uap_DisplayName = None, uap_Description = None, uap_AvatarMediaID = None, uap_Starters = None,
           uap_Private = None, uap_Listed = None, uap_SupportsSchedules = None\<rparr>
     then (Inl (Invalid ''no_changes''), w)
     else outcome (\<lambda>err. if IsNoRows err then errAgentNotFound else Internal err) agentFromRow
         (on_db (UpdateAgent_sql (w_now w) i params) w))))))"

text \<open>
  \<open>announce\<close>: whoever shares a conversation with the agent hears its backend's status.
\<close>

definition EventAgentStatus :: string where "EventAgentStatus = ''agent.status''"
definition StatusNone :: string where "StatusNone = ''none''"

definition status_string :: "binding_status \<Rightarrow> string" where
  "status_string s = (case s of StatusIdle \<Rightarrow> ''idle'' | StatusConnected \<Rightarrow> ''connected''
     | StatusUnreachable \<Rightarrow> ''unreachable'')"

definition announce :: "uuid \<Rightarrow> string \<Rightarrow> world \<Rightarrow> world" where
  "announce agentID status w =
     notifyTo EventAgentStatus (ListUsersSharingAgent (w_db w) agentID) (AgentStatusEvent agentID status) w"

definition deleteAgentTx :: "uuid \<Rightarrow> unit handler" where
  "deleteAgentTx i w =
     (let (_, w1) = on_db (RevokeActiveBinding (w_now w) i) w;
          (n, w2) = on_db (SoftDeleteAgent (w_now w) i) w1 in
      if n = 0 then (Inl errAgentNotFound, w2) else (Inr (), w2))"

definition DeleteAgent :: "uuid \<Rightarrow> uuid \<Rightarrow> unit handler" where
  "DeleteAgent callerID i w =
     needs (GetOwned (w_db w) callerID i) w (\<lambda>_.
     runs (WithTx (deleteAgentTx i) w) (\<lambda>_ w1. (Inr (), announce i StatusNone w1)))"

fun deleteAll_loop :: "uuid \<Rightarrow> agent_row list \<Rightarrow> unit handler" where
  "deleteAll_loop ownerID [] w = (Inr (), w)"
| "deleteAll_loop ownerID (r # rows) w =
     runs (DeleteAgent ownerID (agt_id r) w) (\<lambda>_ w1. deleteAll_loop ownerID rows w1)"

definition DeleteAllOwned :: "uuid \<Rightarrow> unit handler" where
  "DeleteAllOwned ownerID w = deleteAll_loop ownerID (ListAgentsByOwner (w_db w) ownerID) w"

section \<open>What is kept\<close>

lemma db_ok_CreateAgent: "db_ok d \<Longrightarrow> db_ok (snd (CreateAgent r d))"
  by (auto simp: CreateAgent_def insert_row_def db_ok_def agents_ok_def agent_checks_def)

lemma db_ok_UpdateAgent: "db_ok d \<Longrightarrow> db_ok (snd (UpdateAgent_sql now i p d))"
proof -
  assume ok: "db_ok d"
  show ?thesis
  proof (cases "UpdateAgent_sql now i p d")
    case (Pair r d')
    have "agents_ok (update_where (live_agent i) (updated_agent now p) (db_agents d))"
      if f: "find (live_agent i) (db_agents d) = Some q" and c: "agent_checks (updated_agent now p q)" for q
    proof -
      have "r = q" if "r \<in> set (db_agents d)" "live_agent i r" for r
        using key_unique [of agt_id "db_agents d" r q] find_in_set [OF f] that db_okD(9) [OF ok]
        by (auto simp: agents_ok_def live_agent_def)
      then show ?thesis using db_okD(9) [OF ok] c
        by (auto simp: agents_ok_def update_where_map updated_agent_def set_update_where agent_checks_def)
    qed
    then show ?thesis using ok
      by (auto simp: UpdateAgent_sql_def db_ok_def Let_def split: option.splits)
  qed
qed

lemma db_ok_SoftDeleteAgent: "db_ok d \<Longrightarrow> db_ok (snd (SoftDeleteAgent now i d))"
  by (auto simp: SoftDeleteAgent_def db_ok_def update_where_map agents_ok_def set_update_where)

lemma notifyTo_db [simp]: "w_db (notifyTo t us p w) = w_db w"
  by (simp add: notifyTo_def)

lemma announce_db [simp]: "w_db (announce a s w) = w_db w"
  by (simp add: announce_def)

lemma db_ok_CreateContact': "db_ok d \<Longrightarrow> db_ok (snd (CreateContact now u a c via t d))"
  using db_ok_CreateContact [OF prod.collapse [symmetric]] by blast

lemma well_createAgentTx: "well w \<Longrightarrow> well (snd (createAgentTx e u params w))"
  unfolding createAgentTx_def Let_def NewID_def prod.case
  by (intro well_raw_step well_runs)
    (simp_all add: db_ok_CreateAgent db_ok_CreateContact' well_FindOrCreateDM)

lemma well_deleteAgentTx: "well w \<Longrightarrow> well (snd (deleteAgentTx i w))"
  by (simp add: deleteAgentTx_def Let_def split_def db_ok_SoftDeleteAgent db_ok_RevokeActiveBinding)

lemma well_DeleteAgent: "well w \<Longrightarrow> well (snd (DeleteAgent u i w))"
  unfolding DeleteAgent_def
  by (rule well_needs, assumption, rule well_runs, rule well_WithTx) (simp_all add: well_deleteAgentTx)

lemma well_deleteAll: "well w \<Longrightarrow> well (snd (deleteAll_loop u rows w))"
proof (induction rows arbitrary: w)
  case (Cons r rows)
  then show ?case unfolding deleteAll_loop.simps by (intro well_runs) (simp_all add: well_DeleteAgent)
qed simp

lemma well_agents [keeps]:
  assumes "well w"
  shows "well (snd (CreateAnAgent e u inp w))" "well (snd (UpdateAgent e u i upd w))"
    "well (snd (DeleteAgent u i w))" "well (snd (DeleteAllOwned u w))"
proof -
  show "well (snd (CreateAnAgent e u inp w))"
    unfolding CreateAnAgent_def Let_def by (intro keeps assms well_createAgentTx)
  show "well (snd (UpdateAgent e u i upd w))"
    unfolding UpdateAgent_def Let_def by (intro well_needs assms) (simp add: assms well_outcome db_ok_UpdateAgent)
  show "well (snd (DeleteAgent u i w))" "well (snd (DeleteAllOwned u w))"
    using assms by (simp_all add: well_DeleteAgent DeleteAllOwned_def well_deleteAll)
qed

section \<open>An agent and its chat\<close>

lemma map_rune_char_str: "list_all handle_char s \<Longrightarrow> str (map rune_char s) = s"
proof (induction s)
  case (Cons r s)
  then show ?case
    by (cases r) (auto simp: str_def handle_char_def of_char_of take_bit_eq_mod)
qed (simp add: str_def)

lemma validateHandle_ok:
  assumes "validateHandle raw = Inr h"
  shows "handlePattern (str h) \<and> h \<notin> set reservedHandles"
proof -
  let ?h = "map handle_lower (TrimSpace raw)"
  have "handlePattern ?h" "h = map rune_char ?h" "h \<notin> set reservedHandles"
    using assms by (auto simp: validateHandle_def Let_def split: if_splits)
  moreover have "str (map rune_char ?h) = ?h"
    using calculation(1) by (intro map_rune_char_str) (simp add: handlePattern_def)
  ultimately show ?thesis by simp
qed

lemma CreateContact_Inr:
  assumes "CreateContact now u a c via t d = (Inr r, d')"
  shows "ctc_user_id r = u \<and> ctc_agent_id r = a \<and> ctc_dm_conversation_id r = c \<and> ctc_added_via r = via
    \<and> ctc_blocked_at r = None \<and> ctc_removed_at r = None \<and> ctc_pair_token_id r = t
    \<and> (\<forall>x\<in>set (db_contacts d). \<not> (ctc_user_id x = u \<and> ctc_agent_id x = a))
    \<and> d' = d\<lparr>db_contacts := db_contacts d @ [r]\<rparr>"
  using assms unfolding CreateContact_def Let_def insert_row_def by (auto split: if_splits)

lemma CreateAgent_Inr:
  assumes "CreateAgent r d = (Inr row, d')"
  shows "row = r \<and> d' = d\<lparr>db_agents := db_agents d @ [r]\<rparr> \<and> agent_checks r \<and> texts_storable r
    \<and> (\<forall>a\<in>set (db_agents d). agt_id a \<noteq> agt_id r \<and> agt_handle a \<noteq> agt_handle r)"
  using assms unfolding CreateAgent_def insert_row_def by (auto split: if_splits)

lemma CreateDM_ok:
  assumes "CreateDM e u a w = (Inr conv, w')"
  obtains row where "createDMTx e u a w = (Inr row, w')" "cv_ID conv = cnv_id row" "cv_Kind conv = cnv_kind row"
proof -
  from assms obtain row convs where "createDMTx e u a w = (Inr row, w')" "hydrate w' [row] = Inr convs" "conv = hd convs"
    by (auto simp: CreateDM_def ok_iffs)
  with that hydrate_one show thesis by blast
qed

text \<open>What the transaction that makes an agent leaves.\<close>

lemma createAgentTx_ok:
  assumes "createAgentTx e u params w = (Inr row, w')"
  shows "\<exists>c p q k. w_db w' = (w_db w)\<lparr>db_agents := db_agents (w_db w) @ [row],
        db_conversations := db_conversations (w_db w) @ [c], db_participants := db_participants (w_db w) @ [p, q],
        db_contacts := db_contacts (w_db w) @ [k]\<rparr>
    \<and> row = params\<lparr>agt_id := env_new_id e (w_ids w)\<rparr> \<and> agent_checks row \<and> texts_storable row
    \<and> (\<forall>a\<in>set (db_agents (w_db w)). agt_id a \<noteq> agt_id row \<and> agt_handle a \<noteq> agt_handle row)
    \<and> (\<forall>x\<in>set (db_conversations (w_db w)). cnv_id x \<noteq> cnv_id c) \<and> cnv_kind c = ''dm''
    \<and> prt_conversation_id p = cnv_id c \<and> prt_user_id p = Some u \<and> prt_agent_id p = None
    \<and> prt_conversation_id q = cnv_id c \<and> prt_user_id q = None \<and> prt_agent_id q = Some (agt_id row)
    \<and> ctc_user_id k = u \<and> ctc_agent_id k = agt_id row \<and> ctc_dm_conversation_id k = cnv_id c
    \<and> ctc_added_via k = ''owner'' \<and> ctc_blocked_at k = None \<and> ctc_removed_at k = None"
proof -
  let ?w0 = "snd (NewID e w)" and ?i = "env_new_id e (w_ids w)"
  obtain w1 dm w2 k where a: "on_db (CreateAgent (params\<lparr>agt_id := ?i\<rparr>)) ?w0 = (Inr row, w1)"
    and dm: "CreateDM e u (agt_id row) w1 = (Inr dm, w2)"
    and k: "on_db (CreateContact (w_now w) u (agt_id row) (cv_ID dm) ''owner'' None) w2 = (Inr k, w')"
    using assms unfolding createAgentTx_def Let_def NewID_def prod.case raw_step_Inr runs_Inr by auto
  from a obtain d1 where A: "CreateAgent (params\<lparr>agt_id := ?i\<rparr>) (w_db w) = (Inr row, d1)" "w1 = ?w0\<lparr>w_db := d1\<rparr>"
    by (auto simp: on_db_iff)
  from dm obtain c where C: "createDMTx e u (agt_id row) w1 = (Inr c, w2)" "cv_ID dm = cnv_id c" by (rule CreateDM_ok)
  from k obtain d3 where K: "CreateContact (w_now w) u (agt_id row) (cv_ID dm) ''owner'' None (w_db w2) = (Inr k, d3)"
    "w' = w2\<lparr>w_db := d3\<rparr>" by (auto simp: on_db_iff)
  note 1 = CreateAgent_Inr [OF A(1)] and 2 = createDMTx_ok [OF C(1)] and 3 = CreateContact_Inr [OF K(1)]
  have d1: "w_db w1 = (w_db w)\<lparr>db_agents := db_agents (w_db w) @ [row]\<rparr>" using 1 A(2) by simp
  obtain p q where pq: "w_db w2 = (w_db w1)\<lparr>db_conversations := db_conversations (w_db w1) @ [c],
        db_participants := db_participants (w_db w1) @ [p, q]\<rparr>"
    "prt_conversation_id p = cnv_id c" "prt_user_id p = Some u" "prt_agent_id p = None"
    "prt_conversation_id q = cnv_id c" "prt_user_id q = None" "prt_agent_id q = Some (agt_id row)"
    using 2 by fastforce
  have d3: "w_db w' = (w_db w2)\<lparr>db_contacts := db_contacts (w_db w2) @ [k]\<rparr>" using 3 K(2) by simp
  have "\<forall>x\<in>set (db_conversations (w_db w1)). cnv_id x \<noteq> cnv_id c" "cnv_kind c = ''dm''" using 2 by blast+
  then have "\<forall>x\<in>set (db_conversations (w_db w)). cnv_id x \<noteq> cnv_id c" "cnv_kind c = ''dm''" by (simp_all add: d1)
  moreover have "w_db w' = (w_db w)\<lparr>db_agents := db_agents (w_db w) @ [row],
        db_conversations := db_conversations (w_db w) @ [c], db_participants := db_participants (w_db w) @ [p, q],
        db_contacts := db_contacts (w_db w) @ [k]\<rparr>"
    unfolding d3 pq(1) d1 by simp
  ultimately show ?thesis
    using 1 3 C(2) pq(2-) by (elim conjE) ((rule exI)+, intro conjI; (assumption | simp))
qed

text \<open>
  C30. An agent never exists without the chat its owner finds it in. Making one adds exactly one
  agent, with an id and a handle no agent has or had and a handle that is none of the reserved
  ones, one conversation of exactly the owner and the agent, and the contact that points at it,
  neither blocked nor removed; nothing else changes. When it fails, nothing at all changes.
\<close>

theorem an_agent_comes_with_its_chat:
  assumes "CreateAnAgent e u inp w = (r, w')"
  shows "case r of
      Inl err \<Rightarrow> w_db w' = w_db w
    | Inr a \<Rightarrow> \<exists>row c p q k. w_db w' = (w_db w)\<lparr>db_agents := db_agents (w_db w) @ [row],
          db_conversations := db_conversations (w_db w) @ [c], db_participants := db_participants (w_db w) @ [p, q],
          db_contacts := db_contacts (w_db w) @ [k]\<rparr>
        \<and> a = agentFromRow row \<and> agt_owner_user_id row = u \<and> agt_deleted_at row = None
        \<and> ag_Handle a \<notin> set reservedHandles \<and> validateHandle (ci_Handle inp) = Inr (ag_Handle a)
        \<and> (\<forall>b\<in>set (db_agents (w_db w)). agt_id b \<noteq> ag_ID a \<and> agt_handle b \<noteq> ag_Handle a)
        \<and> (\<forall>x\<in>set (db_conversations (w_db w)). cnv_id x \<noteq> cnv_id c) \<and> cnv_kind c = ''dm''
        \<and> prt_conversation_id p = cnv_id c \<and> prt_user_id p = Some u \<and> prt_agent_id p = None
        \<and> prt_conversation_id q = cnv_id c \<and> prt_user_id q = None \<and> prt_agent_id q = Some (ag_ID a)
        \<and> ctc_user_id k = u \<and> ctc_agent_id k = ag_ID a \<and> ctc_dm_conversation_id k = cnv_id c
        \<and> ctc_added_via k = ''owner'' \<and> ctc_blocked_at k = None \<and> ctc_removed_at k = None"
proof (cases r)
  case (Inl err)
  with assms have "CreateAnAgent e u inp w = (Inl err, w')" by simp
  then have "w' = w \<or> (\<exists>params c. WithTx (createAgentTx e u params) w = (Inl c, w'))"
    unfolding CreateAnAgent_def Let_def needs_Inl outcome_Inl by blast
  with Inl show ?thesis using WithTx_rolls_back by auto
next
  case (Inr a)
  then obtain h n ds st params row where v: "validateHandle (ci_Handle inp) = Inr h"
    and tx: "createAgentTx e u params w = (Inr row, w')" "a = agentFromRow row"
    and p: "agt_handle params = h" "agt_owner_user_id params = u" "agt_deleted_at params = None"
    using assms by (auto simp: CreateAnAgent_def Let_def ok_iffs)
  have "ag_ID a = agt_id row" "ag_Handle a = agt_handle row" using tx(2) by (simp_all add: agentFromRow_def)
  note more = this validateHandle_ok [OF v] v p tx(2)
  from createAgentTx_ok [OF tx(1)] show ?thesis unfolding Inr sum.case
  proof (elim exE, goal_cases)
    case (1 c p q k)
    show ?case
      by (rule exI [of _ row], rule exI [of _ c], rule exI [of _ p], rule exI [of _ q], rule exI [of _ k])
        (insert 1 more, elim conjE, simp)
  qed
qed

lemma CreateDM_total:
  assumes "createDMTx e u a w = (Inr row, w')" "no_corrupt (w_db w')"
  shows "\<exists>conv. CreateDM e u a w = (Inr conv, w') \<and> cv_ID conv = cnv_id row"
proof -
  obtain convs where h: "hydrate w' [row] = Inr convs" using hydrate_total [OF assms(2)] by blast
  then have "CreateDM e u a w = (Inr (hd convs), w')" using assms(1) by (simp add: CreateDM_def WithTx_def)
  with hydrate_one [OF h] show ?thesis by blast
qed

definition weather :: CreateInput where
  "weather = \<lparr>ci_Handle = str '' Weather '', ci_DisplayName = str ''Weather'', ci_Description = [],
     ci_AvatarMediaID = None, ci_Starters = [], ci_Private = False, ci_Listed = True, ci_SupportsSchedules = False\<rparr>"

lemma weather_fields:
  "ci_AvatarMediaID weather = None" "ci_Private weather = False" "ci_Listed weather = True"
  "ci_SupportsSchedules weather = False" "w_now sample_world = 40" "w_ids sample_world = 0"
  by (simp_all add: weather_def sample_world_def)

lemma weather_checks:
  "validateHandle (ci_Handle weather) = Inr ''weather''" "validateDisplayName (ci_DisplayName weather) = Inr (str ''Weather'')"
  "validateDescription (ci_Description weather) = Inr []" "validateStarters (ci_Starters weather) = Inr []"
  by (simp_all add: weather_def validateHandle_def validateDisplayName_def validateDescription_def validateStarters_def
      TrimSpace_def str_def Let_def handlePattern_def handle_char_def reservedHandles_def ValidString_def RuneCount_def
      displayNameMaxLen_def contains_any_def char_of_def bit_0)

theorem an_agent_comes_with_its_chat_witness:
  "\<exists>a w'. CreateAnAgent sample_env 1 weather sample_world = (Inr a, w')
    \<and> length (db_conversations (w_db w')) = 2 \<and> ag_Handle a = ''weather''"
proof -
  let ?p = "\<lparr>agt_id = uuid_Nil, agt_owner_user_id = 1, agt_handle = ''weather'', agt_display_name = str ''Weather'',
           agt_description = [], agt_created_at = 40, agt_updated_at = 40, agt_deleted_at = None,
           agt_avatar_media_id = None, agt_starters = Doc [], agt_private = False,
           agt_listed = True, agt_supports_schedules = False\<rparr>"
  let ?row = "?p\<lparr>agt_id := 1000\<rparr>"
  let ?d1 = "sample_db\<lparr>db_agents := db_agents sample_db @ [?row]\<rparr>"
  let ?w1 = "sample_world\<lparr>w_ids := 1, w_db := ?d1\<rparr>"
  have checks: "agent_checks ?row" "texts_storable ?row"
    by (simp_all add: agent_checks_def texts_storable_def storable_def ValidString_def RuneCount_def handlePattern_def
        handle_char_def str_def)
  have a: "on_db (CreateAgent ?row) (snd (NewID sample_env sample_world)) = (Inr ?row, ?w1)"
    using checks by (simp add: on_db_def CreateAgent_def NewID_def sample_tables sample_agent_def sample_user_def
        media_known_def sample_world_def)
  obtain c w2 where c: "createDMTx sample_env 1 1000 ?w1 = (Inr c, w2)" "no_corrupt (w_db w2)" "cnv_id c = 1001"
      "db_contacts (w_db w2) = []" "db_users (w_db w2) = [sample_user]" "db_agents (w_db w2) = db_agents ?d1"
      "db_conversations (w_db w2) = db_conversations sample_db @ [c]"
    by (simp add: createDMTx_def Let_def NewID_def on_db_def CreateConversation_def AddParticipant_def sample_tables
        sample_env_def sample_member_def sample_user_def sample_agent_def sample_no_corrupt no_corrupt_def sample_messages_def
        sample_message_def)
  obtain dm where dm: "CreateDM sample_env 1 1000 ?w1 = (Inr dm, w2)" "cv_ID dm = 1001"
    using CreateDM_total [OF c(1,2)] c(3) by auto
  have k: "\<exists>k w3. on_db (CreateContact 40 1 1000 1001 ''owner'' None) w2 = (Inr k, w3)"
    using c by (auto simp: on_db_def CreateContact_def Let_def sample_user_def)
  then obtain k w3 where k: "on_db (CreateContact 40 1 1000 1001 ''owner'' None) w2 = (Inr k, w3)" by blast
  have "createAgentTx sample_env 1 ?p sample_world = (Inr ?row, w3)"
    using a dm k by (simp add: createAgentTx_def Let_def NewID_def weather_fields sample_env_def)
  then have run: "CreateAnAgent sample_env 1 weather sample_world = (Inr (agentFromRow ?row), w3)"
    by (simp add: CreateAnAgent_def weather_checks weather_fields checkPicture_def outcome_def WithTx_def)
  from an_agent_comes_with_its_chat [OF run] have "length (db_conversations (w_db w3)) = 2"
    by (auto simp: sample_tables)
  then show ?thesis using run by (auto simp: agentFromRow_def)
qed

end
