(* ===== verification/Bindings.thy ===== *)
theory Bindings
  imports Agents
begin

text \<open>
  Bindings (\<open>agents/bindings.go\<close>, \<open>agents/endpoint.go\<close>): how a backend proves it speaks for an agent,
  where events for the agent go, and how well its backend answers. A binding is replaced, never
  changed; the secret is shown once and only its hash is kept.
\<close>

section \<open>Operations\<close>

record binding =
  bd_ID :: uuid
  bd_AgentID :: uuid
  bd_Mode :: binding_mode
  bd_WebhookURL :: "gotext option"
  bd_Status :: binding_status
  bd_LastSeenAt :: "int option"
  bd_CreatedAt :: int

definition bindingFromRow :: "binding_row \<Rightarrow> binding" where
  "bindingFromRow r = \<lparr>bd_ID = bnd_id r, bd_AgentID = bnd_agent_id r, bd_Mode = bnd_mode r,
     bd_WebhookURL = bnd_webhook_url r, bd_Status = bnd_status r, bd_LastSeenAt = bnd_last_seen_at r,
     bd_CreatedAt = bnd_created_at r\<rparr>"

definition activeBinding :: "db \<Rightarrow> uuid \<Rightarrow> go_error + binding option" where
  "activeBinding d agentID = (case GetActiveBinding d agentID of
       Inl err \<Rightarrow> if IsNoRows err then Inr None else Inl (Internal err)
     | Inr row \<Rightarrow> Inr (Some (bindingFromRow row)))"

definition ActiveBinding :: "db \<Rightarrow> uuid \<Rightarrow> uuid \<Rightarrow> go_error + binding option" where
  "ActiveBinding d callerID agentID = ok_then (GetOwned d callerID agentID) (\<lambda>_. activeBinding d agentID)"

text \<open>The mode as it was said, so that any string can be.\<close>

record SetBindingInput =
  sb_Mode :: string
  sb_WebhookURL :: gotext

definition mode_string :: "binding_mode \<Rightarrow> string" where
  "mode_string m = (case m of ModeWebhook \<Rightarrow> ''webhook'' | ModeSocket \<Rightarrow> ''socket'')"

definition binding_target :: "url_parser \<Rightarrow> SetBindingInput \<Rightarrow> go_error + binding_mode \<times> gotext option" where
  "binding_target up inp =
     (if sb_Mode inp = mode_string ModeSocket then
        (if TrimSpace (sb_WebhookURL inp) \<noteq> [] then Inl (InvalidField ''webhook_url'' ''invalid_webhook_url'')
         else Inr (ModeSocket, None))
      else if sb_Mode inp = mode_string ModeWebhook then
        ok_then (validateWebhookURL up (sb_WebhookURL inp)) (\<lambda>u. Inr (ModeWebhook, Some u))
      else Inl (InvalidField ''mode'' ''invalid_mode''))"

definition setBindingTx :: "env \<Rightarrow> uuid \<Rightarrow> binding_mode \<Rightarrow> gotext option \<Rightarrow> nat list \<Rightarrow> binding_row handler" where
  "setBindingTx e agentID mode url hash w =
     (let (_, w1) = on_db (RevokeActiveBinding (w_now w) agentID) w;
          (i, w2) = NewID e w1;
          (r, w3) = on_db (CreateBinding (w_now w) i agentID mode url hash) w2 in
      needs (internal r) w3 (\<lambda>row. (Inr row, w3)))"

definition SetBinding :: "env \<Rightarrow> uuid \<Rightarrow> uuid \<Rightarrow> SetBindingInput \<Rightarrow> (binding \<times> string) handler" where
  "SetBinding e callerID agentID inp w =
     needs (GetOwned (w_db w) callerID agentID) w (\<lambda>_.
     needs (binding_target (env_url_parse e) inp) w (\<lambda>(mode, url).
     let ((secret, hash), w1) = NewSecret e PrefixBindingSecret w in
     runs (WithTx (setBindingTx e agentID mode url hash) w1) (\<lambda>created w2.
     (Inr (bindingFromRow created, secret), announce agentID (status_string StatusIdle) w2))))"

definition RevokeBinding :: "uuid \<Rightarrow> uuid \<Rightarrow> unit handler" where
  "RevokeBinding callerID agentID w =
     needs (GetOwned (w_db w) callerID agentID) w (\<lambda>_.
     let (n, w1) = on_db (RevokeActiveBinding (w_now w) agentID) w in
     if n = 0 then (Inl (NotFound ''no_binding''), w1) else (Inr (), announce agentID StatusNone w1))"

definition errBadSecret :: go_error where "errBadSecret = Unauthorized ''invalid_credentials''"

definition ResolveSecret :: "env \<Rightarrow> db \<Rightarrow> string \<Rightarrow> go_error + uuid" where
  "ResolveSecret e d secret =
     (let want = PrefixBindingSecret @ ''_'' in
      if take (length want) secret \<noteq> want then Inl errBadSecret
      else case AuthenticateBinding d (HashSecret e secret) of
          Inl err \<Rightarrow> Inl (if IsNoRows err then errBadSecret else Internal err)
        | Inr row \<Rightarrow> Inr (bnd_agent_id row))"

section \<open>Where events go, and how the backend does\<close>

record endpoint =
  ep_BindingID :: uuid
  ep_Mode :: binding_mode
  ep_WebhookURL :: gotext
  ep_SigningKey :: "nat list"

definition ActiveEndpoint :: "db \<Rightarrow> uuid \<Rightarrow> go_error + endpoint option" where
  "ActiveEndpoint d agentID = (case GetActiveBinding d agentID of
       Inl err \<Rightarrow> if IsNoRows err then Inr None else Inl (Internal err)
     | Inr row \<Rightarrow> Inr (Some \<lparr>ep_BindingID = bnd_id row, ep_Mode = bnd_mode row,
         ep_WebhookURL = derefString (bnd_webhook_url row), ep_SigningKey = bnd_secret_hash row\<rparr>))"

definition recorded ::
    "(uuid \<Rightarrow> binding_status \<Rightarrow> binding_status \<Rightarrow> bool)
      \<Rightarrow> (db \<Rightarrow> (go_error + uuid \<times> binding_status \<times> binding_status) \<times> db) \<Rightarrow> unit handler" where
  "recorded news stmt w = (case on_db stmt w of
       (Inl err, w1) \<Rightarrow> if IsNoRows err then (Inr (), w1) else (Inl (Internal err), w1)
     | (Inr (aid, was, is), w1) \<Rightarrow> (Inr (), if news aid was is then announce aid (status_string is) w1 else w1))"

definition RecordDeliverySuccess :: "uuid \<Rightarrow> unit handler" where
  "RecordDeliverySuccess bid w = recorded (\<lambda>_ was is. was \<noteq> is) (RecordBindingSuccess (w_now w) bid) w"

definition SocketConnected :: "uuid \<Rightarrow> unit handler" where
  "SocketConnected bid w = RecordDeliverySuccess bid w"

definition SocketClosed :: "uuid \<Rightarrow> unit handler" where
  "SocketClosed bid w = recorded (\<lambda>_ _ _. True) (MarkBindingIdle bid) w"

definition RecordDeliveryFailure :: "uuid \<Rightarrow> unit handler" where
  "RecordDeliveryFailure bid w = recorded (\<lambda>_ was is. was \<noteq> is) (RecordBindingFailure (w_now w) bid) w"

section \<open>What is kept\<close>

lemma db_ok_CreateBinding': "db_ok d \<Longrightarrow> db_ok (snd (CreateBinding now i a m u h d))"
  using db_ok_CreateBinding [OF prod.collapse [symmetric]] by blast

lemma well_setBindingTx: "well w \<Longrightarrow> well (snd (setBindingTx e a m u h w))"
  by (auto simp: setBindingTx_def Let_def split_def NewID_def db_ok_CreateBinding' db_ok_RevokeActiveBinding intro!: well_needs)

lemma well_recorded_health: "well w \<Longrightarrow> (\<And>d. db_ok d \<Longrightarrow> db_ok (snd (stmt d))) \<Longrightarrow> well (snd (recorded news stmt w))"
  by (auto simp: recorded_def on_db_def split: prod.splits sum.splits) (metis snd_conv)+

lemma well_bindings [keeps]:
  assumes "well w"
  shows "well (snd (SetBinding e u a inp w))" "well (snd (RevokeBinding u a w))"
    "well (snd (RecordDeliverySuccess b w))" "well (snd (SocketConnected b w))" "well (snd (SocketClosed b w))"
    "well (snd (RecordDeliveryFailure b w))"
proof -
  show "well (snd (SetBinding e u a inp w))"
    unfolding SetBinding_def Let_def split_def
    by (intro well_needs well_runs well_WithTx well_setBindingTx) (simp_all add: assms)
  show "well (snd (RevokeBinding u a w))"
    using assms by (auto simp: RevokeBinding_def Let_def split_def db_ok_RevokeActiveBinding intro!: well_needs)
  show "well (snd (RecordDeliverySuccess b w))" "well (snd (SocketConnected b w))" "well (snd (SocketClosed b w))"
    "well (snd (RecordDeliveryFailure b w))"
    using assms by (simp_all add: RecordDeliverySuccess_def SocketConnected_def SocketClosed_def
        RecordDeliveryFailure_def well_recorded_health db_ok_binding_health)
qed

section \<open>One backend speaks for an agent\<close>

definition speaks :: "db \<Rightarrow> nat list \<Rightarrow> binding_row \<Rightarrow> bool" where
  "speaks d h b \<longleftrightarrow> bnd_secret_hash b = h \<and> bnd_revoked_at b = None
     \<and> (\<exists>a\<in>set (db_agents d). agt_id a = bnd_agent_id b \<and> agt_deleted_at a = None)"

lemma ResolveSecret_iff:
  assumes "db_ok d"
  shows "ResolveSecret e d s = Inr x \<longleftrightarrow>
      take (length (PrefixBindingSecret @ ''_'')) s = PrefixBindingSecret @ ''_''
    \<and> (\<exists>b\<in>set (db_bindings d). speaks d (HashSecret e s) b \<and> bnd_agent_id b = x)"
proof -
  let ?F = "find (speaks d (HashSecret e s)) (db_bindings d)"
  have auth: "AuthenticateBinding d (HashSecret e s) = one_row ?F"
    by (simp add: AuthenticateBinding_def speaks_def [abs_def])
  have one: "b = c" if "b \<in> set (db_bindings d)" "c \<in> set (db_bindings d)" "speaks d h b" "speaks d h c" for b c h
    using key_unique [of bnd_secret_hash "db_bindings d" b c] db_okD(5) [OF assms] that
    by (auto simp: bindings_ok_def speaks_def)
  have "(\<exists>b\<in>set (db_bindings d). speaks d (HashSecret e s) b \<and> bnd_agent_id b = x) \<longleftrightarrow> (\<exists>b. ?F = Some b \<and> bnd_agent_id b = x)"
  proof (cases ?F)
    case None
    then have "\<forall>b\<in>set (db_bindings d). \<not> speaks d (HashSecret e s) b" by (simp only: find_none)
    with None show ?thesis by auto
  next
    case (Some b)
    with find_in_set [OF Some] one show ?thesis by auto
  qed
  then show ?thesis by (cases ?F) (auto simp: ResolveSecret_def Let_def auth)
qed

lemma GetOwned_Inr: "GetOwned d u a = Inr x \<Longrightarrow> \<exists>r\<in>set (db_agents d). live_agent a r \<and> agt_owner_user_id r = u \<and> x = agentFromRow r"
  by (auto simp: GetOwned_def GetAgent_def GetAgent_sql_def ok_iffs live_agent_def agentFromRow_def
      split: sum.splits if_splits dest!: find_in_set)

lemma CreateBinding_Inr:
  assumes "CreateBinding now i a m u h d = (Inr b, d')"
  shows "d' = d\<lparr>db_bindings := db_bindings d @ [b]\<rparr> \<and> bnd_agent_id b = a \<and> bnd_secret_hash b = h \<and> bnd_mode b = m
    \<and> bnd_webhook_url b = u \<and> bnd_revoked_at b = None \<and> bnd_status b = StatusIdle \<and> bnd_id b = i
    \<and> bnd_failure_streak_started_at b = None
    \<and> (\<forall>x\<in>set (db_bindings d). bnd_secret_hash x \<noteq> h \<and> \<not> live_binding a x)"
  using assms unfolding CreateBinding_def Let_def insert_row_def by (auto split: if_splits)

lemma SetBinding_ok:
  assumes "SetBinding e u a inp w = (Inr (b, secret), w')"
  obtains row now where "b = bindingFromRow row" "bnd_agent_id row = a" "bnd_secret_hash row = HashSecret e secret"
    "bnd_revoked_at row = None" "bnd_status row = StatusIdle"
    "w_db w' = (w_db w)\<lparr>db_bindings := update_where (live_binding a) (\<lambda>b. b\<lparr>bnd_revoked_at := Some now\<rparr>) (db_bindings (w_db w)) @ [row]\<rparr>"
    "take (length (PrefixBindingSecret @ ''_'')) secret = PrefixBindingSecret @ ''_''"
    "\<exists>ag. GetOwned (w_db w) u a = Inr ag"
    "binding_target (env_url_parse e) inp = Inr (bnd_mode row, bnd_webhook_url row)"
proof -
  obtain ag t where own: "GetOwned (w_db w) u a = Inr ag" and t': "binding_target (env_url_parse e) inp = Inr t"
    and k: "(case t of (mode, url) \<Rightarrow> case NewSecret e PrefixBindingSecret w of ((secret, hash), w1) \<Rightarrow>
       runs (WithTx (setBindingTx e a mode url hash) w1) (\<lambda>created w2.
       (Inr (bindingFromRow created, secret), announce a (status_string StatusIdle) w2))) = (Inr (b, secret), w')"
    using assms unfolding SetBinding_def Let_def needs_Inr by (auto simp: split_def)
  obtain m url where tm: "t = (m, url)" by (cases t)
  obtain sc hash w1 where s': "NewSecret e PrefixBindingSecret w = ((sc, hash), w1)" by (metis prod.collapse)
  obtain row w2 where tx: "setBindingTx e a m url hash w1 = (Inr row, w2)" and b: "b = bindingFromRow row" "sc = secret"
    and w': "w' = announce a (status_string StatusIdle) w2"
    using k unfolding tm s' prod.case runs_Inr WithTx_Inr by auto
  note t = t' [unfolded tm] and s = s' [unfolded b(2)]
  have sec: "take (length (PrefixBindingSecret @ ''_'')) secret = PrefixBindingSecret @ ''_''" "hash = HashSecret e secret"
    "w_db w1 = w_db w"
    using s by (auto simp: NewSecret_def Let_def)
  let ?r = "\<lambda>b. b\<lparr>bnd_revoked_at := Some (w_now w1)\<rparr>"
  let ?wa = "w1\<lparr>w_db := snd (RevokeActiveBinding (w_now w1) a (w_db w1)), w_ids := Suc (w_ids w1)\<rparr>"
  obtain n where wa: "on_db (RevokeActiveBinding (w_now w1) a) w1 = (n, w1\<lparr>w_db := snd (RevokeActiveBinding (w_now w1) a (w_db w1))\<rparr>)"
    by (simp add: on_db_def split_def Let_def)
  have "on_db (CreateBinding (w_now w1) (env_new_id e (w_ids w1)) a m url hash) ?wa = (Inr row, w2)"
    using tx unfolding setBindingTx_def Let_def wa prod.case NewID_def step_Inr by auto
  then obtain d where "CreateBinding (w_now w1) (env_new_id e (w_ids w1)) a m url hash
      (snd (RevokeActiveBinding (w_now w1) a (w_db w1))) = (Inr row, d)" "w_db w2 = d"
    by (auto simp: on_db_iff)
  with CreateBinding_Inr [OF this(1)] show thesis
    by (intro that [of row "w_now w1"]) (use b own t sec w' in \<open>auto simp: RevokeActiveBinding_def\<close>)
qed

text \<open>
  C9. Connecting an agent to a backend is the owner's to do and replaces whatever backend there
  was: from then on the new secret, and only a secret with its hash, speaks for the agent; the
  old backend's secret is refused. The agent has exactly one live binding, the new one, idle
  until its backend speaks. Every other agent is spoken for by exactly the secrets it was.
\<close>

theorem replacing_a_binding_revokes_the_old_secret:
  assumes "SetBinding e u a inp w = (Inr (b, secret), w')" "db_ok (w_db w)"
  shows "ResolveSecret e (w_db w') secret = Inr a
    \<and> (\<forall>s. ResolveSecret e (w_db w') s = Inr a \<longrightarrow> HashSecret e s = HashSecret e secret)
    \<and> (\<forall>s x. x \<noteq> a \<longrightarrow> (ResolveSecret e (w_db w') s = Inr x \<longleftrightarrow> ResolveSecret e (w_db w) s = Inr x))
    \<and> (\<exists>row. filter (live_binding a) (db_bindings (w_db w')) = [row] \<and> b = bindingFromRow row
         \<and> bnd_status row = StatusIdle)
    \<and> (\<exists>r\<in>set (db_agents (w_db w)). live_agent a r \<and> agt_owner_user_id r = u)"
  using assms(1)
proof (cases rule: SetBinding_ok)
  case (1 row now)
  let ?d = "w_db w" and ?d' = "w_db w'"
  have ok': "db_ok ?d'" using well_bindings(1) [OF assms(2), of e u a inp] assms(1) by simp
  obtain r where r: "r \<in> set (db_agents ?d)" "live_agent a r" "agt_owner_user_id r = u"
    using 1(8) GetOwned_Inr by blast
  have ag: "db_agents ?d' = db_agents ?d" using 1(6) by simp
  have sp: "speaks ?d' h x \<longleftrightarrow> speaks ?d h x" for h x by (simp add: speaks_def ag)
  have old: "\<not> live_binding a x" if "x \<in> set (update_where (live_binding a) (\<lambda>b. b\<lparr>bnd_revoked_at := Some now\<rparr>) (db_bindings ?d))" for x
  proof -
    from that have "x \<in> (\<lambda>q. if live_binding a q then q\<lparr>bnd_revoked_at := Some now\<rparr> else q) ` set (db_bindings ?d)"
      by (simp add: update_where_def)
    then obtain q where "x = (if live_binding a q then q\<lparr>bnd_revoked_at := Some now\<rparr> else q)" by blast
    then show ?thesis by (simp add: live_binding_def split: if_splits)
  qed
  have new: "speaks ?d' (HashSecret e secret) row"
    using 1(2-4) r by (auto simp: speaks_def ag live_agent_def)
  have mine: "x = row" if "x \<in> set (db_bindings ?d')" "speaks ?d' h x" "bnd_agent_id x = a" for x h
    using that old [of x] 1(6) by (auto simp: live_binding_def speaks_def)
  have others: "(\<exists>b\<in>set (db_bindings ?d'). speaks ?d' h b \<and> bnd_agent_id b = x)
      \<longleftrightarrow> (\<exists>b\<in>set (db_bindings ?d). speaks ?d h b \<and> bnd_agent_id b = x)" if "x \<noteq> a" for h x
  proof -
    have row: "bnd_agent_id row \<noteq> x" using 1(2) that by simp
    have "(\<exists>b\<in>set (update_where (live_binding a) (\<lambda>b. b\<lparr>bnd_revoked_at := Some now\<rparr>) (db_bindings ?d)). speaks ?d h b \<and> bnd_agent_id b = x)
       \<longleftrightarrow> (\<exists>b\<in>set (db_bindings ?d). speaks ?d h b \<and> bnd_agent_id b = x)"
    proof -
      have "b \<in> set (update_where (live_binding a) (\<lambda>b. b\<lparr>bnd_revoked_at := Some now\<rparr>) (db_bindings ?d)) \<longleftrightarrow> b \<in> set (db_bindings ?d)"
        if "bnd_agent_id b \<noteq> a" for b
        using that by (auto simp: set_update_where live_binding_def)
      with that show ?thesis by blast
    qed
    with row show ?thesis unfolding sp by (auto simp: 1(6))
  qed
  have "filter (live_binding a) (db_bindings ?d') = [row]"
    using old 1(2,4) unfolding 1(6) by (auto simp: filter_empty_conv live_binding_def)
  moreover have "ResolveSecret e ?d' secret = Inr a"
    unfolding ResolveSecret_iff [OF ok'] using 1(2,7) new by (auto simp: 1(6))
  moreover have "HashSecret e s = HashSecret e secret" if "ResolveSecret e ?d' s = Inr a" for s
  proof -
    from that obtain x where "x \<in> set (db_bindings ?d')" "speaks ?d' (HashSecret e s) x" "bnd_agent_id x = a"
      unfolding ResolveSecret_iff [OF ok'] by blast
    with mine have "bnd_secret_hash row = HashSecret e s" by (auto simp: speaks_def)
    with 1(3) show ?thesis by simp
  qed
  moreover have "ResolveSecret e ?d' s = Inr x \<longleftrightarrow> ResolveSecret e ?d s = Inr x" if "x \<noteq> a" for s x
    unfolding ResolveSecret_iff [OF ok'] ResolveSecret_iff [OF assms(2)] others [OF that] ..
  ultimately show ?thesis using 1(1,5) r by blast
qed

theorem replacing_a_binding_revokes_the_old_secret_witness:
  "\<exists>b secret w'. SetBinding sample_env 1 2 \<lparr>sb_Mode = ''socket'', sb_WebhookURL = []\<rparr> sample_world = (Inr (b, secret), w')
    \<and> ResolveSecret sample_env (w_db w') secret = Inr 2"
proof -
  let ?s = "PrefixBindingSecret @ ''_'' @ base32_digits 52 0"
  have len: "length (HashSecret sample_env s) = 32" for s by (simp add: HashSecret_def sample_env_def)
  have hash: "HashSecret sample_env ?s \<noteq> []" using len [of ?s] by (metis list.size(3) zero_neq_numeral)
  note hash = len [of ?s] this
  obtain b w' where "SetBinding sample_env 1 2 \<lparr>sb_Mode = ''socket'', sb_WebhookURL = []\<rparr> sample_world = (Inr (b, ?s), w')"
    using hash
    by (simp add: SetBinding_def GetOwned_def GetAgent_def GetAgent_sql_def sample_tables sample_agent_def agentFromRow_def
        binding_target_def mode_string_def NewSecret_def Let_def setBindingTx_def NewID_def on_db_def WithTx_def runs_def
        CreateBinding_def RevokeActiveBinding_def live_binding_def sample_webhook_def weather_fields HashSecret_def
        sample_env_def del: base32_digits.simps)
  with replacing_a_binding_revokes_the_old_secret [OF this] sample_db_ok show ?thesis by auto
qed

section \<open>How well a backend answers\<close>

text \<open>
  A binding's life as the hub sees it: the backend answered (or its socket connected), did not
  answer, or its socket went away, each at a time.
\<close>

datatype health = Answered | Missed | HungUp

definition health_op :: "uuid \<Rightarrow> health \<Rightarrow> unit handler" where
  "health_op bid k = (case k of Answered \<Rightarrow> RecordDeliverySuccess bid | Missed \<Rightarrow> RecordDeliveryFailure bid
     | HungUp \<Rightarrow> SocketClosed bid)"

fun live_through :: "uuid \<Rightarrow> (int \<times> health) list \<Rightarrow> world \<Rightarrow> world" where
  "live_through bid [] w = w"
| "live_through bid ((t, k) # h) w = live_through bid h (snd (health_op bid k (w\<lparr>w_now := t\<rparr>)))"

text \<open>What happened since the backend last answered, and when it was missed since.\<close>

definition since_answer :: "(int \<times> health) list \<Rightarrow> (int \<times> health) list" where
  "since_answer h = rev (takeWhile (\<lambda>x. snd x \<noteq> Answered) (rev h))"

definition misses :: "(int \<times> health) list \<Rightarrow> int list" where
  "misses h = map fst (filter (\<lambda>x. snd x = Missed) (since_answer h))"

definition health_of :: "(int \<times> health) list \<Rightarrow> binding_status" where
  "health_of h =
     (if misses h \<noteq> [] \<and> hd (misses h) \<le> last (misses h) - minutes 5 then StatusUnreachable
      else if Answered \<in> snd ` set h \<and> HungUp \<notin> snd ` set (since_answer h) then StatusConnected
      else StatusIdle)"

lemma since_answer_snoc [simp]:
  "since_answer (h @ [x]) = (if snd x = Answered then [] else since_answer h @ [x])"
  by (simp add: since_answer_def)

lemma misses_snoc:
  "misses (h @ [(t, k)]) = (case k of Answered \<Rightarrow> [] | Missed \<Rightarrow> misses h @ [t] | HungUp \<Rightarrow> misses h)"
  by (cases k) (simp_all add: misses_def)

lemma set_misses: "t \<in> set (misses h) \<Longrightarrow> t \<in> fst ` set h"
proof -
  assume "t \<in> set (misses h)"
  then obtain k where "(t, k) \<in> set (since_answer h)" by (auto simp: misses_def)
  then have "(t, k) \<in> set h" by (auto simp: since_answer_def dest: set_takeWhileD)
  then show ?thesis by force
qed

lemma live_through_append: "live_through bid (h @ h') w = live_through bid h' (live_through bid h w)"
  by (induction h arbitrary: w) auto

lemma recorded_db: "w_db (snd (recorded news stmt w)) = snd (stmt (w_db w))"
  by (auto simp: recorded_def on_db_def split: prod.splits sum.splits)

definition binding_row_of :: "db \<Rightarrow> uuid \<Rightarrow> binding_row option" where
  "binding_row_of d bid = find (\<lambda>b. bnd_id b = bid) (db_bindings d)"

lemma binding_row_update:
  assumes "\<And>b. bnd_id (f b) = bnd_id b"
  shows "binding_row_of (snd (binding_update bid P f d)) bid =
    map_option (\<lambda>b. if bnd_revoked_at b = None \<and> P b then f b else b) (binding_row_of d bid)"
proof -
  have "find (\<lambda>b. bnd_id b = bid) (update_where (\<lambda>b. bnd_id b = bid \<and> bnd_revoked_at b = None \<and> P b) f (db_bindings d))
    = map_option (\<lambda>b. if bnd_id b = bid \<and> bnd_revoked_at b = None \<and> P b then f b else b) (binding_row_of d bid)"
    unfolding binding_row_of_def by (rule find_update_where) (simp add: assms)
  also have "\<dots> = map_option (\<lambda>b. if bnd_revoked_at b = None \<and> P b then f b else b) (binding_row_of d bid)"
    by (cases "binding_row_of d bid") (auto simp: binding_row_of_def dest!: find_in_set)
  finally show ?thesis by (simp add: binding_row_of_def binding_update_def Let_def)
qed

lemma last_snoc_hd: "hd (ms @ [t]) = (if ms = [] then t else hd ms)"
  by (cases ms) auto

lemma health_invariant:
  assumes "binding_row_of (w_db w) bid = Some b" "bnd_revoked_at b = None" "bnd_status b = StatusIdle"
    "bnd_failure_streak_started_at b = None" "sorted (map fst h)"
  shows "\<exists>b'. binding_row_of (w_db (live_through bid h w)) bid = Some b' \<and> bnd_revoked_at b' = None
    \<and> bnd_status b' = health_of h
    \<and> bnd_failure_streak_started_at b' = (case misses h of [] \<Rightarrow> None | t # _ \<Rightarrow> Some t)"
  using assms(5)
proof (induction h rule: rev_induct)
  case Nil
  then show ?case using assms(1-4) by (simp add: health_of_def misses_def since_answer_def)
next
  case (snoc x h)
  obtain t k where x: "x = (t, k)" by (cases x)
  from snoc obtain b' where b': "binding_row_of (w_db (live_through bid h w)) bid = Some b'" "bnd_revoked_at b' = None"
    "bnd_status b' = health_of h" "bnd_failure_streak_started_at b' = (case misses h of [] \<Rightarrow> None | t # _ \<Rightarrow> Some t)"
    by (auto simp: sorted_append)
  have later: "s \<le> t" if "s \<in> set (misses h)" for s
    using snoc.prems set_misses [OF that] by (auto simp: sorted_append x)
  have last: "last (misses h) \<le> t" if "misses h \<noteq> []" using later that by simp
  note op = live_through_append x health_op_def RecordDeliverySuccess_def RecordDeliveryFailure_def SocketClosed_def
    recorded_db binding_health_defs binding_row_update b'(1,2)
  show ?case
  proof (cases k)
    case Answered
    then show ?thesis by (simp add: op health_of_def misses_snoc)
  next
    case HungUp
    then show ?thesis using b'(2-4) by (simp add: op health_of_def misses_snoc)
  next
    case Missed
    have "streak_start t b' = hd (misses h @ [t])"
      using b'(4) by (cases "misses h") (simp_all add: streak_start_def)
    then show ?thesis using b'(2-4) last Missed
      by (auto simp: op health_of_def misses_snoc last_snoc_hd split: list.splits)
  qed
qed

text \<open>
  The dot on an agent's avatar tells the truth. Whatever happened since the binding was made,
  it shows unreachable exactly when the backend has not answered for five minutes of trying: it
  was missed, and missed again at least five minutes later, with no answer in between. Otherwise
  it shows connected exactly when the backend has answered and its socket has not gone since.
\<close>

theorem status_follows_the_backend:
  assumes "binding_row_of (w_db w) bid = Some b" "bnd_revoked_at b = None" "bnd_status b = StatusIdle"
    "bnd_failure_streak_started_at b = None" "sorted (map fst h)"
  shows "map_option bnd_status (binding_row_of (w_db (live_through bid h w)) bid) = Some (health_of h)"
  using health_invariant [OF assms] by auto

theorem status_follows_the_backend_witness:
  "map_option bnd_status (binding_row_of (w_db (live_through 9 [(50, Answered), (60, Missed), (300060, Missed)] sample_world)) 9)
    = Some StatusUnreachable"
proof -
  have "binding_row_of (w_db sample_world) 9 = Some sample_webhook"
    by (simp add: binding_row_of_def sample_tables sample_webhook_def)
  from status_follows_the_backend [OF this, of "[(50, Answered), (60, Missed), (300060, Missed)]"]
  show ?thesis by (simp add: sample_webhook_def health_of_def misses_def since_answer_def)
qed

end
