(* ===== verification/Cadence.thy ===== *)
theory Cadence
  imports Agents
begin

text \<open>
  When a schedule runs (\<open>conversations/cadence.go\<close>): a clock time, a repeat and a time zone, and the
  first run after an instant and the last one before it.

  Instants are milliseconds since the epoch; what \<open>time\<close> does with them is modelled as the
  library defines it: the local day and weekday of an instant, and \<open>time.Date\<close>, which looks the
  offset up twice when the first answer does not hold at the instant it leads to. Days are
  counted from the epoch, a Thursday.
\<close>

section \<open>The clock and the calendar\<close>

text \<open>\<open>time.Parse\<close> with the layout \<open>15:04\<close>: one or two digits, a colon, two digits.\<close>

fun parse_clock :: "string \<Rightarrow> (int \<times> int) option" where
  "parse_clock [a, b, c, d, e] = (case (dec_digit a, dec_digit b, dec_digit d, dec_digit e) of
       (Some h1, Some h2, Some m1, Some m2) \<Rightarrow>
         if c = CHR '':'' \<and> 10 * h1 + h2 < 24 \<and> 10 * m1 + m2 < 60
         then Some (int (10 * h1 + h2), int (10 * m1 + m2)) else None
     | _ \<Rightarrow> None)"
| "parse_clock [b, c, d, e] = (case (dec_digit b, dec_digit d, dec_digit e) of
       (Some h, Some m1, Some m2) \<Rightarrow>
         if c = CHR '':'' \<and> 10 * m1 + m2 < 60 then Some (int h, int (10 * m1 + m2)) else None
     | _ \<Rightarrow> None)"
| "parse_clock _ = None"

text \<open>What \<open>clock, _ := time.Parse(..)\<close> leaves when it fails: midnight.\<close>

definition clock_of :: "string \<Rightarrow> int" where
  "clock_of s = (case parse_clock s of None \<Rightarrow> 0 | Some (h, m) \<Rightarrow> 3600 * h + 60 * m)"

definition leap :: "int \<Rightarrow> bool" where
  "leap y \<longleftrightarrow> y mod 4 = 0 \<and> (y mod 100 \<noteq> 0 \<or> y mod 400 = 0)"

definition days_in :: "int \<Rightarrow> nat \<Rightarrow> int" where
  "days_in y m = (if m = 2 then (if leap y then 29 else 28) else if m \<in> {4, 6, 9, 11} then 30 else 31)"

definition days_before_year :: "int \<Rightarrow> int" where
  "days_before_year y = 365 * y + (y + 3) div 4 - (y + 99) div 100 + (y + 399) div 400"

definition day_number :: "int \<Rightarrow> nat \<Rightarrow> int \<Rightarrow> int" where
  "day_number y m d = days_before_year y - days_before_year 1970
     + sum_list (map (days_in y) [1..<m]) + d - 1"

fun digits :: "string \<Rightarrow> nat option" where
  "digits s = number dec_digit 10 0 s"

definition parse_date :: "string \<Rightarrow> int option" where
  "parse_date s =
     (if length s \<noteq> 10 \<or> s ! 4 \<noteq> CHR ''-'' \<or> s ! 7 \<noteq> CHR ''-'' then None
      else case (digits (take 4 s), digits (take 2 (drop 5 s)), digits (drop 8 s)) of
        (Some y, Some m, Some d) \<Rightarrow>
          if 1 \<le> m \<and> m \<le> 12 \<and> 1 \<le> d \<and> int d \<le> days_in (int y) m
          then Some (day_number (int y) m (int d)) else None
      | _ \<Rightarrow> None)"

definition sec_of :: "int \<Rightarrow> int" where
  "sec_of t = t div 1000"

definition offset_at :: "zone \<Rightarrow> int \<Rightarrow> int" where
  "offset_at z s = fst (z s)"

definition local_day :: "zone \<Rightarrow> int \<Rightarrow> int" where
  "local_day z t = (sec_of t + offset_at z (sec_of t)) div 86400"

text \<open>\<open>time.Weekday\<close>: 0 is Sunday.\<close>

definition weekday :: "zone \<Rightarrow> int \<Rightarrow> nat" where
  "weekday z t = nat ((local_day z t + 4) mod 7)"

text \<open>\<open>time.Date\<close> of a day and a time of day, in milliseconds.\<close>

definition to_utc :: "zone \<Rightarrow> int \<Rightarrow> int" where
  "to_utc z unix = (case z unix of (off, start, end_at) \<Rightarrow>
     if off = 0 then unix
     else let utc = unix - off in
       if utc < start \<or> end_at \<le> utc then unix - offset_at z utc else utc)"

definition date_at :: "zone \<Rightarrow> int \<Rightarrow> int \<Rightarrow> int" where
  "date_at z day clock = 1000 * to_utc z (86400 * day + clock)"

section \<open>Cadences\<close>

definition RepeatOnce :: string where "RepeatOnce = ''once''"
definition RepeatDaily :: string where "RepeatDaily = ''daily''"
definition RepeatWeekdays :: string where "RepeatWeekdays = ''weekdays''"
definition RepeatWeekly :: string where "RepeatWeekly = ''weekly''"

lemmas repeats = RepeatOnce_def RepeatDaily_def RepeatWeekdays_def RepeatWeekly_def

definition weekdays :: "gotext list" where
  "weekdays = map str [''sun'', ''mon'', ''tue'', ''wed'', ''thu'', ''fri'', ''sat'']"

definition missGrace :: int where "missGrace = minutes 10"

definition invalidCadence :: go_error where "invalidCadence = InvalidField ''cadence'' ''invalid_cadence''"

text \<open>
  \<open>strings.EqualFold\<close> with the name of a weekday: of the letters in them only \<open>s\<close> has a folding
  outside ASCII, the long s.
\<close>

fun fold_rune :: "rune \<Rightarrow> rune" where
  "fold_rune (Rune c) = (if 65 \<le> c \<and> c \<le> 90 then Rune (c + 32) else if c = 383 then Rune 115 else Rune c)"
| "fold_rune (Stray b) = Stray b"

definition EqualFold :: "gotext \<Rightarrow> gotext \<Rightarrow> bool" where
  "EqualFold s d \<longleftrightarrow> map fold_rune s = d"

text \<open>
  \<open>strings.ToLower\<close> as far as it decides which names are the same: \<open>handle_lower\<close> is exact on
  everything that becomes a letter of a weekday.
\<close>

fun uniqueLower_from :: "gotext list \<Rightarrow> gotext list \<Rightarrow> gotext list" where
  "uniqueLower_from out [] = out"
| "uniqueLower_from out (d # days) =
     (let l = map handle_lower (TrimSpace d) in uniqueLower_from (if l \<in> set out then out else out @ [l]) days)"

definition uniqueLower :: "gotext list \<Rightarrow> gotext list" where
  "uniqueLower days = uniqueLower_from [] days"

definition week_days :: "gotext list \<Rightarrow> gotext list" where
  "week_days days = filter (\<lambda>d. \<exists>given\<in>set days. EqualFold (TrimSpace given) d) weekdays"

definition normalized :: "env \<Rightarrow> cadence \<Rightarrow> go_error + cadence" where
  "normalized e c =
     (if cd_repeat c \<notin> {RepeatOnce, RepeatDaily, RepeatWeekdays, RepeatWeekly} then Inl invalidCadence
      else if parse_clock (cd_time c) = None \<or> length (cd_time c) \<noteq> 5 then Inl invalidCadence
      else if cd_timezone c = '''' then Inl invalidCadence
      else if env_zone e (cd_timezone c) = None then Inl invalidCadence
      else let days = week_days (cd_days c) in
      if cd_repeat c = RepeatWeekly \<and> (days = [] \<or> length days \<noteq> length (uniqueLower (cd_days c))) then Inl invalidCadence
      else if cd_repeat c \<noteq> RepeatWeekly \<and> cd_days c \<noteq> [] then Inl invalidCadence
      else if cd_repeat c = RepeatOnce \<and> parse_date (cd_date c) = None then Inl invalidCadence
      else if cd_repeat c \<noteq> RepeatOnce \<and> cd_date c \<noteq> '''' then Inl invalidCadence
      else Inr \<lparr>cd_repeat = cd_repeat c, cd_time = cd_time c,
        cd_days = (if cd_repeat c = RepeatWeekly then days else []),
        cd_date = (if cd_repeat c = RepeatOnce then cd_date c else ''''), cd_timezone = cd_timezone c\<rparr>)"

definition allows :: "cadence \<Rightarrow> nat \<Rightarrow> bool" where
  "allows c day =
     (if cd_repeat c = RepeatWeekdays then 1 \<le> day \<and> day \<le> 5
      else if cd_repeat c = RepeatWeekly then weekdays ! day \<in> set (cd_days c)
      else True)"

text \<open>\<open>at\<close>: the clock time on the local day \<open>days\<close> from that of \<open>t\<close>.\<close>

definition run_at :: "cadence \<Rightarrow> zone \<Rightarrow> int \<Rightarrow> int \<Rightarrow> int" where
  "run_at c z t days = date_at z (local_day z t + days) (clock_of (cd_time c))"

definition once :: "cadence \<Rightarrow> zone \<Rightarrow> int option" where
  "once c z = map_option (\<lambda>day. date_at z day (clock_of (cd_time c))) (parse_date (cd_date c))"

definition Next :: "env \<Rightarrow> cadence \<Rightarrow> int \<Rightarrow> int option" where
  "Next e c t = (case env_zone e (cd_timezone c) of None \<Rightarrow> None
     | Some z \<Rightarrow>
         if cd_repeat c = RepeatOnce then
           (case once c z of None \<Rightarrow> None | Some o1 \<Rightarrow> if t < o1 then Some o1 else None)
         else find (\<lambda>run. t < run \<and> allows c (weekday z run)) (map (run_at c z t) [0..8]))"

definition Previous :: "env \<Rightarrow> cadence \<Rightarrow> int \<Rightarrow> int option" where
  "Previous e c t = (case env_zone e (cd_timezone c) of None \<Rightarrow> None
     | Some z \<Rightarrow>
         if cd_repeat c = RepeatOnce then
           (case once c z of None \<Rightarrow> None | Some o1 \<Rightarrow> if \<not> t < o1 then Some o1 else None)
         else find (\<lambda>run. \<not> t < run \<and> allows c (weekday z run)) (map (\<lambda>k. run_at c z t (- k)) [0..8]))"

section \<open>The first run after an instant\<close>

text \<open>
  A zone whose offset does not change between two seconds; what \<open>lookup\<close> answers there holds for
  the whole stretch.
\<close>

definition calm :: "zone \<Rightarrow> int \<Rightarrow> int \<Rightarrow> int \<Rightarrow> bool" where
  "calm z off lb ub \<longleftrightarrow> \<bar>off\<bar> < 86400
     \<and> (\<forall>s. lb \<le> s \<and> s \<le> ub \<longrightarrow> (\<exists>a b. z s = (off, a, b) \<and> a \<le> lb \<and> ub < b))"

text \<open>An instant the cadence runs at: the local clock shows its time, on a day it runs.\<close>

definition runs_on :: "cadence \<Rightarrow> zone \<Rightarrow> int \<Rightarrow> bool" where
  "runs_on c z x \<longleftrightarrow> x mod 1000 = 0
     \<and> (sec_of x + offset_at z (sec_of x)) mod 86400 = clock_of (cd_time c) \<and> allows c (weekday z x)"

abbreviation day_secs :: int where "day_secs \<equiv> 86400"

lemma digit_of_bound: "digit_of ds c = Some n \<Longrightarrow> n < length ds"
  by (induction ds arbitrary: n) (auto split: if_splits)

lemma dec_digit_bound: "dec_digit c = Some n \<Longrightarrow> n < 10"
  using digit_of_bound [of "''0123456789''" c n] by (simp add: dec_digit_def)

lemma parse_clock_bounds:
  "parse_clock s = Some (h, m) \<Longrightarrow> 0 \<le> h \<and> h < 24 \<and> 0 \<le> m \<and> m < 60"
  by (cases s rule: parse_clock.cases) (auto split: option.splits if_splits dest!: dec_digit_bound)

lemma clock_bounds: "0 \<le> clock_of s" "clock_of s < 86400"
  using parse_clock_bounds [of s] by (auto simp: clock_of_def split: option.splits)

lemma day_bounds: "86400 * (x div 86400) \<le> x" "x < 86400 * (x div 86400 + 1)" for x :: int
  using mult_div_mod_eq [of 86400 x] pos_mod_bound [of 86400 x] pos_mod_sign [of 86400 x] by auto

lemma day_unique: "86400 * d \<le> x \<Longrightarrow> x < 86400 * (d + 1) \<Longrightarrow> x div 86400 = d" for x d :: int
  by (rule int_div_pos_eq [where r = "x - 86400 * d"]) auto

lemma calmD:
  assumes "calm z off lb ub" "lb \<le> s" "s \<le> ub"
  shows "offset_at z s = off" "lb \<le> s - off \<Longrightarrow> s - off \<le> ub \<Longrightarrow> to_utc z s = s - off"
proof -
  obtain a b where z: "z s = (off, a, b)" "a \<le> lb" "ub < b" using assms by (auto simp: calm_def)
  then show "offset_at z s = off" by (simp add: offset_at_def)
  show "to_utc z s = s - off" if "lb \<le> s - off" "s - off \<le> ub"
    using z that by (simp add: to_utc_def Let_def)
qed

text \<open>Around an instant, as far as the search for a run looks.\<close>

definition calm_around :: "zone \<Rightarrow> int \<Rightarrow> int \<Rightarrow> bool" where
  "calm_around z off t \<longleftrightarrow> calm z off (sec_of t - 10 * day_secs) (sec_of t + 11 * day_secs)"

lemma off_bound: "calm_around z off t \<Longrightarrow> \<bar>off\<bar> < 86400"
  by (simp add: calm_around_def calm_def)

lemma t_day:
  assumes "calm_around z off t"
  shows "day_secs * local_day z t \<le> sec_of t + off" "sec_of t + off < day_secs * (local_day z t + 1)"
proof -
  have "offset_at z (sec_of t) = off" using calmD(1) [OF assms [unfolded calm_around_def]] by simp
  then have "local_day z t = (sec_of t + off) div 86400" by (simp add: local_day_def)
  then show "day_secs * local_day z t \<le> sec_of t + off" "sec_of t + off < day_secs * (local_day z t + 1)"
    using day_bounds [of "sec_of t + off"] by simp_all
qed

lemma run_at_eq:
  assumes "calm_around z off t" "- 8 \<le> k" "k \<le> 8"
  shows "run_at c z t k = 1000 * (day_secs * (local_day z t + k) + clock_of (cd_time c) - off)"
proof -
  have "to_utc z (86400 * (local_day z t + k) + clock_of (cd_time c)) = 86400 * (local_day z t + k) + clock_of (cd_time c) - off"
    using t_day [OF assms(1)] off_bound [OF assms(1)] clock_bounds [of "cd_time c"] assms(2,3)
    by (intro calmD(2) [OF assms(1) [unfolded calm_around_def]]) auto
  then show ?thesis by (simp add: run_at_def date_at_def)
qed

lemma run_at_day:
  assumes "calm_around z off t" "- 8 \<le> k" "k \<le> 8"
  shows "sec_of (run_at c z t k) = day_secs * (local_day z t + k) + clock_of (cd_time c) - off"
    "offset_at z (sec_of (run_at c z t k)) = off" "local_day z (run_at c z t k) = local_day z t + k"
proof -
  show s: "sec_of (run_at c z t k) = day_secs * (local_day z t + k) + clock_of (cd_time c) - off"
    by (simp add: run_at_eq [OF assms] sec_of_def)
  show o1: "offset_at z (sec_of (run_at c z t k)) = off"
    unfolding s using t_day [OF assms(1)] off_bound [OF assms(1)] clock_bounds [of "cd_time c"] assms(2,3)
    by (intro calmD(1) [OF assms(1) [unfolded calm_around_def]]) auto
  show "local_day z (run_at c z t k) = local_day z t + k"
    unfolding local_day_def [of z "run_at c z t k"] o1 unfolding s
    by (rule day_unique) (use clock_bounds [of "cd_time c"] in auto)+
qed

lemma run_at_runs:
  assumes "calm_around z off t" "- 8 \<le> k" "k \<le> 8" "allows c (weekday z (run_at c z t k))"
  shows "runs_on c z (run_at c z t k)"
proof -
  have "(day_secs * (local_day z t + k) + clock_of (cd_time c)) mod 86400 = clock_of (cd_time c)"
    using clock_bounds [of "cd_time c"] mod_mult_self1 [of "clock_of (cd_time c)" "local_day z t + k" 86400]
    by (simp add: algebra_simps)
  then show ?thesis
    using assms(4) run_at_day [OF assms(1-3), of c] run_at_eq [OF assms(1-3), of c] by (simp add: runs_on_def)
qed

text \<open>Every instant it runs at near \<open>t\<close> is one of those tried.\<close>

lemma runs_on_day:
  assumes "runs_on c z x" "offset_at z (sec_of x) = off"
  shows "x = 1000 * (day_secs * local_day z x + clock_of (cd_time c) - off)"
proof -
  have "(sec_of x + off) mod 86400 = clock_of (cd_time c)" using assms by (simp add: runs_on_def)
  then have "sec_of x + off = day_secs * local_day z x + clock_of (cd_time c)"
    unfolding local_day_def assms(2) using mult_div_mod_eq [of 86400 "sec_of x + off"] by simp
  moreover have "x = 1000 * sec_of x" using assms(1) by (auto simp: runs_on_def sec_of_def)
  ultimately show ?thesis by simp
qed

lemma runs_on_tried:
  assumes "calm_around z off t" "runs_on c z x" "sec_of t - 8 * day_secs < sec_of x" "sec_of x < sec_of t + 8 * day_secs"
  obtains k where "- 8 \<le> k" "k \<le> 8" "x = run_at c z t k" "t < x \<Longrightarrow> 0 \<le> k" "x \<le> t \<Longrightarrow> k \<le> 0"
proof -
  let ?k = "local_day z x - local_day z t"
  have o1: "offset_at z (sec_of x) = off"
    by (rule calmD(1) [OF assms(1) [unfolded calm_around_def]]) (use assms(3,4) in auto)+
  have d: "day_secs * local_day z x \<le> sec_of x + off" "sec_of x + off < day_secs * (local_day z x + 1)"
    unfolding local_day_def o1 by (rule day_bounds)+
  have k: "- 8 \<le> ?k" "?k \<le> 8" using d t_day [OF assms(1)] assms(3,4) by auto
  show thesis
  proof (rule that [OF k])
    show "x = run_at c z t ?k" using run_at_eq [OF assms(1) k, of c] runs_on_day [OF assms(2) o1] by simp
    show "0 \<le> ?k" if "t < x"
    proof -
      have "sec_of t \<le> sec_of x" using that by (simp add: sec_of_def)
      then show ?thesis using d t_day [OF assms(1)] by auto
    qed
    show "?k \<le> 0" if "x \<le> t"
    proof -
      have "sec_of x \<le> sec_of t" using that by (simp add: sec_of_def)
      then show ?thesis using d t_day [OF assms(1)] by auto
    qed
  qed
qed

text \<open>A cadence as it is stored.\<close>

definition cadence_ok :: "cadence \<Rightarrow> bool" where
  "cadence_ok c \<longleftrightarrow> (cd_repeat c = RepeatWeekly \<longrightarrow> (\<exists>d<7. weekdays ! d \<in> set (cd_days c)))"

lemma some_day_allowed:
  assumes "cadence_ok c" "cd_repeat c \<noteq> RepeatOnce"
  shows "\<exists>k. 1 \<le> k \<and> k \<le> 7 \<and> allows c (nat ((n + k + 4) mod 7))"
proof -
  obtain d :: nat where d: "d < 7" "allows c d"
  proof (cases "cd_repeat c = RepeatWeekly")
    case True
    with assms that show ?thesis by (auto simp: cadence_ok_def allows_def repeats)
  next
    case False
    with that [of 1] show ?thesis by (auto simp: allows_def)
  qed
  let ?k = "(int d - n - 5) mod 7 + 1"
  have "n + ?k + 4 = (n + 5) + (int d - n - 5) mod 7" by simp
  also have "\<dots> mod 7 = (n + 5 + (int d - n - 5)) mod 7" by (rule mod_add_right_eq)
  also have "\<dots> = int d" using d(1) by simp
  finally have "(n + ?k + 4) mod 7 = int d" .
  with d(2) have "allows c (nat ((n + ?k + 4) mod 7))" by simp
  moreover have "1 \<le> ?k" "?k \<le> 7" by (simp_all add: pos_mod_bound)
  ultimately show ?thesis by blast
qed

lemma run_at_less:
  assumes "calm_around z off t" "- 8 \<le> j" "j \<le> 8" "- 8 \<le> k" "k \<le> 8"
  shows "run_at c z t j < run_at c z t k \<longleftrightarrow> j < k"
  using run_at_eq [OF assms(1-3), of c] run_at_eq [OF assms(1,4,5), of c] by auto

lemma weekday_run_at:
  assumes "calm_around z off t" "- 8 \<le> k" "k \<le> 8"
  shows "weekday z (run_at c z t k) = nat ((local_day z t + k + 4) mod 7)"
  using run_at_day(3) [OF assms] by (simp add: weekday_def)

lemma run_at_after:
  assumes "calm_around z off t" "1 \<le> k" "k \<le> 8"
  shows "t < run_at c z t k"
proof -
  have "t < 1000 * (sec_of t + 1)" using div_mult_mod_eq [of t 1000] by (simp add: sec_of_def)
  moreover have "1000 * (sec_of t + 1) \<le> run_at c z t k"
    using run_at_eq [OF assms(1) _ assms(3), of c] t_day [OF assms(1)] clock_bounds [of "cd_time c"] assms(2) by auto
  ultimately show ?thesis by simp
qed

lemma run_at_before:
  assumes "calm_around z off t" "- 8 \<le> k" "k \<le> - 1"
  shows "run_at c z t k \<le> t"
proof -
  have "1000 * sec_of t \<le> t" by (simp add: sec_of_def)
  moreover have "run_at c z t k \<le> 1000 * sec_of t"
    using run_at_eq [OF assms(1,2), of c] t_day [OF assms(1)] clock_bounds [of "cd_time c"] assms(3) by auto
  ultimately show ?thesis by simp
qed

text \<open>A search over the nine days that finds the first hit.\<close>

lemma find_days:
  assumes "0 \<le> k" "k \<le> 8" "P (f k)"
  shows "\<exists>i. 0 \<le> i \<and> i \<le> k \<and> find P (map f [0..8::int]) = Some (f i) \<and> P (f i) \<and> (\<forall>j. 0 \<le> j \<and> j < i \<longrightarrow> \<not> P (f j))"
proof -
  have "\<exists>x\<in>set (map f [0..8]). P x" using assms by auto
  then obtain r where r: "find P (map f [0..8]) = Some r" by (metis find_none not_None_eq)
  then obtain n where n: "n < length (map f [0..8])" "P (map f [0..8] ! n)" "r = map f [0..8] ! n"
    "\<forall>m<n. \<not> P (map f [0..8] ! m)"
    by (auto simp: find_Some_iff)
  have nth: "map f [0..8] ! m = f (int m)" if "m \<le> 8" for m using that by (simp add: nth_upto)
  have n8: "n \<le> 8" using n(1) by simp
  have before: "\<not> P (f j)" if "0 \<le> j" "j < int n" for j
  proof -
    have "nat j < n" "nat j \<le> 8" using that n8 by auto
    with n(4) nth [of "nat j"] that(1) show ?thesis by auto
  qed
  then have "int n \<le> k" using assms(1,3) by (meson not_le)
  with r n(2,3) nth [OF n8] before show ?thesis by (intro exI [of _ "int n"]) auto
qed

lemma normalized_ok:
  assumes "normalized e c0 = Inr c"
  shows "cadence_ok c" "cd_repeat c = RepeatWeekly \<Longrightarrow> set (cd_days c) \<subseteq> set weekdays"
proof -
  have w: "cd_repeat c = RepeatWeekly \<Longrightarrow> cd_days c = week_days (cd_days c0) \<and> week_days (cd_days c0) \<noteq> []"
    using assms by (auto simp: normalized_def Let_def split: if_splits)
  then show sub: "cd_repeat c = RepeatWeekly \<Longrightarrow> set (cd_days c) \<subseteq> set weekdays" by (auto simp: week_days_def)
  show "cadence_ok c" unfolding cadence_ok_def
  proof
    assume r: "cd_repeat c = RepeatWeekly"
    with w obtain d where d: "d \<in> set (cd_days c)" by (metis list.set_intros(1) neq_Nil_conv)
    with sub [OF r] obtain n where "n < length weekdays" "weekdays ! n = d" by (meson in_set_conv_nth subsetD)
    moreover have "length weekdays = 7" by (simp add: weekdays_def)
    ultimately show "\<exists>d<7. weekdays ! d \<in> set (cd_days c)" using d by metis
  qed
qed

lemma Next_first:
  assumes "env_zone e (cd_timezone c) = Some z" "calm_around z off t" "cadence_ok c" "cd_repeat c \<noteq> RepeatOnce"
  shows "\<exists>r. Next e c t = Some r \<and> t < r \<and> runs_on c z r \<and> (\<forall>x. t < x \<and> x < r \<longrightarrow> \<not> runs_on c z x)"
proof -
  let ?P = "\<lambda>run. t < run \<and> allows c (weekday z run)" and ?f = "run_at c z t"
  obtain k where k: "1 \<le> k" "k \<le> 7" "allows c (nat ((local_day z t + k + 4) mod 7))"
    using some_day_allowed [OF assms(3,4)] by blast
  have "?P (?f k)" using k run_at_after [OF assms(2), of k c] weekday_run_at [OF assms(2), of k c] by simp
  then obtain i where i: "0 \<le> i" "i \<le> k" "find ?P (map ?f [0..8]) = Some (?f i)" "?P (?f i)"
    "\<forall>j. 0 \<le> j \<and> j < i \<longrightarrow> \<not> ?P (?f j)"
    using find_days [of k ?P ?f] k by auto
  have "Next e c t = Some (?f i)" using assms(1,4) i(3) by (simp add: Next_def)
  moreover have "runs_on c z (?f i)" using run_at_runs [OF assms(2), of i c] i k by simp
  moreover have "\<not> runs_on c z x" if x: "t < x" "x < ?f i" for x
  proof
    assume on: "runs_on c z x"
    have "sec_of (?f i) < sec_of t + 8 * day_secs"
      using run_at_day(1) [OF assms(2), of i c] t_day [OF assms(2)] clock_bounds [of "cd_time c"] i k by auto
    moreover have "sec_of t \<le> sec_of x" "sec_of x \<le> sec_of (?f i)" using x by (simp_all add: sec_of_def zdiv_mono1)
    ultimately have near: "sec_of t - 8 * day_secs < sec_of x" "sec_of x < sec_of t + 8 * day_secs" by auto
    obtain j where j: "- 8 \<le> j" "j \<le> 8" "x = ?f j" "0 \<le> j"
      using runs_on_tried [OF assms(2) on near] x(1) by metis
    then have "j < i" using run_at_less [OF assms(2), of j i c] x(2) i k by simp
    with i(5) j x(1) on show False by (auto simp: runs_on_def)
  qed
  ultimately show ?thesis using i(4) by blast
qed

lemma Previous_last:
  assumes "env_zone e (cd_timezone c) = Some z" "calm_around z off t" "cadence_ok c" "cd_repeat c \<noteq> RepeatOnce"
  shows "\<exists>r. Previous e c t = Some r \<and> r \<le> t \<and> runs_on c z r \<and> (\<forall>x. r < x \<and> x \<le> t \<longrightarrow> \<not> runs_on c z x)"
proof -
  let ?P = "\<lambda>run. \<not> t < run \<and> allows c (weekday z run)" and ?f = "\<lambda>k. run_at c z t (- k)"
  obtain k' where k': "1 \<le> k'" "k' \<le> 7" "allows c (nat ((local_day z t - 8 + k' + 4) mod 7))"
    using some_day_allowed [OF assms(3,4)] by blast
  define k where "k = 8 - k'"
  have k: "1 \<le> k" "k \<le> 7" "allows c (nat ((local_day z t + - k + 4) mod 7))" using k' by (simp_all add: k_def)
  have "?P (?f k)" using k run_at_before [OF assms(2), of "- k" c] weekday_run_at [OF assms(2), of "- k" c] by simp
  then obtain i where i: "0 \<le> i" "i \<le> k" "find ?P (map ?f [0..8]) = Some (?f i)" "?P (?f i)"
    "\<forall>j. 0 \<le> j \<and> j < i \<longrightarrow> \<not> ?P (?f j)"
    using find_days [of k ?P ?f] k by auto
  have "Previous e c t = Some (?f i)" using assms(1,4) i(3) by (simp add: Previous_def)
  moreover have "runs_on c z (?f i)" using run_at_runs [OF assms(2), of "- i" c] i k by simp
  moreover have "\<not> runs_on c z x" if x: "?f i < x" "x \<le> t" for x
  proof
    assume on: "runs_on c z x"
    have "sec_of t - 8 * day_secs < sec_of (?f i)"
      using run_at_day(1) [OF assms(2), of "- i" c] t_day [OF assms(2)] clock_bounds [of "cd_time c"] i k by auto
    moreover have "sec_of (?f i) \<le> sec_of x" "sec_of x \<le> sec_of t" using x by (simp_all add: sec_of_def zdiv_mono1)
    ultimately have near: "sec_of t - 8 * day_secs < sec_of x" "sec_of x < sec_of t + 8 * day_secs" by auto
    obtain j where j: "- 8 \<le> j" "j \<le> 8" "x = run_at c z t j" "j \<le> 0"
      using runs_on_tried [OF assms(2) on near] x(2) by metis
    then have "- i < j" using run_at_less [OF assms(2), of "- i" j c] x(1) i k by simp
    then have "0 \<le> - j \<and> - j < i" using j(4) by simp
    with i(5) have "\<not> ?P (?f (- j))" by blast
    then have "\<not> (\<not> t < run_at c z t j \<and> allows c (weekday z (run_at c z t j)))" by simp
    with j(3) x(2) on show False by (simp add: runs_on_def)
  qed
  ultimately show ?thesis using i(4) by (meson not_less)
qed


definition morning :: cadence where
  "morning = \<lparr>cd_repeat = ''weekly'', cd_time = ''07:00'', cd_days = [str ''mon''], cd_date = [], cd_timezone = ''UTC''\<rparr>"

lemma morning_normalized: "normalized sample_env morning = Inr morning"
  by (simp add: normalized_def morning_def repeats dec_digit_def sample_env_def week_days_def weekdays_def EqualFold_def
      TrimSpace_def str_def uniqueLower_def Let_def)


section \<open>A run in the hour a clock skips\<close>

text \<open>
  A zone whose clocks go forward at midnight: from 00:00 to 01:00 of Sunday 1 March 2026, four
  hours behind before and three after.
\<close>

definition spring :: zone where
  "spring s = (if s < 1772337600 then (- 14400, - (2 ^ 63), 1772337600) else (- 10800, 1772337600, 2 ^ 63 - 1))"

definition after_midnight :: cadence where
  "after_midnight = \<lparr>cd_repeat = ''weekly'', cd_time = ''00:30'', cd_days = [str ''sun''], cd_date = [], cd_timezone = ''Spring''\<rparr>"

definition spring_env :: env where
  "spring_env = sample_env\<lparr>env_zone := (\<lambda>tz. if tz = ''Spring'' then Some spring else None)\<rparr>"

text \<open>
  Where clocks go forward at midnight, a weekly schedule in the skipped hour is lost: half
  past midnight on Sundays is an accepted cadence, but on the Monday before the change \<open>Next\<close>
  finds no next run, although the Sunday after it has one. \<open>time.Date\<close> puts the missing half
  hour on Saturday night, where the weekday does not match, and the search ends too early to
  see the Sunday after.
\<close>

lemma after_midnight_fields:
  "cd_repeat after_midnight = RepeatWeekly" "cd_timezone after_midnight = ''Spring''" "clock_of (cd_time after_midnight) = 1800"
proof -
  show "clock_of (cd_time after_midnight) = 1800" unfolding after_midnight_def by code_simp
qed (simp_all add: after_midnight_def repeats)

lemma after_midnight_allows: "d < 7 \<Longrightarrow> allows after_midnight d \<longleftrightarrow> d = 0"
proof -
  assume "d < 7"
  then consider "d = 0" | "d = 1" | "d = 2" | "d = 3" | "d = 4" | "d = 5" | "d = 6" by linarith
  then show ?thesis
    by cases (simp_all add: allows_def after_midnight_def repeats weekdays_def str_def)
qed

lemma spring_day: "local_day spring 1771848000000 = 20507"
  by (simp add: local_day_def sec_of_def offset_at_def spring_def)

lemma spring_runs:
  "map (run_at after_midnight spring 1771848000000) [0..8] =
   [1771821000000, 1771907400000, 1771993800000, 1772080200000, 1772166600000, 1772253000000, 1772335800000,
    1772422200000, 1772508600000]"
proof -
  have "[0..8] = [0, 1, 2, 3, 4, 5, 6, 7, 8 :: int]" by code_simp
  then show ?thesis
    by (simp add: run_at_def spring_day after_midnight_fields(3) date_at_def to_utc_def spring_def offset_at_def)
qed

theorem a_run_in_the_skipped_hour_is_lost:
  "normalized spring_env after_midnight = Inr after_midnight
   \<and> Next spring_env after_midnight 1771848000000 = None
   \<and> runs_on after_midnight spring 1772940600000 \<and> (1771848000000 :: int) < 1772940600000"
proof (intro conjI)
  show "normalized spring_env after_midnight = Inr after_midnight"
    by (simp add: normalized_def after_midnight_def spring_env_def repeats dec_digit_def week_days_def weekdays_def
        EqualFold_def TrimSpace_def str_def uniqueLower_def Let_def)
  have z: "env_zone spring_env ''Spring'' = Some spring" by (simp add: spring_env_def)
  have "RepeatWeekly \<noteq> RepeatOnce" by (simp add: repeats)
  then show "Next spring_env after_midnight 1771848000000 = None"
    by (simp add: Next_def after_midnight_fields z spring_runs after_midnight_allows weekday_def local_day_def sec_of_def
        offset_at_def spring_def)
  show "runs_on after_midnight spring 1772940600000"
    by (simp add: runs_on_def after_midnight_fields after_midnight_allows weekday_def local_day_def sec_of_def
        offset_at_def spring_def)
qed simp

end
