(* ===== verification/Schedules.thy ===== *)
theory Schedules
  imports Cadence Bindings
begin

text \<open>
  What a person asked an agent to do at a time (\<open>conversations/schedules.go\<close>) and the agent's word
  on it (\<open>schedules_agent.go\<close>). The agent's backend runs a schedule; the hub holds the copy the
  person sees and decides, by the tag of a message, whether the schedule may speak.

  A person's change and the event that tells the agent are one transaction (\<open>writeSchedule\<close>,
  \<open>createSchedule\<close>). An agent's own change tells nobody but the person's devices.
\<close>

section \<open>Checks\<close>

definition maxSchedules :: nat where "maxSchedules = 10"
definition titleMax :: nat where "titleMax = 60"
definition instructionMax :: nat where "instructionMax = 500"

definition errSchedulesNotSupported :: go_error where
  "errSchedulesNotSupported = Conflict ''schedules_not_supported''"

definition validateInstruction :: "gotext \<Rightarrow> go_error + gotext" where
  "validateInstruction text =
     (let t = TrimSpace text in
      if t = [] \<or> \<not> ValidString t \<or> instructionMax < RuneCount t
      then Inl (InvalidField ''instruction'' ''invalid_instruction'') else Inr t)"

text \<open>An agent's title is not checked to be UTF-8; the column refuses one that is not.\<close>

definition validateTitle :: "gotext \<Rightarrow> go_error + gotext" where
  "validateTitle title =
     (let t = TrimSpace title in
      if t = [] \<or> contains_any [10, 13] t \<or> titleMax < RuneCount t
      then Inl (InvalidField ''title'' ''invalid_title'') else Inr t)"

definition titleFrom :: "gotext \<Rightarrow> gotext" where
  "titleFrom instruction =
     (let line = takeWhile (\<lambda>r. r \<noteq> Rune 10) instruction in
      if RuneCount line \<le> titleMax then line
      else take (titleMax - 1) (to_runes line) @ [Rune 8230])"

definition futureCadence :: "env \<Rightarrow> int \<Rightarrow> cadence \<Rightarrow> go_error + cadence" where
  "futureCadence e now c0 = ok_then (normalized e c0) (\<lambda>c.
     if Next e c now = None then Inl invalidCadence else Inr c)"

definition schedulingAgent :: "db \<Rightarrow> uuid \<Rightarrow> go_error + uuid" where
  "schedulingAgent d cid = (case ListAgentParticipants d cid of
       [a] \<Rightarrow> (case GetAgent_sql d a of
           Inl _ \<Rightarrow> Inl errSchedulesNotSupported
         | Inr agent \<Rightarrow> if \<not> agt_supports_schedules agent then Inl errSchedulesNotSupported
             else Inr (agt_id agent))
     | _ \<Rightarrow> Inl errSchedulesNotSupported)"

definition scheduleIn :: "db \<Rightarrow> uuid \<Rightarrow> uuid \<Rightarrow> go_error + schedule" where
  "scheduleIn d cid i = (case GetSchedule d i of
       Inl err \<Rightarrow> Inl (if IsNoRows err then errScheduleNotFound else Internal err)
     | Inr row \<Rightarrow> if scd_conversation_id row \<noteq> cid \<or> scd_deleted_at row \<noteq> None then Inl errScheduleNotFound
         else scheduleFromRow row)"

section \<open>What the phone shows\<close>

definition NextRun :: "env \<Rightarrow> schedule \<Rightarrow> int \<Rightarrow> int option" where
  "NextRun e s now = (if sch_status s = SchedulePaused \<or> sch_deleted s then None else Next e (sch_cadence s) now)"

definition MissedAt :: "env \<Rightarrow> schedule \<Rightarrow> int \<Rightarrow> int option" where
  "MissedAt e s now =
     (if sch_status s \<noteq> ScheduleActive \<or> sch_deleted s then None
      else case Previous e (sch_cadence s) (now - missGrace) of None \<Rightarrow> None
        | Some run \<Rightarrow>
            if run < sch_created_at s then None
            else if (case sch_last_run_at s of None \<Rightarrow> False | Some spoke \<Rightarrow> \<not> spoke < run - minutes 1) then None
            else Some run)"

definition listSchedules :: "db \<Rightarrow> uuid \<Rightarrow> go_error + schedule list" where
  "listSchedules d cid = map_ok scheduleFromRow (ListSchedules_sql d cid)"

definition ListSchedules :: "world \<Rightarrow> uuid \<Rightarrow> uuid \<Rightarrow> go_error + schedule list" where
  "ListSchedules w userID cid = ok_then (member (w_db w) userID cid) (\<lambda>_. listSchedules (w_db w) cid)"

definition ListSchedulesForAgent :: "world \<Rightarrow> uuid \<Rightarrow> uuid \<Rightarrow> go_error + schedule list" where
  "ListSchedulesForAgent w agentID cid =
     ok_then (agentMember (w_db w) agentID cid) (\<lambda>_.
     ok_then (listSchedules (w_db w) cid) (\<lambda>ss. Inr (filter (\<lambda>s. sch_agent_id s = agentID) ss)))"

section \<open>Making a schedule\<close>

definition createScheduleTx ::
    "env \<Rightarrow> uuid \<Rightarrow> uuid \<Rightarrow> uuid \<Rightarrow> gotext \<Rightarrow> gotext \<Rightarrow> schedule_status \<Rightarrow> participant_kind \<Rightarrow> cadence \<Rightarrow> bool
      \<Rightarrow> (schedule \<times> bool) handler" where
  "createScheduleTx e i aid cid title instruction st by c tellAgent w =
     needs (refuse_if (maxSchedules \<le> CountSchedules (w_db w) cid) (Conflict ''too_many_schedules'')) w (\<lambda>_.
     let (r, w1) = on_db (CreateSchedule_sql (w_now w) i aid cid title instruction c st by) w in
     needs (internal r) w1 (\<lambda>row.
     needs (scheduleFromRow row) w1 (\<lambda>sch.
     if tellAgent then
       runs (Enqueue e (sch_agent_id sch) (sch_conversation_id sch) EventScheduleRequested (SchedulePayload sch) w1)
         (\<lambda>pending w2. (Inr (sch, pending), w2))
     else (Inr (sch, False), w1))))"

definition createSchedule ::
    "env \<Rightarrow> uuid \<Rightarrow> uuid \<Rightarrow> gotext \<Rightarrow> gotext \<Rightarrow> schedule_status \<Rightarrow> participant_kind \<Rightarrow> cadence \<Rightarrow> bool
      \<Rightarrow> schedule handler" where
  "createSchedule e aid cid title instruction st by c tellAgent w =
     (let (i, w1) = NewID e w in
      runs (WithTx (createScheduleTx e i aid cid title instruction st by c tellAgent) w1)
        (\<lambda>(sch, pending) w2. (Inr sch, scheduleChanged e sch pending w2)))"

record ScheduleRequest =
  sq_Instruction :: gotext
  sq_Cadence :: cadence

definition RequestSchedule :: "env \<Rightarrow> uuid \<Rightarrow> uuid \<Rightarrow> ScheduleRequest \<Rightarrow> schedule handler" where
  "RequestSchedule e userID cid inp w =
     needs (member (w_db w) userID cid) w (\<lambda>_.
     needs (ensureOpen (w_db w) cid) w (\<lambda>_.
     needs (schedulingAgent (w_db w) cid) w (\<lambda>agentID.
     needs (validateInstruction (sq_Instruction inp)) w (\<lambda>instruction.
     needs (futureCadence e (w_now w) (sq_Cadence inp)) w (\<lambda>c.
     let (wait, w1) = allow ''schedule:user:'' userID userSendPolicy w in
     if 0 < wait then (Inl (RateLimited ''rate_limited'' wait), w1)
     else createSchedule e agentID cid (titleFrom instruction) instruction SchedulePending ParticipantUser c True w1)))))"

record AgentSchedule =
  as_Title :: gotext
  as_Instruction :: gotext
  as_Cadence :: cadence

definition CreateScheduleAsAgent :: "env \<Rightarrow> uuid \<Rightarrow> uuid \<Rightarrow> AgentSchedule \<Rightarrow> schedule handler" where
  "CreateScheduleAsAgent e agentID cid inp w =
     needs (agentMember (w_db w) agentID cid) w (\<lambda>_.
     needs (ensureOpen (w_db w) cid) w (\<lambda>_.
     needs (internal (GetAgent_sql (w_db w) agentID)) w (\<lambda>agent.
     needs (refuse_if (\<not> agt_supports_schedules agent) (Conflict ''schedules_not_supported'')) w (\<lambda>_.
     needs (validateTitle (as_Title inp)) w (\<lambda>title.
     needs (validateInstruction (as_Instruction inp)) w (\<lambda>instruction.
     needs (futureCadence e (w_now w) (as_Cadence inp)) w (\<lambda>c.
     createSchedule e agentID cid title instruction ScheduleActive ParticipantAgent c False w)))))))"

section \<open>A person's change\<close>

definition writeScheduleTx ::
    "env \<Rightarrow> (db \<Rightarrow> (go_error + schedule_row) \<times> db) \<Rightarrow> event_type \<Rightarrow> (schedule \<times> bool) handler" where
  "writeScheduleTx e write ev w =
     (let (r, w1) = on_db write w in
      case r of
        Inl err \<Rightarrow> (Inl (if IsNoRows err then errScheduleNotFound else Internal err), w1)
      | Inr row \<Rightarrow>
          needs (scheduleFromRow row) w1 (\<lambda>sch.
          runs (Enqueue e (sch_agent_id sch) (sch_conversation_id sch) ev (SchedulePayload sch) w1)
            (\<lambda>pending w2. (Inr (sch, pending), w2))))"

definition writeSchedule ::
    "env \<Rightarrow> (db \<Rightarrow> (go_error + schedule_row) \<times> db) \<Rightarrow> event_type \<Rightarrow> schedule handler" where
  "writeSchedule e write ev w =
     runs (WithTx (writeScheduleTx e write ev) w)
       (\<lambda>(sch, pending) w2. (Inr sch, scheduleChanged e sch pending w2))"

record ScheduleChange =
  sg_Paused :: "bool option"
  sg_Instruction :: "gotext option"
  sg_Cadence :: "cadence option"

text \<open>The status after a person's change; what or when has to be confirmed again.\<close>

definition changed_status :: "schedule_status \<Rightarrow> bool \<Rightarrow> bool option \<Rightarrow> schedule_status" where
  "changed_status current changed paused =
     (let status = (if changed then SchedulePending else current) in
      case paused of None \<Rightarrow> status
        | Some True \<Rightarrow> SchedulePaused
        | Some False \<Rightarrow> if status = SchedulePaused then ScheduleActive else status)"

definition checked :: "('a \<Rightarrow> go_error + 'b) \<Rightarrow> 'a option \<Rightarrow> go_error + 'b option" where
  "checked f x = (case x of None \<Rightarrow> Inr None | Some y \<Rightarrow> ok_then (f y) (\<lambda>z. Inr (Some z)))"

definition UpdateSchedule :: "env \<Rightarrow> uuid \<Rightarrow> uuid \<Rightarrow> uuid \<Rightarrow> ScheduleChange \<Rightarrow> schedule handler" where
  "UpdateSchedule e userID cid i inp w =
     needs (member (w_db w) userID cid) w (\<lambda>_.
     needs (scheduleIn (w_db w) cid i) w (\<lambda>current.
     needs (checked validateInstruction (sg_Instruction inp)) w (\<lambda>instruction.
     needs (checked (futureCadence e (w_now w)) (sg_Cadence inp)) w (\<lambda>c.
     let status = changed_status (sch_status current) (instruction \<noteq> None \<or> c \<noteq> None) (sg_Paused inp) in
     if instruction = None \<and> c = None \<and> status = sch_status current then (Inr current, w)
     else writeSchedule e (UpdateSchedule_sql (w_now w) \<lparr>usp_ID = i, usp_Title = map_option titleFrom instruction,
            usp_Instruction = instruction, usp_Cadence = c, usp_Status = Some status\<rparr>) EventScheduleUpdated w))))"

definition DeleteSchedule :: "env \<Rightarrow> uuid \<Rightarrow> uuid \<Rightarrow> uuid \<Rightarrow> unit handler" where
  "DeleteSchedule e userID cid i w =
     needs (member (w_db w) userID cid) w (\<lambda>_.
     needs (scheduleIn (w_db w) cid i) w (\<lambda>_.
     runs (writeSchedule e (DeleteSchedule_sql (w_now w) i) EventScheduleDeleted w) (\<lambda>_ w1. (Inr (), w1))))"

section \<open>An agent's word\<close>

definition agentSchedule :: "db \<Rightarrow> uuid \<Rightarrow> uuid \<Rightarrow> uuid \<Rightarrow> go_error + schedule" where
  "agentSchedule d agentID cid i =
     ok_then (agentMember d agentID cid) (\<lambda>_.
     ok_then (scheduleIn d cid i) (\<lambda>sch.
     if sch_agent_id sch \<noteq> agentID then Inl errScheduleNotFound else Inr sch))"

record AgentScheduleChange =
  ac_Title :: "gotext option"
  ac_Instruction :: "gotext option"
  ac_Cadence :: "cadence option"
  ac_Status :: "string option"

text \<open>The status an agent names: it may pause, and confirm what is not paused.\<close>

definition agent_status :: "schedule_status \<Rightarrow> string \<Rightarrow> go_error + schedule_status" where
  "agent_status current s =
     (if s = ''active'' then
        (if current = SchedulePaused then Inl (Forbidden ''paused_by_person'') else Inr ScheduleActive)
      else if s = ''paused'' then Inr SchedulePaused
      else Inl (InvalidField ''status'' ''invalid_status''))"

text \<open>An agent's own statement, outside a transaction, and the person's devices told.\<close>

definition agent_write :: "env \<Rightarrow> (db \<Rightarrow> (go_error + schedule_row) \<times> db) \<Rightarrow> schedule handler" where
  "agent_write e write w =
     (let (r, w1) = on_db write w in
      case r of
        Inl err \<Rightarrow> (Inl (if IsNoRows err then errScheduleNotFound else Internal err), w1)
      | Inr row \<Rightarrow> needs (scheduleFromRow row) w1 (\<lambda>sch. (Inr sch, scheduleChanged e sch False w1)))"

definition UpdateScheduleAsAgent :: "env \<Rightarrow> uuid \<Rightarrow> uuid \<Rightarrow> uuid \<Rightarrow> AgentScheduleChange \<Rightarrow> schedule handler" where
  "UpdateScheduleAsAgent e agentID cid i inp w =
     needs (agentSchedule (w_db w) agentID cid i) w (\<lambda>current.
     needs (checked validateTitle (ac_Title inp)) w (\<lambda>title.
     needs (checked validateInstruction (ac_Instruction inp)) w (\<lambda>instruction.
     needs (checked (futureCadence e (w_now w)) (ac_Cadence inp)) w (\<lambda>c.
     needs (checked (agent_status (sch_status current)) (ac_Status inp)) w (\<lambda>status.
     needs (refuse_if (title = None \<and> instruction = None \<and> c = None \<and> status = None) (Invalid ''no_changes'')) w (\<lambda>_.
     agent_write e (UpdateSchedule_sql (w_now w) \<lparr>usp_ID = i, usp_Title = title, usp_Instruction = instruction,
         usp_Cadence = c, usp_Status = status\<rparr>) w))))))"

definition DeleteScheduleAsAgent :: "env \<Rightarrow> uuid \<Rightarrow> uuid \<Rightarrow> uuid \<Rightarrow> unit handler" where
  "DeleteScheduleAsAgent e agentID cid i w =
     needs (agentSchedule (w_db w) agentID cid i) w (\<lambda>_.
     runs (agent_write e (DeleteSchedule_sql (w_now w) i) w) (\<lambda>_ w1. (Inr (), w1)))"

section \<open>A person's clock moves\<close>

fun move_loop :: "env \<Rightarrow> string \<Rightarrow> schedule_row list \<Rightarrow> unit handler" where
  "move_loop e dest [] w = (Inr (), w)"
| "move_loop e dest (row # rows) w =
     needs (scheduleFromRow row) w (\<lambda>sch.
     let status = (if sch_status sch \<noteq> SchedulePaused then SchedulePending else sch_status sch) in
     runs (writeSchedule e (UpdateSchedule_sql (w_now w) \<lparr>usp_ID = sch_id sch, usp_Title = None, usp_Instruction = None,
         usp_Cadence = Some ((sch_cadence sch)\<lparr>cd_timezone := dest\<rparr>), usp_Status = Some status\<rparr>) EventScheduleUpdated w)
       (\<lambda>_ w1. move_loop e dest rows w1))"

definition MoveSchedules :: "env \<Rightarrow> uuid \<Rightarrow> string \<Rightarrow> string \<Rightarrow> unit handler" where
  "MoveSchedules e userID source dest w =
     (if source = dest then (Inr (), w)
      else move_loop e dest (ListPersonSchedulesInZone (w_db w) userID source) w)"

section \<open>What is kept\<close>

lemma well_CreateSchedule: "db_ok d \<Longrightarrow> db_ok (snd (CreateSchedule_sql now i aid cid t ins c st by d))"
  using db_ok_CreateSchedule [OF prod.collapse [symmetric]] by blast

lemma well_createSchedule [keeps]: "well w \<Longrightarrow> well (snd (createSchedule e aid cid t ins st by c tell w))"
proof -
  have "well (snd (createScheduleTx e i aid cid t ins st by c tell w1))" if "well w1" for i w1
    unfolding createScheduleTx_def Let_def split_def
    by (intro well_needs well_runs) (use that in \<open>auto simp: well_CreateSchedule intro!: keeps\<close>)
  then show "well w \<Longrightarrow> well (snd (createSchedule e aid cid t ins st by c tell w))"
    unfolding createSchedule_def Let_def split_def
    by (intro well_runs well_WithTx) (auto simp: split_def)
qed

lemma well_writeSchedule [keeps]:
  assumes "well w" "\<And>d. db_ok d \<Longrightarrow> db_ok (snd (write d))"
  shows "well (snd (writeSchedule e write ev w))"
proof -
  have "well (snd (writeScheduleTx e write ev w))"
    unfolding writeScheduleTx_def Let_def split_def
    by (cases "fst (on_db write w)") (use assms in \<open>auto intro!: keeps\<close>)
  then show ?thesis
    unfolding writeSchedule_def by (intro well_runs well_WithTx assms(1)) (auto simp: split_def)
qed

lemma well_agent_write [keeps]:
  assumes "well w" "\<And>d. db_ok d \<Longrightarrow> db_ok (snd (write d))"
  shows "well (snd (agent_write e write w))"
  unfolding agent_write_def Let_def split_def
  by (cases "fst (on_db write w)") (use assms in \<open>auto intro!: keeps\<close>)

lemma well_schedules [keeps]:
  assumes "well w"
  shows "well (snd (RequestSchedule e u cid rq w))" "well (snd (CreateScheduleAsAgent e a cid ag w))"
    "well (snd (UpdateSchedule e u cid i ch w))" "well (snd (DeleteSchedule e u cid i w))"
    "well (snd (UpdateScheduleAsAgent e a cid i ac w))" "well (snd (DeleteScheduleAsAgent e a cid i w))"
proof -
  note db = db_ok_UpdateSchedule db_ok_DeleteSchedule
  show "well (snd (RequestSchedule e u cid rq w))"
    using assms allow_fields(6) [of "''schedule:user:''" u userSendPolicy w] unfolding RequestSchedule_def Let_def
    by (auto intro!: keeps simp: split_def)
  show "well (snd (CreateScheduleAsAgent e a cid ag w))"
    unfolding CreateScheduleAsAgent_def by (intro keeps assms)
  show "well (snd (UpdateSchedule e u cid i ch w))"
    using assms unfolding UpdateSchedule_def Let_def by (auto intro!: keeps db)
  show "well (snd (DeleteSchedule e u cid i w))"
    using assms unfolding DeleteSchedule_def by (auto intro!: keeps db)
  show "well (snd (UpdateScheduleAsAgent e a cid i ac w))"
    using assms unfolding UpdateScheduleAsAgent_def by (auto intro!: keeps db)
  show "well (snd (DeleteScheduleAsAgent e a cid i w))"
    using assms unfolding DeleteScheduleAsAgent_def by (auto intro!: keeps db)
qed

lemma well_move_loop: "well w \<Longrightarrow> well (snd (move_loop e dest rows w))"
  by (induction rows arbitrary: w) (auto simp: Let_def intro!: keeps db_ok_UpdateSchedule)

lemma well_MoveSchedules [keeps]: "well w \<Longrightarrow> well (snd (MoveSchedules e u src dest w))"
  by (simp add: MoveSchedules_def well_move_loop)

end
