(* ===== verification/ScheduleWord.thy ===== *)
theory ScheduleWord
  imports Schedules
begin

text \<open>
  What a person's word on a schedule is worth. A schedule they paused or deleted is silent, and
  stays silent whatever agents do; the agent is told of every change of theirs, in the same
  transaction; and a chat never holds more than ten.
\<close>

section \<open>Silent schedules\<close>

definition silent_row :: "schedule_row \<Rightarrow> bool" where
  "silent_row r \<longleftrightarrow> scd_deleted_at r \<noteq> None \<or> scd_status r = SchedulePaused"

definition silenced :: "db \<Rightarrow> uuid \<Rightarrow> bool" where
  "silenced d i \<longleftrightarrow> (\<exists>r\<in>set (db_schedules d). scd_id r = i \<and> silent_row r)"

lemma silenced_update:
  assumes "silenced d i" "\<And>r. r \<in> set (db_schedules d) \<Longrightarrow> P r \<Longrightarrow> scd_id (f r) = scd_id r"
    "\<And>r. r \<in> set (db_schedules d) \<Longrightarrow> P r \<Longrightarrow> silent_row r \<Longrightarrow> silent_row (f r)"
  shows "silenced (d\<lparr>db_schedules := update_where P f (db_schedules d)\<rparr>) i"
proof -
  obtain r where r: "r \<in> set (db_schedules d)" "scd_id r = i" "silent_row r"
    using assms(1) by (auto simp: silenced_def)
  let ?r = "if P r then f r else r"
  have "?r \<in> set (update_where P f (db_schedules d))" using r(1) by (auto simp: update_where_def)
  moreover have "scd_id ?r = i" "silent_row ?r" using r assms(2,3) by auto
  ultimately show ?thesis by (auto simp: silenced_def)
qed

lemma silenced_DeleteSchedule: "silenced d i \<Longrightarrow> silenced (snd (DeleteSchedule_sql now j d)) i"
  unfolding DeleteSchedule_sql_def Let_def snd_conv by (rule silenced_update) (auto simp: silent_row_def)

lemma silenced_MarkScheduleRan: "silenced d i \<Longrightarrow> silenced (MarkScheduleRan now j d) i"
  unfolding MarkScheduleRan_def by (rule silenced_update) (auto simp: silent_row_def)

lemma silenced_CreateSchedule: "silenced d i \<Longrightarrow> silenced (snd (CreateSchedule_sql now j a c t ins k st by d)) i"
  by (auto simp: CreateSchedule_sql_def Let_def insert_row_def silenced_def)

lemma silenced_same: "db_schedules d' = db_schedules d \<Longrightarrow> silenced d' i = silenced d i"
  by (simp add: silenced_def)

lemma Enqueue_schedules: "db_schedules (w_db (snd (Enqueue e a cid t p w))) = db_schedules (w_db w)"
  by (auto simp: Enqueue_def Let_def split_def needs_snd CreateDelivery_def insert_row_def
      split: sum.splits if_splits)

text \<open>A send touches schedules only to note that one ran.\<close>

lemma announce_sent_db: "w_db (snd (announce_sent e c inp st msg pending w)) = ran_db (si_schedule_id inp) (w_now w) (w_db w)"
  by (auto simp: announce_sent_def Let_def needs_snd ran_db_def split: sum.splits option.splits)

lemma create_schedules:
  "db_schedules (w_db (snd (create e s c inp pol st w))) = db_schedules (w_db w)
   \<or> (\<exists>t j. db_schedules (w_db (snd (create e s c inp pol st w))) = db_schedules (MarkScheduleRan t j (w_db w)))"
proof -
  have "db_schedules (w_db (snd (commit e s c inp pol st p w))) = db_schedules (w_db w)
    \<or> (\<exists>t j. db_schedules (w_db (snd (commit e s c inp pol st p w))) = db_schedules (MarkScheduleRan t j (w_db w)))" for p
  proof -
    obtain res w' where c: "commit e s c inp pol st p w = (res, w')" by fastforce
    from c show ?thesis
    proof (cases rule: commit_cases)
      case (recorded msg pending w3)
      obtain rows where "w_db w3 = sent_db (sent_params e s c inp p st w) (prep_tap p) s (w_now w) rows (w_db w)"
        by (rule sendTx_ok [OF recorded(1)]) simp
      then have "db_schedules (w_db w3) = db_schedules (w_db w)" by (simp add: sent_db_def)
      moreover have "w_db w' = ran_db (si_schedule_id inp) (w_now w3) (w_db w3)"
        using recorded(2) announce_sent_db by (metis snd_conv)
      ultimately show ?thesis using c by (auto simp: ran_db_def MarkScheduleRan_def split: option.splits)
    qed (use c in simp_all)
  qed
  then show ?thesis by (auto simp: create_def needs_snd split: sum.splits option.splits)
qed

lemma silenced_create: "silenced (w_db w) i \<Longrightarrow> silenced (w_db (snd (create e s c inp pol st w))) i"
  using create_schedules [of e s c inp pol st w] silenced_MarkScheduleRan silenced_same by metis

text \<open>What an agent can do that concerns schedules, and time passing.\<close>

inductive agent_act :: "env \<Rightarrow> world \<Rightarrow> world \<Rightarrow> bool" for e where
  make: "agent_act e w (snd (CreateScheduleAsAgent e a cid inp w))"
| word: "agent_act e w (snd (UpdateScheduleAsAgent e a cid j ch w))"
| drop: "agent_act e w (snd (DeleteScheduleAsAgent e a cid j w))"
| say: "agent_act e w (snd (SendAsAgent e a cid msg w))"
| stream: "agent_act e w (snd (StartStream e a cid msg w))"
| later: "agent_act e w (w\<lparr>w_now := t\<rparr>)"

lemma agentSchedule_Inr:
  "agentSchedule d a cid i = Inr s \<Longrightarrow>
     \<exists>r\<in>set (db_schedules d). scd_id r = i \<and> scd_deleted_at r = None \<and> scheduleFromRow r = Inr s"
  by (auto simp: agentSchedule_def scheduleIn_def GetSchedule_def ok_iffs dest!: find_in_set split: sum.splits if_splits)

lemma checked_Inr:
  "checked f x = Inr y \<longleftrightarrow> (x = None \<and> y = None) \<or> (\<exists>a b. x = Some a \<and> f a = Inr b \<and> y = Some b)"
  by (cases x) (auto simp: checked_def ok_iffs)

lemma silenced_agent_write:
  "silenced (snd (write (w_db w))) i \<Longrightarrow> silenced (w_db (snd (agent_write e write w))) i"
  by (auto simp: agent_write_def Let_def split_def needs_snd split: sum.splits)

lemma silenced_agent_word:
  assumes "silenced (w_db w) i" "well w"
  shows "silenced (w_db (snd (UpdateScheduleAsAgent e a cid j ch w))) i"
proof -
  have upd: "silenced (snd (UpdateSchedule_sql now \<lparr>usp_ID = j, usp_Title = t, usp_Instruction = ins,
      usp_Cadence = c, usp_Status = status\<rparr> (w_db w))) i"
    if cur: "agentSchedule (w_db w) a cid j = Inr current"
      and st: "checked (agent_status (sch_status current)) (ac_Status ch) = Inr status" for current now t ins c status
  proof -
    obtain r where r: "r \<in> set (db_schedules (w_db w))" "scd_id r = j" "scheduleFromRow r = Inr current"
      using agentSchedule_Inr [OF cur] by blast
    have cs: "sch_status current = scd_status r" using r(3) by (auto simp: scheduleFromRow_def split: json.splits)
    have "silent_row (UpdateSchedule_row now \<lparr>usp_ID = j, usp_Title = t, usp_Instruction = ins,
        usp_Cadence = c, usp_Status = status\<rparr> q)"
      if "q \<in> set (db_schedules (w_db w))" "scd_id q = j" "scd_deleted_at q = None" "silent_row q" for q
    proof -
      have "q = r" using key_unique [OF db_okD(8) [OF assms(2)] that(1) r(1)] that(2) r(2) by simp
      then have "scd_status r = SchedulePaused" using that(3,4) by (simp add: silent_row_def)
      then have "status = None \<or> status = Some SchedulePaused"
        using st cs by (auto simp: checked_Inr agent_status_def split: if_splits)
      then show ?thesis using \<open>scd_status r = _\<close> \<open>q = r\<close>
        by (auto simp: silent_row_def UpdateSchedule_row_def coalesce_def)
    qed
    then have "silenced ((w_db w)\<lparr>db_schedules := update_where (\<lambda>s. scd_id s = j \<and> scd_deleted_at s = None)
        (UpdateSchedule_row now \<lparr>usp_ID = j, usp_Title = t, usp_Instruction = ins, usp_Cadence = c, usp_Status = status\<rparr>)
        (db_schedules (w_db w))\<rparr>) i"
      by (intro silenced_update assms(1)) (auto simp: UpdateSchedule_row_def)
    then show ?thesis using assms(1) by (simp add: UpdateSchedule_sql_def Let_def)
  qed
  show ?thesis
    unfolding UpdateScheduleAsAgent_def
    using assms(1) by (auto simp: needs_snd upd silenced_agent_write split: sum.splits)
qed

lemma silenced_createSchedule:
  "silenced (w_db w) i \<Longrightarrow> silenced (w_db (snd (createSchedule e a cid t ins st by c tell w))) i"
proof -
  have "silenced (w_db (snd (createScheduleTx e j a cid t ins st by c tell w1))) i" if "silenced (w_db w1) i" for j w1
    using that silenced_CreateSchedule [OF that]
    by (auto simp: createScheduleTx_def Let_def split_def needs_snd runs_snd Enqueue_schedules
        cong: silenced_same split: sum.splits)
  then show "silenced (w_db w) i \<Longrightarrow> silenced (w_db (snd (createSchedule e a cid t ins st by c tell w))) i"
    by (auto simp: createSchedule_def Let_def split_def runs_snd WithTx_def split: sum.splits prod.splits)
qed

lemma silenced_agent_act:
  assumes "agent_act e w w'" "well w" "silenced (w_db w) i"
  shows "well w' \<and> silenced (w_db w') i"
  using assms(1)
proof cases
  case (make a cid inp)
  then show ?thesis using assms(2,3)
    by (auto simp: CreateScheduleAsAgent_def needs_snd silenced_createSchedule intro!: keeps split: sum.splits)
next
  case (word a cid j ch)
  then show ?thesis using assms(2,3) by (simp add: silenced_agent_word well_schedules)
next
  case (drop a cid j)
  then show ?thesis using assms(2,3)
    by (auto simp: DeleteScheduleAsAgent_def needs_snd runs_snd silenced_agent_write silenced_DeleteSchedule
        intro!: keeps db_ok_DeleteSchedule split: sum.splits)
next
  case (say a cid msg)
  then show ?thesis using assms(2,3)
    by (auto simp: SendAsAgent_def needs_snd silenced_create intro!: keeps split: sum.splits)
next
  case (stream a cid msg)
  then show ?thesis using assms(2,3)
    by (auto simp: StartStream_def needs_snd silenced_create intro!: keeps split: sum.splits)
qed (use assms(2,3) in simp)

lemma silenced_agent_acts:
  assumes "(agent_act e)\<^sup>*\<^sup>* w w'" "well w" "silenced (w_db w) i"
  shows "well w' \<and> silenced (w_db w') i"
  using assms by (induction rule: rtranclp_induct) (auto dest: silenced_agent_act)

text \<open>A message for a silent schedule is refused before anything is looked up or written.\<close>

lemma silenced_tag: "silenced d i \<Longrightarrow> db_ok d \<Longrightarrow> \<exists>err. checkScheduleTag d s c (Some i) = Inl err"
proof -
  assume "silenced d i" "db_ok d"
  then obtain r where r: "r \<in> set (db_schedules d)" "scd_id r = i" "silent_row r" by (auto simp: silenced_def)
  then have "GetSchedule d i = Inr r"
    using find_key [OF db_okD(8) [OF \<open>db_ok d\<close>] r(1)] by (simp add: GetSchedule_def)
  with r(3) show ?thesis by (auto simp: checkScheduleTag_def silent_row_def)
qed

lemma silenced_refused:
  assumes "silenced (w_db w) i" "well w" "si_schedule_id inp = Some i"
  shows "\<exists>err. create e s c inp pol st w = (Inl err, w)"
proof -
  obtain err where "checkScheduleTag (w_db w) s c (si_schedule_id inp) = Inl err"
    using silenced_tag [OF assms(1,2)] assms(3) by metis
  then have "\<exists>err. prepare e w s c inp st = Inl err"
    by (auto simp: prepare_def ok_then_def split: sum.splits)
  then show ?thesis by (auto simp: create_def)
qed

section \<open>A person's change\<close>

lemma writeSchedule_Inr:
  assumes "writeSchedule e write ev w = (Inr s, w')"
  obtains row d1 pending w2 where "write (w_db w) = (Inr row, d1)" "scheduleFromRow row = Inr s"
    "Enqueue e (sch_agent_id s) (sch_conversation_id s) ev (SchedulePayload s) (w\<lparr>w_db := d1\<rparr>) = (Inr pending, w2)"
    "w' = scheduleChanged e s pending w2"
proof -
  obtain pending w2 where tx: "writeScheduleTx e write ev w = (Inr (s, pending), w2)" "w' = scheduleChanged e s pending w2"
    using assms unfolding writeSchedule_def runs_Inr WithTx_Inr by auto
  then show thesis
    using that by (auto simp: writeScheduleTx_def Let_def on_db_def ok_iffs split: prod.splits sum.splits)
qed

lemma UpdateSchedule_sql_Inr:
  assumes "UpdateSchedule_sql now a d = (Inr row, d')"
  shows "row \<in> set (db_schedules d') \<and> scd_id row = usp_ID a \<and> scd_status row = coalesce (usp_Status a) (scd_status row)"
proof -
  let ?P = "\<lambda>s. scd_id s = usp_ID a \<and> scd_deleted_at s = None"
  obtain r where r: "find ?P (db_schedules d) = Some r" "row = UpdateSchedule_row now a r"
    "d' = d\<lparr>db_schedules := update_where ?P (UpdateSchedule_row now a) (db_schedules d)\<rparr>"
    using assms by (auto simp: UpdateSchedule_sql_def Let_def ok_iffs split: if_splits)
  then have "r \<in> set (db_schedules d)" "?P r" by (auto dest: find_in_set)
  then show ?thesis
    using r(2,3) by (auto simp: set_update_where UpdateSchedule_row_def coalesce_def split: option.splits intro!: bexI [of _ r])
qed

lemma DeleteSchedule_sql_Inr:
  assumes "DeleteSchedule_sql now i d = (Inr row, d')"
  shows "row \<in> set (db_schedules d') \<and> scd_id row = i \<and> scd_deleted_at row \<noteq> None"
proof -
  let ?P = "\<lambda>s. scd_id s = i \<and> scd_deleted_at s = None" and ?f = "\<lambda>s. s\<lparr>scd_deleted_at := Some now, scd_updated_at := now\<rparr>"
  obtain r where r: "find ?P (db_schedules d) = Some r" "row = ?f r"
    "d' = d\<lparr>db_schedules := update_where ?P ?f (db_schedules d)\<rparr>"
    using assms by (auto simp: DeleteSchedule_sql_def Let_def ok_iffs)
  then have "r \<in> set (db_schedules d)" "?P r" by (auto dest: find_in_set)
  then show ?thesis using r(2,3) by (auto simp: set_update_where intro!: bexI [of _ r])
qed

lemma writeSchedule_row:
  assumes "writeSchedule e write ev w = (Inr s, w')"
  obtains row d1 where "write (w_db w) = (Inr row, d1)" "scheduleFromRow row = Inr s" "db_schedules (w_db w') = db_schedules d1"
proof (rule writeSchedule_Inr [OF assms], goal_cases)
  case (1 row d1 pending w2)
  have "db_schedules (w_db w2) = db_schedules d1"
    using Enqueue_schedules [of e "sch_agent_id s" "sch_conversation_id s" ev "SchedulePayload s" "w\<lparr>w_db := d1\<rparr>"]
    unfolding 1(4) by simp
  with 1 show ?case using that by simp
qed

lemma scheduleIn_Inr:
  "scheduleIn d cid i = Inr s \<Longrightarrow> \<exists>r\<in>set (db_schedules d). scd_id r = i \<and> scd_conversation_id r = cid
     \<and> scd_deleted_at r = None \<and> scheduleFromRow r = Inr s"
  by (auto simp: scheduleIn_def GetSchedule_def ok_iffs dest!: find_in_set split: sum.splits if_splits)

lemma paused_is_silent:
  assumes "UpdateSchedule e u cid i ch w = (Inr s, w')" "sg_Paused ch = Some True"
  shows "silenced (w_db w') i"
proof -
  obtain current ins c where
    cur: "scheduleIn (w_db w) cid i = Inr current"
    and run: "(if ins = None \<and> c = None \<and> SchedulePaused = sch_status current then (Inr current, w)
      else writeSchedule e (UpdateSchedule_sql (w_now w) \<lparr>usp_ID = i, usp_Title = map_option titleFrom ins,
            usp_Instruction = ins, usp_Cadence = c, usp_Status = Some SchedulePaused\<rparr>) EventScheduleUpdated w) = (Inr s, w')"
    using assms by (auto simp: UpdateSchedule_def ok_iffs Let_def changed_status_def)
  show ?thesis
  proof (cases "ins = None \<and> c = None \<and> SchedulePaused = sch_status current")
    case True
    obtain r where "r \<in> set (db_schedules (w_db w))" "scd_id r = i" "scheduleFromRow r = Inr current"
      using scheduleIn_Inr [OF cur] by blast
    moreover have "scd_status r = sch_status current" if "scheduleFromRow r = Inr current" for r
      using that by (auto simp: scheduleFromRow_def split: json.splits)
    ultimately show ?thesis using True run by (auto simp: silenced_def silent_row_def)
  next
    case False
    then have "writeSchedule e (UpdateSchedule_sql (w_now w) \<lparr>usp_ID = i, usp_Title = map_option titleFrom ins,
            usp_Instruction = ins, usp_Cadence = c, usp_Status = Some SchedulePaused\<rparr>) EventScheduleUpdated w = (Inr s, w')"
      using run by auto
    then show ?thesis
      by (rule writeSchedule_row) (auto dest!: UpdateSchedule_sql_Inr simp: silenced_def silent_row_def coalesce_def)
  qed
qed

lemma deleted_is_silent:
  assumes "DeleteSchedule e u cid i w = (Inr (), w')"
  shows "silenced (w_db w') i"
proof -
  obtain s where "writeSchedule e (DeleteSchedule_sql (w_now w) i) EventScheduleDeleted w = (Inr s, w')"
    using assms by (auto simp: DeleteSchedule_def ok_iffs)
  then show ?thesis
    by (rule writeSchedule_row) (auto dest!: DeleteSchedule_sql_Inr simp: silenced_def silent_row_def)
qed

text \<open>
  C14. A person's word on a schedule is final. Once they have paused or deleted it, nothing agents
  do afterwards, in any order and however often (making, changing, confirming, pausing or
  deleting schedules, sending messages, opening streams), lets it speak: every message and every
  stream that says the schedule sent it is refused, and the refusal changes nothing.
\<close>

theorem a_persons_word_is_final:
  assumes "well w"
    "UpdateSchedule e u cid i ch w = (Inr s, w1) \<and> sg_Paused ch = Some True \<or> DeleteSchedule e u cid i w = (Inr (), w1)"
    "(agent_act e)\<^sup>*\<^sup>* w1 w2" "si_schedule_id inp = Some i"
  shows "\<exists>x y. fst (SendAsAgent e a c inp w2) = Inl x \<and> fst (StartStream e a c inp w2) = Inl y
    \<and> snd (SendAsAgent e a c inp w2) = w2 \<and> snd (StartStream e a c inp w2) = w2"
proof -
  have "well w1" using assms(1,2) well_schedules(3,4) by (metis snd_conv)
  moreover have "silenced (w_db w1) i" using assms(2) paused_is_silent deleted_is_silent by blast
  ultimately have w2: "well w2" "silenced (w_db w2) i" using silenced_agent_acts [OF assms(3)] by blast+
  obtain x where x: "create e (agent_sender a) c inp agentSendPolicy False w2 = (Inl x, w2)"
    using silenced_refused [OF w2(2,1) assms(4)] by blast
  obtain y where y: "create e (agent_sender a) c inp agentSendPolicy True w2 = (Inl y, w2)"
    using silenced_refused [OF w2(2,1) assms(4)] by blast
  show ?thesis
    by (cases "agentMember (w_db w2) a c"; cases "ensureOpen (w_db w2) c")
      (simp_all add: SendAsAgent_def StartStream_def x y)
qed

definition sample_schedule :: schedule_row where
  "sample_schedule = \<lparr>scd_id = 50, scd_agent_id = 2, scd_conversation_id = 10, scd_title = str ''News'',
     scd_instruction = str ''Read me the news'', scd_cadence = Doc morning, scd_status = ScheduleActive,
     scd_created_by = ParticipantUser, scd_last_run_at = None, scd_created_at = 5, scd_updated_at = 5,
     scd_deleted_at = None\<rparr>"

definition schedule_world :: world where
  "schedule_world = sample_world\<lparr>w_db := sample_db\<lparr>db_schedules := [sample_schedule]\<rparr>\<rparr>"

definition just_pause :: ScheduleChange where
  "just_pause = \<lparr>sg_Paused = Some True, sg_Instruction = None, sg_Cadence = None\<rparr>"

lemma schedule_world_ok: "well schedule_world"
  using sample_db_ok by (simp add: schedule_world_def db_ok_def)

lemma schedule_world_fields:
  "w_db schedule_world = sample_db\<lparr>db_schedules := [sample_schedule]\<rparr>" "w_now schedule_world = 40" "w_ids schedule_world = 0"
  by (simp_all add: schedule_world_def sample_world_def)

lemma pause_runs:
  "\<exists>s w1. UpdateSchedule sample_env 1 10 50 just_pause schedule_world = (Inr s, w1)"
  by (simp add: UpdateSchedule_def member_def GetConversation_def IsUserParticipant_def schedule_world_fields sample_tables
      sample_member_def scheduleIn_def GetSchedule_def sample_schedule_def scheduleFromRow_def checked_def just_pause_def
      changed_status_def writeSchedule_def writeScheduleTx_def on_db_def UpdateSchedule_sql_def UpdateSchedule_row_def
      coalesce_def storable_def ValidString_def WithTx_def runs_def Enqueue_def GetActiveBinding_def live_binding_def
      sample_webhook_def NewID_def CreateDelivery_def delivery_of_params_def insert_row_def Let_def sample_env_def sample_agent_def)

definition confirm :: AgentScheduleChange where
  "confirm = \<lparr>ac_Title = None, ac_Instruction = None, ac_Cadence = None, ac_Status = Some ''active''\<rparr>"

theorem a_persons_word_is_final_witness:
  "\<exists>s w1 x. UpdateSchedule sample_env 1 10 50 just_pause schedule_world = (Inr s, w1)
    \<and> fst (SendAsAgent sample_env 2 10 ((text_input (str ''Good morning''))\<lparr>si_schedule_id := Some 50\<rparr>)
        (snd (UpdateScheduleAsAgent sample_env 2 10 50 confirm w1))) = Inl x"
proof -
  obtain s w1 where p: "UpdateSchedule sample_env 1 10 50 just_pause schedule_world = (Inr s, w1)"
    using pause_runs by blast
  have "(agent_act sample_env)\<^sup>*\<^sup>* w1 (snd (UpdateScheduleAsAgent sample_env 2 10 50 confirm w1))"
    by (intro r_into_rtranclp agent_act.word)
  from a_persons_word_is_final [OF schedule_world_ok _ this] p show ?thesis
    by (fastforce simp: just_pause_def)
qed

section \<open>The agent is told\<close>

datatype person_op = Ask ScheduleRequest | Change uuid ScheduleChange | Cancel uuid

definition person_act :: "env \<Rightarrow> uuid \<Rightarrow> uuid \<Rightarrow> person_op \<Rightarrow> unit handler" where
  "person_act e u cid act w = (case act of
       Ask inp \<Rightarrow> runs (RequestSchedule e u cid inp w) (\<lambda>_ w1. (Inr (), w1))
     | Change i inp \<Rightarrow> runs (UpdateSchedule e u cid i inp w) (\<lambda>_ w1. (Inr (), w1))
     | Cancel i \<Rightarrow> DeleteSchedule e u cid i w)"

fun event_of :: "person_op \<Rightarrow> event_type" where
  "event_of (Ask _) = EventScheduleRequested"
| "event_of (Change _ _) = EventScheduleUpdated"
| "event_of (Cancel _) = EventScheduleDeleted"

text \<open>One change with one event about it, as the schedule is stored afterwards.\<close>

definition told_of :: "event_type \<Rightarrow> db \<Rightarrow> db \<Rightarrow> bool" where
  "told_of ev d d' \<longleftrightarrow> (\<exists>x r s. db_deliveries d' = db_deliveries d @ [x] \<and> r \<in> set (db_schedules d')
     \<and> scheduleFromRow r = Inr s \<and> dlv_payload x = Some (Doc (SchedulePayload s)) \<and> dlv_event_type x = ev
     \<and> dlv_agent_id x = scd_agent_id r \<and> dlv_conversation_id x = scd_conversation_id r
     \<and> dlv_status x = (if \<exists>b. GetActiveBinding d (scd_agent_id r) = Inr b then DeliveryPending else DeliveryFailed))"

lemma scheduleFromRow_fields:
  "scheduleFromRow r = Inr s \<Longrightarrow> sch_agent_id s = scd_agent_id r \<and> sch_conversation_id s = scd_conversation_id r
     \<and> sch_id s = scd_id r \<and> sch_status s = scd_status r"
  by (auto simp: scheduleFromRow_def split: json.splits)

lemma told_of_Enqueue:
  assumes "Enqueue e (sch_agent_id s) (sch_conversation_id s) ev (SchedulePayload s) (w\<lparr>w_db := d1\<rparr>) = (Inr pending, w2)"
    "scheduleFromRow r = Inr s" "r \<in> set (db_schedules d1)" "db_deliveries d1 = db_deliveries d" "db_bindings d1 = db_bindings d"
  shows "told_of ev d (w_db w2)"
proof -
  obtain row where row: "w_db w2 = d1\<lparr>db_deliveries := db_deliveries d1 @ [row]\<rparr>" "dlv_agent_id row = sch_agent_id s"
    "dlv_conversation_id row = sch_conversation_id s" "dlv_event_type row = ev" "dlv_payload row = Some (Doc (SchedulePayload s))"
    "dlv_status row = (if pending then DeliveryPending else DeliveryFailed)"
    "pending = (\<exists>b. GetActiveBinding d1 (sch_agent_id s) = Inr b)"
    using Enqueue_ok [OF assms(1)] by auto
  have "GetActiveBinding d1 = GetActiveBinding d" using assms(5) by (auto simp: GetActiveBinding_def)
  with row scheduleFromRow_fields [OF assms(2)] assms(2-4) show ?thesis
    unfolding told_of_def by (intro exI [of _ row] exI [of _ r] exI [of _ s]) auto
qed

lemma told_of_writeSchedule:
  assumes "writeSchedule e write ev w = (Inr s, w')"
    "\<And>row d'. write (w_db w) = (Inr row, d') \<Longrightarrow> row \<in> set (db_schedules d')
       \<and> db_deliveries d' = db_deliveries (w_db w) \<and> db_bindings d' = db_bindings (w_db w)"
  shows "told_of ev (w_db w) (w_db w')"
proof (rule writeSchedule_Inr [OF assms(1)], goal_cases)
  case (1 row d1 pending w2)
  then show ?case using assms(2) told_of_Enqueue [of e s ev d1 w pending w2 row "w_db w"] by simp
qed

lemma schedule_statement_tables:
  "db_deliveries (snd (UpdateSchedule_sql now a d)) = db_deliveries d" "db_bindings (snd (UpdateSchedule_sql now a d)) = db_bindings d"
  "db_deliveries (snd (DeleteSchedule_sql now i d)) = db_deliveries d" "db_bindings (snd (DeleteSchedule_sql now i d)) = db_bindings d"
  by (simp_all add: UpdateSchedule_sql_def DeleteSchedule_sql_def Let_def)

lemma update_told:
  assumes "UpdateSchedule_sql now a d = (Inr row, d')"
  shows "row \<in> set (db_schedules d') \<and> db_deliveries d' = db_deliveries d \<and> db_bindings d' = db_bindings d"
  using UpdateSchedule_sql_Inr [OF assms] schedule_statement_tables(1,2) [of now a d] unfolding assms by simp

lemma delete_told:
  assumes "DeleteSchedule_sql now i d = (Inr row, d')"
  shows "row \<in> set (db_schedules d') \<and> db_deliveries d' = db_deliveries d \<and> db_bindings d' = db_bindings d"
  using DeleteSchedule_sql_Inr [OF assms] schedule_statement_tables(3,4) [of now i d] unfolding assms by simp

lemmas told_of_update = told_of_writeSchedule [OF _ update_told]
lemmas told_of_delete = told_of_writeSchedule [OF _ delete_told]

lemma CreateSchedule_sql_Inr:
  "CreateSchedule_sql now i a c t ins st k by d = (Inr row, d') \<Longrightarrow>
     d' = d\<lparr>db_schedules := db_schedules d @ [row]\<rparr> \<and> scd_conversation_id row = c \<and> scd_deleted_at row = None"
  by (auto simp: CreateSchedule_sql_def Let_def insert_row_def split: if_splits)

lemma createSchedule_Inr:
  assumes "createSchedule e a c t ins st k x tell w = (Inr s, w')"
  obtains row pending w1 w2 where "CountSchedules (w_db w) c < maxSchedules"
    "w_db w1 = w_db w" "scheduleFromRow row = Inr s" "scd_conversation_id row = c" "scd_deleted_at row = None"
    "if tell then Enqueue e (sch_agent_id s) (sch_conversation_id s) EventScheduleRequested (SchedulePayload s)
         (w1\<lparr>w_db := (w_db w)\<lparr>db_schedules := db_schedules (w_db w) @ [row]\<rparr>\<rparr>) = (Inr pending, w2)
     else w_db w2 = (w_db w)\<lparr>db_schedules := db_schedules (w_db w) @ [row]\<rparr>"
    "w_db w' = w_db w2"
proof -
  let ?w1 = "snd (NewID e w)"
  obtain pending w2 where tx: "createScheduleTx e (env_new_id e (w_ids w)) a c t ins st k x tell ?w1 = (Inr (s, pending), w2)"
    "w' = scheduleChanged e s pending w2"
    using assms unfolding createSchedule_def Let_def split_def NewID_fields runs_Inr WithTx_Inr by auto
  then obtain row d1 where row: "CreateSchedule_sql (w_now ?w1) (env_new_id e (w_ids w)) a c t ins x st k (w_db ?w1) = (Inr row, d1)"
    "scheduleFromRow row = Inr s" "CountSchedules (w_db w) c < maxSchedules"
    and rest: "if tell then Enqueue e (sch_agent_id s) (sch_conversation_id s) EventScheduleRequested (SchedulePayload s)
         (?w1\<lparr>w_db := d1\<rparr>) = (Inr pending, w2) else w2 = ?w1\<lparr>w_db := d1\<rparr>"
    by (auto simp: createScheduleTx_def Let_def on_db_def ok_iffs split: prod.splits if_splits)
  note d1 = CreateSchedule_sql_Inr [OF row(1)]
  show thesis
    by (rule that [of ?w1 row pending w2]) (use row d1 rest tx(2) in \<open>auto split: if_splits\<close>)
qed

lemma failed_write_leaves: "writeSchedule e write ev w = (Inl x, w') \<Longrightarrow> w_db w' = w_db w"
  by (auto simp: writeSchedule_def runs_Inl WithTx_Inl)

lemma failed_creation_leaves: "createSchedule e a c t ins st k x tell w = (Inl err, w') \<Longrightarrow> w_db w' = w_db w"
  by (auto simp: createSchedule_def Let_def split_def runs_Inl WithTx_Inl)

text \<open>
  C26. The agent is told of every change a person makes to a schedule, together with it: asking
  for one, changing, pausing, resuming and deleting one each put exactly one event into the
  outbox, for the agent that holds the schedule, with the schedule as it is now stored, and it is
  pending exactly when the agent has a backend. What is refused, or changes nothing, leaves the
  database as it was.
\<close>

theorem the_agent_is_told_of_every_change:
  assumes "person_act e u cid act w = (r, w')"
  shows "case r of Inl _ \<Rightarrow> w_db w' = w_db w
    | Inr _ \<Rightarrow> w_db w' = w_db w \<and> (\<exists>i ch. act = Change i ch) \<or> told_of (event_of act) (w_db w) (w_db w')"
proof (cases act)
  case (Ask inp)
  show ?thesis
  proof (cases r)
    case (Inl err)
    then show ?thesis using assms Ask allow_fields(6) [of "''schedule:user:''" u userSendPolicy w]
      by (auto simp: person_act_def runs_Inl RequestSchedule_def needs_Inl Let_def split_def dest!: failed_creation_leaves split: if_splits)
  next
    case (Inr x)
    let ?w1 = "snd (allow ''schedule:user:'' u userSendPolicy w)"
    obtain a ins c s where "createSchedule e a cid (titleFrom ins) ins SchedulePending ParticipantUser c True ?w1 = (Inr s, w')"
      using assms Ask Inr by (auto simp: person_act_def RequestSchedule_def ok_iffs Let_def split_def split: if_splits)
    then have "told_of EventScheduleRequested (w_db w) (w_db w')"
    proof (cases rule: createSchedule_Inr)
      case (1 row pending w3 w4)
      then show ?thesis
        using told_of_Enqueue [of e s EventScheduleRequested "(w_db w)\<lparr>db_schedules := db_schedules (w_db w) @ [row]\<rparr>"
            w3 pending w4 row "w_db w"] by simp
    qed
    then show ?thesis using Inr Ask by simp
  qed
next
  case (Change i inp)
  show ?thesis
  proof (cases r)
    case (Inl err)
    then show ?thesis using assms Change
      by (auto simp: person_act_def runs_Inl UpdateSchedule_def needs_Inl Let_def dest!: failed_write_leaves split: if_splits)
  next
    case (Inr x)
    with assms Change show ?thesis
      by (auto simp: person_act_def ok_iffs UpdateSchedule_def Let_def split: if_splits
          dest!: told_of_update)
  qed
next
  case (Cancel i)
  show ?thesis
  proof (cases r)
    case (Inl err)
    then show ?thesis using assms Cancel
      by (auto simp: person_act_def runs_Inl DeleteSchedule_def needs_Inl dest!: failed_write_leaves)
  next
    case (Inr x)
    then obtain s where "writeSchedule e (DeleteSchedule_sql (w_now w) i) EventScheduleDeleted w = (Inr s, w')"
      using assms Cancel by (auto simp: person_act_def DeleteSchedule_def ok_iffs)
    then have "told_of EventScheduleDeleted (w_db w) (w_db w')" by (rule told_of_delete)
    then show ?thesis using Inr Cancel by simp
  qed
qed

theorem the_agent_is_told_of_every_change_witness:
  "\<exists>w'. person_act sample_env 1 10 (Change 50 just_pause) schedule_world = (Inr (), w')
    \<and> (w_db w' = w_db schedule_world \<or> told_of EventScheduleUpdated (w_db schedule_world) (w_db w'))"
proof -
  obtain s w1 where "UpdateSchedule sample_env 1 10 50 just_pause schedule_world = (Inr s, w1)" using pause_runs by blast
  then have "person_act sample_env 1 10 (Change 50 just_pause) schedule_world = (Inr (), w1)"
    by (simp add: person_act_def)
  with the_agent_is_told_of_every_change [OF this] show ?thesis by auto
qed

section \<open>Ten to a chat\<close>

definition at_most_ten :: "db \<Rightarrow> bool" where
  "at_most_ten d \<longleftrightarrow> (\<forall>c. CountSchedules d c \<le> maxSchedules)"

inductive schedule_step :: "env \<Rightarrow> world \<Rightarrow> world \<Rightarrow> bool" for e where
  person: "schedule_step e w (snd (person_act e u cid act w))"
| travel: "schedule_step e w (snd (MoveSchedules e u source dest w))"
| agent: "agent_act e w w' \<Longrightarrow> schedule_step e w w'"

lemma count_live_update:
  "(\<And>r. P r \<Longrightarrow> live_schedule c (f r) \<Longrightarrow> live_schedule c r) \<Longrightarrow>
     count_where (live_schedule c) (update_where P f rows) \<le> count_where (live_schedule c) rows"
  by (induction rows) auto

lemma at_most_ten_update:
  assumes "at_most_ten d" "db_schedules d' = update_where P f (db_schedules d)"
    "\<And>c r. P r \<Longrightarrow> live_schedule c (f r) \<Longrightarrow> live_schedule c r"
  shows "at_most_ten d'"
  using assms(1) count_live_update [of P _ f "db_schedules d", OF assms(3)]
  unfolding at_most_ten_def CountSchedules_def assms(2) by (meson order_trans)

lemma at_most_ten_same: "db_schedules d' = db_schedules d \<Longrightarrow> at_most_ten d' = at_most_ten d"
  by (simp add: at_most_ten_def CountSchedules_def)

lemma at_most_ten_statements:
  assumes "at_most_ten d"
  shows "at_most_ten (snd (UpdateSchedule_sql now a d))" "at_most_ten (snd (DeleteSchedule_sql now i d))"
    "at_most_ten (MarkScheduleRan now i d)"
proof -
  show "at_most_ten (snd (UpdateSchedule_sql now a d))"
  proof (cases "storable (coalesce (usp_Title a) []) \<and> storable (coalesce (usp_Instruction a) [])")
    case True
    then have "db_schedules (snd (UpdateSchedule_sql now a d)) = update_where (\<lambda>s. scd_id s = usp_ID a \<and> scd_deleted_at s = None)
        (UpdateSchedule_row now a) (db_schedules d)"
      by (simp add: UpdateSchedule_sql_def Let_def)
    then show ?thesis by (rule at_most_ten_update [OF assms]) (simp add: live_schedule_def UpdateSchedule_row_def)
  qed (simp add: UpdateSchedule_sql_def Let_def assms)
  show "at_most_ten (snd (DeleteSchedule_sql now i d))"
    unfolding DeleteSchedule_sql_def Let_def snd_conv
    by (rule at_most_ten_update [OF assms, where P = "\<lambda>s. scd_id s = i \<and> scd_deleted_at s = None"
          and f = "\<lambda>s. s\<lparr>scd_deleted_at := Some now, scd_updated_at := now\<rparr>"]) (auto simp: live_schedule_def)
  show "at_most_ten (MarkScheduleRan now i d)"
    unfolding MarkScheduleRan_def
    by (rule at_most_ten_update [OF assms, where P = "\<lambda>s. scd_id s = i" and f = "\<lambda>s. s\<lparr>scd_last_run_at := Some now\<rparr>"])
      (auto simp: live_schedule_def)
qed

lemma at_most_ten_writes:
  assumes "at_most_ten (w_db w)" "at_most_ten (snd (write (w_db w)))"
  shows "at_most_ten (w_db (snd (writeSchedule e write ev w)))" "at_most_ten (w_db (snd (agent_write e write w)))"
proof -
  obtain r w' where r: "writeSchedule e write ev w = (r, w')" by fastforce
  show "at_most_ten (w_db (snd (writeSchedule e write ev w)))"
  proof (cases r)
    case (Inl x)
    then show ?thesis using r failed_write_leaves assms(1) by (metis snd_conv)
  next
    case (Inr s)
    with r have "writeSchedule e write ev w = (Inr s, w')" by simp
    then show ?thesis by (rule writeSchedule_row) (use r assms(2) at_most_ten_same in \<open>metis snd_conv\<close>)
  qed
  show "at_most_ten (w_db (snd (agent_write e write w)))"
    using assms(2) by (auto simp: agent_write_def Let_def split_def needs_snd split: sum.splits)
qed

lemma at_most_ten_createSchedule:
  assumes "at_most_ten (w_db w)"
  shows "at_most_ten (w_db (snd (createSchedule e a c t ins st k x tell w)))"
proof -
  obtain r w' where r: "createSchedule e a c t ins st k x tell w = (r, w')" by fastforce
  show ?thesis
  proof (cases r)
    case (Inl err)
    then show ?thesis using r failed_creation_leaves assms by (metis snd_conv)
  next
    case (Inr s)
    with r have "createSchedule e a c t ins st k x tell w = (Inr s, w')" by simp
    then show ?thesis
    proof (cases rule: createSchedule_Inr)
      case (1 row pending w1 w2)
      have "db_schedules (w_db w2) = db_schedules (w_db w) @ [row]"
        using 1(6) Enqueue_schedules [of e "sch_agent_id s" "sch_conversation_id s" EventScheduleRequested "SchedulePayload s"
            "w1\<lparr>w_db := (w_db w)\<lparr>db_schedules := db_schedules (w_db w) @ [row]\<rparr>\<rparr>"] by (auto split: if_splits)
      then have "CountSchedules (w_db w') c' \<le> maxSchedules" for c'
        using 1(1,4,7) assms by (cases "c' = c") (auto simp: at_most_ten_def CountSchedules_def live_schedule_def)
      then show ?thesis using r by (simp add: at_most_ten_def)
    qed
  qed
qed

lemma at_most_ten_move: "at_most_ten (w_db w) \<Longrightarrow> at_most_ten (w_db (snd (move_loop e dest rows w)))"
  by (induction rows arbitrary: w)
    (auto simp: needs_snd runs_snd Let_def at_most_ten_writes at_most_ten_statements split: sum.splits)

lemma at_most_ten_create: "at_most_ten (w_db w) \<Longrightarrow> at_most_ten (w_db (snd (create e s c inp pol st w)))"
  using create_schedules [of e s c inp pol st w] at_most_ten_statements(3) at_most_ten_same by metis

text \<open>
  A chat never holds more than ten schedules, whoever makes them: no sequence of a person's
  and the agents' requests, changes and deletions, of messages sent for schedules and of phones
  moving between time zones takes a chat past ten that are not deleted. (Each operation is one
  step here; two creations whose transactions overlap are not ordered by the count.)
\<close>

theorem a_chat_holds_ten_schedules:
  assumes "at_most_ten (w_db w)" "(schedule_step e)\<^sup>*\<^sup>* w w'"
  shows "CountSchedules (w_db w') c \<le> 10"
proof -
  have agents: "at_most_ten (w_db y)" if "agent_act e x y" "at_most_ten (w_db x)" for x y
    using that
    by cases (auto simp: CreateScheduleAsAgent_def UpdateScheduleAsAgent_def DeleteScheduleAsAgent_def SendAsAgent_def
        StartStream_def needs_snd runs_snd at_most_ten_createSchedule at_most_ten_writes at_most_ten_statements
        at_most_ten_create split: sum.splits)
  have person: "at_most_ten (w_db (snd (person_act e u cid act x)))" if "at_most_ten (w_db x)" for u cid act x
    using that allow_fields(6) [of "''schedule:user:''" u userSendPolicy x]
    by (cases act) (auto simp: person_act_def RequestSchedule_def UpdateSchedule_def DeleteSchedule_def Let_def split_def
        needs_snd runs_snd at_most_ten_createSchedule at_most_ten_writes at_most_ten_statements split: sum.splits)
  have "at_most_ten (w_db w')" using assms(2,1)
    by (induction rule: rtranclp_induct)
      (auto elim!: schedule_step.cases simp: agents person MoveSchedules_def at_most_ten_move)
  then show ?thesis by (simp add: at_most_ten_def maxSchedules_def)
qed

theorem a_chat_holds_ten_schedules_witness:
  "CountSchedules (w_db (snd (person_act sample_env 1 10 (Cancel 50) schedule_world))) 10 \<le> 10"
  by (rule a_chat_holds_ten_schedules [of schedule_world sample_env])
    (auto simp: at_most_ten_def CountSchedules_def schedule_world_fields maxSchedules_def intro: schedule_step.person)

section \<open>A moved clock\<close>

definition moved :: "int \<Rightarrow> string \<Rightarrow> schedule_row \<Rightarrow> schedule_row" where
  "moved now dest r = r\<lparr>scd_cadence := (case scd_cadence r of Doc c \<Rightarrow> Doc (c\<lparr>cd_timezone := dest\<rparr>) | Corrupt \<Rightarrow> Corrupt),
     scd_status := (if scd_status r = SchedulePaused then SchedulePaused else SchedulePending), scd_updated_at := now\<rparr>"

definition persons_in_zone :: "db \<Rightarrow> uuid \<Rightarrow> string \<Rightarrow> schedule_row \<Rightarrow> bool" where
  "persons_in_zone d u source r \<longleftrightarrow> scd_deleted_at r = None \<and> in_zone source r
     \<and> (\<exists>p\<in>set (db_participants d). prt_conversation_id p = scd_conversation_id r \<and> prt_user_id p = Some u)"

lemma Enqueue_now: "w_now (snd (Enqueue e a cid t p w)) = w_now w"
  by (auto simp: Enqueue_def Let_def split_def needs_snd split: sum.splits)

lemma move_loop_Inr:
  assumes "move_loop e dest rows w = (Inr u, w')" "well w" "distinct (map scd_id rows)"
    "\<forall>r\<in>set rows. r \<in> set (db_schedules (w_db w)) \<and> scd_deleted_at r = None"
  shows "db_schedules (w_db w') = map (\<lambda>r. if scd_id r \<in> scd_id ` set rows then moved (w_now w) dest r else r) (db_schedules (w_db w))
    \<and> (\<exists>xs. db_deliveries (w_db w') = db_deliveries (w_db w) @ xs \<and> map dlv_agent_id xs = map scd_agent_id rows
         \<and> (\<forall>x\<in>set xs. dlv_event_type x = EventScheduleUpdated))"
  using assms
proof (induction rows arbitrary: w)
  case (Cons row rows)
  obtain sch where sch: "scheduleFromRow row = Inr sch"
    and rest: "runs (writeSchedule e (UpdateSchedule_sql (w_now w) \<lparr>usp_ID = sch_id sch, usp_Title = None, usp_Instruction = None,
         usp_Cadence = Some ((sch_cadence sch)\<lparr>cd_timezone := dest\<rparr>),
         usp_Status = Some (if sch_status sch \<noteq> SchedulePaused then SchedulePending else sch_status sch)\<rparr>) EventScheduleUpdated w)
       (\<lambda>_ w1. move_loop e dest rows w1) = (Inr u, w')"
    using Cons.prems(1) by (auto simp: ok_iffs Let_def)
  define a where "a = \<lparr>usp_ID = sch_id sch, usp_Title = None, usp_Instruction = None,
         usp_Cadence = Some ((sch_cadence sch)\<lparr>cd_timezone := dest\<rparr>),
         usp_Status = Some (if sch_status sch \<noteq> SchedulePaused then SchedulePending else sch_status sch)\<rparr>"
  obtain s w1 where w: "writeSchedule e (UpdateSchedule_sql (w_now w) a) EventScheduleUpdated w = (Inr s, w1)"
    and loop: "move_loop e dest rows w1 = (Inr u, w')"
    using rest unfolding a_def [symmetric] by (auto simp: ok_iffs)
  have well1: "well w1" using well_writeSchedule [OF Cons.prems(2), of "UpdateSchedule_sql (w_now w) a"]
    by (metis db_ok_UpdateSchedule w snd_conv)
  have ids: "distinct (map scd_id (db_schedules (w_db w)))" by (rule db_okD(8) [OF Cons.prems(2)])
  have texts: "storable (coalesce (usp_Title a) []) \<and> storable (coalesce (usp_Instruction a) [])"
    by (simp add: a_def coalesce_def storable_def ValidString_def)
  have row: "row \<in> set (db_schedules (w_db w))" "scd_deleted_at row = None" "usp_ID a = scd_id row"
    "UpdateSchedule_row (w_now w) a row = moved (w_now w) dest row"
    using Cons.prems(4) sch
    by (auto simp: scheduleFromRow_def UpdateSchedule_row_def moved_def coalesce_def a_def split: json.splits)
  have upd: "db_schedules (snd (UpdateSchedule_sql (w_now w) a (w_db w)))
      = map (\<lambda>r. if scd_id r = scd_id row then moved (w_now w) dest r else r) (db_schedules (w_db w))"
  proof -
    have "(if scd_id r = scd_id row \<and> scd_deleted_at r = None then UpdateSchedule_row (w_now w) a r else r)
        = (if scd_id r = scd_id row then moved (w_now w) dest r else r)" if "r \<in> set (db_schedules (w_db w))" for r
      using key_unique [OF ids that row(1)] row(2,4) by auto
    then show ?thesis using texts by (simp add: UpdateSchedule_sql_def Let_def update_where_def row(3))
  qed
  have step: "db_schedules (w_db w1) = map (\<lambda>r. if scd_id r = scd_id row then moved (w_now w) dest r else r) (db_schedules (w_db w))"
    "w_now w1 = w_now w" "\<exists>x. db_deliveries (w_db w1) = db_deliveries (w_db w) @ [x] \<and> dlv_agent_id x = scd_agent_id row
        \<and> dlv_event_type x = EventScheduleUpdated"
  proof -
    obtain r1 d1 pending w2 where e: "UpdateSchedule_sql (w_now w) a (w_db w) = (Inr r1, d1)" "scheduleFromRow r1 = Inr s"
      "Enqueue e (sch_agent_id s) (sch_conversation_id s) EventScheduleUpdated (SchedulePayload s) (w\<lparr>w_db := d1\<rparr>) = (Inr pending, w2)"
      "w1 = scheduleChanged e s pending w2"
      by (rule writeSchedule_Inr [OF w])
    note en = Enqueue_schedules [of e "sch_agent_id s" "sch_conversation_id s" EventScheduleUpdated "SchedulePayload s" "w\<lparr>w_db := d1\<rparr>", unfolded e(3)]
      Enqueue_now [of e "sch_agent_id s" "sch_conversation_id s" EventScheduleUpdated "SchedulePayload s" "w\<lparr>w_db := d1\<rparr>", unfolded e(3)]
    show "db_schedules (w_db w1) = map (\<lambda>r. if scd_id r = scd_id row then moved (w_now w) dest r else r) (db_schedules (w_db w))"
      using en(1) upd by (simp add: e(1,4))
    show "w_now w1 = w_now w" using en(2) by (simp add: e(4))
    have "r1 \<in> set (db_schedules d1)" "scd_id r1 = scd_id row" using UpdateSchedule_sql_Inr [OF e(1)] row(3) by auto
    then obtain x where x: "x \<in> set (db_schedules (w_db w))"
      "r1 = (if scd_id x = scd_id row then moved (w_now w) dest x else x)"
      using upd by (auto simp: e(1))
    with \<open>scd_id r1 = scd_id row\<close> have "scd_id x = scd_id row" by (simp add: moved_def split: if_splits)
    then have "x = row" by (rule key_unique [OF ids x(1) row(1)])
    with x(2) have "scd_agent_id r1 = scd_agent_id row" by (simp add: moved_def)
    then show "\<exists>x. db_deliveries (w_db w1) = db_deliveries (w_db w) @ [x] \<and> dlv_agent_id x = scd_agent_id row
        \<and> dlv_event_type x = EventScheduleUpdated"
      using Enqueue_ok [OF e(3)] scheduleFromRow_fields [OF e(2)] schedule_statement_tables(1) [of "w_now w" a "w_db w"]
      by (auto simp: e(1,4))
  qed
  have "\<forall>r\<in>set rows. r \<in> set (db_schedules (w_db w1)) \<and> scd_deleted_at r = None"
    using Cons.prems(3,4) by (auto simp: step(1) image_iff)
  from Cons.IH [OF loop well1 _ this] Cons.prems(3) step(2)
  have ih: "db_schedules (w_db w') = map (\<lambda>r. if scd_id r \<in> scd_id ` set rows then moved (w_now w) dest r else r) (db_schedules (w_db w1))"
    "\<exists>xs. db_deliveries (w_db w') = db_deliveries (w_db w1) @ xs \<and> map dlv_agent_id xs = map scd_agent_id rows
         \<and> (\<forall>x\<in>set xs. dlv_event_type x = EventScheduleUpdated)" by simp_all
  have fresh: "scd_id row \<notin> scd_id ` set rows" using Cons.prems(3) by simp
  have "db_schedules (w_db w') = map (\<lambda>r. if scd_id r \<in> scd_id ` set (row # rows) then moved (w_now w) dest r else r) (db_schedules (w_db w))"
    unfolding ih(1) step(1) map_map comp_def
    by (rule map_cong [OF refl]) (use fresh in \<open>simp add: moved_def\<close>)
  moreover obtain x xs where "db_deliveries (w_db w1) = db_deliveries (w_db w) @ [x]" "dlv_agent_id x = scd_agent_id row"
    "dlv_event_type x = EventScheduleUpdated" "db_deliveries (w_db w') = db_deliveries (w_db w1) @ xs"
    "map dlv_agent_id xs = map scd_agent_id rows" "\<forall>x\<in>set xs. dlv_event_type x = EventScheduleUpdated"
    using ih(2) step(3) by blast
  ultimately show ?case by (intro conjI) (assumption, rule exI [of _ "x # xs"], simp)
qed simp


lemma move_runs: "\<exists>w'. MoveSchedules sample_env 1 ''UTC'' ''Asia/Kolkata'' schedule_world = (Inr (), w')"
proof -
  have "ListPersonSchedulesInZone (w_db schedule_world) 1 ''UTC'' = [sample_schedule]"
    by (simp add: ListPersonSchedulesInZone_def join_select_def schedule_world_fields sample_tables sample_member_def
        sample_schedule_def in_zone_def morning_def)
  then show ?thesis
    by (simp add: MoveSchedules_def schedule_world_fields sample_tables scheduleFromRow_def sample_schedule_def
        writeSchedule_def writeScheduleTx_def on_db_def UpdateSchedule_sql_def UpdateSchedule_row_def
        coalesce_def storable_def ValidString_def WithTx_def runs_def Enqueue_def GetActiveBinding_def live_binding_def
        sample_webhook_def NewID_def CreateDelivery_def delivery_of_params_def insert_row_def Let_def sample_env_def sample_agent_def)
qed


end
