(* ===== verification/Wire.thy ===== *)
theory Wire
  imports Schedules
begin

text \<open>
  What an agent's backend receives (\<open>events/events.go\<close>, \<open>membership.go\<close>, \<open>schedule.go\<close>, \<open>stop.go\<close>):
  the envelope of every event and the payload of each type. The records are the Go structs; the
  JSON text they are marshalled into is the standard library's.
\<close>

section \<open>Shapes\<close>

record wire_conversation =
  wc_ID :: string
  wc_Kind :: string

record wire_sender =
  ws_Kind :: string
  ws_ID :: string
  ws_DisplayName :: gotext

record wire_attachment =
  wa_MediaID :: string
  wa_Kind :: string
  wa_MimeType :: string
  wa_ByteSize :: int
  wa_FileName :: gotext
  wa_Width :: int
  wa_Height :: int
  wa_HasThumbnail :: bool
  wa_DurationMS :: int
  wa_Waveform :: "int list option"

record wire_button =
  wb_ID :: string
  wb_URL :: gotext
  wb_Label :: gotext
  wb_Style :: string

record wire_action =
  wt_ButtonID :: string
  wt_SourceMessageID :: string

record wire_body =
  wy_Text :: gotext
  wy_Attachments :: "wire_attachment list"
  wy_Buttons :: "wire_button list list"
  wy_QuickReplies :: "gotext list"
  wy_Action :: "wire_action option"
  wy_SelectedButtonID :: string

record wire_reply =
  wr_ID :: string
  wr_SenderKind :: string
  wr_TextPreview :: gotext

record wire_message =
  wm_ID :: string
  wm_Sender :: wire_sender
  wm_Body :: wire_body
  wm_ReplyTo :: "wire_reply option"
  wm_Status :: string
  wm_Truncated :: bool
  wm_Stopped :: bool
  wm_ScheduleID :: string
  wm_CreatedAt :: int
  wm_Signature :: string

record wire_participant =
  wp_Kind :: string
  wp_ID :: string
  wp_DisplayName :: gotext
  wp_Handle :: string
  wp_Timezone :: string
  wp_IsMe :: bool

record wire_schedule =
  wx_ID :: string
  wx_ConversationID :: string
  wx_AgentID :: string
  wx_Title :: gotext
  wx_Instruction :: gotext
  wx_Cadence :: cadence
  wx_Status :: string
  wx_CreatedBy :: string
  wx_NextRunAt :: "int option"
  wx_LastRunAt :: "int option"
  wx_MissedAt :: "int option"
  wx_CreatedAt :: int
  wx_UpdatedAt :: int

datatype event_data =
  MessageCreated wire_conversation wire_message "wire_participant list"
| ConversationJoined wire_conversation "wire_participant list" "(string \<times> string) option"
| ConversationLeft wire_conversation string
| StopRequested wire_conversation "string option"
| ScheduleEvent wire_conversation "wire_participant list" wire_schedule

record envelope =
  en_ID :: string
  en_Type :: event_type
  en_CreatedAt :: int
  en_AgentID :: string
  en_Data :: event_data

section \<open>Building them\<close>

fun kind_text :: "participant_kind \<Rightarrow> string" where
  "kind_text ParticipantUser = ''user''"
| "kind_text ParticipantAgent = ''agent''"

fun message_status_text :: "message_status \<Rightarrow> string" where
  "message_status_text MessageStreaming = ''streaming''"
| "message_status_text MessageComplete = ''complete''"

fun schedule_status_text :: "schedule_status \<Rightarrow> string" where
  "schedule_status_text SchedulePending = ''pending''"
| "schedule_status_text ScheduleActive = ''active''"
| "schedule_status_text SchedulePaused = ''paused''"

definition formatParticipantID :: "participant_kind \<Rightarrow> uuid \<Rightarrow> string" where
  "formatParticipantID kind i = FormatID (if kind = ParticipantAgent then PrefixAgent else PrefixUser) i"

text \<open>\<open>base64.RawURLEncoding\<close>: three bytes to four digits, no padding.\<close>

definition url_alphabet :: string where
  "url_alphabet = ''ABCDEFGHIJKLMNOPQRSTUVWXYZabcdefghijklmnopqrstuvwxyz0123456789-_''"

fun RawURLEncode :: "nat list \<Rightarrow> string" where
  "RawURLEncode [] = []"
| "RawURLEncode [a] = [url_alphabet ! (a div 4), url_alphabet ! (16 * (a mod 4))]"
| "RawURLEncode [a, b] = [url_alphabet ! (a div 4), url_alphabet ! (16 * (a mod 4) + b div 16),
     url_alphabet ! (4 * (b mod 16))]"
| "RawURLEncode (a # b # c # bs) = [url_alphabet ! (a div 4), url_alphabet ! (16 * (a mod 4) + b div 16),
     url_alphabet ! (4 * (b mod 16) + c div 64), url_alphabet ! (c mod 64)] @ RawURLEncode bs"

definition signatureOf :: "signature option \<Rightarrow> string" where
  "signatureOf sig = (case sig of None \<Rightarrow> '''' | Some bs \<Rightarrow> if bs = [] then '''' else RawURLEncode bs)"

definition scheduleIDOf :: "uuid option \<Rightarrow> string" where
  "scheduleIDOf i = (case i of None \<Rightarrow> '''' | Some x \<Rightarrow> FormatID PrefixSchedule x)"

definition wire_attachment_of :: "attachment \<Rightarrow> wire_attachment" where
  "wire_attachment_of a = \<lparr>wa_MediaID = FormatID PrefixMedia (att_media_id a), wa_Kind = att_kind a,
     wa_MimeType = att_mime_type a, wa_ByteSize = att_byte_size a, wa_FileName = att_file_name a,
     wa_Width = att_width a, wa_Height = att_height a, wa_HasThumbnail = att_has_thumbnail a,
     wa_DurationMS = att_duration_ms a, wa_Waveform = att_waveform a\<rparr>"

definition AttachmentsOf :: "attachment list \<Rightarrow> wire_attachment list" where
  "AttachmentsOf atts = map wire_attachment_of atts"

definition wire_button_of :: "button \<Rightarrow> wire_button" where
  "wire_button_of b = \<lparr>wb_ID = btn_id b, wb_URL = btn_url b, wb_Label = btn_label b, wb_Style = btn_style b\<rparr>"

definition BodyOf :: "body \<Rightarrow> wire_body" where
  "BodyOf b = \<lparr>wy_Text = bd_text b, wy_Attachments = AttachmentsOf (bd_attachments b),
     wy_Buttons = map (map wire_button_of) (bd_buttons b), wy_QuickReplies = map qr_label (bd_quick_replies b),
     wy_Action = map_option (\<lambda>a. \<lparr>wt_ButtonID = act_button_id a,
         wt_SourceMessageID = FormatID PrefixMessage (act_source_message_id a)\<rparr>) (bd_action b),
     wy_SelectedButtonID = bd_selected_button_id b\<rparr>"

definition ReplyToOf :: "reply_ref option \<Rightarrow> wire_reply option" where
  "ReplyToOf r = map_option (\<lambda>r. \<lparr>wr_ID = FormatID PrefixMessage (rr_id r),
     wr_SenderKind = (case rr_sender_kind r of None \<Rightarrow> '''' | Some k \<Rightarrow> kind_text k), wr_TextPreview = rr_preview r\<rparr>) r"

definition ConversationOf :: "conversation \<Rightarrow> wire_conversation" where
  "ConversationOf c = \<lparr>wc_ID = FormatID PrefixConv (cv_ID c), wc_Kind = cv_Kind c\<rparr>"

definition wire_participant_of :: "uuid \<Rightarrow> participant \<Rightarrow> wire_participant" where
  "wire_participant_of me p = \<lparr>wp_Kind = kind_text (pc_Kind p), wp_ID = formatParticipantID (pc_Kind p) (pc_ID p),
     wp_DisplayName = pc_DisplayName p, wp_Handle = pc_Handle p, wp_Timezone = pc_Timezone p,
     wp_IsMe = (pc_Kind p = ParticipantAgent \<and> pc_ID p = me)\<rparr>"

definition ParticipantsOf :: "conversation \<Rightarrow> uuid \<Rightarrow> wire_participant list" where
  "ParticipantsOf c me = map (wire_participant_of me) (cv_Participants c)"

definition SenderName :: "conversation \<Rightarrow> sender \<Rightarrow> gotext" where
  "SenderName c s = (case find (\<lambda>p. pc_Kind p = snd_kind s \<and> pc_ID p = snd_id s) (cv_Participants c) of
       None \<Rightarrow> [] | Some p \<Rightarrow> pc_DisplayName p)"

definition MessageOf :: "message \<Rightarrow> gotext \<Rightarrow> wire_message" where
  "MessageOf m senderName = \<lparr>wm_ID = FormatID PrefixMessage (mg_id m),
     wm_Sender = \<lparr>ws_Kind = kind_text (snd_kind (mg_sender m)),
        ws_ID = formatParticipantID (snd_kind (mg_sender m)) (snd_id (mg_sender m)), ws_DisplayName = senderName\<rparr>,
     wm_Body = BodyOf (mg_body m), wm_ReplyTo = ReplyToOf (mg_reply_to m), wm_Status = message_status_text (mg_status m),
     wm_Truncated = mg_truncated m, wm_Stopped = mg_stopped m, wm_ScheduleID = scheduleIDOf (mg_schedule_id m),
     wm_CreatedAt = mg_created_at m, wm_Signature = signatureOf (mg_signature m)\<rparr>"

definition ScheduleOf :: "env \<Rightarrow> schedule \<Rightarrow> int \<Rightarrow> wire_schedule" where
  "ScheduleOf e s now = \<lparr>wx_ID = FormatID PrefixSchedule (sch_id s),
     wx_ConversationID = FormatID PrefixConv (sch_conversation_id s), wx_AgentID = FormatID PrefixAgent (sch_agent_id s),
     wx_Title = sch_title s, wx_Instruction = sch_instruction s, wx_Cadence = sch_cadence s,
     wx_Status = schedule_status_text (sch_status s), wx_CreatedBy = kind_text (sch_created_by s),
     wx_NextRunAt = NextRun e s now, wx_LastRunAt = sch_last_run_at s, wx_MissedAt = MissedAt e s now,
     wx_CreatedAt = sch_created_at s, wx_UpdatedAt = sch_updated_at s\<rparr>"

section \<open>Envelopes\<close>

definition wrapped :: "uuid \<Rightarrow> int \<Rightarrow> uuid \<Rightarrow> event_type \<Rightarrow> event_data \<Rightarrow> envelope" where
  "wrapped eventID createdAt agentID t x = \<lparr>en_ID = FormatID PrefixEvent eventID, en_Type = t,
     en_CreatedAt = createdAt, en_AgentID = FormatID PrefixAgent agentID, en_Data = x\<rparr>"

definition NewMessageCreated :: "uuid \<Rightarrow> int \<Rightarrow> uuid \<Rightarrow> message \<Rightarrow> conversation \<Rightarrow> envelope" where
  "NewMessageCreated eventID createdAt agentID m c = wrapped eventID createdAt agentID EventMessageCreated
     (MessageCreated (ConversationOf c) (MessageOf m (SenderName c (mg_sender m))) (ParticipantsOf c agentID))"

text \<open>An absent payload of a code is the JSON document null.\<close>

definition NewConversationJoined ::
    "uuid \<Rightarrow> int \<Rightarrow> uuid \<Rightarrow> conversation \<Rightarrow> uuid option \<Rightarrow> string option \<Rightarrow> envelope" where
  "NewConversationJoined eventID createdAt agentID c tokenID payload =
     wrapped eventID createdAt agentID EventConversationJoined
       (ConversationJoined (ConversationOf c) (ParticipantsOf c agentID)
         (map_option (\<lambda>t. (FormatID PrefixToken t,
            (case payload of None \<Rightarrow> ''null'' | Some p \<Rightarrow> if p = '''' then ''null'' else p))) tokenID))"

definition NewConversationLeft :: "uuid \<Rightarrow> int \<Rightarrow> uuid \<Rightarrow> conversation \<Rightarrow> string \<Rightarrow> envelope" where
  "NewConversationLeft eventID createdAt agentID c reason =
     wrapped eventID createdAt agentID EventConversationLeft (ConversationLeft (ConversationOf c) reason)"

definition NewStopRequested :: "uuid \<Rightarrow> int \<Rightarrow> uuid \<Rightarrow> conversation \<Rightarrow> uuid option \<Rightarrow> envelope" where
  "NewStopRequested eventID createdAt agentID c messageID =
     wrapped eventID createdAt agentID EventStopRequested
       (StopRequested (ConversationOf c) (map_option (FormatID PrefixMessage) messageID))"

definition NewScheduleEvent ::
    "env \<Rightarrow> int \<Rightarrow> uuid \<Rightarrow> int \<Rightarrow> uuid \<Rightarrow> event_type \<Rightarrow> conversation \<Rightarrow> schedule \<Rightarrow> envelope" where
  "NewScheduleEvent e now eventID createdAt agentID t c s =
     wrapped eventID createdAt agentID t
       (ScheduleEvent (ConversationOf c) (ParticipantsOf c agentID) (ScheduleOf e s now))"

section \<open>Nothing signed is lost\<close>

lemma digit_inj: "i < 64 \<Longrightarrow> j < 64 \<Longrightarrow> url_alphabet ! i = url_alphabet ! j \<Longrightarrow> i = j"
  by (subst (asm) nth_eq_iff_index_eq) (simp_all add: url_alphabet_def)

lemma split_byte: "a div m = b div m \<Longrightarrow> a mod m = b mod m \<Longrightarrow> a = b" for a b m :: nat
  by (metis div_mult_mod_eq)

lemma digit_pair: "n * x + p = n * y + q \<Longrightarrow> p < n \<Longrightarrow> q < n \<Longrightarrow> x = y \<and> p = q" for n x y p q :: nat
proof -
  assume e: "n * x + p = n * y + q" and b: "p < n" "q < n"
  have "x = (n * x + p) div n" "p = (n * x + p) mod n" using b(1) by simp_all
  moreover have "y = (n * y + q) div n" "q = (n * y + q) mod n" using b(2) by simp_all
  ultimately show ?thesis using e by metis
qed

lemma RawURLEncode_inj:
  "RawURLEncode xs = RawURLEncode ys \<Longrightarrow> \<forall>x\<in>set xs. x < 256 \<Longrightarrow> \<forall>y\<in>set ys. y < 256 \<Longrightarrow> xs = ys"
proof (induction xs arbitrary: ys rule: RawURLEncode.induct)
  case 1
  then show ?case by (cases ys rule: RawURLEncode.cases) auto
next
  case (2 a)
  then obtain a' where ys: "ys = [a']" by (cases ys rule: RawURLEncode.cases) auto
  have b: "a < 256" "a' < 256" using 2 ys by simp_all
  have e: "url_alphabet ! (a div 4) = url_alphabet ! (a' div 4)"
    "url_alphabet ! (16 * (a mod 4)) = url_alphabet ! (16 * (a' mod 4))" using 2(1) ys by simp_all
  have "a div 4 = a' div 4" by (rule digit_inj [OF _ _ e(1)]) (use b in auto)
  moreover have "16 * (a mod 4) = 16 * (a' mod 4)" by (rule digit_inj [OF _ _ e(2)]) (use b in auto)
  ultimately show ?case using ys split_byte [of a 4 a'] by simp
next
  case (3 a b)
  then obtain a' b' where ys: "ys = [a', b']" by (cases ys rule: RawURLEncode.cases) auto
  have b: "a < 256" "a' < 256" "b < 256" "b' < 256" using 3 ys by simp_all
  have e: "url_alphabet ! (a div 4) = url_alphabet ! (a' div 4)"
    "url_alphabet ! (16 * (a mod 4) + b div 16) = url_alphabet ! (16 * (a' mod 4) + b' div 16)"
    "url_alphabet ! (4 * (b mod 16)) = url_alphabet ! (4 * (b' mod 16))" using 3(1) ys by simp_all
  have d: "a div 4 = a' div 4" by (rule digit_inj [OF _ _ e(1)]) (use b in auto)
  have "16 * (a mod 4) + b div 16 = 16 * (a' mod 4) + b' div 16" by (rule digit_inj [OF _ _ e(2)]) (use b in auto)
  then have "a mod 4 = a' mod 4 \<and> b div 16 = b' div 16" by (rule digit_pair) (use b in auto)
  moreover have "4 * (b mod 16) = 4 * (b' mod 16)" by (rule digit_inj [OF _ _ e(3)]) (use b in auto)
  ultimately show ?case using ys split_byte [of a 4 a'] split_byte [of b 16 b'] d by simp
next
  case (4 a b c bs)
  then obtain a' b' c' bs' where ys: "ys = a' # b' # c' # bs'" by (cases ys rule: RawURLEncode.cases) auto
  have b: "a < 256" "a' < 256" "b < 256" "b' < 256" "c < 256" "c' < 256" using 4 ys by simp_all
  have e: "url_alphabet ! (a div 4) = url_alphabet ! (a' div 4)"
    "url_alphabet ! (16 * (a mod 4) + b div 16) = url_alphabet ! (16 * (a' mod 4) + b' div 16)"
    "url_alphabet ! (4 * (b mod 16) + c div 64) = url_alphabet ! (4 * (b' mod 16) + c' div 64)"
    "url_alphabet ! (c mod 64) = url_alphabet ! (c' mod 64)" "RawURLEncode bs = RawURLEncode bs'"
    using 4(2) ys by simp_all
  have d: "a div 4 = a' div 4" by (rule digit_inj [OF _ _ e(1)]) (use b in auto)
  have "16 * (a mod 4) + b div 16 = 16 * (a' mod 4) + b' div 16" by (rule digit_inj [OF _ _ e(2)]) (use b in auto)
  then have "a mod 4 = a' mod 4 \<and> b div 16 = b' div 16" by (rule digit_pair) (use b in auto)
  moreover have "4 * (b mod 16) + c div 64 = 4 * (b' mod 16) + c' div 64" by (rule digit_inj [OF _ _ e(3)]) (use b in auto)
  then have "b mod 16 = b' mod 16 \<and> c div 64 = c' div 64" by (rule digit_pair) (use b in auto)
  moreover have "c mod 64 = c' mod 64" by (rule digit_inj [OF _ _ e(4)]) (use b in auto)
  moreover have "bs = bs'" by (rule 4(1) [OF e(5)]) (use 4(3,4) ys in simp_all)
  ultimately show ?case
    using ys split_byte [of b 16 b'] split_byte [of c 64 c'] split_byte [of a 4 a'] d by blast
qed

lemma kind_text_inj [simp]: "kind_text k = kind_text k' \<longleftrightarrow> k = k'"
  by (cases k; cases k') auto

lemma formatParticipantID_inj [simp]: "formatParticipantID k i = formatParticipantID k j \<longleftrightarrow> i = j"
  by (simp add: formatParticipantID_def)

lemma map_inj_on: "map f xs = map f ys \<Longrightarrow> \<forall>x y. f x = f y \<longrightarrow> g x = g y \<Longrightarrow> map g xs = map g ys"
proof (induction xs arbitrary: ys)
  case (Cons x xs)
  obtain z zs where ys: "ys = z # zs" "f x = f z" "map f xs = map f zs"
    using Cons.prems(1) by (cases ys) auto
  have "map g xs = map g zs" by (rule Cons.IH [OF ys(3) Cons.prems(2)])
  moreover have "g x = g z" using Cons.prems(2) ys(2) by blast
  ultimately show ?case using ys(1) by simp
qed simp

lemma wire_button_of_inj [simp]: "wire_button_of b = wire_button_of b' \<longleftrightarrow> b = b'"
  by (auto simp: wire_button_of_def)

lemma buttons_inj: "map (map wire_button_of) xs = map (map wire_button_of) ys \<Longrightarrow> xs = ys"
  by (metis inj_mapI injD injI wire_button_of_inj)

lemma quick_replies_inj: "map qr_label xs = map qr_label ys \<Longrightarrow> xs = ys" for xs ys :: "quick_reply list"
proof -
  have "\<forall>x y :: quick_reply. qr_label x = qr_label y \<longrightarrow> x = y" by (intro allI impI quick_reply.equality) simp_all
  then show "map qr_label xs = map qr_label ys \<Longrightarrow> xs = ys" using map_inj_on [of qr_label xs ys "\<lambda>q. q"] by simp
qed

text \<open>The bytes of a signature, when it has any.\<close>

definition sig_bytes :: "signature option \<Rightarrow> nat list" where
  "sig_bytes sg = (case sg of None \<Rightarrow> [] | Some bs \<Rightarrow> bs)"

lemma signatureOf_inj:
  assumes "signatureOf s = signatureOf t" "\<forall>x\<in>set (sig_bytes s). x < 256" "\<forall>x\<in>set (sig_bytes t). x < 256"
  shows "sig_bytes s = sig_bytes t"
proof -
  have "RawURLEncode bs = [] \<longleftrightarrow> bs = []" for bs by (cases bs rule: RawURLEncode.cases) auto
  then have "RawURLEncode (sig_bytes s) = RawURLEncode (sig_bytes t)"
    using assms(1) by (auto simp: signatureOf_def sig_bytes_def split: option.splits if_splits)
  then show ?thesis by (rule RawURLEncode_inj) (use assms(2,3) in auto)
qed


definition signed_offer :: message where
  "signed_offer = \<lparr>mg_id = 102, mg_conversation_id = 10, mg_sender = agent_sender 2, mg_body = sample_offer,
     mg_reply_to = None, mg_status = MessageComplete, mg_truncated = False, mg_stopped = False, mg_schedule_id = None,
     mg_schedule_title = [], mg_delivery_status = None, mg_created_at = 20, mg_signature = Some [7, 255]\<rparr>"


end
