(* ===== verification/Delivery.thy ===== *)
theory Delivery
  imports Wire
begin

text \<open>
  Getting events to backends (\<open>delivery/delivery.go\<close>, \<open>worker.go\<close>, \<open>schedule.go\<close>, and
  \<open>conversations/notify.go\<close>: \<open>DeliveryChanged\<close>): the worker's pass over due webhook deliveries,
  the socket's replay, acknowledgement and the catch-up page.

  Posting to a webhook (\<open>webhookSender.Send\<close>: HTTP, JSON) is the parameter \<open>send\<close>: what it
  answers for an endpoint and an envelope, the text of the error when there is one. The posts of
  a pass run side by side and touch nothing, so they are one step between claiming and recording;
  \<open>took\<close> is how long it lasted. An error text is bytes, since it is cut at a byte.
\<close>

section \<open>Deliveries and envelopes\<close>

record delivery =
  de_ID :: uuid
  de_MessageID :: "uuid option"
  de_ConversationID :: uuid
  de_AgentID :: uuid
  de_EventType :: event_type
  de_Payload :: "payload json option"
  de_Status :: delivery_status
  de_Attempts :: nat
  de_NextAttemptAt :: int
  de_LastError :: string
  de_DeliveredAt :: "int option"
  de_CreatedAt :: int

definition deliveryFromRow :: "delivery_row \<Rightarrow> delivery" where
  "deliveryFromRow r = \<lparr>de_ID = dlv_id r, de_MessageID = dlv_message_id r, de_ConversationID = dlv_conversation_id r,
     de_AgentID = dlv_agent_id r, de_EventType = dlv_event_type r, de_Payload = dlv_payload r, de_Status = dlv_status r,
     de_Attempts = dlv_attempts r, de_NextAttemptAt = dlv_next_attempt_at r,
     de_LastError = (case dlv_last_error r of None \<Rightarrow> '''' | Some s \<Rightarrow> s),
     de_DeliveredAt = dlv_delivered_at r, de_CreatedAt = dlv_created_at r\<rparr>"

definition decode_error :: go_error where "decode_error = Internal (PlainError OtherCause)"

text \<open>
  One delivery in the wire form of its kind. A payload is read as the type its event was written
  with (\<open>Enqueue\<close>); an absent or undecodable one is an error.
\<close>

definition envelopeOf :: "env \<Rightarrow> int \<Rightarrow> delivery \<Rightarrow> conversation \<Rightarrow> message list \<Rightarrow> go_error + envelope" where
  "envelopeOf e now d c msgs = (case de_EventType d of
       EventMessageCreated \<Rightarrow> (case de_MessageID d of None \<Rightarrow> Inl decode_error
         | Some mid \<Rightarrow> (case find (\<lambda>m. mg_id m = mid) (rev msgs) of None \<Rightarrow> Inl decode_error
             | Some m \<Rightarrow> Inr (NewMessageCreated (de_ID d) (de_CreatedAt d) (de_AgentID d) m c)))
     | EventConversationJoined \<Rightarrow> (case de_Payload d of
           Some (Doc (JoinedPayload t p)) \<Rightarrow> Inr (NewConversationJoined (de_ID d) (de_CreatedAt d) (de_AgentID d) c t p)
         | _ \<Rightarrow> Inl decode_error)
     | EventConversationLeft \<Rightarrow> (case de_Payload d of
           Some (Doc (LeftPayload reason)) \<Rightarrow> Inr (NewConversationLeft (de_ID d) (de_CreatedAt d) (de_AgentID d) c reason)
         | _ \<Rightarrow> Inl decode_error)
     | EventStopRequested \<Rightarrow> (case de_Payload d of
           Some (Doc (StopPayload m)) \<Rightarrow> Inr (NewStopRequested (de_ID d) (de_CreatedAt d) (de_AgentID d) c m)
         | _ \<Rightarrow> Inl decode_error)
     | t \<Rightarrow> (case de_Payload d of
           Some (Doc (SchedulePayload s)) \<Rightarrow> Inr (NewScheduleEvent e now (de_ID d) (de_CreatedAt d) (de_AgentID d) t c s)
         | _ \<Rightarrow> Inl decode_error))"

definition envelopes :: "env \<Rightarrow> world \<Rightarrow> delivery list \<Rightarrow> go_error + envelope list" where
  "envelopes e w ds =
     (if ds = [] then Inr []
      else let msgIDs = List.map_filter de_MessageID ds in
        ok_then (if msgIDs = [] then Inr [] else GetMessages w msgIDs) (\<lambda>msgs.
        ok_then (GetConversations w (map de_ConversationID ds)) (\<lambda>convs.
        map_ok (\<lambda>d. case find (\<lambda>c. cv_ID c = de_ConversationID d) (rev convs) of
            None \<Rightarrow> Inl decode_error | Some c \<Rightarrow> envelopeOf e (w_now w) d c msgs) ds)))"

section \<open>Reading and acknowledging\<close>

definition eventsLimit :: "int \<Rightarrow> go_error + nat" where
  "eventsLimit limit =
     (if limit = 0 then Inr 50
      else if limit < 1 \<or> 100 < limit then Inl (InvalidField ''limit'' ''invalid_limit'')
      else Inr (nat limit))"

definition ListEvents :: "env \<Rightarrow> world \<Rightarrow> uuid \<Rightarrow> uuid option \<Rightarrow> int \<Rightarrow> go_error + envelope list" where
  "ListEvents e w agentID since limit =
     ok_then (eventsLimit limit) (\<lambda>n.
     envelopes e w (map deliveryFromRow (ListDeliveriesSince (w_db w) agentID since n)))"

definition socketBatch :: nat where "socketBatch = 100"

definition ClaimForSocket :: "env \<Rightarrow> uuid \<Rightarrow> (envelope list \<times> bool) handler" where
  "ClaimForSocket e agentID w =
     (let (rows, w1) = on_db (ClaimDueSocketDeliveries (w_now w) agentID socketBatch) w;
          ds = map deliveryFromRow (sort_key dlv_id rows) in
      needs (envelopes e w1 ds) w1 (\<lambda>envs. (Inr (envs, length rows = socketBatch), w1)))"

definition DeliveryChanged :: "env \<Rightarrow> uuid \<Rightarrow> unit handler" where
  "DeliveryChanged e messageID w =
     needs (GetMessages w [messageID]) w (\<lambda>msgs.
     if msgs = [] then (Inr (), w)
     else let m = hd (attachDeliveryStatus (w_db w) msgs) in
       (Inr (), notify e EventDeliveryUpdated (mg_conversation_id m)
          (DeliveryUpdatedEvent (mg_conversation_id m) (mg_id m) (mg_delivery_status m)) w))"

definition Ack :: "env \<Rightarrow> uuid \<Rightarrow> uuid \<Rightarrow> bool handler" where
  "Ack e agentID eventID w =
     (let (r, w1) = on_db (AckDelivery (w_now w) eventID agentID) w in
      case r of
        Inl err \<Rightarrow> if IsNoRows err then (Inr False, w1) else (Inl (Internal err), w1)
      | Inr None \<Rightarrow> (Inr True, w1)
      | Inr (Some mid) \<Rightarrow> runs (DeliveryChanged e mid w1) (\<lambda>_ w2. (Inr True, w2)))"

section \<open>When to try again\<close>

definition retryDelays :: "int list" where
  "retryDelays = [seconds 1, seconds 5, seconds 30, minutes 2, minutes 10, hours 1]"

definition retryFor :: int where "retryFor = hours 24"

definition retryDelay :: "nat \<Rightarrow> int" where
  "retryDelay attempt = (if attempt \<le> length retryDelays then retryDelays ! (attempt - 1) else last retryDelays)"

definition nextAttempt :: "nat \<Rightarrow> int \<Rightarrow> int \<Rightarrow> int option" where
  "nextAttempt attempt0 createdAt now =
     (let attempt = (if attempt0 < 1 then 1 else attempt0);
          next = now + retryDelay attempt in
      if createdAt + retryFor < next then None else Some next)"

section \<open>The worker's pass\<close>

definition batchSize :: nat where "batchSize = 20"
definition lastErrorMaxLen :: nat where "lastErrorMaxLen = 500"

definition truncate_error :: "string \<Rightarrow> nat \<Rightarrow> string" where
  "truncate_error s n = (if length s \<le> n then s else take n s)"

text \<open>
  A text column refuses bytes that are not UTF-8, and a NUL; cutting a text at a byte can make
  it such.
\<close>

abbreviation cont :: "nat \<Rightarrow> bool" where "cont b \<equiv> 128 \<le> b \<and> b < 192"

fun utf8 :: "nat list \<Rightarrow> bool" where
  "utf8 [] = True"
| "utf8 (a # bs) =
     (if a < 128 then 0 < a \<and> utf8 bs
      else if 194 \<le> a \<and> a < 224 then (case bs of b # cs \<Rightarrow> cont b \<and> utf8 cs | _ \<Rightarrow> False)
      else if 224 \<le> a \<and> a < 240 then (case bs of b # c # cs \<Rightarrow>
          cont b \<and> cont c \<and> (a = 224 \<longrightarrow> 160 \<le> b) \<and> (a = 237 \<longrightarrow> b < 160) \<and> utf8 cs | _ \<Rightarrow> False)
      else if 240 \<le> a \<and> a < 245 then (case bs of b # c # d # cs \<Rightarrow>
          cont b \<and> cont c \<and> cont d \<and> (a = 240 \<longrightarrow> 144 \<le> b) \<and> (a = 244 \<longrightarrow> b < 144) \<and> utf8 cs | _ \<Rightarrow> False)
      else False)"

definition utf8_text :: "string \<Rightarrow> bool" where
  "utf8_text s \<longleftrightarrow> utf8 (map of_char s)"

definition write_reason :: "string \<Rightarrow> (db \<Rightarrow> db) \<Rightarrow> unit handler" where
  "write_reason reason stmt w =
     (if utf8_text reason then (Inr (), exec stmt w) else (Inl (PlainError OtherCause), w))"

record attempt =
  at_delivery :: delivery
  at_envelope :: envelope
  at_endpoint :: "endpoint option"
  at_err :: "string option"

type_synonym sender_fn = "endpoint \<Rightarrow> envelope \<Rightarrow> string option"

definition sendAll :: "sender_fn \<Rightarrow> attempt list \<Rightarrow> attempt list" where
  "sendAll send atts = map (\<lambda>a. case at_endpoint a of
       None \<Rightarrow> a
     | Some ep \<Rightarrow> if ep_Mode ep \<noteq> ModeWebhook then a else a\<lparr>at_err := send ep (at_envelope a)\<rparr>) atts"

definition tickChanged :: "env \<Rightarrow> delivery \<Rightarrow> world \<Rightarrow> world" where
  "tickChanged e d w = (case de_MessageID d of None \<Rightarrow> w | Some mid \<Rightarrow> snd (DeliveryChanged e mid w))"

definition markFailed :: "env \<Rightarrow> delivery \<Rightarrow> string \<Rightarrow> unit handler" where
  "markFailed e d reason0 w =
     (let reason = truncate_error reason0 lastErrorMaxLen in
      runs (write_reason reason (MarkFailed (de_ID d) (Some reason)) w) (\<lambda>_ w1. (Inr (), tickChanged e d w1)))"

definition record_attempt :: "env \<Rightarrow> attempt \<Rightarrow> unit handler" where
  "record_attempt e a w =
     (let d = at_delivery a in
      case at_endpoint a of
        None \<Rightarrow> markFailed e d ''no_binding'' w
      | Some ep \<Rightarrow>
          if ep_Mode ep \<noteq> ModeWebhook then (Inr (), w)
          else (case at_err a of
              None \<Rightarrow> RecordDeliverySuccess (ep_BindingID ep) (tickChanged e d (exec (MarkDelivered (w_now w) (de_ID d)) w))
            | Some err \<Rightarrow>
                runs (RecordDeliveryFailure (ep_BindingID ep) w) (\<lambda>_ w1.
                let reason = truncate_error err lastErrorMaxLen in
                case nextAttempt (de_Attempts d) (de_CreatedAt d) (w_now w1) of
                  None \<Rightarrow> markFailed e d (''exhausted: '' @ reason) w1
                | Some next \<Rightarrow> write_reason reason (ScheduleRetry (de_ID d) next (Some reason)) w1)))"

fun record_loop :: "env \<Rightarrow> attempt list \<Rightarrow> unit handler" where
  "record_loop e [] w = (Inr (), w)"
| "record_loop e (a # as) w = runs (record_attempt e a w) (\<lambda>_ w1. record_loop e as w1)"

text \<open>The first half of a pass: fail what can no longer be delivered, claim a batch, make envelopes.\<close>

definition claim_pass :: "env \<Rightarrow> attempt list handler" where
  "claim_pass e w =
     (let now = w_now w;
          w1 = exec FailUnboundDeliveries (exec (FailExpiredDeliveries now) w);
          (claimed, w2) = on_db (ClaimDueWebhookDeliveries now batchSize) w1;
          ds = map deliveryFromRow claimed in
      if claimed = [] then (Inr [], w2)
      else needs (envelopes e w2 ds) w2 (\<lambda>envs.
        needs (map_ok (\<lambda>d. ActiveEndpoint (w_db w2) (de_AgentID d)) ds) w2 (\<lambda>eps.
        (Inr (map2 (\<lambda>(d, env) ep. \<lparr>at_delivery = d, at_envelope = env, at_endpoint = ep, at_err = None\<rparr>)
            (zip ds envs) eps), w2))))"

definition RunOnce :: "env \<Rightarrow> sender_fn \<Rightarrow> int \<Rightarrow> world \<Rightarrow> (nat \<times> go_error option) \<times> world" where
  "RunOnce e send took w = (case claim_pass e w of
       (Inl err, w1) \<Rightarrow> ((0, Some err), w1)
     | (Inr atts, w1) \<Rightarrow>
         (case record_loop e (sendAll send atts) (w1\<lparr>w_now := w_now w1 + took\<rparr>) of
            (Inl err, w2) \<Rightarrow> ((length atts, Some err), w2)
          | (Inr _, w2) \<Rightarrow> ((length atts, None), w2)))"

text \<open>
  \<open>Run\<close> between two ticks: it goes straight round again while full batches come back. The
  recursion is bounded by fuel.
\<close>

fun drain :: "nat \<Rightarrow> env \<Rightarrow> sender_fn \<Rightarrow> int \<Rightarrow> world \<Rightarrow> world option" where
  "drain 0 e send took w = None"
| "drain (Suc fuel) e send took w = (case RunOnce e send took w of
       ((n, _), w1) \<Rightarrow> if batchSize \<le> n then drain fuel e send took w1 else Some w1)"

end
