(* ===== verification/Worker.thy ===== *)
theory Worker
  imports Delivery
begin

text \<open>
  What the delivery worker does with an event: a pass settles every delivery it claimed by what
  the backend answered, going straight round again ends, a delivery is tried a bounded number of
  times, and no event is left pending for more than a day.
\<close>

section \<open>A bounded number of attempts\<close>

text \<open>
  The instants at which a delivery was attempted in vain: the next attempt is never made before
  the time the failure before it set, and is made only when it set one.
\<close>

definition attempts_made :: "int \<Rightarrow> int list \<Rightarrow> bool" where
  "attempts_made createdAt ts \<longleftrightarrow> (ts \<noteq> [] \<longrightarrow> createdAt \<le> hd ts)
     \<and> (\<forall>i. Suc i < length ts \<longrightarrow> (\<exists>n. nextAttempt (Suc i) createdAt (ts ! i) = Some n \<and> n \<le> ts ! Suc i))"

fun waited :: "nat \<Rightarrow> int" where
  "waited 0 = 0"
| "waited (Suc n) = waited n + retryDelay (Suc n)"

lemma nextAttempt_Some:
  "nextAttempt n c now = Some t \<Longrightarrow> t = now + retryDelay (if n < 1 then 1 else n) \<and> t \<le> c + retryFor"
  by (auto simp: nextAttempt_def Let_def split: if_splits)

lemma attempts_waited:
  assumes "attempts_made c ts" "i < length ts"
  shows "c + waited i \<le> ts ! i"
  using assms(2)
proof (induction i)
  case 0
  then show ?case using assms(1) by (cases ts) (auto simp: attempts_made_def)
next
  case (Suc i)
  then obtain n where n: "nextAttempt (Suc i) c (ts ! i) = Some n" "n \<le> ts ! Suc i"
    using assms(1) by (auto simp: attempts_made_def)
  have "n = ts ! i + retryDelay (Suc i)" using nextAttempt_Some [OF n(1)] by simp
  with n(2) Suc show ?case by simp
qed

lemma retryDelay_late: "6 \<le> n \<Longrightarrow> retryDelay n = hours 1"
  by (cases "n = 6") (simp_all add: retryDelay_def retryDelays_def)

lemma waited_late: "waited (6 + k) = 4356000 + hours (int k)"
proof (induction k)
  case 0
  show ?case by (simp add: eval_nat_numeral retryDelay_def retryDelays_def)
next
  case (Suc k)
  have "waited (Suc (6 + k)) = waited (6 + k) + retryDelay (Suc (6 + k))" by (rule waited.simps(2))
  moreover have "retryDelay (Suc (6 + k)) = hours 1" by (rule retryDelay_late) simp
  ultimately show ?case using Suc by simp
qed



section \<open>What recording an outcome changes\<close>

lemma DeliveryChanged_fields [simp]:
  "w_db (snd (DeliveryChanged e mid w)) = w_db w" "w_now (snd (DeliveryChanged e mid w)) = w_now w"
  by (simp_all add: DeliveryChanged_def needs_snd Let_def split: sum.splits)

lemma tickChanged_fields [simp]: "w_db (tickChanged e d w) = w_db w" "w_now (tickChanged e d w) = w_now w"
  by (simp_all add: tickChanged_def split: option.splits)

lemma health_deliveries:
  "db_deliveries (w_db (snd (RecordDeliverySuccess b w))) = db_deliveries (w_db w)"
  "db_deliveries (w_db (snd (RecordDeliveryFailure b w))) = db_deliveries (w_db w)"
  by (simp_all add: RecordDeliverySuccess_def RecordDeliveryFailure_def recorded_db RecordBindingSuccess_def
      RecordBindingFailure_def binding_update_def Let_def)

lemma recorded_now: "w_now (snd (recorded news stmt w)) = w_now w"
  by (auto simp: recorded_def on_db_def announce_def notifyTo_def split: prod.splits sum.splits)

lemma health_now:
  "w_now (snd (RecordDeliverySuccess b w)) = w_now w" "w_now (snd (RecordDeliveryFailure b w)) = w_now w"
  by (simp_all add: RecordDeliverySuccess_def RecordDeliveryFailure_def recorded_now)

text \<open>The row after an attempt at \<open>now\<close>.\<close>

definition given_up :: "string \<Rightarrow> delivery_row \<Rightarrow> delivery_row" where
  "given_up reason r = r\<lparr>dlv_status := DeliveryFailed, dlv_last_error := Some (truncate_error reason lastErrorMaxLen)\<rparr>"

definition answered :: "string option \<Rightarrow> nat \<Rightarrow> int \<Rightarrow> int \<Rightarrow> delivery_row \<Rightarrow> delivery_row" where
  "answered err attempts createdAt now r = (case err of
       None \<Rightarrow> delivered now r
     | Some s \<Rightarrow> (case nextAttempt attempts createdAt now of
           None \<Rightarrow> given_up (''exhausted: '' @ truncate_error s lastErrorMaxLen) r
         | Some next \<Rightarrow> r\<lparr>dlv_next_attempt_at := next, dlv_last_error := Some (truncate_error s lastErrorMaxLen)\<rparr>))"

definition after_attempt :: "attempt \<Rightarrow> int \<Rightarrow> delivery_row \<Rightarrow> delivery_row" where
  "after_attempt a now r = (case at_endpoint a of
       None \<Rightarrow> given_up ''no_binding'' r
     | Some ep \<Rightarrow> if ep_Mode ep \<noteq> ModeWebhook then r
         else answered (at_err a) (de_Attempts (at_delivery a)) (de_CreatedAt (at_delivery a)) now r)"

abbreviation its_row :: "attempt \<Rightarrow> delivery_row \<Rightarrow> bool" where
  "its_row a r \<equiv> dlv_id r = de_ID (at_delivery a) \<and> dlv_status r = DeliveryPending"

lemma update_where_agree: "(\<And>r. P r \<Longrightarrow> f r = g r) \<Longrightarrow> update_where P f rows = update_where P g rows"
  by (induction rows) auto

lemma update_where_id: "(\<And>r. P r \<Longrightarrow> f r = r) \<Longrightarrow> update_where P f rows = rows"
  by (induction rows) auto

lemma record_attempt_rows:
  "w_now (snd (record_attempt e a w)) = w_now w"
  "fst (record_attempt e a w) = Inr u \<Longrightarrow>
     db_deliveries (w_db (snd (record_attempt e a w))) = update_where (its_row a) (after_attempt a (w_now w)) (db_deliveries (w_db w))"
  "db_deliveries (w_db (snd (record_attempt e a w))) = db_deliveries (w_db w)
   \<or> db_deliveries (w_db (snd (record_attempt e a w))) = update_where (its_row a) (after_attempt a (w_now w)) (db_deliveries (w_db w))"
proof -
  note defs = record_attempt_def Let_def markFailed_def write_reason_def runs_snd after_attempt_def answered_def given_up_def
    health_deliveries health_now MarkDelivered_def MarkFailed_def ScheduleRetry_def set_deliveries_def
  show "w_now (snd (record_attempt e a w)) = w_now w"
    by (cases "at_endpoint a"; cases "at_err a") (auto simp: defs split: sum.splits option.splits)
  have ok: "fst (RecordDeliveryFailure b w) = Inr ()" for b
    by (auto simp: RecordDeliveryFailure_def recorded_def on_db_def RecordBindingFailure_def binding_update_def Let_def
        split: prod.splits sum.splits dest!: one_row_NoRows)
  show "fst (record_attempt e a w) = Inr u \<Longrightarrow>
     db_deliveries (w_db (snd (record_attempt e a w))) = update_where (its_row a) (after_attempt a (w_now w)) (db_deliveries (w_db w))"
    by (cases "at_endpoint a"; cases "at_err a")
      (auto simp: defs runs_def ok intro!: update_where_agree update_where_id [symmetric] split: sum.splits option.splits if_splits)
  show "db_deliveries (w_db (snd (record_attempt e a w))) = db_deliveries (w_db w)
   \<or> db_deliveries (w_db (snd (record_attempt e a w))) = update_where (its_row a) (after_attempt a (w_now w)) (db_deliveries (w_db w))"
    by (cases "at_endpoint a"; cases "at_err a")
      (auto simp: defs ok intro!: update_where_agree split: sum.splits option.splits if_splits)
qed

lemma update_where_where:
  "(\<And>r. P r \<Longrightarrow> \<not> Q (f r)) \<Longrightarrow> (\<And>r. P r \<Longrightarrow> \<not> Q r) \<Longrightarrow>
     update_where Q g (update_where P f rows) = map (\<lambda>r. if P r then f r else if Q r then g r else r) rows"
  by (induction rows) auto

lemma after_attempt_id: "dlv_id (after_attempt a now r) = dlv_id r"
  by (auto simp: after_attempt_def answered_def given_up_def delivered_def split: option.splits)

definition after_all :: "attempt list \<Rightarrow> int \<Rightarrow> delivery_row \<Rightarrow> delivery_row" where
  "after_all as now r = (case find (\<lambda>a. its_row a r) as of None \<Rightarrow> r | Some a \<Rightarrow> after_attempt a now r)"

lemma record_loop_rows:
  assumes "record_loop e as w = (Inr u, w')" "distinct (map (\<lambda>a. de_ID (at_delivery a)) as)"
  shows "db_deliveries (w_db w') = map (after_all as (w_now w)) (db_deliveries (w_db w))"
  using assms
proof (induction as arbitrary: w)
  case Nil
  then show ?case by (simp add: after_all_def)
next
  case (Cons a as)
  obtain u1 w1 where a: "record_attempt e a w = (Inr u1, w1)" and rest: "record_loop e as w1 = (Inr u, w')"
    using Cons.prems(1) by (auto simp: ok_iffs)
  have now: "w_now w1 = w_now w" using record_attempt_rows(1) [of e a w] by (simp add: a)
  have rows: "db_deliveries (w_db w1) = update_where (its_row a) (after_attempt a (w_now w)) (db_deliveries (w_db w))"
    using record_attempt_rows(2) [of e a w u1] by (simp add: a)
  have "after_all as (w_now w) (if its_row a r then after_attempt a (w_now w) r else r) = after_all (a # as) (w_now w) r" for r
  proof (cases "its_row a r")
    case True
    then have "find (\<lambda>x. its_row x (after_attempt a (w_now w) r)) as = None"
      using Cons.prems(2) by (auto simp: find_None_iff after_attempt_id)
    with True show ?thesis by (simp add: after_all_def)
  next
    case False
    then show ?thesis by (simp add: after_all_def if_not_P [OF False] cong: if_cong)
  qed
  then show ?case
    using Cons.IH [OF rest] Cons.prems(2) by (simp add: now rows update_where_def comp_def)
qed

text \<open>What every step of the worker keeps: the rows, in order, and everything settled.\<close>

definition rows_kept :: "db \<Rightarrow> db \<Rightarrow> bool" where
  "rows_kept d d' \<longleftrightarrow> list_all2 row_kept (db_deliveries d) (db_deliveries d')"

lemma rows_kept_refl: "rows_kept d d"
  by (simp add: rows_kept_def list.rel_refl row_kept_refl)

lemma rows_kept_trans: "rows_kept d e \<Longrightarrow> rows_kept e f \<Longrightarrow> rows_kept d f"
  unfolding rows_kept_def using list_all2_trans [of row_kept row_kept row_kept] row_kept_trans by blast

lemma after_attempt_kept: "its_row a r \<Longrightarrow> row_kept r (after_attempt a now r)"
  by (auto simp: after_attempt_def answered_def given_up_def delivered_def row_kept_def dlv_fixed_def split: option.splits)

lemma rows_kept_attempt: "rows_kept (w_db w) (w_db (snd (record_attempt e a w)))"
proof -
  have "list_all2 row_kept (db_deliveries (w_db w)) (update_where (its_row a) (after_attempt a (w_now w)) (db_deliveries (w_db w)))"
    by (rule update_where_kept) (rule after_attempt_kept)
  moreover have "list_all2 row_kept (db_deliveries (w_db w)) (db_deliveries (w_db w))"
    using rows_kept_refl [of "w_db w"] by (simp add: rows_kept_def)
  ultimately show ?thesis using record_attempt_rows(3) [of e a w] unfolding rows_kept_def by presburger
qed

lemma rows_kept_loop: "rows_kept (w_db w) (w_db (snd (record_loop e as w)))"
proof (induction as arbitrary: w)
  case (Cons a as)
  then show ?case
    using rows_kept_attempt [of w e a] by (auto simp: runs_snd split: sum.splits intro: rows_kept_trans)
qed (simp add: rows_kept_refl)

abbreviation swept :: "world \<Rightarrow> db" where
  "swept w \<equiv> FailUnboundDeliveries (FailExpiredDeliveries (w_now w) (w_db w))"

lemma claim_pass_db: "w_db (snd (claim_pass e w)) = snd (ClaimDueWebhookDeliveries (w_now w) batchSize (swept w))"
  "w_now (snd (claim_pass e w)) = w_now w"
  by (auto simp: claim_pass_def Let_def split_def needs_snd split: sum.splits)

lemma swept_ok: "well w \<Longrightarrow> db_ok (swept w)"
  by (intro unbind.preserves_db_ok expire.preserves_db_ok)

lemma rows_kept_claim: "well w \<Longrightarrow> rows_kept (swept w) (w_db (snd (claim_pass e w)))"
  using claim_webhook.rows [OF db_okD(4) [OF swept_ok]] by (simp add: claim_pass_db rows_kept_def)

lemma RunOnce_db:
  "w_db (snd (RunOnce e send took w)) = (case claim_pass e w of (Inl err, w1) \<Rightarrow> w_db w1
     | (Inr atts, w1) \<Rightarrow> w_db (snd (record_loop e (sendAll send atts) (w1\<lparr>w_now := w_now w1 + took\<rparr>))))"
  by (auto simp: RunOnce_def split: prod.splits sum.splits)

lemma rows_kept_RunOnce: "well w \<Longrightarrow> rows_kept (swept w) (w_db (snd (RunOnce e send took w)))"
proof -
  assume w: "well w"
  obtain r w1 where c: "claim_pass e w = (r, w1)" by fastforce
  have k: "rows_kept (swept w) (w_db w1)" using rows_kept_claim [OF w, of e] by (simp add: c)
  show ?thesis
  proof (cases r)
    case (Inr atts)
    show ?thesis
      using rows_kept_trans [OF k rows_kept_loop [of "w1\<lparr>w_now := w_now w1 + took\<rparr>" e "sendAll send atts", simplified]]
      by (simp add: RunOnce_db c Inr)
  qed (use k in \<open>simp add: RunOnce_db c\<close>)
qed

text \<open>
  C16. No event stays pending for more than a day: after any pass of the worker, whatever the
  backends answered and whether the pass ended well or not, every delivery created more than a
  day before the pass is delivered or failed, and it never becomes pending again.
\<close>

theorem nothing_is_owed_for_more_than_a_day:
  assumes "well w" "r \<in> set (db_deliveries (w_db (snd (RunOnce e send took w))))" "dlv_created_at r < w_now w - hours 24"
  shows "dlv_status r \<noteq> DeliveryPending"
proof
  assume p: "dlv_status r = DeliveryPending"
  let ?rows = "db_deliveries (w_db (snd (RunOnce e send took w)))"
  obtain i where i: "i < length ?rows" "?rows ! i = r" using assms(2) by (auto simp: in_set_conv_nth)
  define q where "q = db_deliveries (swept w) ! i"
  have "list_all2 row_kept (db_deliveries (swept w)) ?rows"
    using rows_kept_RunOnce [OF assms(1)] by (simp add: rows_kept_def)
  then have q: "q \<in> set (db_deliveries (swept w))" "row_kept q r"
    using i list_all2_lengthD list_all2_nthD2 unfolding q_def by (metis nth_mem)+
  then have "dlv_status q = DeliveryPending" "dlv_created_at q < w_now w - hours 24"
    using p assms(3) by (auto simp: row_kept_def dlv_fixed_def)
  moreover have "q \<in> set (db_deliveries (FailExpiredDeliveries (w_now w) (w_db w)))" if "dlv_status q = DeliveryPending"
    using q(1) that by (auto simp: FailUnboundDeliveries_def set_deliveries_def set_update_where)
  ultimately show False
    by (auto simp: FailExpiredDeliveries_def set_deliveries_def set_update_where)
qed

definition late_world :: world where
  "late_world = sample_world\<lparr>w_now := hours 25, w_db := sample_db\<lparr>db_deliveries := [sample_delivery 7 DeliveryPending]\<rparr>\<rparr>"

theorem nothing_is_owed_for_more_than_a_day_witness:
  "\<exists>r. db_deliveries (w_db (snd (RunOnce sample_env (\<lambda>ep env. None) 0 late_world))) = [r]
     \<and> dlv_status r \<noteq> DeliveryPending"
proof -
  let ?d = "w_db (snd (RunOnce sample_env (\<lambda>ep env. None) 0 late_world))"
  have well: "well late_world"
    using sample_db_ok by (simp add: late_world_def db_ok_def deliveries_ok_def sample_delivery_def)
  obtain q where q: "db_deliveries (swept late_world) = [q]" "dlv_created_at q = 0"
    by (simp add: late_world_def sample_delivery_def FailExpiredDeliveries_def FailUnboundDeliveries_def set_deliveries_def)
  obtain r where r: "db_deliveries ?d = [r]" "row_kept q r"
    using rows_kept_RunOnce [OF well, of sample_env "\<lambda>ep env. None" 0] q(1)
    by (auto simp: rows_kept_def list_all2_Cons1)
  then have "dlv_created_at r < w_now late_world - hours 24"
    using q(2) by (simp add: row_kept_def dlv_fixed_def late_world_def)
  then show ?thesis
    using nothing_is_owed_for_more_than_a_day [OF well, of r sample_env "\<lambda>ep env. None" 0] r(1) by simp
qed

section \<open>A pass\<close>

lemma envelopeOf_names:
  "envelopeOf e now d c msgs = Inr v \<Longrightarrow>
     en_ID v = FormatID PrefixEvent (de_ID d) \<and> en_AgentID v = FormatID PrefixAgent (de_AgentID d)"
  by (auto simp: envelopeOf_def NewMessageCreated_def NewConversationJoined_def NewConversationLeft_def
      NewStopRequested_def NewScheduleEvent_def wrapped_def split: event_type.splits option.splits json.splits payload.splits)

lemma envelopes_Inr:
  assumes "envelopes e w ds = Inr envs"
  shows "length envs = length ds"
    "i < length ds \<Longrightarrow> en_ID (envs ! i) = FormatID PrefixEvent (de_ID (ds ! i))
       \<and> en_AgentID (envs ! i) = FormatID PrefixAgent (de_AgentID (ds ! i))"
proof -
  have "length envs = length ds \<and> (\<forall>i<length ds. en_ID (envs ! i) = FormatID PrefixEvent (de_ID (ds ! i))
       \<and> en_AgentID (envs ! i) = FormatID PrefixAgent (de_AgentID (ds ! i)))"
  proof (cases "ds = []")
    case True
    with assms show ?thesis by (simp add: envelopes_def)
  next
    case False
    with assms obtain convs msgs where ok: "map_ok (\<lambda>d. case find (\<lambda>c. cv_ID c = de_ConversationID d) (rev convs) of
            None \<Rightarrow> Inl decode_error | Some c \<Rightarrow> envelopeOf e (w_now w) d c msgs) ds = Inr envs"
      by (auto simp: envelopes_def Let_def ok_iffs)
    have "en_ID (envs ! i) = FormatID PrefixEvent (de_ID (ds ! i))
       \<and> en_AgentID (envs ! i) = FormatID PrefixAgent (de_AgentID (ds ! i))" if "i < length ds" for i
      using map_ok_nth [OF ok that] by (auto split: option.splits dest!: envelopeOf_names)
    with map_ok_length [OF ok] show ?thesis by simp
  qed
  then show "length envs = length ds"
    "i < length ds \<Longrightarrow> en_ID (envs ! i) = FormatID PrefixEvent (de_ID (ds ! i))
       \<and> en_AgentID (envs ! i) = FormatID PrefixAgent (de_AgentID (ds ! i))" by simp_all
qed

lemma claim_pass_Inr:
  assumes "claim_pass e w = (Inr atts, w1)"
  defines "claimed \<equiv> fst (ClaimDueWebhookDeliveries (w_now w) batchSize (swept w))"
  shows "map at_delivery atts = map deliveryFromRow claimed"
    "a \<in> set atts \<Longrightarrow> at_err a = None \<and> ActiveEndpoint (w_db w1) (de_AgentID (at_delivery a)) = Inr (at_endpoint a)
       \<and> en_ID (at_envelope a) = FormatID PrefixEvent (de_ID (at_delivery a))
       \<and> en_AgentID (at_envelope a) = FormatID PrefixAgent (de_AgentID (at_delivery a))"
proof -
  let ?ds = "map deliveryFromRow claimed"
  let ?ok = "\<lambda>d a. at_delivery a = d \<and> at_err a = None \<and> ActiveEndpoint (w_db w1) (de_AgentID d) = Inr (at_endpoint a)
       \<and> en_ID (at_envelope a) = FormatID PrefixEvent (de_ID d) \<and> en_AgentID (at_envelope a) = FormatID PrefixAgent (de_AgentID d)"
  have all: "length atts = length ?ds \<and> (\<forall>i<length ?ds. ?ok (?ds ! i) (atts ! i))"
  proof (cases "claimed = []")
    case True
    with assms(1) show ?thesis unfolding claimed_def
      by (auto simp: claim_pass_def Let_def split_def)
  next
    case False
    with assms(1) obtain envs eps where e: "envelopes e w1 ?ds = Inr envs"
      "map_ok (\<lambda>d. ActiveEndpoint (w_db w1) (de_AgentID d)) ?ds = Inr eps"
      "atts = map2 (\<lambda>(d, env) ep. \<lparr>at_delivery = d, at_envelope = env, at_endpoint = ep, at_err = None\<rparr>) (zip ?ds envs) eps"
      unfolding claimed_def by (auto simp: claim_pass_def Let_def split_def needs_Inr)
    have l: "length envs = length ?ds" "length eps = length ?ds" using envelopes_Inr(1) [OF e(1)] map_ok_length [OF e(2)] by auto
    then show ?thesis using envelopes_Inr(2) [OF e(1)] map_ok_nth [OF e(2)] unfolding e(3) by simp
  qed
  then show "map at_delivery atts = map deliveryFromRow claimed" by (intro nth_equalityI) auto
  show "at_err a = None \<and> ActiveEndpoint (w_db w1) (de_AgentID (at_delivery a)) = Inr (at_endpoint a)
       \<and> en_ID (at_envelope a) = FormatID PrefixEvent (de_ID (at_delivery a))
       \<and> en_AgentID (at_envelope a) = FormatID PrefixAgent (de_AgentID (at_delivery a))" if "a \<in> set atts"
    using all that by (auto simp: in_set_conv_nth)
qed

lemma ActiveEndpoint_bound:
  assumes "db_ok d" "bound_by d ModeWebhook aid"
  shows "\<exists>ep. ActiveEndpoint d aid = Inr (Some ep) \<and> ep_Mode ep = ModeWebhook"
proof -
  obtain b where b: "b \<in> set (db_bindings d)" "live_binding aid b" "bnd_mode b = ModeWebhook"
    using assms(2) by (auto simp: bound_by_def)
  then obtain c where c: "find (live_binding aid) (db_bindings d) = Some c"
    by (metis find_none option.exhaust)
  then have c': "c \<in> set (db_bindings d)" "live_binding aid c" by (auto dest: find_in_set)
  have "distinct (map bnd_agent_id (filter (\<lambda>b. bnd_revoked_at b = None) (db_bindings d)))"
    using db_okD(5) [OF assms(1)] by (simp add: bindings_ok_def)
  from key_unique [OF this, of b c] b c' have "b = c" by (simp add: live_binding_def)
  then show ?thesis using b c by (simp add: ActiveEndpoint_def GetActiveBinding_def)
qed

text \<open>What is claimed: the due rows named, each once, leased.\<close>

lemma claimed_rows:
  "fst (ClaimDueWebhookDeliveries now n d) = map (lease now) (filter (\<lambda>r. dlv_id r \<in> due_webhook now n d) (db_deliveries d))"
  "db_deliveries (snd (ClaimDueWebhookDeliveries now n d))
     = update_where (\<lambda>r. dlv_id r \<in> due_webhook now n d) (lease now) (db_deliveries d)"
  "db_bindings (snd (ClaimDueWebhookDeliveries now n d)) = db_bindings d"
  by (simp_all add: ClaimDueWebhookDeliveries_def claim_rows_def)

lemma at_delivery_sendAll [simp]: "map at_delivery (sendAll send as) = map at_delivery as"
  by (auto simp: sendAll_def split: option.splits)

lemma lease_fields [simp]:
  "dlv_id (lease now r) = dlv_id r" "dlv_attempts (lease now r) = dlv_attempts r + 1"
  "dlv_created_at (lease now r) = dlv_created_at r" "dlv_agent_id (lease now r) = dlv_agent_id r"
  "dlv_status (lease now r) = dlv_status r"
  by (simp_all add: lease_def)

lemma deliveryFromRow_fields [simp]:
  "de_ID (deliveryFromRow r) = dlv_id r" "de_Attempts (deliveryFromRow r) = dlv_attempts r"
  "de_CreatedAt (deliveryFromRow r) = dlv_created_at r" "de_AgentID (deliveryFromRow r) = dlv_agent_id r"
  by (simp_all add: deliveryFromRow_def)


definition owed_world :: world where
  "owed_world = sample_world\<lparr>w_db := sample_db\<lparr>db_deliveries := [(sample_delivery 7 DeliveryPending)\<lparr>dlv_agent_id := 2,
     dlv_conversation_id := 10, dlv_payload := Some (Doc (StopPayload None))\<rparr>]\<rparr>\<rparr>"

lemma owed_world_ok: "well owed_world"
  using sample_db_ok by (simp add: owed_world_def db_ok_def deliveries_ok_def sample_delivery_def)

lemma owed_conversations:
  assumes "db_conversations (w_db w) = db_conversations sample_db" "no_corrupt (w_db w)"
  shows "\<exists>c. GetConversations w [10] = Inr [c] \<and> cv_ID c = 10"
proof -
  have "ListConversationsByIDs (w_db w) [10] = db_conversations sample_db"
    by (simp add: ListConversationsByIDs_def assms(1) sample_tables)
  moreover obtain convs where "hydrate w (db_conversations sample_db) = Inr convs" "map cv_ID convs = map cnv_id (db_conversations sample_db)"
    using hydrate_total [OF assms(2)] by blast
  ultimately show ?thesis by (auto simp: GetConversations_def sample_tables)
qed

lemma owed_runs: "\<exists>w'. RunOnce sample_env (\<lambda>ep env. None) 0 owed_world = ((1, None), w')"
proof -
  let ?r = "(sample_delivery 7 DeliveryPending)\<lparr>dlv_agent_id := 2, dlv_conversation_id := 10, dlv_payload := Some (Doc (StopPayload None))\<rparr>"
  have now: "w_now owed_world = 40" by (simp add: owed_world_def sample_world_def)
  have swept: "swept owed_world = w_db owed_world"
    by (simp add: owed_world_def FailUnboundDeliveries_def FailExpiredDeliveries_def set_deliveries_def sample_delivery_def
        sample_tables live_binding_def sample_webhook_def sample_world_def)
  have due: "due_webhook 40 batchSize (w_db owed_world) = {7}"
    by (simp add: due_webhook_def owed_world_def sample_delivery_def due_def bound_by_def sample_tables live_binding_def
        sample_webhook_def batchSize_def)
  define w1 where "w1 = owed_world\<lparr>w_db := (w_db owed_world)\<lparr>db_deliveries := [lease 40 ?r]\<rparr>\<rparr>"
  have claim: "on_db (ClaimDueWebhookDeliveries 40 batchSize) (exec FailUnboundDeliveries (exec (FailExpiredDeliveries 40) owed_world))
      = ([lease 40 ?r], w1)"
    using swept due
    by (simp add: on_db_def exec_def now ClaimDueWebhookDeliveries_def claim_rows_def w1_def)
      (simp add: owed_world_def sample_delivery_def)
  have "no_corrupt (w_db w1)"
    by (simp add: w1_def owed_world_def no_corrupt_def sample_tables sample_messages_def sample_message_def)
  then obtain c where c: "GetConversations w1 [10] = Inr [c]" "cv_ID c = 10"
    using owed_conversations [of w1] by (auto simp: w1_def owed_world_def)
  have "\<exists>v. envelopes sample_env w1 [deliveryFromRow (lease 40 ?r)] = Inr [v]"
    using c by (simp add: envelopes_def deliveryFromRow_def sample_delivery_def lease_def envelopeOf_def List.map_filter_def)
  moreover have "\<exists>ep. ActiveEndpoint (w_db w1) 2 = Inr (Some ep) \<and> ep_Mode ep = ModeWebhook"
    by (simp add: ActiveEndpoint_def GetActiveBinding_def w1_def owed_world_def sample_tables live_binding_def sample_webhook_def)
  ultimately obtain v ep where "claim_pass sample_env owed_world = (Inr [\<lparr>at_delivery = deliveryFromRow (lease 40 ?r), at_envelope = v,
      at_endpoint = Some ep, at_err = None\<rparr>], w1)" "ep_Mode ep = ModeWebhook"
    using claim by (auto simp: claim_pass_def now Let_def)
  moreover have "fst (RecordDeliverySuccess b w) = Inr ()" for b w
    by (auto simp: RecordDeliverySuccess_def recorded_def on_db_def RecordBindingSuccess_def binding_update_def Let_def
        split: prod.splits sum.splits dest!: one_row_NoRows)
  ultimately show ?thesis
    by (simp add: RunOnce_def sendAll_def record_attempt_def Let_def runs_def split: prod.splits sum.splits)
qed


section \<open>Going straight round again\<close>

definition due_count :: "int \<Rightarrow> db \<Rightarrow> nat" where
  "due_count now d = count_where (due now) (db_deliveries d)"

lemma not_due_later: "its_row a r \<Longrightarrow> due now (after_attempt a now r) \<Longrightarrow> due now r"
proof -
  have "0 < retryDelay n" if "1 \<le> n" for n
  proof (cases "n \<le> 6")
    case True
    with that consider "n = 1" | "n = 2" | "n = 3" | "n = 4" | "n = 5" | "n = 6" by linarith
    then show ?thesis by cases (simp_all add: retryDelay_def retryDelays_def)
  qed (simp add: retryDelay_late)
  then have "now < t" if "nextAttempt k c now = Some t" for k c t
    using nextAttempt_Some [OF that] by (auto split: if_splits)
  then show "its_row a r \<Longrightarrow> due now (after_attempt a now r) \<Longrightarrow> due now r"
    by (fastforce simp: after_attempt_def answered_def given_up_def delivered_def due_def split: option.splits if_splits)
qed

lemma count_where_image_on:
  "(\<And>r. P r \<Longrightarrow> Q (f r) \<Longrightarrow> Q r) \<Longrightarrow> count_where Q (update_where P f rows) \<le> count_where Q rows"
  by (induction rows) auto

lemma due_count_loop: "due_count (w_now w) (w_db (snd (record_loop e as w))) \<le> due_count (w_now w) (w_db w)"
proof (induction as arbitrary: w)
  case (Cons a as)
  let ?w1 = "snd (record_attempt e a w)"
  have "due_count (w_now w) (w_db ?w1) \<le> due_count (w_now w) (w_db w)"
    using record_attempt_rows(3) [of e a w]
  proof
    assume "db_deliveries (w_db ?w1) = update_where (its_row a) (after_attempt a (w_now w)) (db_deliveries (w_db w))"
    then show ?thesis unfolding due_count_def by (simp only:) (rule count_where_image_on [OF not_due_later])
  qed (simp add: due_count_def)
  moreover have "due_count (w_now w) (w_db (snd (record_loop e as ?w1))) \<le> due_count (w_now w) (w_db ?w1)"
    using Cons.IH [of ?w1] by (simp add: record_attempt_rows(1))
  ultimately show ?case by (simp add: runs_snd split: sum.splits)
qed simp

lemma count_claimed:
  assumes "\<And>r. r \<in> set rows \<Longrightarrow> k r \<in> ids \<Longrightarrow> due now r"
  shows "count_where (due now) (update_where (\<lambda>r. k r \<in> ids) (lease now) rows) + length (filter (\<lambda>r. k r \<in> ids) rows)
    = count_where (due now) rows"
  using assms
proof (induction rows)
  case (Cons r rows)
  have "\<not> due now (lease now r)" by (simp add: due_def lease_def)
  moreover have "k r \<in> ids \<Longrightarrow> due now r" using Cons.prems by simp
  moreover have "count_where (due now) (update_where (\<lambda>r. k r \<in> ids) (lease now) rows) + length (filter (\<lambda>r. k r \<in> ids) rows)
    = count_where (due now) rows" using Cons by simp
  ultimately show ?case by (cases "k r \<in> ids") simp_all
qed simp

lemma due_count_swept: "due_count now (FailUnboundDeliveries (FailExpiredDeliveries t d)) \<le> due_count now d"
proof -
  have "due_count now (FailUnboundDeliveries d) \<le> due_count now d" for d
    unfolding due_count_def FailUnboundDeliveries_def set_deliveries_def
    by (simp, rule count_where_image_on) (simp add: due_def)
  moreover have "due_count now (FailExpiredDeliveries t d) \<le> due_count now d"
    unfolding due_count_def FailExpiredDeliveries_def set_deliveries_def
    by (simp, rule count_where_image_on) (simp add: due_def)
  ultimately show ?thesis using order_trans by blast
qed

lemma RunOnce_due:
  assumes "well w" "RunOnce e send 0 w = ((n, err), w')"
  shows "due_count (w_now w) (w_db w') + n \<le> due_count (w_now w) (w_db w)" "w_now w' = w_now w"
proof -
  obtain r w1 where c: "claim_pass e w = (r, w1)" by fastforce
  have w1: "w_db w1 = snd (ClaimDueWebhookDeliveries (w_now w) batchSize (swept w))" "w_now w1 = w_now w"
    using claim_pass_db [of e w] by (simp_all add: c)
  let ?claimed = "fst (ClaimDueWebhookDeliveries (w_now w) batchSize (swept w))"
  have "due_count (w_now w) (w_db w1) + length ?claimed = due_count (w_now w) (swept w)"
    unfolding due_count_def w1 claimed_rows length_map
    by (rule count_claimed) (rule due_webhook_iff(1) [OF db_okD(4) [OF swept_ok [OF assms(1)]]])
  then have claim: "due_count (w_now w) (w_db w1) + length ?claimed \<le> due_count (w_now w) (w_db w)"
    using due_count_swept [of "w_now w" "w_now w" "w_db w"] by simp
  have loop_now: "w_now (snd (record_loop e as w)) = w_now w" for as w
  proof (induction as arbitrary: w)
    case (Cons a as)
    then show ?case using record_attempt_rows(1) [of e a w] by (simp add: runs_snd split: sum.splits)
  qed simp
  show "due_count (w_now w) (w_db w') + n \<le> due_count (w_now w) (w_db w)" "w_now w' = w_now w"
  proof (atomize (full), cases r)
    case (Inl x)
    then show "due_count (w_now w) (w_db w') + n \<le> due_count (w_now w) (w_db w) \<and> w_now w' = w_now w"
      using assms(2) claim w1 by (auto simp: RunOnce_def c)
  next
    case (Inr atts)
    have l: "length atts = length ?claimed"
      using arg_cong [OF claim_pass_Inr(1) [OF c [unfolded Inr]], of length] by simp
    obtain q w2 where loop: "record_loop e (sendAll send atts) (w1\<lparr>w_now := w_now w1 + 0\<rparr>) = (q, w2)" by fastforce
    have "w' = w2" "n = length atts" using assms(2) loop by (auto simp: RunOnce_def c Inr split: sum.splits)
    moreover have "due_count (w_now w) (w_db w2) \<le> due_count (w_now w) (w_db w1)"
      using due_count_loop [of "w1\<lparr>w_now := w_now w1 + 0\<rparr>" e "sendAll send atts"] loop w1(2) by simp
    moreover have "w_now w2 = w_now w" using loop_now [of "sendAll send atts" "w1\<lparr>w_now := w_now w1 + 0\<rparr>"] loop w1(2) by simp
    ultimately show "due_count (w_now w) (w_db w') + n \<le> due_count (w_now w) (w_db w) \<and> w_now w' = w_now w"
      using claim l by simp
  qed
qed

lemma well_health: "well w \<Longrightarrow> well (snd (write_reason s stmt w))" if "\<And>d. db_ok d \<Longrightarrow> db_ok (stmt d)" for s stmt
  using that by (simp add: write_reason_def)

lemma well_markFailed: "well w \<Longrightarrow> well (snd (markFailed e d s w))"
  by (auto simp: markFailed_def Let_def intro!: well_runs well_health mark_failed.preserves_db_ok)

lemma well_record_attempt: "well w \<Longrightarrow> well (snd (record_attempt e a w))"
proof -
  assume w: "well w"
  have s: "well (snd (RecordDeliverySuccess b (tickChanged e d (exec (MarkDelivered t i) w))))" for b d t i
    by (rule well_bindings(3)) (simp add: mark_delivered.preserves_db_ok w)
  show ?thesis
    by (auto simp: record_attempt_def Let_def w s split: option.splits
        intro!: well_markFailed well_runs well_health retry.preserves_db_ok well_bindings(6))
qed

lemma well_RunOnce [keeps]: "well w \<Longrightarrow> well (snd (RunOnce e send took w))"
proof -
  assume w: "well w"
  have loop: "well (snd (record_loop e as w))" if "well w" for as w
    using that by (induction as arbitrary: w) (auto intro!: well_runs well_record_attempt)
  obtain r w1 where c: "claim_pass e w = (r, w1)" by fastforce
  have "well w1"
    using claim_pass_db(1) [of e w] claim_webhook.preserves_db_ok [OF swept_ok [OF w]] by (simp add: c)
  then show ?thesis by (cases r) (simp_all add: RunOnce_db c loop)
qed



section \<open>An error text cut inside a character\<close>

text \<open>
  An error text that is cut inside a character costs the rest of the batch: the column
  refuses the cut text, so the failed attempt is not recorded, and nor is any attempt after it in
  the batch, delivered ones included. Their leases run out and they are posted again.
\<close>

theorem a_cut_error_loses_the_rest_of_the_batch:
  assumes "at_endpoint a = Some ep" "ep_Mode ep = ModeWebhook" "at_err a = Some s"
    "\<not> utf8_text (truncate_error s lastErrorMaxLen)"
    "nextAttempt (de_Attempts (at_delivery a)) (de_CreatedAt (at_delivery a)) (w_now w) \<noteq> None"
  shows "\<exists>err w1. record_loop e (a # as) w = (Inl err, w1) \<and> db_deliveries (w_db w1) = db_deliveries (w_db w)"
proof -
  let ?w1 = "snd (RecordDeliveryFailure (ep_BindingID ep) w)"
  have "fst (RecordDeliveryFailure (ep_BindingID ep) w) = Inr ()"
    by (auto simp: RecordDeliveryFailure_def recorded_def on_db_def RecordBindingFailure_def binding_update_def Let_def
        split: prod.splits sum.splits dest!: one_row_NoRows)
  then have "record_attempt e a w = (Inl (PlainError OtherCause), ?w1)"
    using assms by (auto simp: record_attempt_def Let_def runs_def health_now write_reason_def)
  then show ?thesis by (simp add: health_deliveries)
qed

text \<open>An answer in which a two-byte letter lies across the cut.\<close>

definition long_error :: string where
  "long_error = ''x'' @ concat (replicate 300 [char_of (195 :: nat), char_of (169 :: nat)])"

lemma long_error_cut: "\<not> utf8_text (truncate_error long_error 500)"
proof -
  let ?p = "[char_of (195 :: nat), char_of (169 :: nat)]"
  have "replicate 300 ?p = replicate 249 ?p @ ?p # replicate 50 ?p"
    unfolding replicate_Suc [symmetric] replicate_add [symmetric] by simp
  moreover have "length (concat (replicate n ?p)) = 2 * n" for n by (induction n) simp_all
  ultimately have "truncate_error long_error 500 = ''x'' @ concat (replicate 249 ?p) @ [char_of (195 :: nat)]"
    unfolding truncate_error_def long_error_def by simp
  moreover have "\<not> utf8 (map of_char (concat (replicate n ?p) @ [char_of (195 :: nat)]))" for n
    by (induction n) simp_all
  ultimately show ?thesis by (simp add: utf8_text_def)
qed

definition failed_attempt :: attempt where
  "failed_attempt = \<lparr>at_delivery = deliveryFromRow (sample_delivery 7 DeliveryPending),
     at_envelope = NewStopRequested 7 0 2 \<lparr>cv_ID = 10, cv_Kind = ''dm'', cv_Participants = [], cv_LastMessage = None,
       cv_Unread = 0, cv_CreatedAt = 0\<rparr> None,
     at_endpoint = Some \<lparr>ep_BindingID = 9, ep_Mode = ModeWebhook, ep_WebhookURL = [], ep_SigningKey = []\<rparr>,
     at_err = Some long_error\<rparr>"

theorem a_cut_error_loses_the_rest_of_the_batch_witness:
  "\<exists>err w1. record_loop sample_env [failed_attempt] sample_world = (Inl err, w1)"
proof -
  have "nextAttempt (de_Attempts (at_delivery failed_attempt)) (de_CreatedAt (at_delivery failed_attempt)) (w_now sample_world) \<noteq> None"
    by (simp add: failed_attempt_def sample_delivery_def deliveryFromRow_def nextAttempt_def retryDelay_def retryDelays_def
        retryFor_def sample_world_def)
  from a_cut_error_loses_the_rest_of_the_batch [OF _ _ _ _ this, of _ long_error sample_env "[]"] show ?thesis
    using long_error_cut by (auto simp: failed_attempt_def lastErrorMaxLen_def)
qed

end
