(* ===== verification/Realtime.thy ===== *)
theory Realtime
  imports Types "HOL-Library.Sublist"
begin

text \<open>
  The hub's connections (\<open>realtime/hub.go\<close>) and presence (\<open>realtime/presence.go\<close>).

  A subscription is a bounded channel. Its place in the list is the pointer the program holds;
  \<open>sub_read\<close> is what the connection behind it has taken from the channel. Operations are the
  critical sections of the hub's mutex, so a run is a sequence of them. Sending on a closed channel
  panics in Go; here the dispatch then has no result.
\<close>

section \<open>The hub\<close>

record subscription =
  sub_user :: uuid
  sub_queue :: "live_event list"
  sub_signalled :: bool
  sub_attached :: bool
  sub_read :: "live_event list"

record hub =
  hb_subs :: "subscription list"
  hb_closed :: bool

definition subscriptionBuffer :: nat where "subscriptionBuffer = 64"

definition NewHub :: hub where "NewHub = \<lparr>hb_subs = [], hb_closed = False\<rparr>"

definition HubSubscribe :: "uuid \<Rightarrow> hub \<Rightarrow> hub" where
  "HubSubscribe userID h = h\<lparr>hb_subs := hb_subs h @
     [\<lparr>sub_user = userID, sub_queue = [], sub_signalled = False, sub_attached = True, sub_read = []\<rparr>]\<rparr>"

definition ended_sub :: "subscription \<Rightarrow> subscription" where
  "ended_sub s = s\<lparr>sub_attached := False, sub_signalled := True\<rparr>"

definition on_sub :: "nat \<Rightarrow> (subscription \<Rightarrow> subscription) \<Rightarrow> hub \<Rightarrow> hub" where
  "on_sub i f h = (if i < length (hb_subs h) then h\<lparr>hb_subs := (hb_subs h)[i := f (hb_subs h ! i)]\<rparr> else h)"

definition SubscriptionClose :: "nat \<Rightarrow> hub \<Rightarrow> hub" where
  "SubscriptionClose i = on_sub i ended_sub"

text \<open>What a connection reads next; a closed channel still gives what it holds.\<close>

definition take_event :: "subscription \<Rightarrow> subscription" where
  "take_event s = (case sub_queue s of [] \<Rightarrow> s | ev # q \<Rightarrow> s\<lparr>sub_queue := q, sub_read := sub_read s @ [ev]\<rparr>)"

text \<open>
  \<open>select { case s.c <- ev: default: slow = append(slow, s) }\<close> for the subscriptions of one person.
\<close>

definition offer :: "live_event \<Rightarrow> uuid \<Rightarrow> subscription \<times> bool \<Rightarrow> (subscription \<times> bool) option" where
  "offer ev userID = (\<lambda>(s, slow).
     if \<not> sub_attached s \<or> sub_user s \<noteq> userID then Some (s, slow)
     else if sub_signalled s then None
     else if length (sub_queue s) < subscriptionBuffer then Some (s\<lparr>sub_queue := sub_queue s @ [ev]\<rparr>, slow)
     else Some (s, True))"

fun offer_each :: "live_event \<Rightarrow> uuid \<Rightarrow> (subscription \<times> bool) list \<Rightarrow> (subscription \<times> bool) list option" where
  "offer_each ev u [] = Some []"
| "offer_each ev u (x # xs) = (case offer ev u x of None \<Rightarrow> None
     | Some y \<Rightarrow> map_option (Cons y) (offer_each ev u xs))"

fun dispatch_loop :: "live_event \<Rightarrow> uuid list \<Rightarrow> (subscription \<times> bool) list \<Rightarrow> (subscription \<times> bool) list option" where
  "dispatch_loop ev [] xs = Some xs"
| "dispatch_loop ev (u # us) xs = (case offer_each ev u xs of None \<Rightarrow> None | Some ys \<Rightarrow> dispatch_loop ev us ys)"

definition Dispatch :: "live_event \<Rightarrow> hub \<Rightarrow> hub option" where
  "Dispatch ev h =
     (if hb_closed h then Some h
      else map_option (\<lambda>xs. h\<lparr>hb_subs := map (\<lambda>(s, slow). if slow then ended_sub s else s) xs\<rparr>)
        (dispatch_loop ev (ev_recipients ev) (map (\<lambda>s. (s, False)) (hb_subs h))))"

definition HubClose :: "hub \<Rightarrow> hub" where
  "HubClose h = h\<lparr>hb_closed := True,
     hb_subs := map (\<lambda>s. if sub_attached s then s\<lparr>sub_signalled := True\<rparr> else s) (hb_subs h)\<rparr>"

text \<open>\<open>Wait\<close> returns when no connection is attached.\<close>

definition drained :: "hub \<Rightarrow> bool" where
  "drained h \<longleftrightarrow> (\<forall>s\<in>set (hb_subs h). \<not> sub_attached s)"

section \<open>Runs\<close>

datatype hub_action = Subscribing uuid | Dispatching live_event | Reading nat | Leaving nat | ShuttingDown

fun hub_step :: "hub_action \<Rightarrow> hub \<Rightarrow> hub option" where
  "hub_step (Subscribing u) h = Some (HubSubscribe u h)"
| "hub_step (Dispatching ev) h = Dispatch ev h"
| "hub_step (Reading i) h = Some (on_sub i take_event h)"
| "hub_step (Leaving i) h = Some (SubscriptionClose i h)"
| "hub_step ShuttingDown h = Some (HubClose h)"

fun hub_run :: "hub_action list \<Rightarrow> hub \<Rightarrow> hub option" where
  "hub_run [] h = Some h"
| "hub_run (a # as) h = (case hub_step a h of None \<Rightarrow> None | Some h' \<Rightarrow> hub_run as h')"

text \<open>What was said to a person: every event, as often as it names them.\<close>

fun heard :: "uuid \<Rightarrow> hub_action list \<Rightarrow> live_event list" where
  "heard u [] = []"
| "heard u (Dispatching ev # as) = replicate (count_list (ev_recipients ev) u) ev @ heard u as"
| "heard u (_ # as) = heard u as"

text \<open>An attached channel is open while the hub runs; a channel never holds more than its buffer.\<close>

definition sub_ok :: "bool \<Rightarrow> subscription \<Rightarrow> bool" where
  "sub_ok closed s \<longleftrightarrow> (sub_attached s \<and> \<not> closed \<longrightarrow> \<not> sub_signalled s) \<and> (\<not> sub_attached s \<longrightarrow> sub_signalled s)
     \<and> length (sub_queue s) \<le> subscriptionBuffer"

definition hub_ok :: "hub \<Rightarrow> bool" where
  "hub_ok h \<longleftrightarrow> (\<forall>s\<in>set (hb_subs h). sub_ok (hb_closed h) s)"

lemma offer_each_map:
  "\<forall>x\<in>set xs. offer ev u x = Some (g x) \<Longrightarrow> offer_each ev u xs = Some (map g xs)"
  by (induction xs) auto

text \<open>Offering to one subscription, as the loop does for all.\<close>

fun offers :: "live_event \<Rightarrow> uuid list \<Rightarrow> subscription \<times> bool \<Rightarrow> subscription \<times> bool" where
  "offers ev [] x = x"
| "offers ev (u # us) x = offers ev us (the (offer ev u x))"

definition running :: "subscription \<times> bool \<Rightarrow> bool" where
  "running x \<longleftrightarrow> sub_ok False (fst x)"

lemma offer_running:
  assumes "running x"
  shows "\<exists>y. offer ev u x = Some y \<and> running y"
  using assms by (cases x) (auto simp: running_def offer_def sub_ok_def)

lemma dispatch_loop_offers:
  "\<forall>x\<in>set xs. running x \<Longrightarrow> dispatch_loop ev us xs = Some (map (offers ev us) xs)"
proof (induction us arbitrary: xs)
  case (Cons u us)
  have "offer_each ev u xs = Some (map (\<lambda>x. the (offer ev u x)) xs)"
    by (rule offer_each_map) (use Cons.prems in \<open>metis offer_running option.sel\<close>)
  moreover have "\<forall>x\<in>set xs. running (the (offer ev u x))"
    using Cons.prems by (metis offer_running option.sel)
  ultimately show ?case using Cons.IH by (simp add: comp_def)
qed (simp add: map_idI)

lemma offers_user: "sub_user (fst (offers ev us x)) = sub_user (fst x)" if "running x"
  using that
proof (induction us arbitrary: x)
  case (Cons u us)
  obtain y where y: "offer ev u x = Some y" "running y" using offer_running [OF Cons.prems] by blast
  then show ?case using Cons.IH [OF y(2)] by (auto simp: offer_def split: prod.splits if_splits)
qed simp

text \<open>
  Offered an event as often as it names the person: either every copy fits, or some did, in order,
  and the subscription is marked slow. One that is marked stays marked.
\<close>

lemma offers_effect:
  assumes "running (s, slow)"
  shows "\<exists>k. offers ev us (s, slow) = (s\<lparr>sub_queue := sub_queue s @ replicate k ev\<rparr>, slow \<or> \<not> (\<not> sub_attached s \<or> k = count_list us (sub_user s)))
    \<and> (sub_attached s \<longrightarrow> k \<le> count_list us (sub_user s)) \<and> (\<not> sub_attached s \<longrightarrow> k = 0)
    \<and> length (sub_queue s) + k \<le> subscriptionBuffer"
  using assms
proof (induction us arbitrary: s slow)
  case Nil
  then show ?case by (auto simp: running_def sub_ok_def intro!: exI [of _ 0])
next
  case (Cons u us)
  show ?case
  proof (cases "\<not> sub_attached s \<or> sub_user s \<noteq> u")
    case True
    then have "offer ev u (s, slow) = Some (s, slow)" by (simp add: offer_def)
    then show ?thesis using Cons.IH [OF Cons.prems] True by auto
  next
    case False
    then have open_sub: "\<not> sub_signalled s" "length (sub_queue s) \<le> subscriptionBuffer" "sub_attached s" "sub_user s = u"
      using Cons.prems by (auto simp: running_def sub_ok_def)
    show ?thesis
    proof (cases "length (sub_queue s) < subscriptionBuffer")
      case fits: True
      let ?s = "s\<lparr>sub_queue := sub_queue s @ [ev]\<rparr>"
      have o: "offer ev u (s, slow) = Some (?s, slow)" using open_sub fits by (simp add: offer_def)
      have "running (?s, slow)" using open_sub fits by (simp add: running_def sub_ok_def)
      from Cons.IH [OF this] obtain k where k: "offers ev us (?s, slow) = (?s\<lparr>sub_queue := sub_queue ?s @ replicate k ev\<rparr>, slow \<or> k \<noteq> count_list us u)"
        "k \<le> count_list us u" "length (sub_queue ?s) + k \<le> subscriptionBuffer"
        using open_sub by auto
      then show ?thesis using o open_sub by (intro exI [of _ "Suc k"]) (simp add: replicate_append_same)
    next
      case full: False
      have o: "offer ev u (s, slow) = Some (s, True)" using open_sub full by (simp add: offer_def)
      have "running (s, True)" using open_sub by (simp add: running_def sub_ok_def)
      from Cons.IH [OF this] obtain k where k: "offers ev us (s, True) = (s\<lparr>sub_queue := sub_queue s @ replicate k ev\<rparr>, True)"
        "k \<le> count_list us u" "length (sub_queue s) + k \<le> subscriptionBuffer"
        using open_sub by auto
      then have "k = 0" using full by simp
      then show ?thesis using o open_sub k by (intro exI [of _ 0]) simp
    qed
  qed
qed

text \<open>A dispatch on a well-formed hub never sends on a closed channel.\<close>

definition after_dispatch :: "live_event \<Rightarrow> subscription \<Rightarrow> subscription" where
  "after_dispatch ev s = (case offers ev (ev_recipients ev) (s, False) of (s', slow) \<Rightarrow> if slow then ended_sub s' else s')"

lemma Dispatch_each:
  assumes "hub_ok h" "\<not> hb_closed h"
  shows "Dispatch ev h = Some (h\<lparr>hb_subs := map (after_dispatch ev) (hb_subs h)\<rparr>)"
proof -
  have "\<forall>x\<in>set (map (\<lambda>s. (s, False)) (hb_subs h)). running x"
    using assms by (auto simp: hub_ok_def running_def)
  from dispatch_loop_offers [OF this] show ?thesis
    using assms(2) by (simp add: Dispatch_def comp_def after_dispatch_def)
qed

lemma after_dispatch_effect:
  assumes "sub_ok False s"
  shows "\<exists>k. (after_dispatch ev s = s\<lparr>sub_queue := sub_queue s @ replicate k ev\<rparr> \<and> (sub_attached s \<longrightarrow> k = count_list (ev_recipients ev) (sub_user s))
        \<or> after_dispatch ev s = ended_sub (s\<lparr>sub_queue := sub_queue s @ replicate k ev\<rparr>) \<and> sub_attached s)
      \<and> (sub_attached s \<longrightarrow> k \<le> count_list (ev_recipients ev) (sub_user s)) \<and> (\<not> sub_attached s \<longrightarrow> k = 0)
      \<and> length (sub_queue s) + k \<le> subscriptionBuffer"
proof -
  have "running (s, False)" using assms by (simp add: running_def)
  from offers_effect [OF this, of ev "ev_recipients ev"] obtain k where
    o: "offers ev (ev_recipients ev) (s, False) = (s\<lparr>sub_queue := sub_queue s @ replicate k ev\<rparr>,
        \<not> (\<not> sub_attached s \<or> k = count_list (ev_recipients ev) (sub_user s)))"
    and k: "sub_attached s \<longrightarrow> k \<le> count_list (ev_recipients ev) (sub_user s)" "\<not> sub_attached s \<longrightarrow> k = 0"
      "length (sub_queue s) + k \<le> subscriptionBuffer"
    by auto
  show ?thesis by (rule exI [of _ k]) (use o k in \<open>simp add: after_dispatch_def\<close>)
qed

lemma sub_ok_after_dispatch: "sub_ok False s \<Longrightarrow> sub_ok False (after_dispatch ev s)"
  using after_dispatch_effect [of s ev] by (auto simp: sub_ok_def ended_sub_def)

lemma hub_step_ok:
  assumes "hub_ok h"
  shows "\<exists>h'. hub_step a h = Some h' \<and> hub_ok h'"
proof (cases a)
  case (Dispatching ev)
  show ?thesis
  proof (cases "hb_closed h")
    case True
    then show ?thesis using assms Dispatching by (simp add: Dispatch_def)
  next
    case False
    then show ?thesis using assms Dispatching
      by (auto simp: Dispatch_each hub_ok_def sub_ok_after_dispatch)
  qed
next
  case (Reading i)
  have "sub_ok c s \<Longrightarrow> sub_ok c (take_event s)" for c s
    by (auto simp: sub_ok_def take_event_def split: list.splits)
  then show ?thesis using assms Reading
    by (auto simp: on_sub_def hub_ok_def set_update_subset_insert dest!: set_update_subset_insert [THEN subsetD])
next
  case (Leaving i)
  have "sub_ok c s \<Longrightarrow> sub_ok c (ended_sub s)" for c s
    by (auto simp: sub_ok_def ended_sub_def)
  then show ?thesis using assms Leaving
    by (auto simp: SubscriptionClose_def on_sub_def hub_ok_def dest!: set_update_subset_insert [THEN subsetD])
qed (use assms in \<open>auto simp: HubSubscribe_def HubClose_def hub_ok_def sub_ok_def\<close>)

section \<open>What a connection hears\<close>

text \<open>
  The abstraction: what a subscription has been given. While it is open it has been given exactly
  what was said to its person; once ended, a beginning of it.
\<close>

definition given :: "subscription \<Rightarrow> live_event list" where
  "given s = sub_read s @ sub_queue s"

definition follows :: "bool \<Rightarrow> uuid \<Rightarrow> live_event list \<Rightarrow> subscription \<Rightarrow> bool" where
  "follows closed u said s \<longleftrightarrow> sub_user s = u \<and> prefix (given s) said
     \<and> (\<not> sub_signalled s \<longrightarrow> \<not> closed \<and> given s = said) \<and> (closed \<longrightarrow> sub_signalled s)"

lemma follows_dispatch:
  assumes "follows False u said s" "sub_ok False s"
  shows "follows False u (said @ replicate (count_list (ev_recipients ev) u) ev) (after_dispatch ev s)"
proof -
  obtain k where k: "after_dispatch ev s = s\<lparr>sub_queue := sub_queue s @ replicate k ev\<rparr> \<and> (sub_attached s \<longrightarrow> k = count_list (ev_recipients ev) (sub_user s))
        \<or> after_dispatch ev s = ended_sub (s\<lparr>sub_queue := sub_queue s @ replicate k ev\<rparr>) \<and> sub_attached s"
      "sub_attached s \<longrightarrow> k \<le> count_list (ev_recipients ev) (sub_user s)" "\<not> sub_attached s \<longrightarrow> k = 0"
    using after_dispatch_effect [OF assms(2), of ev] by blast
  have pre: "prefix (replicate k ev) (replicate n ev)" if "k \<le> n" for n
    using that by (metis le_add_diff_inverse prefixI replicate_add)
  show ?thesis
  proof (cases "sub_attached s")
    case True
    then have open_sub: "\<not> sub_signalled s" using assms(2) by (simp add: sub_ok_def)
    then have "given s = said" "sub_user s = u" using assms(1) by (simp_all add: follows_def)
    then show ?thesis using k True open_sub pre
      by (auto simp: follows_def given_def ended_sub_def)
  next
    case False
    then have "after_dispatch ev s = s" "sub_signalled s" using k assms(2) by (auto simp: sub_ok_def)
    then show ?thesis using assms(1) by (auto simp: follows_def intro: prefix_prefix)
  qed
qed

lemma hub_step_follows:
  assumes "hub_step a h = Some h'" "hub_ok h" "i < length (hb_subs h)" "follows (hb_closed h) u said (hb_subs h ! i)"
  shows "i < length (hb_subs h') \<and> follows (hb_closed h') u (said @ heard u [a]) (hb_subs h' ! i)"
proof (cases a)
  case (Dispatching ev)
  have ok: "sub_ok (hb_closed h) (hb_subs h ! i)" using assms(2,3) by (simp add: hub_ok_def)
  show ?thesis
  proof (cases "hb_closed h")
    case True
    then show ?thesis using assms Dispatching by (auto simp: Dispatch_def follows_def intro: prefix_prefix)
  next
    case False
    then show ?thesis using assms Dispatching ok follows_dispatch [of u said "hb_subs h ! i" ev]
      by (auto simp: Dispatch_each)
  qed
next
  case (Reading j)
  have "follows c u said s \<Longrightarrow> follows c u said (take_event s)" for c s
    by (auto simp: follows_def given_def take_event_def split: list.splits)
  then show ?thesis using assms Reading by (auto simp: on_sub_def nth_list_update)
next
  case (Leaving j)
  have "follows c u said s \<Longrightarrow> follows c u said (ended_sub s)" for c s
    by (auto simp: follows_def given_def ended_sub_def)
  then show ?thesis using assms Leaving by (auto simp: SubscriptionClose_def on_sub_def nth_list_update)
next
  case ShuttingDown
  have "sub_ok (hb_closed h) (hb_subs h ! i)" using assms(2,3) by (simp add: hub_ok_def)
  then show ?thesis using assms ShuttingDown
    by (cases "sub_attached (hb_subs h ! i)") (auto simp: HubClose_def follows_def given_def sub_ok_def)
qed (use assms in \<open>auto simp: HubSubscribe_def nth_append\<close>)

lemma heard_Cons: "heard u (a # as) = heard u [a] @ heard u as"
  by (cases a) simp_all

lemma hub_run_follows:
  assumes "hub_ok h" "i < length (hb_subs h)" "follows (hb_closed h) u said (hb_subs h ! i)"
  shows "\<exists>h'. hub_run as h = Some h' \<and> hub_ok h' \<and> i < length (hb_subs h')
    \<and> follows (hb_closed h') u (said @ heard u as) (hb_subs h' ! i)"
  using assms
proof (induction as arbitrary: h said)
  case (Cons a as)
  obtain h1 where h1: "hub_step a h = Some h1" "hub_ok h1" using hub_step_ok [OF Cons.prems(1)] by blast
  from hub_step_follows [OF h1(1) Cons.prems]
  have "i < length (hb_subs h1)" "follows (hb_closed h1) u (said @ heard u [a]) (hb_subs h1 ! i)" by simp_all
  from Cons.IH [OF h1(2) this] show ?case using h1(1) by (simp add: heard_Cons [of u a as])
qed simp

text \<open>
  C27. Somebody who connects to a running hub hears what is said to them. Whatever connections come,
  go and read in whatever order, the hub never panics; and as long as the new connection has not
  been ended it has been given, in order and without a gap, every event that was dispatched since
  and names its person, of which at most 64 still wait to be read. A connection that was ended was
  given a beginning of that.
\<close>

theorem a_connection_hears_what_is_said:
  assumes "hub_ok h" "\<not> hb_closed h"
  shows "\<exists>h' s. hub_run as (HubSubscribe u h) = Some h' \<and> hub_ok h' \<and> hb_subs h' ! length (hb_subs h) = s
    \<and> (if sub_signalled s then prefix (given s) (heard u as) else given s = heard u as)
    \<and> length (sub_queue s) \<le> 64"
proof -
  let ?h = "HubSubscribe u h" and ?i = "length (hb_subs h)"
  have "hub_ok ?h" using assms(1) by (auto simp: hub_ok_def HubSubscribe_def sub_ok_def)
  moreover have "?i < length (hb_subs ?h)" "follows (hb_closed ?h) u [] (hb_subs ?h ! ?i)"
    using assms(2) by (simp_all add: HubSubscribe_def follows_def given_def)
  ultimately obtain h' where h: "hub_run as ?h = Some h'" "hub_ok h'" "?i < length (hb_subs h')"
      "follows (hb_closed h') u (heard u as) (hb_subs h' ! ?i)"
    using hub_run_follows [of ?h ?i u "[]" as] by auto
  then have "length (sub_queue (hb_subs h' ! ?i)) \<le> 64"
    by (simp add: hub_ok_def sub_ok_def subscriptionBuffer_def)
  then show ?thesis using h by (auto simp: follows_def)
qed

definition sample_event :: live_event where
  "sample_event = \<lparr>ev_type = ''message.created'', ev_recipients = [1, 2], ev_payload = EmptyPayload\<rparr>"

theorem a_connection_hears_what_is_said_witness:
  "\<exists>h' s. hub_run [Dispatching sample_event, Reading 0, Subscribing 2, Dispatching sample_event] (HubSubscribe 1 NewHub) = Some h'
     \<and> hub_ok h' \<and> hb_subs h' ! 0 = s \<and> \<not> sub_signalled s \<and> given s = [sample_event, sample_event]"
proof -
  let ?as = "[Dispatching sample_event, Reading 0, Subscribing 2, Dispatching sample_event]"
  have "heard 1 ?as = [sample_event, sample_event]" by (simp add: sample_event_def)
  moreover have "\<not> sub_signalled (hb_subs (the (hub_run ?as (HubSubscribe 1 NewHub))) ! 0)"
    by (simp add: sample_event_def HubSubscribe_def NewHub_def Dispatch_def offer_def on_sub_def take_event_def
        subscriptionBuffer_def ended_sub_def)
  ultimately show ?thesis
    using a_connection_hears_what_is_said [of NewHub ?as 1] by (auto simp: NewHub_def hub_ok_def)
qed

section \<open>Presence\<close>

text \<open>
  \<open>presence.go\<close>: who is looking at the app. The notifier asks through the interface; without Redis
  nobody is believed to be connected. \<open>valid\<close> says which answers can be trusted.
\<close>

locale presence =
  fixes arrived left :: "int \<Rightarrow> uuid \<Rightarrow> 'p \<Rightarrow> 'p"
    and watching :: "int \<Rightarrow> uuid list \<Rightarrow> 'p \<Rightarrow> uuid \<Rightarrow> bool"
  assumes only_asked: "watching now us p u \<Longrightarrow> u \<in> set us"
    and left_is_gone: "\<not> watching now us (left now u p) u"
    and arrivals_lapse: "t + 90000 \<le> now \<Longrightarrow> \<not> watching t us p u \<Longrightarrow> \<not> watching now us (arrived t u p) u"
    and others_keep: "v \<noteq> u \<Longrightarrow> watching now us (arrived t u p) v = watching now us p v"
begin

text \<open>A process that dies without a word is forgotten within ninety seconds.\<close>

lemma forgotten: "t + 90000 \<le> now \<Longrightarrow> \<not> watching t us p u \<Longrightarrow> \<not> watching now us (arrived t u p) u"
  by (rule arrivals_lapse)

end

type_synonym presence_keys = "uuid \<Rightarrow> int option"

definition presenceTTL :: int where "presenceTTL = seconds 90"

definition Arrived :: "int \<Rightarrow> uuid \<Rightarrow> presence_keys \<Rightarrow> presence_keys" where
  "Arrived now u p = p(u \<mapsto> now + presenceTTL)"

definition Left :: "int \<Rightarrow> uuid \<Rightarrow> presence_keys \<Rightarrow> presence_keys" where
  "Left now u p = p(u := None)"

definition Watching :: "int \<Rightarrow> uuid list \<Rightarrow> presence_keys \<Rightarrow> uuid \<Rightarrow> bool" where
  "Watching now us p u \<longleftrightarrow> u \<in> set us \<and> (case p u of None \<Rightarrow> False | Some t \<Rightarrow> now < t)"

definition NoArrived :: "int \<Rightarrow> uuid \<Rightarrow> unit \<Rightarrow> unit" where "NoArrived now u p = ()"
definition NoLeft :: "int \<Rightarrow> uuid \<Rightarrow> unit \<Rightarrow> unit" where "NoLeft now u p = ()"
definition NoWatching :: "int \<Rightarrow> uuid list \<Rightarrow> unit \<Rightarrow> uuid \<Rightarrow> bool" where "NoWatching now us p u \<longleftrightarrow> False"

interpretation redis_presence: presence Arrived Left Watching
  by unfold_locales (auto simp: Arrived_def Left_def Watching_def presenceTTL_def)

interpretation no_presence: presence NoArrived NoLeft NoWatching
  by unfold_locales (auto simp: NoWatching_def)

end
