(* ===== verification/SqlUsers.thy ===== *)
theory SqlUsers
  imports SqlSchedules
begin

text \<open>
  The statements on accounts: \<open>store/gen/users.sql.go\<close>, \<open>store/gen/signin.sql.go\<close> (identities,
  sign-in codes, sessions and their push addresses) and \<open>store/gen/apikeys.sql.go\<close>.
\<close>

section \<open>Accounts\<close>

text \<open>Text that is no UTF-8 or has a zero byte is refused before any constraint is tested.\<close>

definition insert_text :: "bool \<Rightarrow> bool \<Rightarrow> bool \<Rightarrow> bool \<Rightarrow> 'r \<Rightarrow> db \<Rightarrow> (go_error + 'r) \<times> db \<Rightarrow> (go_error + 'r) \<times> db" where
  "insert_text texts checks unique references r d ok =
     (if \<not> texts then (Inl (PlainError OtherCause), d) else insert_row checks unique references r d ok)"

lemma insert_text_Inr [ok_iffs]:
  "insert_text t c u f r d ok = (Inr x, d') \<longleftrightarrow> t \<and> c \<and> u \<and> f \<and> ok = (Inr x, d')"
  by (auto simp: insert_text_def insert_row_def)

lemma insert_text_ok [simp]: "t \<Longrightarrow> c \<Longrightarrow> u \<Longrightarrow> f \<Longrightarrow> insert_text t c u f r d ok = ok"
  by (simp add: insert_text_def)

lemma insert_text_keeps:
  assumes "db_ok d" "u \<Longrightarrow> db_ok (snd ok)"
  shows "db_ok (snd (insert_text t c u f r d ok))"
  using assms by (simp add: insert_text_def insert_row_def)

definition user_checks :: "user_row \<Rightarrow> bool" where
  "user_checks r \<longleftrightarrow> 1 \<le> RuneCount (usr_display_name r) \<and> RuneCount (usr_display_name r) \<le> 80
     \<and> 2 \<le> length (usr_locale r) \<and> length (usr_locale r) \<le> 16"

definition CreateUser_sql :: "int \<Rightarrow> uuid \<Rightarrow> gotext \<Rightarrow> string \<Rightarrow> db \<Rightarrow> (go_error + user_row) \<times> db" where
  "CreateUser_sql now i name locale d =
     (let r = \<lparr>usr_id = i, usr_display_name = name, usr_locale = locale, usr_created_at = now, usr_updated_at = now,
               usr_deleted_at = None, usr_avatar_media_id = None, usr_timezone = []\<rparr> in
      insert_text (storable name) (user_checks r) (\<forall>u\<in>set (db_users d). usr_id u \<noteq> i) True
        r d (Inr r, d\<lparr>db_users := db_users d @ [r]\<rparr>))"

definition live_user :: "uuid \<Rightarrow> user_row \<Rightarrow> bool" where
  "live_user i u \<longleftrightarrow> usr_id u = i \<and> usr_deleted_at u = None"

definition GetUser_sql :: "db \<Rightarrow> uuid \<Rightarrow> go_error + user_row" where
  "GetUser_sql d i = one_row (find (live_user i) (db_users d))"

definition SoftDeleteUser :: "int \<Rightarrow> uuid \<Rightarrow> db \<Rightarrow> nat \<times> db" where
  "SoftDeleteUser now i d = (count_where (live_user i) (db_users d),
     d\<lparr>db_users := update_where (live_user i) (\<lambda>u. u\<lparr>usr_deleted_at := Some now, usr_updated_at := now,
         usr_display_name := str ''Deleted account'', usr_avatar_media_id := None\<rparr>) (db_users d)\<rparr>)"

record UpdateUserProfileParams =
  upp_DisplayName :: "gotext option"
  upp_Locale :: "string option"
  upp_Timezone :: "string option"
  upp_AvatarMediaID :: "uuid option"

definition updated_user :: "int \<Rightarrow> UpdateUserProfileParams \<Rightarrow> user_row \<Rightarrow> user_row" where
  "updated_user now p u = u\<lparr>usr_display_name := coalesce (upp_DisplayName p) (usr_display_name u),
     usr_locale := coalesce (upp_Locale p) (usr_locale u),
     usr_timezone := coalesce (upp_Timezone p) (usr_timezone u),
     usr_avatar_media_id := coalesce (map_option Some (upp_AvatarMediaID p)) (usr_avatar_media_id u),
     usr_updated_at := now\<rparr>"

definition UpdateUserProfile :: "int \<Rightarrow> uuid \<Rightarrow> UpdateUserProfileParams \<Rightarrow> db \<Rightarrow> (go_error + user_row) \<times> db" where
  "UpdateUserProfile now i p d = (case find (live_user i) (db_users d) of
       None \<Rightarrow> (Inl (PlainError NoRows), d)
     | Some r \<Rightarrow> let r' = updated_user now p r in
         insert_text (storable (usr_display_name r')) (user_checks r') True
           (usr_avatar_media_id r' = None \<or> (\<exists>m\<in>set (db_media d). Some (med_id m) = usr_avatar_media_id r'))
           r' d (Inr r', d\<lparr>db_users := update_where (live_user i) (updated_user now p) (db_users d)\<rparr>))"

section \<open>Ways of signing in\<close>

definition CreateIdentity :: "int \<Rightarrow> uuid \<Rightarrow> uuid \<Rightarrow> string \<Rightarrow> gotext \<Rightarrow> db \<Rightarrow> (go_error + identity_row) \<times> db" where
  "CreateIdentity now i uid kind v d =
     (let r = \<lparr>idn_id = i, idn_user_id = uid, idn_kind = kind, idn_value = v, idn_verified_at = Some now,
               idn_created_at = now\<rparr> in
      insert_text (storable v) (kind = ''email'' \<and> 3 \<le> RuneCount v \<and> RuneCount v \<le> 320)
        (\<forall>x\<in>set (db_identities d). idn_id x \<noteq> i \<and> \<not> (idn_kind x = kind \<and> idn_value x = v))
        (\<exists>u\<in>set (db_users d). usr_id u = uid)
        r d (Inr r, d\<lparr>db_identities := db_identities d @ [r]\<rparr>))"

definition GetIdentity :: "db \<Rightarrow> string \<Rightarrow> gotext \<Rightarrow> go_error + identity_row" where
  "GetIdentity d kind v = one_row (find (\<lambda>x. idn_kind x = kind \<and> idn_value x = v) (db_identities d))"

definition DeleteIdentities :: "uuid \<Rightarrow> db \<Rightarrow> db" where
  "DeleteIdentities uid d = d\<lparr>db_identities := filter (\<lambda>x. idn_user_id x \<noteq> uid) (db_identities d)\<rparr>"

definition CreateSignInCode :: "int \<Rightarrow> uuid \<Rightarrow> gotext \<Rightarrow> nat list \<Rightarrow> int \<Rightarrow> db \<Rightarrow> (go_error + code_row) \<times> db" where
  "CreateSignInCode now i email hash expires d =
     (let r = \<lparr>cod_id = i, cod_email = email, cod_code_hash = hash, cod_attempts = 0, cod_expires_at = expires,
               cod_used_at = None, cod_created_at = now\<rparr> in
      insert_text (storable email) (length hash = 32) (\<forall>x\<in>set (db_codes d). cod_id x \<noteq> i) True
        r d (Inr r, d\<lparr>db_codes := db_codes d @ [r]\<rparr>))"

text \<open>\<open>ORDER BY created_at DESC, id DESC LIMIT 1\<close>\<close>

definition GetLatestSignInCode :: "db \<Rightarrow> gotext \<Rightarrow> go_error + code_row" where
  "GetLatestSignInCode d email =
     (case newest_first cod_created_at (sort_key cod_id (filter (\<lambda>c. cod_email c = email) (db_codes d))) of
        [] \<Rightarrow> Inl (PlainError NoRows) | c # _ \<Rightarrow> Inr c)"

definition CountSignInAttempt :: "uuid \<Rightarrow> db \<Rightarrow> (go_error + nat) \<times> db" where
  "CountSignInAttempt i d =
     (one_row (map_option (\<lambda>c. cod_attempts c + 1) (find (\<lambda>c. cod_id c = i) (db_codes d))),
      d\<lparr>db_codes := update_where (\<lambda>c. cod_id c = i) (\<lambda>c. c\<lparr>cod_attempts := cod_attempts c + 1\<rparr>) (db_codes d)\<rparr>)"

definition MarkSignInCodeUsed :: "int \<Rightarrow> uuid \<Rightarrow> db \<Rightarrow> db" where
  "MarkSignInCodeUsed now i d =
     d\<lparr>db_codes := update_where (\<lambda>c. cod_id c = i) (\<lambda>c. c\<lparr>cod_used_at := Some now\<rparr>) (db_codes d)\<rparr>"

section \<open>Sessions\<close>

definition CreateSession :: "int \<Rightarrow> uuid \<Rightarrow> uuid \<Rightarrow> nat list \<Rightarrow> gotext \<Rightarrow> int \<Rightarrow> db \<Rightarrow> (go_error + session_row) \<times> db" where
  "CreateSession now i uid hash device expires d =
     (let r = \<lparr>ses_id = i, ses_user_id = uid, ses_token_hash = hash, ses_device_name = device, ses_expires_at = expires,
               ses_created_at = now, ses_revoked_at = None, ses_last_seen_at = None, ses_push_token = None,
               ses_push_platform = [], ses_push_registered_at = None\<rparr> in
      insert_text (storable device) (length hash = 32 \<and> RuneCount device \<le> 80)
        (\<forall>x\<in>set (db_sessions d). ses_id x \<noteq> i \<and> ses_token_hash x \<noteq> hash)
        (\<exists>u\<in>set (db_users d). usr_id u = uid)
        r d (Inr r, d\<lparr>db_sessions := db_sessions d @ [r]\<rparr>))"

definition live_session :: "int \<Rightarrow> session_row \<Rightarrow> bool" where
  "live_session now s \<longleftrightarrow> ses_revoked_at s = None \<and> now < ses_expires_at s"

definition AuthenticateSession :: "db \<Rightarrow> int \<Rightarrow> nat list \<Rightarrow> go_error + session_row" where
  "AuthenticateSession d now hash =
     one_row (find (\<lambda>s. ses_token_hash s = hash \<and> live_session now s
         \<and> (\<exists>u\<in>set (db_users d). live_user (ses_user_id s) u)) (db_sessions d))"

definition ListUserSessions :: "db \<Rightarrow> int \<Rightarrow> uuid \<Rightarrow> session_row list" where
  "ListUserSessions d now uid =
     newest_first ses_created_at (filter (\<lambda>s. ses_user_id s = uid \<and> live_session now s) (db_sessions d))"

text \<open>Every change of sessions is an \<open>UPDATE .. WHERE\<close>.\<close>

definition set_sessions :: "(session_row \<Rightarrow> bool) \<Rightarrow> (session_row \<Rightarrow> session_row) \<Rightarrow> db \<Rightarrow> nat \<times> db" where
  "set_sessions P f d = (count_where P (db_sessions d), d\<lparr>db_sessions := update_where P f (db_sessions d)\<rparr>)"

definition ended :: "int \<Rightarrow> session_row \<Rightarrow> session_row" where
  "ended now s = s\<lparr>ses_revoked_at := Some now\<rparr>"

definition RevokeSession :: "int \<Rightarrow> uuid \<Rightarrow> db \<Rightarrow> nat \<times> db" where
  "RevokeSession now i = set_sessions (\<lambda>s. ses_id s = i \<and> ses_revoked_at s = None) (ended now)"

definition RevokeUserSession :: "int \<Rightarrow> uuid \<Rightarrow> uuid \<Rightarrow> db \<Rightarrow> nat \<times> db" where
  "RevokeUserSession now i uid =
     set_sessions (\<lambda>s. ses_id s = i \<and> ses_user_id s = uid \<and> ses_revoked_at s = None) (ended now)"

definition RevokeUserSessions :: "int \<Rightarrow> uuid \<Rightarrow> db \<Rightarrow> nat \<times> db" where
  "RevokeUserSessions now uid = set_sessions (\<lambda>s. ses_user_id s = uid \<and> ses_revoked_at s = None) (ended now)"

definition RevokeOtherUserSessions :: "int \<Rightarrow> uuid \<Rightarrow> uuid \<Rightarrow> db \<Rightarrow> nat \<times> db" where
  "RevokeOtherUserSessions now uid kept =
     set_sessions (\<lambda>s. ses_user_id s = uid \<and> ses_id s \<noteq> kept \<and> ses_revoked_at s = None) (ended now)"

text \<open>When a session was last used, or made.\<close>

definition used_at :: "session_row \<Rightarrow> int" where
  "used_at s = coalesce (ses_last_seen_at s) (ses_created_at s)"

definition oldest_sessions :: "db \<Rightarrow> int \<Rightarrow> uuid \<Rightarrow> nat \<Rightarrow> session_row list" where
  "oldest_sessions d now uid kept =
     drop kept (newest_first used_at (sort_key ses_id
       (filter (\<lambda>s. ses_user_id s = uid \<and> live_session now s) (db_sessions d))))"

definition RevokeOldestUserSessions :: "int \<Rightarrow> uuid \<Rightarrow> nat \<Rightarrow> db \<Rightarrow> nat \<times> db" where
  "RevokeOldestUserSessions now uid kept d =
     set_sessions (\<lambda>s. ses_id s \<in> ses_id ` set (oldest_sessions d now uid kept)) (ended now) d"

definition TouchSession :: "int \<Rightarrow> uuid \<Rightarrow> db \<Rightarrow> db" where
  "TouchSession now i d = snd (set_sessions (\<lambda>s. ses_id s = i) (\<lambda>s. s\<lparr>ses_last_seen_at := Some now\<rparr>) d)"

section \<open>Where a device is reached\<close>

definition no_push :: "session_row \<Rightarrow> session_row" where
  "no_push s = s\<lparr>ses_push_token := None, ses_push_platform := [], ses_push_registered_at := None\<rparr>"

definition ClearSessionPush :: "gotext \<Rightarrow> db \<Rightarrow> db" where
  "ClearSessionPush tok d = snd (set_sessions (\<lambda>s. ses_push_token s = Some tok) no_push d)"

definition SetSessionPushToken :: "gotext \<Rightarrow> uuid \<Rightarrow> db \<Rightarrow> db" where
  "SetSessionPushToken tok i d = snd (set_sessions (\<lambda>s. ses_push_token s = Some tok \<and> ses_id s \<noteq> i) no_push d)"

definition RegisterSessionPush :: "int \<Rightarrow> gotext \<Rightarrow> string \<Rightarrow> uuid \<Rightarrow> db \<Rightarrow> (go_error + nat) \<times> db" where
  "RegisterSessionPush now tok platform i d =
     (let P = (\<lambda>s. ses_id s = i \<and> ses_revoked_at s = None); n = count_where P (db_sessions d) in
      if n = 0 then (Inr 0, d)
      else if \<not> storable tok then (Inl (PlainError OtherCause), d)
      else if \<not> (1 \<le> RuneCount tok \<and> RuneCount tok \<le> 256 \<and> platform \<in> {'''', ''android'', ''ios''})
        then (Inl (PlainError CheckViolation), d)
      else if \<exists>s\<in>set (db_sessions d). ses_push_token s = Some tok \<and> ses_id s \<noteq> i
        then (Inl (PlainError UniqueViolation), d)
      else (Inr n, snd (set_sessions P (\<lambda>s. s\<lparr>ses_push_token := Some tok, ses_push_platform := platform,
             ses_push_registered_at := Some now\<rparr>) d)))"

text \<open>Which devices hear of a message of an agent: the person's settings decide.\<close>

definition hears :: "int \<Rightarrow> contact_row \<Rightarrow> bool" where
  "hears now c \<longleftrightarrow> ctc_blocked_at c = None \<and> ctc_removed_at c = None
     \<and> (case ctc_muted_until c of None \<Rightarrow> True | Some t \<Rightarrow> t \<le> now)"

definition PushTargets :: "db \<Rightarrow> int \<Rightarrow> uuid option \<Rightarrow> uuid list \<Rightarrow> session_row list" where
  "PushTargets d now aid uids =
     filter (\<lambda>s. ses_user_id s \<in> set uids \<and> ses_push_token s \<noteq> None \<and> live_session now s
       \<and> (\<exists>u\<in>set (db_users d). live_user (ses_user_id s) u)
       \<and> (case find (\<lambda>c. ctc_user_id c = ses_user_id s \<and> Some (ctc_agent_id c) = aid) (db_contacts d) of
            None \<Rightarrow> True | Some c \<Rightarrow> hears now c)) (db_sessions d)"

section \<open>API keys\<close>

definition CreateAPIKey_sql :: "int \<Rightarrow> uuid \<Rightarrow> uuid \<Rightarrow> gotext \<Rightarrow> nat list \<Rightarrow> db \<Rightarrow> (go_error + api_key_row) \<times> db" where
  "CreateAPIKey_sql now i uid name hash d =
     (let r = \<lparr>key_id = i, key_user_id = uid, key_name = name, key_hash = hash, key_last_used_at = None,
               key_created_at = now, key_revoked_at = None\<rparr> in
      insert_text (storable name) (length hash = 32 \<and> 1 \<le> RuneCount name \<and> RuneCount name \<le> 80)
        (\<forall>x\<in>set (db_api_keys d). key_id x \<noteq> i \<and> key_hash x \<noteq> hash)
        (\<exists>u\<in>set (db_users d). usr_id u = uid)
        r d (Inr r, d\<lparr>db_api_keys := db_api_keys d @ [r]\<rparr>))"

definition ListAPIKeysByUser :: "db \<Rightarrow> uuid \<Rightarrow> api_key_row list" where
  "ListAPIKeysByUser d uid =
     newest_first key_created_at (sort_key key_id (filter (\<lambda>k. key_user_id k = uid) (db_api_keys d)))"

definition AuthenticateAPIKey :: "db \<Rightarrow> nat list \<Rightarrow> go_error + api_key_row" where
  "AuthenticateAPIKey d hash =
     one_row (find (\<lambda>k. key_hash k = hash \<and> key_revoked_at k = None
         \<and> (\<exists>u\<in>set (db_users d). live_user (key_user_id k) u)) (db_api_keys d))"

definition TouchAPIKey :: "int \<Rightarrow> uuid \<Rightarrow> db \<Rightarrow> db" where
  "TouchAPIKey now i d = d\<lparr>db_api_keys := update_where
     (\<lambda>k. key_id k = i \<and> (case key_last_used_at k of None \<Rightarrow> True | Some t \<Rightarrow> t < now - seconds 60))
     (\<lambda>k. k\<lparr>key_last_used_at := Some now\<rparr>) (db_api_keys d)\<rparr>"

definition RevokeAPIKey_sql :: "int \<Rightarrow> uuid \<Rightarrow> uuid \<Rightarrow> db \<Rightarrow> nat \<times> db" where
  "RevokeAPIKey_sql now i uid d =
     (let P = (\<lambda>k. key_id k = i \<and> key_user_id k = uid \<and> key_revoked_at k = None) in
      (count_where P (db_api_keys d),
       d\<lparr>db_api_keys := update_where P (\<lambda>k. k\<lparr>key_revoked_at := Some now\<rparr>) (db_api_keys d)\<rparr>))"

section \<open>What the statements keep\<close>

named_theorems account_keeps

lemma db_ok_CreateUser [account_keeps]: "db_ok d \<Longrightarrow> db_ok (snd (CreateUser_sql now i n l d))"
  unfolding CreateUser_sql_def Let_def
  by (rule insert_text_keeps) (auto simp: db_ok_def)

lemma db_ok_SoftDeleteUser [account_keeps]: "db_ok d \<Longrightarrow> db_ok (snd (SoftDeleteUser now i d))"
  by (simp add: SoftDeleteUser_def db_ok_def update_where_map)

lemma db_ok_UpdateUserProfile [account_keeps]: "db_ok d \<Longrightarrow> db_ok (snd (UpdateUserProfile now i p d))"
proof (cases "find (live_user i) (db_users d)")
  case (Some r)
  assume ok: "db_ok d"
  then have "db_ok (d\<lparr>db_users := update_where (live_user i) (updated_user now p) (db_users d)\<rparr>)"
    by (simp add: db_ok_def update_where_map updated_user_def)
  then show ?thesis using ok Some by (simp add: UpdateUserProfile_def Let_def insert_text_keeps)
qed (simp add: UpdateUserProfile_def)

lemma db_ok_CreateIdentity [account_keeps]: "db_ok d \<Longrightarrow> db_ok (snd (CreateIdentity now i u k v d))"
  unfolding CreateIdentity_def Let_def
  by (rule insert_text_keeps) (auto simp: db_ok_def identities_ok_def)

lemma db_ok_DeleteIdentities [account_keeps]: "db_ok d \<Longrightarrow> db_ok (DeleteIdentities u d)"
  by (auto simp: DeleteIdentities_def db_ok_def identities_ok_def distinct_map inj_on_def)

lemma db_ok_CreateSignInCode [account_keeps]: "db_ok d \<Longrightarrow> db_ok (snd (CreateSignInCode now i em h ex d))"
  unfolding CreateSignInCode_def Let_def
  by (rule insert_text_keeps) (auto simp: db_ok_def)

lemma db_ok_codes [account_keeps]:
  assumes "db_ok d"
  shows "db_ok (snd (CountSignInAttempt i d))" "db_ok (MarkSignInCodeUsed now i d)"
  using assms by (simp_all add: db_ok_def CountSignInAttempt_def MarkSignInCodeUsed_def update_where_map)

lemma db_ok_CreateSession [account_keeps]: "db_ok d \<Longrightarrow> db_ok (snd (CreateSession now i u h dv ex d))"
  unfolding CreateSession_def Let_def
  by (rule insert_text_keeps) (auto simp: db_ok_def sessions_ok_def)

lemma distinct_some_iff:
  assumes "distinct (map k xs)"
  shows "distinct (map f (filter (\<lambda>x. f x \<noteq> None) xs))
    \<longleftrightarrow> (\<forall>x\<in>set xs. \<forall>y\<in>set xs. f x \<noteq> None \<longrightarrow> f x = f y \<longrightarrow> k x = k y)"
proof -
  have eq: "k x = k y \<longleftrightarrow> x = y" if "x \<in> set xs" "y \<in> set xs" for x y
    using assms that by (auto simp: distinct_map inj_on_def)
  have "distinct xs" using assms by (simp add: distinct_map)
  then have "distinct (map f (filter (\<lambda>x. f x \<noteq> None) xs)) \<longleftrightarrow> inj_on f {x \<in> set xs. f x \<noteq> None}"
    by (simp add: distinct_map)
  also have "\<dots> \<longleftrightarrow> (\<forall>x\<in>set xs. \<forall>y\<in>set xs. f x \<noteq> None \<longrightarrow> f x = f y \<longrightarrow> x = y)"
    unfolding inj_on_def by (metis (mono_tags, lifting) mem_Collect_eq)
  finally show ?thesis using eq by simp
qed

text \<open>An update that leaves identities and addresses alone, or takes addresses away.\<close>

lemma sessions_ok_update:
  assumes "\<And>s. ses_id (f s) = ses_id s" "\<And>s. ses_token_hash (f s) = ses_token_hash s"
    "\<And>s. ses_push_token (f s) = ses_push_token s \<or> ses_push_token (f s) = None"
    and ok: "sessions_ok ss"
  shows "sessions_ok (update_where P f ss)"
proof -
  let ?g = "\<lambda>s. if P s then f s else s"
  have old: "distinct (map ses_id ss)" "distinct (map ses_id (update_where P f ss))"
    using ok assms(1) by (simp_all add: sessions_ok_def update_where_map)
  have u: "\<forall>s\<in>set ss. \<forall>t\<in>set ss. ses_push_token s \<noteq> None \<longrightarrow> ses_push_token s = ses_push_token t \<longrightarrow> ses_id s = ses_id t"
    using ok unfolding sessions_ok_def distinct_some_iff [OF old(1)] by (elim conjE)
  have g: "ses_push_token (?g s) = ses_push_token s \<or> ses_push_token (?g s) = None" "ses_id (?g s) = ses_id s" for s
    using assms(1,3) by simp_all
  have "\<forall>s\<in>set ss. \<forall>t\<in>set ss. ses_push_token (?g s) \<noteq> None \<longrightarrow> ses_push_token (?g s) = ses_push_token (?g t)
      \<longrightarrow> ses_id (?g s) = ses_id (?g t)"
  proof (intro ballI impI)
    fix s t assume "s \<in> set ss" "t \<in> set ss" "ses_push_token (?g s) \<noteq> None" "ses_push_token (?g s) = ses_push_token (?g t)"
    then show "ses_id (?g s) = ses_id (?g t)" using u g by metis
  qed
  then have "distinct (map ses_push_token (filter (\<lambda>s. ses_push_token s \<noteq> None) (update_where P f ss)))"
    unfolding distinct_some_iff [OF old(2)] unfolding update_where_def set_map ball_simps(9) .
  then show ?thesis using ok old(2) assms(2) by (simp add: sessions_ok_def update_where_map)
qed

lemma db_ok_set_sessions:
  assumes "\<And>s. ses_id (f s) = ses_id s" "\<And>s. ses_token_hash (f s) = ses_token_hash s"
    "\<And>s. ses_push_token (f s) = ses_push_token s \<or> ses_push_token (f s) = None"
  shows "db_ok d \<Longrightarrow> db_ok (snd (set_sessions P f d))"
  using sessions_ok_update [of f "db_sessions d" P, OF assms] by (simp add: set_sessions_def db_ok_def)

lemmas session_updates = RevokeSession_def RevokeUserSession_def RevokeUserSessions_def RevokeOtherUserSessions_def
  RevokeOldestUserSessions_def TouchSession_def ClearSessionPush_def SetSessionPushToken_def ended_def no_push_def

lemma db_ok_session_updates [account_keeps]:
  assumes "db_ok d"
  shows "db_ok (snd (RevokeSession now i d))" "db_ok (snd (RevokeUserSession now i u d))"
    "db_ok (snd (RevokeUserSessions now u d))" "db_ok (snd (RevokeOtherUserSessions now u i d))"
    "db_ok (snd (RevokeOldestUserSessions now u k d))" "db_ok (TouchSession now i d)"
    "db_ok (ClearSessionPush tok d)" "db_ok (SetSessionPushToken tok i d)"
  using assms by (simp_all add: session_updates db_ok_set_sessions)

lemma sessions_ok_register:
  assumes ok: "sessions_ok ss" and none: "\<not> (\<exists>s\<in>set ss. ses_push_token s = Some tok \<and> ses_id s \<noteq> i)"
  shows "sessions_ok (update_where (\<lambda>s. ses_id s = i \<and> ses_revoked_at s = None) 
     (\<lambda>s. s\<lparr>ses_push_token := Some tok, ses_push_platform := pf, ses_push_registered_at := r\<rparr>) ss)" (is "sessions_ok (update_where ?P ?f ss)")
proof -
  let ?g = "\<lambda>s. if ?P s then ?f s else s"
  have old: "distinct (map ses_id ss)" "distinct (map ses_id (update_where ?P ?f ss))"
    using ok by (simp_all add: sessions_ok_def update_where_map)
  have u: "\<forall>s\<in>set ss. \<forall>t\<in>set ss. ses_push_token s \<noteq> None \<longrightarrow> ses_push_token s = ses_push_token t \<longrightarrow> ses_id s = ses_id t"
    using ok unfolding sessions_ok_def distinct_some_iff [OF old(1)] by (elim conjE)
  have "\<forall>s\<in>set ss. \<forall>t\<in>set ss. ses_push_token (?g s) \<noteq> None \<longrightarrow> ses_push_token (?g s) = ses_push_token (?g t)
      \<longrightarrow> ses_id (?g s) = ses_id (?g t)"
  proof (intro ballI impI)
    fix s t assume s: "s \<in> set ss" "t \<in> set ss" and p: "ses_push_token (?g s) \<noteq> None" "ses_push_token (?g s) = ses_push_token (?g t)"
    have n: "ses_push_token s = Some tok \<Longrightarrow> ses_id s = i" "ses_push_token t = Some tok \<Longrightarrow> ses_id t = i"
      using none s by blast+
    have st: "ses_push_token s \<noteq> None \<Longrightarrow> ses_push_token s = ses_push_token t \<Longrightarrow> ses_id s = ses_id t"
      using u s by blast
    have g: "ses_id (?g x) = ses_id x" "ses_push_token (?g x) = (if ?P x then Some tok else ses_push_token x)" for x
      by simp_all
    show "ses_id (?g s) = ses_id (?g t)"
      using p n st unfolding g by (metis option.distinct(1))
  qed
  then have "distinct (map ses_push_token (filter (\<lambda>s. ses_push_token s \<noteq> None) (update_where ?P ?f ss)))"
    unfolding distinct_some_iff [OF old(2)] unfolding update_where_def set_map ball_simps(9) .
  then show ?thesis using ok old(2) by (simp add: sessions_ok_def update_where_map)
qed
lemma db_ok_RegisterSessionPush [account_keeps]: "db_ok d \<Longrightarrow> db_ok (snd (RegisterSessionPush now tok pf i d))"
  using sessions_ok_register [of "db_sessions d" tok i "Some now" pf]
  by (simp add: RegisterSessionPush_def Let_def set_sessions_def db_ok_def)

lemma db_ok_CreateAPIKey [account_keeps]: "db_ok d \<Longrightarrow> db_ok (snd (CreateAPIKey_sql now i u n h d))"
  unfolding CreateAPIKey_sql_def Let_def
  by (rule insert_text_keeps) (auto simp: db_ok_def api_keys_ok_def)

lemma db_ok_api_keys [account_keeps]:
  assumes "db_ok d"
  shows "db_ok (TouchAPIKey now i d)" "db_ok (snd (RevokeAPIKey_sql now i u d))"
  using assms by (simp_all add: db_ok_def TouchAPIKey_def RevokeAPIKey_sql_def Let_def api_keys_ok_def update_where_map)

end
