(* ===== verification/Users.thy ===== *)
theory Users
  imports Schedules SqlUsers
begin

text \<open>
  Accounts (\<open>users/service.go\<close>, \<open>users/validate.go\<close>) and the two handlers over them that reach
  other services (\<open>api/client/users.go\<close>: \<open>updateMe\<close> moves a person's schedules with their clock,
  \<open>deleteMe\<close> retires their agents before it closes the account).
\<close>

section \<open>Checking a profile\<close>

definition validateUserDisplayName :: "gotext \<Rightarrow> go_error + gotext" where
  "validateUserDisplayName raw =
     (let name = TrimSpace raw; bad = InvalidField ''display_name'' ''invalid_display_name'' in
      if \<not> ValidString name then Inl bad
      else if RuneCount name < 1 \<or> 80 < RuneCount name then Inl bad
      else if contains_any [10, 13, 9] name then Inl bad
      else Inr name)"

fun in_range :: "nat \<Rightarrow> nat \<Rightarrow> rune \<Rightarrow> bool" where
  "in_range a b (Rune c) \<longleftrightarrow> a \<le> c \<and> c \<le> b"
| "in_range a b (Stray x) \<longleftrightarrow> False"

text \<open>\<open>^[a-z]{2,3}(-[A-Z]{2})?$\<close>\<close>

definition localePattern :: "gotext \<Rightarrow> bool" where
  "localePattern s \<longleftrightarrow>
     (let lang = takeWhile (in_range 97 122) s; region = dropWhile (in_range 97 122) s in
      (length lang = 2 \<or> length lang = 3)
      \<and> (region = [] \<or> length region = 3 \<and> hd region = Rune 45 \<and> list_all (in_range 65 90) (tl region)))"

definition DefaultLocale :: string where "DefaultLocale = ''en-IN''"

definition validateLocale :: "gotext \<Rightarrow> go_error + string" where
  "validateLocale raw =
     (let locale = TrimSpace raw in
      if \<not> localePattern locale then Inl (InvalidField ''locale'' ''invalid_locale'')
      else Inr (map rune_char locale))"

text \<open>Zone names are ASCII; \<open>env_zone\<close> is \<open>time.LoadLocation\<close>.\<close>

definition validateTimezone :: "env \<Rightarrow> gotext \<Rightarrow> go_error + string" where
  "validateTimezone e raw =
     (let zone = TrimSpace raw; bad = InvalidField ''timezone'' ''invalid_timezone'' in
      if zone = [] \<or> 64 < byte_len zone then Inl bad
      else if \<not> list_all (in_range 0 127) zone \<or> env_zone e (map rune_char zone) = None then Inl bad
      else Inr (map rune_char zone))"

section \<open>The service\<close>

record user =
  us_ID :: uuid
  us_DisplayName :: gotext
  us_Locale :: string
  us_Timezone :: string
  us_AvatarMediaID :: "uuid option"
  us_CreatedAt :: int
  us_UpdatedAt :: int

definition userFromRow :: "user_row \<Rightarrow> user" where
  "userFromRow r = \<lparr>us_ID = usr_id r, us_DisplayName = usr_display_name r, us_Locale = usr_locale r,
     us_Timezone = usr_timezone r, us_AvatarMediaID = usr_avatar_media_id r, us_CreatedAt = usr_created_at r,
     us_UpdatedAt = usr_updated_at r\<rparr>"

definition errUserNotFound :: go_error where "errUserNotFound = NotFound ''user_not_found''"

definition CreateUser :: "env \<Rightarrow> gotext \<Rightarrow> gotext \<Rightarrow> user handler" where
  "CreateUser e name locale w =
     needs (validateUserDisplayName name) w (\<lambda>displayName.
     needs (validateLocale (if locale = [] then str DefaultLocale else locale)) w (\<lambda>loc.
     let (i, w0) = NewID e w in
     outcome Internal userFromRow (on_db (CreateUser_sql (w_now w) i displayName loc) w0)))"

definition GetUser :: "db \<Rightarrow> uuid \<Rightarrow> go_error + user" where
  "GetUser d i = (case GetUser_sql d i of
       Inl err \<Rightarrow> Inl (if IsNoRows err then errUserNotFound else Internal err)
     | Inr row \<Rightarrow> Inr (userFromRow row))"

record UpdateProfileInput =
  pi_AvatarMediaID :: "uuid option"
  pi_DisplayName :: "gotext option"
  pi_Locale :: "gotext option"
  pi_Timezone :: "gotext option"

definition UpdateProfile :: "env \<Rightarrow> uuid \<Rightarrow> UpdateProfileInput \<Rightarrow> user handler" where
  "UpdateProfile e i inp w =
     needs (checkPicture (w_db w) i (pi_AvatarMediaID inp)) w (\<lambda>_.
     needs (optional validateUserDisplayName (pi_DisplayName inp)) w (\<lambda>name.
     needs (optional validateLocale (pi_Locale inp)) w (\<lambda>locale.
     needs (optional (validateTimezone e) (pi_Timezone inp)) w (\<lambda>zone.
     let params = \<lparr>upp_DisplayName = name, upp_Locale = locale, upp_Timezone = zone,
           upp_AvatarMediaID = pi_AvatarMediaID inp\<rparr> in
     if params = \<lparr>upp_DisplayName = None, upp_Locale = None, upp_Timezone = None, upp_AvatarMediaID = None\<rparr>
     then (Inl (Invalid ''no_changes''), w)
     else outcome (\<lambda>err. if IsNoRows err then errUserNotFound else Internal err) userFromRow
         (on_db (UpdateUserProfile (w_now w) i params) w)))))"

definition deleteUserTx :: "uuid \<Rightarrow> unit handler" where
  "deleteUserTx i w =
     (let (_, w1) = on_db (RevokeUserSessions (w_now w) i) w;
          w2 = exec (DeleteIdentities i) w1;
          (_, w3) = on_db (RemoveAllContacts (w_now w) i) w2;
          (n, w4) = on_db (SoftDeleteUser (w_now w) i) w3 in
      if n = 0 then (Inl errUserNotFound, w4) else (Inr (), w4))"

definition DeleteUser :: "uuid \<Rightarrow> unit handler" where
  "DeleteUser i = WithTx (deleteUserTx i)"

section \<open>The handlers\<close>

text \<open>The schedules follow the clock once the profile is saved; that they could not never fails it.\<close>

definition updateMe :: "env \<Rightarrow> uuid \<Rightarrow> UpdateProfileInput \<Rightarrow> user handler" where
  "updateMe e i inp w =
     (let before = (if pi_Timezone inp = None then []
        else case GetUser (w_db w) i of Inr u \<Rightarrow> us_Timezone u | Inl _ \<Rightarrow> []) in
      runs (UpdateProfile e i inp w) (\<lambda>u w1.
        (Inr u, if before \<noteq> [] \<and> before \<noteq> us_Timezone u
                then snd (MoveSchedules e i before (us_Timezone u) w1) else w1)))"

definition deleteMe :: "uuid \<Rightarrow> unit handler" where
  "deleteMe i w = runs (DeleteAllOwned i w) (\<lambda>_ w1. DeleteUser i w1)"

section \<open>What is kept\<close>

lemma well_CreateUser [keeps]: "well w \<Longrightarrow> well (snd (CreateUser e n l w))"
  unfolding CreateUser_def Let_def split_def
  by (intro well_needs well_outcome) (simp_all add: db_ok_CreateUser)

lemma well_UpdateProfile [keeps]: "well w \<Longrightarrow> well (snd (UpdateProfile e i inp w))"
  unfolding UpdateProfile_def Let_def
  by (intro well_needs) (auto intro!: well_outcome simp: db_ok_UpdateUserProfile)

lemma well_DeleteUser [keeps]: "well w \<Longrightarrow> well (snd (DeleteUser i w))"
  unfolding DeleteUser_def
  by (rule well_WithTx) (simp_all add: deleteUserTx_def Let_def split_def db_ok_SoftDeleteUser db_ok_contact_updates
      db_ok_DeleteIdentities db_ok_session_updates)

lemma well_me [keeps]:
  assumes "well w"
  shows "well (snd (updateMe e i inp w))" "well (snd (deleteMe i w))"
  using assms unfolding updateMe_def deleteMe_def Let_def
  by (auto intro!: keeps simp: well_runs)

end
