(* ===== verification/Pairing.thy ===== *)
theory Pairing
  imports Users
begin

text \<open>
  How a person comes by an agent (\<open>pairing/service.go\<close>, \<open>pairing/welcome.go\<close>) and what they decide
  about it (\<open>pairing/settings.go\<close>, \<open>pairing/reports.go\<close>): tokens behind links, contacts, blocking,
  muting, pinning, removing and reporting.
\<close>

section \<open>The contact list\<close>

record ListContactsRow =
  lc_Contact :: contact_row
  lc_Handle :: string
  lc_DisplayName :: gotext
  lc_Description :: gotext
  lc_HasAvatar :: bool
  lc_Starters :: "gotext list json"
  lc_AgentDeletedAt :: "int option"
  lc_OwnerDisplayName :: gotext
  lc_BindingStatus :: "binding_status option"

text \<open>Two joins on primary keys and a left join on a unique index, \<open>ORDER BY c.created_at DESC, c.agent_id\<close>.\<close>

definition ListContacts :: "db \<Rightarrow> uuid \<Rightarrow> ListContactsRow list" where
  "ListContacts d uid =
     concat (map (\<lambda>c. concat (map (\<lambda>a. map (\<lambda>u. \<lparr>lc_Contact = c, lc_Handle = agt_handle a,
           lc_DisplayName = agt_display_name a, lc_Description = agt_description a,
           lc_HasAvatar = (agt_avatar_media_id a \<noteq> None), lc_Starters = agt_starters a,
           lc_AgentDeletedAt = agt_deleted_at a, lc_OwnerDisplayName = usr_display_name u,
           lc_BindingStatus = map_option bnd_status (find (live_binding (agt_id a)) (db_bindings d))\<rparr>)
         (filter (\<lambda>u. usr_id u = agt_owner_user_id a) (db_users d)))
       (filter (\<lambda>a. agt_id a = ctc_agent_id c) (db_agents d))))
     (sort_key (\<lambda>c. - ctc_created_at c) (sort_key ctc_agent_id
       (filter (\<lambda>c. ctc_user_id c = uid \<and> ctc_removed_at c = None) (db_contacts d)))))"

record contact =
  co_AgentID :: uuid
  co_Handle :: string
  co_DisplayName :: gotext
  co_Description :: gotext
  co_HasAvatar :: bool
  co_Starters :: "gotext list"
  co_OwnerName :: gotext
  co_Status :: "binding_status option"
  co_AddedVia :: string
  co_Blocked :: bool
  co_ConversationID :: uuid
  co_CreatedAt :: int
  co_AgentDeleted :: bool
  co_MutedUntil :: "int option"
  co_Pinned :: bool
  co_Archived :: bool

definition startersOf :: "gotext list json \<Rightarrow> gotext list" where
  "startersOf raw = (case raw of Doc s \<Rightarrow> s | Corrupt \<Rightarrow> [])"

definition contactFromRow :: "ListContactsRow \<Rightarrow> contact" where
  "contactFromRow r = (let c = lc_Contact r in
     \<lparr>co_AgentID = ctc_agent_id c, co_Handle = lc_Handle r, co_DisplayName = lc_DisplayName r,
      co_Description = lc_Description r, co_HasAvatar = lc_HasAvatar r, co_Starters = startersOf (lc_Starters r),
      co_OwnerName = lc_OwnerDisplayName r, co_Status = lc_BindingStatus r, co_AddedVia = ctc_added_via c,
      co_Blocked = (ctc_blocked_at c \<noteq> None), co_ConversationID = ctc_dm_conversation_id c,
      co_CreatedAt = ctc_created_at c, co_AgentDeleted = (lc_AgentDeletedAt r \<noteq> None),
      co_MutedUntil = ctc_muted_until c, co_Pinned = (ctc_pinned_at c \<noteq> None),
      co_Archived = (ctc_archived_at c \<noteq> None)\<rparr>)"

definition Contacts :: "db \<Rightarrow> uuid \<Rightarrow> contact list" where
  "Contacts d callerID = map contactFromRow (ListContacts d callerID)"

section \<open>Tokens\<close>

definition KindAddAgent :: string where "KindAddAgent = ''add_agent''"

record token =
  tk_ID :: uuid
  tk_AgentID :: uuid
  tk_Kind :: string
  tk_Payload :: "string option"
  tk_MaxUses :: "int option"
  tk_UseCount :: int
  tk_ExpiresAt :: "int option"
  tk_CreatedAt :: int
  tk_RevokedAt :: "int option"

definition tokenFromRow :: "token_row \<Rightarrow> token" where
  "tokenFromRow r = \<lparr>tk_ID = ptk_id r, tk_AgentID = ptk_agent_id r, tk_Kind = ptk_kind r, tk_Payload = ptk_payload r,
     tk_MaxUses = ptk_max_uses r, tk_UseCount = ptk_use_count r, tk_ExpiresAt = ptk_expires_at r,
     tk_CreatedAt = ptk_created_at r, tk_RevokedAt = ptk_revoked_at r\<rparr>"

text \<open>
  Reading JSON: \<open>js_Valid\<close> is \<open>json.Valid\<close>, \<open>js_Column\<close> what a \<open>jsonb\<close> column makes of a document, or
  that it refuses it.
\<close>

record json_rules =
  js_Valid :: "string \<Rightarrow> bool"
  js_Column :: "string \<Rightarrow> string option"

record CreateTokenInput =
  ti_Payload :: string
  ti_MaxUses :: "int option"
  ti_ExpiresIn :: "int option"

definition maxPayloadBytes :: nat where "maxPayloadBytes = 4096"

definition checkPayload :: "json_rules \<Rightarrow> string \<Rightarrow> go_error + string option" where
  "checkPayload js p =
     (if p = [] \<or> p = ''null'' then Inr None
      else if maxPayloadBytes < length p then Inl (InvalidField ''payload'' ''payload_too_large'')
      else if \<not> js_Valid js p then Inl (InvalidField ''payload'' ''invalid_payload'')
      else Inr (Some p))"

definition checkMaxUses :: "int option \<Rightarrow> go_error + int option" where
  "checkMaxUses n = (case n of None \<Rightarrow> Inr None
     | Some k \<Rightarrow> if k < 1 \<or> 1000000 < k then Inl (InvalidField ''max_uses'' ''invalid_max_uses'') else Inr (Some k))"

definition checkExpiresIn :: "int \<Rightarrow> int option \<Rightarrow> go_error + int option" where
  "checkExpiresIn now n = (case n of None \<Rightarrow> Inr None
     | Some k \<Rightarrow> if k \<le> 0 then Inl (InvalidField ''expires_in'' ''invalid_expires_in'') else Inr (Some (now + k)))"

text \<open>The column keeps the document in its own form, which is what the row reads back.\<close>

definition storePayload :: "json_rules \<Rightarrow> token_row \<Rightarrow> db \<Rightarrow> (go_error + token_row) \<times> db" where
  "storePayload js t d = (case ptk_payload t of
       None \<Rightarrow> CreatePairToken t d
     | Some p \<Rightarrow> (case js_Column js p of
          None \<Rightarrow> (Inl (PlainError OtherCause), d)
        | Some q \<Rightarrow> CreatePairToken (t\<lparr>ptk_payload := Some q\<rparr>) d))"

definition CreateToken :: "env \<Rightarrow> json_rules \<Rightarrow> uuid \<Rightarrow> uuid \<Rightarrow> CreateTokenInput \<Rightarrow> (token \<times> string) handler" where
  "CreateToken e js callerID agentID inp w =
     needs (GetOwned (w_db w) callerID agentID) w (\<lambda>agent.
     needs (refuse_if (ag_Private agent) (Forbidden ''agent_is_private'')) w (\<lambda>_.
     needs (checkPayload js (ti_Payload inp)) w (\<lambda>payload.
     needs (checkMaxUses (ti_MaxUses inp)) w (\<lambda>maxUses.
     needs (checkExpiresIn (w_now w) (ti_ExpiresIn inp)) w (\<lambda>expiresAt.
     let ((plaintext, hash), w1) = NewSecret e PrefixPairToken w; (i, w2) = NewID e w1 in
     outcome Internal (\<lambda>row. (tokenFromRow row, plaintext))
       (on_db (storePayload js \<lparr>ptk_id = i, ptk_token_hash = hash, ptk_kind = KindAddAgent, ptk_agent_id = agentID,
          ptk_payload = payload, ptk_max_uses = maxUses, ptk_use_count = 0, ptk_created_by_user_id = callerID,
          ptk_expires_at = expiresAt, ptk_created_at = w_now w, ptk_revoked_at = None\<rparr>) w2))))))"

definition ListTokens :: "db \<Rightarrow> uuid \<Rightarrow> uuid \<Rightarrow> go_error + token list" where
  "ListTokens d callerID agentID = ok_then (GetOwned d callerID agentID) (\<lambda>_.
     Inr (map tokenFromRow (ListPairTokensByAgent d agentID)))"

definition RevokeToken :: "uuid \<Rightarrow> uuid \<Rightarrow> uuid \<Rightarrow> unit handler" where
  "RevokeToken callerID agentID tokenID w =
     needs (GetOwned (w_db w) callerID agentID) w (\<lambda>_.
     let (n, w1) = on_db (RevokePairToken (w_now w) tokenID agentID) w in
     if n = 0 then (Inl (NotFound ''token_not_found''), w1) else (Inr (), w1))"

definition TrimRight :: "char \<Rightarrow> string \<Rightarrow> string" where
  "TrimRight c s = rev (dropWhile (\<lambda>x. x = c) (rev s))"

definition URL :: "string \<Rightarrow> string \<Rightarrow> string" where
  "URL publicURL plaintext = TrimRight (CHR ''/'') publicURL @ ''/p/'' @ plaintext"

definition TokenPicture :: "env \<Rightarrow> string \<Rightarrow> db \<Rightarrow> uuid \<Rightarrow> uuid \<Rightarrow> uuid \<Rightarrow> string \<Rightarrow> go_error + string" where
  "TokenPicture e publicURL d callerID agentID tokenID plaintext =
     ok_then (GetOwned d callerID agentID) (\<lambda>_.
     case GetPairToken d tokenID agentID of
       Inl err \<Rightarrow> Inl (if IsNoRows err then NotFound ''token_not_found'' else Internal err)
     | Inr row \<Rightarrow> if ptk_token_hash row \<noteq> HashSecret e plaintext then Inl (NotFound ''token_not_found'')
                 else Inr (URL publicURL plaintext))"

section \<open>Links\<close>

definition errTokenInvalid :: go_error where "errTokenInvalid = NotFound ''invalid_token''"
definition errTokenSpent :: go_error where "errTokenSpent = NotFound ''token_spent''"

definition HasPrefix :: "'c list \<Rightarrow> 'c list \<Rightarrow> bool" where
  "HasPrefix s p \<longleftrightarrow> take (length p) s = p"

definition lookup_token :: "env \<Rightarrow> world \<Rightarrow> string \<Rightarrow> go_error + token_row" where
  "lookup_token e w plaintext =
     (if \<not> HasPrefix plaintext (PrefixPairToken @ ''_'') then Inl errTokenInvalid
      else case GetPairTokenByHash (w_db w) (HashSecret e plaintext) of
        Inl err \<Rightarrow> Inl (if IsNoRows err then errTokenInvalid else Internal err)
      | Inr (row, agentDeletedAt) \<Rightarrow>
          if agentDeletedAt \<noteq> None then Inl errTokenInvalid
          else if ptk_revoked_at row \<noteq> None then Inl (NotFound ''token_revoked'')
          else if (case ptk_expires_at row of None \<Rightarrow> False | Some t \<Rightarrow> t < w_now w) then Inl (NotFound ''token_expired'')
          else Inr row)"

definition spent :: "token_row \<Rightarrow> bool" where
  "spent row \<longleftrightarrow> (case ptk_max_uses row of None \<Rightarrow> False | Some n \<Rightarrow> n \<le> ptk_use_count row)"

record agent_card =
  cr_Agent :: agent
  cr_OwnerName :: gotext
  cr_Status :: "binding_status option"
  cr_AlreadyAdded :: bool
  cr_ConversationID :: "uuid option"
  cr_Blocked :: bool

definition card :: "db \<Rightarrow> uuid \<Rightarrow> uuid \<Rightarrow> go_error + agent_card" where
  "card d callerID agentID =
     ok_then (GetAgent d agentID) (\<lambda>agent.
     ok_then (GetUser d (ag_OwnerID agent)) (\<lambda>owner.
     ok_then (case GetActiveBinding d agentID of Inr b \<Rightarrow> Inr (Some (bnd_status b))
              | Inl err \<Rightarrow> if IsNoRows err then Inr None else Inl (Internal err)) (\<lambda>status.
     let c = \<lparr>cr_Agent = agent, cr_OwnerName = us_DisplayName owner, cr_Status = status, cr_AlreadyAdded = False,
              cr_ConversationID = None, cr_Blocked = False\<rparr> in
     if callerID = uuid_Nil then Inr c
     else case GetContact d callerID agentID of
       Inr ct \<Rightarrow> if ctc_removed_at ct \<noteq> None then Inr c
         else Inr (c\<lparr>cr_AlreadyAdded := True, cr_ConversationID := Some (ctc_dm_conversation_id ct),
                     cr_Blocked := (ctc_blocked_at ct \<noteq> None)\<rparr>)
     | Inl err \<Rightarrow> if IsNoRows err then Inr c else Inl (Internal err))))"

definition Resolve :: "env \<Rightarrow> world \<Rightarrow> uuid \<Rightarrow> string \<Rightarrow> go_error + agent_card" where
  "Resolve e w callerID plaintext =
     ok_then (lookup_token e w plaintext) (\<lambda>tok.
     ok_then (card (w_db w) callerID (ptk_agent_id tok)) (\<lambda>c.
     if \<not> cr_AlreadyAdded c \<and> spent tok then Inl errTokenSpent else Inr c))"

definition catalogueMax :: int where "catalogueMax = 100"

definition Catalogue :: "db \<Rightarrow> uuid \<Rightarrow> int \<Rightarrow> agent_card list" where
  "Catalogue d callerID limit =
     (let n = (if limit \<le> 0 \<or> catalogueMax < limit then catalogueMax else limit) in
      concat (map (\<lambda>row. case card d callerID (agt_id row) of Inl _ \<Rightarrow> [] | Inr c \<Rightarrow> [c])
        (ListCatalogue d (nat n))))"

section \<open>Adding an agent\<close>

record arrival =
  ar_agentID :: uuid
  ar_tokenID :: "uuid option"
  ar_payload :: "string option"
  ar_addedVia :: string

text \<open>A contact that is there already: restored when it was removed, unblocked when it was blocked.\<close>

definition rejoinTx :: "env \<Rightarrow> uuid \<Rightarrow> contact_row \<Rightarrow> uuid \<Rightarrow> (uuid \<times> bool \<times> bool) handler" where
  "rejoinTx e callerID existing agentID w =
     (let convID = ctc_dm_conversation_id existing;
          w1 = (if ctc_removed_at existing \<noteq> None then exec (\<lambda>d. snd (RestoreContact callerID agentID d)) w else w) in
      if ctc_blocked_at existing \<noteq> None then
        (let w2 = exec (\<lambda>d. snd (ClearContactBlocked callerID agentID d)) w1 in
         runs (Enqueue e agentID convID EventConversationJoined (JoinedPayload None None) w2)
           (\<lambda>pending w3. (Inr (convID, False, pending), w3)))
      else (Inr (convID, False, False), w1))"

definition joinTx :: "env \<Rightarrow> uuid \<Rightarrow> arrival \<Rightarrow> (uuid \<times> bool \<times> bool) handler" where
  "joinTx e callerID inp w = (case GetContact (w_db w) callerID (ar_agentID inp) of
       Inr existing \<Rightarrow> rejoinTx e callerID existing (ar_agentID inp) w
     | Inl err \<Rightarrow>
         if \<not> IsNoRows err then (Inl (Internal err), w)
         else
           let (r, w1) = (case ar_tokenID inp of None \<Rightarrow> (Inr (), w)
             | Some t \<Rightarrow> outcome (\<lambda>x. if IsNoRows x then errTokenSpent else Internal x) (\<lambda>_. ()) (on_db (UsePairToken (w_now w) t) w)) in
           needs r w1 (\<lambda>_.
           runs (FindOrCreateDM e callerID (ar_agentID inp) w1) (\<lambda>(conv, _) w2.
           let (r3, w3) = on_db (CreateContact (w_now w) callerID (ar_agentID inp) (cv_ID conv) (ar_addedVia inp) (ar_tokenID inp)) w2 in
           needs (internal r3) w3 (\<lambda>_.
           runs (Enqueue e (ar_agentID inp) (cv_ID conv) EventConversationJoined
                   (JoinedPayload (ar_tokenID inp) (ar_payload inp)) w3)
             (\<lambda>pending w4. (Inr (cv_ID conv, True, pending), w4))))))"

definition joinAgent :: "env \<Rightarrow> uuid \<Rightarrow> arrival \<Rightarrow> (conversation \<times> bool) handler" where
  "joinAgent e callerID inp w =
     runs (WithTx (joinTx e callerID inp) w) (\<lambda>(convID, isNew, pending) w1.
     let w2 = (if pending then nudge [ar_agentID inp] w1 else w1) in
     needs (GetConversations w2 [convID]) w2 (\<lambda>convs. case convs of
         [] \<Rightarrow> (Inl (Internal (PlainError OtherCause)), w2)
       | c # _ \<Rightarrow> (Inr (c, isNew), w2)))"

definition Accept :: "env \<Rightarrow> uuid \<Rightarrow> string \<Rightarrow> (conversation \<times> bool) handler" where
  "Accept e callerID plaintext w =
     needs (lookup_token e w plaintext) w (\<lambda>tok.
     joinAgent e callerID \<lparr>ar_agentID = ptk_agent_id tok, ar_tokenID = Some (ptk_id tok), ar_payload = ptk_payload tok,
       ar_addedVia = ''pair_token''\<rparr> w)"

definition AddFromCatalogue :: "env \<Rightarrow> uuid \<Rightarrow> uuid \<Rightarrow> (conversation \<times> bool) handler" where
  "AddFromCatalogue e callerID agentID w =
     needs (GetAgent (w_db w) agentID) w (\<lambda>agent.
     needs (refuse_if (\<not> ag_Listed agent) (NotFound ''agent_not_listed'')) w (\<lambda>_.
     joinAgent e callerID \<lparr>ar_agentID = agentID, ar_tokenID = None, ar_payload = None, ar_addedVia = ''catalogue''\<rparr> w))"

text \<open>
  What a new account is given, inside the transaction that makes it; the result is the agent to
  wake once that has committed.
\<close>

definition welcomeNew :: "env \<Rightarrow> string \<Rightarrow> uuid \<Rightarrow> uuid option handler" where
  "welcomeNew e handle userID w = (case GetAgentByHandle (w_db w) handle of
       Inl err \<Rightarrow> if IsNoRows err then (Inr None, w) else (Inl (Internal err), w)
     | Inr ag \<Rightarrow>
         runs (FindOrCreateDM e userID (agt_id ag) w) (\<lambda>(conv, _) w1.
         let (r, w2) = on_db (CreateContact (w_now w) userID (agt_id ag) (cv_ID conv) ''hub'' None) w1 in
         needs (internal r) w2 (\<lambda>_.
         runs (Enqueue e (agt_id ag) (cv_ID conv) EventConversationJoined (JoinedPayload None None) w2)
           (\<lambda>pending w3. (Inr (if pending then Some (agt_id ag) else None), w3)))))"

definition Welcomer :: "env \<Rightarrow> string \<Rightarrow> uuid \<Rightarrow> uuid option handler" where
  "Welcomer e handle userID w = (if handle = [] then (Inr None, w) else welcomeNew e handle userID w)"

section \<open>Blocking\<close>

definition errNotAContact :: go_error where "errNotAContact = NotFound ''not_a_contact''"

definition any_contact :: "db \<Rightarrow> uuid \<Rightarrow> uuid \<Rightarrow> go_error + contact_row" where
  "any_contact d callerID agentID = (case GetContact d callerID agentID of
       Inl err \<Rightarrow> Inl (if IsNoRows err then errNotAContact else Internal err)
     | Inr c \<Rightarrow> Inr c)"

definition wake :: "uuid \<Rightarrow> (go_error + bool) \<times> world \<Rightarrow> (go_error + unit) \<times> world" where
  "wake agentID r = runs r (\<lambda>pending w. (Inr (), if pending then nudge [agentID] w else w))"

definition Block :: "env \<Rightarrow> uuid \<Rightarrow> uuid \<Rightarrow> unit handler" where
  "Block e callerID agentID w =
     needs (any_contact (w_db w) callerID agentID) w (\<lambda>c.
     if ctc_blocked_at c \<noteq> None then (Inr (), w)
     else wake agentID (WithTx (\<lambda>w.
       Enqueue e agentID (ctc_dm_conversation_id c) EventConversationLeft (LeftPayload ''user_blocked'')
         (exec (\<lambda>d. snd (SetContactBlocked (w_now w) callerID agentID d)) w)) w))"

definition Unblock :: "env \<Rightarrow> uuid \<Rightarrow> uuid \<Rightarrow> unit handler" where
  "Unblock e callerID agentID w =
     needs (any_contact (w_db w) callerID agentID) w (\<lambda>c.
     if ctc_blocked_at c = None then (Inr (), w)
     else wake agentID (WithTx (\<lambda>w.
       Enqueue e agentID (ctc_dm_conversation_id c) EventConversationJoined (JoinedPayload None None)
         (exec (\<lambda>d. snd (ClearContactBlocked callerID agentID d)) w)) w))"

section \<open>A person's own settings\<close>

definition listed_contact :: "db \<Rightarrow> uuid \<Rightarrow> uuid \<Rightarrow> go_error + contact_row" where
  "listed_contact d callerID agentID =
     ok_then (any_contact d callerID agentID) (\<lambda>c.
     if ctc_removed_at c \<noteq> None then Inl errNotAContact else Inr c)"

definition SetMuted :: "uuid \<Rightarrow> uuid \<Rightarrow> int option \<Rightarrow> unit handler" where
  "SetMuted callerID agentID until w =
     needs (listed_contact (w_db w) callerID agentID) w (\<lambda>_.
     needs (refuse_if (case until of None \<Rightarrow> False | Some t \<Rightarrow> \<not> w_now w < t)
       (InvalidField ''muted_until'' ''invalid_muted_until'')) w (\<lambda>_.
     (Inr (), exec (\<lambda>d. snd (SetContactMuted callerID agentID until d)) w)))"

definition pinsMax :: nat where "pinsMax = 10"

definition SetPinned :: "uuid \<Rightarrow> uuid \<Rightarrow> bool \<Rightarrow> unit handler" where
  "SetPinned callerID agentID pinned w =
     needs (listed_contact (w_db w) callerID agentID) w (\<lambda>c.
     needs (refuse_if (pinned \<and> ctc_pinned_at c = None \<and> pinsMax \<le> CountPinnedContacts (w_db w) callerID)
       (Conflict ''too_many_pins'')) w (\<lambda>_.
     (Inr (), exec (\<lambda>d. snd (SetContactPinned (w_now w) callerID agentID pinned d)) w)))"

definition SetArchived :: "uuid \<Rightarrow> uuid \<Rightarrow> bool \<Rightarrow> unit handler" where
  "SetArchived callerID agentID archived w =
     needs (listed_contact (w_db w) callerID agentID) w (\<lambda>_.
     (Inr (), exec (\<lambda>d. snd (SetContactArchived (w_now w) callerID agentID archived d)) w))"

definition Remove :: "uuid \<Rightarrow> uuid \<Rightarrow> unit handler" where
  "Remove callerID agentID w =
     needs (listed_contact (w_db w) callerID agentID) w (\<lambda>c.
     needs (refuse_if (ctc_added_via c = ''owner'') (Conflict ''own_agent'')) w (\<lambda>_.
     (Inr (), exec (\<lambda>d. snd (RemoveContact (w_now w) callerID agentID d)) w)))"

section \<open>Reporting\<close>

record ReportInput =
  ri_Reason :: string
  ri_Note :: gotext
  ri_MessageID :: "uuid option"

definition reportReasons :: "string list" where
  "reportReasons = [''spam'', ''impersonation'', ''abuse'', ''other'']"

definition reportNoteMaxLen :: nat where "reportNoteMaxLen = 500"

definition Report :: "env \<Rightarrow> uuid \<Rightarrow> uuid \<Rightarrow> ReportInput \<Rightarrow> unit handler" where
  "Report e callerID agentID inp w =
     needs (any_contact (w_db w) callerID agentID) w (\<lambda>c.
     needs (refuse_if (ri_Reason inp \<notin> set reportReasons) (InvalidField ''reason'' ''invalid_reason'')) w (\<lambda>_.
     let note = TrimSpace (ri_Note inp) in
     needs (refuse_if (\<not> ValidString note \<or> contains_any [0] note \<or> reportNoteMaxLen < RuneCount note)
       (InvalidField ''note'' ''invalid_note'')) w (\<lambda>_.
     needs (refuse_if (case ri_MessageID inp of None \<Rightarrow> False
         | Some m \<Rightarrow> (case GetMessage (w_db w) m of Inl _ \<Rightarrow> True
             | Inr row \<Rightarrow> msg_conversation_id row \<noteq> ctc_dm_conversation_id c))
       (InvalidField ''message_id'' ''invalid_message_id'')) w (\<lambda>_.
     needs (refuse_if (0 < CountRecentReports (w_db w) callerID agentID (w_now w - hours 24))
       (Conflict ''already_reported'')) w (\<lambda>_.
     let (i, w1) = NewID e w in
     outcome Internal (\<lambda>_. ())
       (on_db (CreateReport \<lparr>rpt_id = i, rpt_reporter_user_id = callerID, rpt_agent_id = agentID,
          rpt_message_id = ri_MessageID inp, rpt_reason = ri_Reason inp, rpt_note = note,
          rpt_created_at = w_now w\<rparr>) w1))))))"

section \<open>What is kept\<close>

lemma db_ok_CreatePairToken: "db_ok d \<Longrightarrow> db_ok (snd (CreatePairToken t d))"
  by (auto simp: CreatePairToken_def insert_row_def db_ok_def tokens_ok_def)

lemma db_ok_storePayload: "db_ok d \<Longrightarrow> db_ok (snd (storePayload js t d))"
  by (simp add: storePayload_def db_ok_CreatePairToken split: option.splits)

lemma db_ok_CreateReport: "db_ok d \<Longrightarrow> db_ok (snd (CreateReport r d))"
  by (auto simp: CreateReport_def insert_row_def db_ok_def)

lemma well_CreateToken [keeps]: "well w \<Longrightarrow> well (snd (CreateToken e js u a inp w))"
  unfolding CreateToken_def Let_def split_def
  by (intro well_needs well_outcome) (simp_all add: db_ok_storePayload)

lemma well_RevokeToken [keeps]: "well w \<Longrightarrow> well (snd (RevokeToken u a t w))"
  by (auto intro!: well_needs simp: RevokeToken_def Let_def split_def db_ok_RevokePairToken)

lemma well_CreateContact: "well w \<Longrightarrow> well (snd (on_db (CreateContact now u a c via t) w))"
  by (simp add: db_ok_CreateContact')

lemma well_joinTx: "well w \<Longrightarrow> well (snd (joinTx e u inp w))"
proof -
  assume w: "well w"
  have token: "well (snd (case ar_tokenID inp of None \<Rightarrow> (Inr (), w)
      | Some t \<Rightarrow> outcome (\<lambda>x. if IsNoRows x then errTokenSpent else Internal x) (\<lambda>_. ()) (on_db (UsePairToken (w_now w) t) w)))"
    using w by (auto simp: well_outcome db_ok_UsePairToken split: option.splits)
  show ?thesis
    using w unfolding joinTx_def rejoinTx_def Let_def
    by (auto intro!: well_raw_step [OF token] well_runs well_step well_Enqueue well_FindOrCreateDM well_CreateContact
        simp: db_ok_contact_updates split: sum.splits)
qed

lemma well_joinAgent: "well w \<Longrightarrow> well (snd (joinAgent e u inp w))"
  unfolding joinAgent_def Let_def
  by (rule well_runs, rule well_WithTx, assumption, erule well_joinTx)
    (auto intro!: well_needs split: list.splits)

lemma well_Welcomer [keeps]: "well w \<Longrightarrow> well (snd (Welcomer e h u w))"
  by (auto intro!: well_step well_runs well_Enqueue well_FindOrCreateDM well_CreateContact
      simp: Welcomer_def welcomeNew_def Let_def split: sum.splits)

lemma well_wake: "well (snd r) \<Longrightarrow> well (snd (wake a r))"
  unfolding wake_def by (rule well_runs) auto

lemma well_pairing [keeps]:
  assumes "well w"
  shows "well (snd (Accept e u pt w))" "well (snd (AddFromCatalogue e u a w))"
    "well (snd (Block e u a w))" "well (snd (Unblock e u a w))" "well (snd (SetMuted u a until w))"
    "well (snd (SetPinned u a b w))" "well (snd (SetArchived u a b w))" "well (snd (Remove u a w))"
    "well (snd (Report e u a inp w))"
  using assms
  by (auto intro!: well_needs well_joinAgent well_wake well_WithTx well_Enqueue well_outcome
      simp: Accept_def AddFromCatalogue_def Block_def Unblock_def SetMuted_def SetPinned_def SetArchived_def Remove_def
        Report_def Let_def split_def db_ok_contact_updates db_ok_CreateReport)

end
