(* ===== verification/Signin.thy ===== *)
theory Signin
  imports Pairing
begin

text \<open>
  How a caller is known: sign-in by a code sent to an address and the sessions that follow
  (\<open>signin/service.go\<close>, \<open>signin/validate.go\<close>), API keys (\<open>apikeys/service.go\<close>), and the authenticators
  that read a request's headers (\<open>auth\<close>, \<open>principal\<close>).
\<close>

section \<open>Text as bytes\<close>

fun rune_bytes :: "rune \<Rightarrow> string" where
  "rune_bytes (Rune c) = map char_of (if c < 128 then [c]
     else if c < 2048 then [192 + c div 64, 128 + c mod 64]
     else if c < 65536 then [224 + c div 4096, 128 + c div 64 mod 64, 128 + c mod 64]
     else [240 + c div 262144, 128 + c div 4096 mod 64, 128 + c div 64 mod 64, 128 + c mod 64])"
| "rune_bytes (Stray b) = [char_of b]"

definition bytes_of :: "gotext \<Rightarrow> string" where
  "bytes_of s = concat (map rune_bytes s)"

fun hex_digits :: "nat \<Rightarrow> nat \<Rightarrow> string" where
  "hex_digits 0 v = []"
| "hex_digits (Suc n) v = hex_digits n (v div 16) @ [''0123456789abcdef'' ! (v mod 16)]"

text \<open>\<open>uuid.String\<close>: 8-4-4-4-12.\<close>

definition uuid_String :: "uuid \<Rightarrow> string" where
  "uuid_String u = (let h = hex_digits 32 (unat u) in
     take 8 h @ ''-'' @ take 4 (drop 8 h) @ ''-'' @ take 4 (drop 12 h) @ ''-'' @ take 4 (drop 16 h) @ ''-'' @ drop 20 h)"

section \<open>Checking what is typed\<close>

definition emailMaxLen :: nat where "emailMaxLen = 320"
definition deviceNameMaxLen :: nat where "deviceNameMaxLen = 80"
definition codeDigits :: nat where "codeDigits = 6"

definition normalizeEmail :: "env \<Rightarrow> gotext \<Rightarrow> go_error + gotext" where
  "normalizeEmail e raw =
     (let email = env_lower e (TrimSpace raw); bad = InvalidField ''email'' ''invalid_email'' in
      if email = [] \<or> emailMaxLen < byte_len email \<or> \<not> ValidString email then Inl bad
      else case env_mail_address e email of
        None \<Rightarrow> Inl bad
      | Some addr \<Rightarrow> if addr \<noteq> email \<or> Rune 64 \<notin> set email then Inl bad else Inr email)"

definition validateDeviceName :: "gotext \<Rightarrow> go_error + gotext" where
  "validateDeviceName raw =
     (let name = TrimSpace raw in
      if \<not> ValidString name \<or> contains_any [10, 13, 9] name \<or> deviceNameMaxLen < RuneCount name
      then Inl (InvalidField ''device_name'' ''invalid_device_name'') else Inr name)"

definition newCode :: "env \<Rightarrow> world \<Rightarrow> string \<times> world" where
  "newCode e w = (let n = decimal (env_code e (w_ids w)) in
     (replicate (codeDigits - length n) (CHR ''0'') @ n, w\<lparr>w_ids := Suc (w_ids w)\<rparr>))"

definition hashCode :: "env \<Rightarrow> uuid \<Rightarrow> string \<Rightarrow> nat list" where
  "hashCode e i code = env_sha256 e (uuid_String i @ '':'' @ code)"

definition displayNameFor :: "gotext \<Rightarrow> gotext" where
  "displayNameFor email =
     (let local = TrimSpace (takeWhile (\<lambda>r. r \<noteq> Rune 64) email) in
      if local = [] then str ''New user''
      else if 80 < RuneCount local then take 80 (to_runes local) else local)"

section \<open>Codes\<close>

definition codeTTL :: int where "codeTTL = minutes 10"
definition codeAttemptsMax :: nat where "codeAttemptsMax = 5"
definition pushTokenMax :: nat where "pushTokenMax = 256"
definition sessionTTL :: int where "sessionTTL = hours (90 * 24)"
definition devicesMax :: nat where "devicesMax = 10"
definition seenInterval :: int where "seenInterval = hours 1"

definition startPolicy :: Policy where "startPolicy = \<lparr>pol_Rate = 1 / 120, pol_Burst = 5\<rparr>"

definition errInvalidCode :: go_error where "errInvalidCode = Unauthorized ''invalid_code''"
definition errBadToken :: go_error where "errBadToken = Unauthorized ''invalid_credentials''"

definition code_mail :: "gotext \<Rightarrow> string \<Rightarrow> mail" where
  "code_mail email code = \<lparr>ml_To = email, ml_Subject = ''Your Cuckoo sign-in code'',
     ml_Text = ''Your sign-in code is '' @ code @ ''. It expires in '' @ decimal (nat (codeTTL div minutes 1)) @ '' minutes.''\<rparr>"

definition allow_address :: "gotext \<Rightarrow> Policy \<Rightarrow> world \<Rightarrow> int \<times> world" where
  "allow_address email p w =
     (let (wait, l) = Allow (w_limiter w) (w_now w) (''signin:'', Inr email) p in (wait, w\<lparr>w_limiter := l\<rparr>))"

definition StartSignIn :: "env \<Rightarrow> gotext \<Rightarrow> unit handler" where
  "StartSignIn e rawEmail w =
     needs (normalizeEmail e rawEmail) w (\<lambda>email.
     let (wait, w1) = allow_address email startPolicy w in
     if 0 < wait then (Inl (RateLimited ''too_many_codes'' wait), w1)
     else
       let (i, w2) = NewID e w1; (code, w3) = newCode e w2;
           (r, w4) = on_db (CreateSignInCode (w_now w) i email (hashCode e i code) (w_now w + codeTTL)) w3 in
       needs (internal r) w4 (\<lambda>_.
       let m = code_mail email code in
       if env_mailer e m then (Inr (), w4\<lparr>w_mail := w_mail w4 @ [m]\<rparr>)
       else (Inl (Internal (PlainError OtherCause)), w4)))"

section \<open>Signing in\<close>

record session =
  sn_ID :: uuid
  sn_UserID :: uuid
  sn_ExpiresAt :: int

record verified =
  vf_User :: user
  vf_Session :: session
  vf_Token :: string
  vf_IsNew :: bool

definition accountFor :: "env \<Rightarrow> gotext \<Rightarrow> (uuid \<times> bool) handler" where
  "accountFor e email w = (case GetIdentity (w_db w) ''email'' email of
       Inr identity \<Rightarrow> (Inr (idn_user_id identity, False), w)
     | Inl err \<Rightarrow>
         if \<not> IsNoRows err then (Inl (Internal err), w)
         else runs (CreateUser e (displayNameFor email) [] w) (\<lambda>u w1.
           let (i, w2) = NewID e w1;
               (r, w3) = on_db (CreateIdentity (w_now w) i (us_ID u) ''email'' email) w2 in
           needs (internal r) w3 (\<lambda>_. (Inr (us_ID u, True), w3))))"

text \<open>The transaction of \<open>Verify\<close>; \<open>welcomeHandle\<close> is the agent a new account is given, if any.\<close>

definition verifyTx :: "env \<Rightarrow> string \<Rightarrow> uuid \<Rightarrow> gotext \<Rightarrow> gotext \<Rightarrow> (verified \<times> uuid option) handler" where
  "verifyTx e welcomeHandle codeID email device w =
     runs (accountFor e email (exec (MarkSignInCodeUsed (w_now w) codeID) w)) (\<lambda>(userID, isNew) w1.
     runs (if isNew then Welcomer e welcomeHandle userID w1 else (Inr None, w1)) (\<lambda>after w2.
     let ((token, hash), w3) = NewSecret e PrefixSessionToken w2; (i, w4) = NewID e w3;
         (r, w5) = on_db (CreateSession (w_now w) i userID hash device (w_now w + sessionTTL)) w4 in
     needs (internal r) w5 (\<lambda>sess.
     let w6 = exec (\<lambda>d. snd (RevokeOldestUserSessions (w_now w) userID devicesMax d)) w5 in
     needs (GetUser (w_db w6) userID) w6 (\<lambda>u.
       (Inr (\<lparr>vf_User = u, vf_Session = \<lparr>sn_ID = ses_id sess, sn_UserID = ses_user_id sess, sn_ExpiresAt = ses_expires_at sess\<rparr>,
              vf_Token = token, vf_IsNew = isNew\<rparr>, after), w6)))))"

text \<open>What a code is checked against: the newest for the address, while it is fresh; the guess is counted first.\<close>

definition checkCode :: "env \<Rightarrow> gotext \<Rightarrow> gotext \<Rightarrow> code_row handler" where
  "checkCode e email code w = (case GetLatestSignInCode (w_db w) email of
       Inl err \<Rightarrow> (Inl (if IsNoRows err then errInvalidCode else Internal err), w)
     | Inr row \<Rightarrow>
         if cod_used_at row \<noteq> None \<or> cod_expires_at row < w_now w then (Inl errInvalidCode, w)
         else
           let (r, w1) = on_db (CountSignInAttempt (cod_id row)) w in
           needs (internal r) w1 (\<lambda>attempts.
           if codeAttemptsMax < attempts then (Inl errInvalidCode, w1)
           else if hashCode e (cod_id row) (bytes_of (TrimSpace code)) \<noteq> cod_code_hash row then (Inl errInvalidCode, w1)
           else (Inr row, w1)))"

definition VerifyCode :: "env \<Rightarrow> string \<Rightarrow> gotext \<Rightarrow> gotext \<Rightarrow> gotext \<Rightarrow> verified handler" where
  "VerifyCode e welcomeHandle rawEmail code deviceName w =
     needs (normalizeEmail e rawEmail) w (\<lambda>email.
     needs (validateDeviceName deviceName) w (\<lambda>device.
     runs (checkCode e email code w) (\<lambda>row w1.
     runs (outcome (\<lambda>err. if AsError err \<noteq> None then err else Internal err) id
             (WithTx (verifyTx e welcomeHandle (cod_id row) email device) w1)) (\<lambda>(out, after) w2.
       (Inr out, case after of None \<Rightarrow> w2 | Some a \<Rightarrow> nudge [a] w2)))))"

section \<open>Sessions\<close>

definition touch :: "uuid \<Rightarrow> int option \<Rightarrow> world \<Rightarrow> world" where
  "touch sessionID lastSeen w =
     (if (case lastSeen of None \<Rightarrow> False | Some t \<Rightarrow> w_now w - t < seenInterval) then w
      else exec (TouchSession (w_now w) sessionID) w)"

definition ResolveToken :: "env \<Rightarrow> string \<Rightarrow> (uuid \<times> uuid) handler" where
  "ResolveToken e tok w =
     (if \<not> HasPrefix tok (PrefixSessionToken @ ''_'') then (Inl errBadToken, w)
      else case AuthenticateSession (w_db w) (w_now w) (HashSecret e tok) of
        Inl err \<Rightarrow> (Inl (if IsNoRows err then errBadToken else Internal err), w)
      | Inr row \<Rightarrow> (Inr (ses_user_id row, ses_id row), touch (ses_id row) (ses_last_seen_at row) w))"

record device =
  dv_ID :: uuid
  dv_Name :: gotext
  dv_LastSeen :: "int option"
  dv_CreatedAt :: int
  dv_ExpiresAt :: int
  dv_Current :: bool

definition Devices :: "world \<Rightarrow> uuid \<Rightarrow> uuid \<Rightarrow> device list" where
  "Devices w userID currentSessionID =
     map (\<lambda>r. \<lparr>dv_ID = ses_id r, dv_Name = ses_device_name r, dv_LastSeen = ses_last_seen_at r,
       dv_CreatedAt = ses_created_at r, dv_ExpiresAt = ses_expires_at r, dv_Current = (ses_id r = currentSessionID)\<rparr>)
       (ListUserSessions (w_db w) (w_now w) userID)"

definition SignOutDevice :: "uuid \<Rightarrow> uuid \<Rightarrow> unit handler" where
  "SignOutDevice userID sessionID w =
     (let (n, w1) = on_db (RevokeUserSession (w_now w) sessionID userID) w in
      if n = 0 then (Inl (NotFound ''device_not_found''), w1) else (Inr (), w1))"

definition SignOutOthers :: "uuid \<Rightarrow> uuid \<Rightarrow> nat handler" where
  "SignOutOthers userID keepSessionID w =
     (let (n, w1) = on_db (RevokeOtherUserSessions (w_now w) userID keepSessionID) w in (Inr n, w1))"

definition Logout :: "uuid \<Rightarrow> unit handler" where
  "Logout sessionID w = (Inr (), exec (\<lambda>d. snd (RevokeSession (w_now w) sessionID d)) w)"

definition RegisterPush :: "uuid \<Rightarrow> gotext \<Rightarrow> string \<Rightarrow> unit handler" where
  "RegisterPush sessionID raw platform w =
     (let tok = TrimSpace raw in
      if tok = [] \<or> pushTokenMax < byte_len tok then (Inl (InvalidField ''token'' ''invalid_push_token''), w)
      else if platform \<notin> {'''', ''android'', ''ios''} then (Inl (InvalidField ''platform'' ''invalid_platform''), w)
      else WithTx (\<lambda>w.
        let (r, w2) = on_db (RegisterSessionPush (w_now w) tok platform sessionID)
                        (exec (SetSessionPushToken tok sessionID) w) in
        needs (internal r) w2 (\<lambda>n. if n = 0 then (Inl errBadToken, w2) else (Inr (), w2))) w)"

section \<open>API keys\<close>

record api_key =
  ky_ID :: uuid
  ky_Name :: gotext
  ky_LastUsedAt :: "int option"
  ky_CreatedAt :: int
  ky_RevokedAt :: "int option"

definition keyFromRow :: "api_key_row \<Rightarrow> api_key" where
  "keyFromRow r = \<lparr>ky_ID = key_id r, ky_Name = key_name r, ky_LastUsedAt = key_last_used_at r,
     ky_CreatedAt = key_created_at r, ky_RevokedAt = key_revoked_at r\<rparr>"

definition PrefixAPIKeySecret :: string where "PrefixAPIKeySecret = ''mgt_tok''"

definition errBadKey :: go_error where "errBadKey = Unauthorized ''invalid_credentials''"

definition CreateKey :: "env \<Rightarrow> uuid \<Rightarrow> gotext \<Rightarrow> (api_key \<times> string) handler" where
  "CreateKey e userID raw w =
     (let name = TrimSpace raw; bad = InvalidField ''name'' ''invalid_name'' in
      if name = [] then (Inl bad, w)
      else if 80 < RuneCount name then (Inl bad, w)
      else
        let ((plaintext, hash), w1) = NewSecret e PrefixAPIKeySecret w; (i, w2) = NewID e w1 in
        outcome Internal (\<lambda>row. (keyFromRow row, plaintext)) (on_db (CreateAPIKey_sql (w_now w) i userID name hash) w2))"

definition ListMyKeys :: "db \<Rightarrow> uuid \<Rightarrow> api_key list" where
  "ListMyKeys d userID = map keyFromRow (ListAPIKeysByUser d userID)"

definition RevokeKey :: "uuid \<Rightarrow> uuid \<Rightarrow> unit handler" where
  "RevokeKey userID keyID w =
     (let (n, w1) = on_db (RevokeAPIKey_sql (w_now w) keyID userID) w in
      if n = 0 then (Inl (NotFound ''key_not_found''), w1) else (Inr (), w1))"

definition ResolveKey :: "env \<Rightarrow> string \<Rightarrow> uuid handler" where
  "ResolveKey e key w =
     (if \<not> HasPrefix key (PrefixAPIKeySecret @ ''_'') then (Inl errBadKey, w)
      else case AuthenticateAPIKey (w_db w) (HashSecret e key) of
        Inl err \<Rightarrow> (Inl (if IsNoRows err then errBadKey else Internal err), w)
      | Inr row \<Rightarrow> (Inr (key_user_id row), exec (TouchAPIKey (w_now w) (key_id row)) w))"

section \<open>Who is calling\<close>

record request =
  rq_Authorization :: gotext
  rq_WebSocketProtocol :: gotext
  rq_DevUser :: gotext

record principal =
  pr_Kind :: participant_kind
  pr_UserID :: uuid
  pr_AgentID :: uuid
  pr_SessionID :: uuid

definition UserSession :: "uuid \<Rightarrow> uuid \<Rightarrow> principal" where
  "UserSession u s = \<lparr>pr_Kind = ParticipantUser, pr_UserID = u, pr_AgentID = uuid_Nil, pr_SessionID = s\<rparr>"

definition User :: "uuid \<Rightarrow> principal" where "User u = UserSession u uuid_Nil"

definition Agent :: "uuid \<Rightarrow> principal" where
  "Agent a = \<lparr>pr_Kind = ParticipantAgent, pr_UserID = uuid_Nil, pr_AgentID = a, pr_SessionID = uuid_Nil\<rparr>"

text \<open>What a handler may ask of the principal it was given.\<close>

definition UserID :: "principal option \<Rightarrow> uuid option" where
  "UserID p = (case p of Some q \<Rightarrow> if pr_Kind q = ParticipantUser then Some (pr_UserID q) else None | None \<Rightarrow> None)"

definition SessionID :: "principal option \<Rightarrow> uuid option" where
  "SessionID p = (case p of
       Some q \<Rightarrow> if pr_Kind q = ParticipantUser \<and> pr_SessionID q \<noteq> uuid_Nil then Some (pr_SessionID q) else None
     | None \<Rightarrow> None)"

definition AgentID :: "principal option \<Rightarrow> uuid option" where
  "AgentID p = (case p of Some q \<Rightarrow> if pr_Kind q = ParticipantAgent then Some (pr_AgentID q) else None | None \<Rightarrow> None)"

text \<open>\<open>strings.Cut\<close> at a character, and \<open>strings.Split\<close>.\<close>

definition Cut :: "gotext \<Rightarrow> rune \<Rightarrow> gotext \<times> gotext \<times> bool" where
  "Cut s c = (takeWhile (\<lambda>r. r \<noteq> c) s, tl (dropWhile (\<lambda>r. r \<noteq> c) s), c \<in> set s)"

fun Split_at :: "rune \<Rightarrow> gotext \<Rightarrow> gotext \<Rightarrow> gotext list" where
  "Split_at c w [] = [w]"
| "Split_at c w (r # rs) = (if r = c then w # Split_at c [] rs else Split_at c (w @ [r]) rs)"

fun fold_case :: "rune \<Rightarrow> rune" where
  "fold_case (Rune c) = Rune (if 65 \<le> c \<and> c \<le> 90 then c + 32 else c)"
| "fold_case (Stray b) = Stray b"

text \<open>\<open>strings.EqualFold\<close> with \<open>Bearer\<close>, whose letters fold to ASCII letters only.\<close>

definition is_bearer :: "gotext \<Rightarrow> bool" where
  "is_bearer scheme \<longleftrightarrow> map fold_case scheme = str ''bearer''"

definition bearerToken :: "request \<Rightarrow> string option" where
  "bearerToken r =
     (let (scheme, token, ok) = Cut (rq_Authorization r) (Rune 32) in
      if ok \<and> is_bearer scheme then
        (let token = TrimSpace token in if token = [] then None else Some (bytes_of token))
      else map_option (\<lambda>p. bytes_of (TrimSpace p))
        (find (\<lambda>p. HasPrefix (bytes_of (TrimSpace p)) (PrefixSessionToken @ ''_''))
          (Split_at (Rune 44) [] (rq_WebSocketProtocol r))))"

definition DevAuthenticate :: "request \<Rightarrow> go_error + principal" where
  "DevAuthenticate r =
     (if rq_DevUser r = [] then Inl (Unauthorized ''missing_credentials'')
      else case ParseID PrefixUser (bytes_of (rq_DevUser r)) of
        Inl err \<Rightarrow> Inl (Unauthorized ''invalid_credentials'')
      | Inr i \<Rightarrow> Inr (User i))"

definition SessionAuthenticate :: "env \<Rightarrow> request \<Rightarrow> principal handler" where
  "SessionAuthenticate e r w = (case bearerToken r of
       None \<Rightarrow> (Inl (Unauthorized ''missing_credentials''), w)
     | Some tok \<Rightarrow> runs (ResolveToken e tok w) (\<lambda>(u, s) w1. (Inr (UserSession u s), w1)))"

definition DevOrSessionAuthenticate :: "env \<Rightarrow> request \<Rightarrow> principal handler" where
  "DevOrSessionAuthenticate e r w =
     (if rq_DevUser r \<noteq> [] then (DevAuthenticate r, w) else SessionAuthenticate e r w)"

text \<open>The management API: a credential that announces itself as a key is resolved as a key.\<close>

definition KeyOrUserAuthenticate :: "env \<Rightarrow> (request \<Rightarrow> principal handler) \<Rightarrow> request \<Rightarrow> principal handler" where
  "KeyOrUserAuthenticate e other r w = (case bearerToken r of
       Some tok \<Rightarrow> if HasPrefix tok (PrefixAPIKeySecret @ ''_'')
           then runs (ResolveKey e tok w) (\<lambda>u w1. (Inr (User u), w1)) else other r w
     | None \<Rightarrow> other r w)"

definition BindingAuthenticate :: "env \<Rightarrow> request \<Rightarrow> principal handler" where
  "BindingAuthenticate e r w =
     (if rq_Authorization r = [] then (Inl (Unauthorized ''missing_credentials''), w)
      else
        let (scheme, token, ok) = Cut (rq_Authorization r) (Rune 32) in
        if \<not> ok \<or> \<not> is_bearer scheme \<or> TrimSpace token = [] then (Inl (Unauthorized ''invalid_credentials''), w)
        else needs (ResolveSecret e (w_db w) (bytes_of (TrimSpace token))) w (\<lambda>a. (Inr (Agent a), w)))"

section \<open>What is kept\<close>

lemma NewSecret_db: "NewSecret e p w = (x, w') \<Longrightarrow> w_db w' = w_db w"
  by (metis NewSecret_fields(3) snd_conv)

lemma well_StartSignIn [keeps]: "well w \<Longrightarrow> well (snd (StartSignIn e em w))"
  unfolding StartSignIn_def allow_address_def newCode_def Let_def split_def
  by (auto intro!: well_needs simp: account_keeps)

lemma well_accountFor [keeps]: "well w \<Longrightarrow> well (snd (accountFor e em w))"
  unfolding accountFor_def Let_def split_def
  by (auto intro!: well_runs well_needs well_CreateUser simp: db_ok_CreateIdentity split: sum.splits)

lemma well_verifyTx: "well w \<Longrightarrow> well (snd (verifyTx e h i em dv w))"
  unfolding verifyTx_def Let_def split_def
  by (intro well_runs well_needs well_accountFor)
    (auto intro!: well_Welcomer well_needs simp: account_keeps db_ok_CreateSession db_ok_session_updates split: if_splits)

lemma well_checkCode [keeps]: "well w \<Longrightarrow> well (snd (checkCode e em c w))"
  unfolding checkCode_def Let_def split_def
  by (auto intro!: well_needs simp: account_keeps split: sum.splits)

lemma well_VerifyCode [keeps]: "well w \<Longrightarrow> well (snd (VerifyCode e h em c dv w))"
  unfolding VerifyCode_def split_def
  by (intro well_needs well_runs well_checkCode well_outcome well_WithTx well_verifyTx) (auto split: option.splits)

lemma well_sessions [keeps]:
  assumes "well w"
  shows "well (snd (ResolveToken e tok w))" "well (snd (SignOutDevice u i w))" "well (snd (SignOutOthers u i w))"
    "well (snd (Logout i w))" "well (snd (RegisterPush i ptok pf w))"
  using assms
  by (auto intro!: well_WithTx well_needs simp: ResolveToken_def touch_def SignOutDevice_def SignOutOthers_def Logout_def
      RegisterPush_def Let_def split_def db_ok_session_updates db_ok_RegisterSessionPush split: sum.splits)

lemma well_keys [keeps]:
  assumes "well w"
  shows "well (snd (CreateKey e u n w))" "well (snd (RevokeKey u i w))" "well (snd (ResolveKey e k w))"
  using assms
  by (auto intro!: well_outcome simp: CreateKey_def RevokeKey_def ResolveKey_def Let_def split_def account_keeps
      split: sum.splits)

end
