(* ===== verification/Frames.thy ===== *)
theory Frames
  imports Signin
begin

text \<open>
  What a handler does to the database as far as one property of it goes: a rule for each way a
  handler is put together, for any property, and what the operations on chats and the outbox leave
  alone.
\<close>

lemma kept_needs:
  "P w \<Longrightarrow> (\<And>x. m = Inr x \<Longrightarrow> P (snd (k x))) \<Longrightarrow> P (snd (needs m w k))"
  by (cases m) auto

lemma kept_runs:
  "P (snd r) \<Longrightarrow> (\<And>x w1. r = (Inr x, w1) \<Longrightarrow> P w1 \<Longrightarrow> P (snd (k x w1))) \<Longrightarrow> P (snd (runs r k))"
  by (cases r; cases "fst r") auto

lemma kept_step:
  assumes "P (snd X)" "\<And>x w1. X = (Inr x, w1) \<Longrightarrow> P w1 \<Longrightarrow> P (snd (k w1 x))"
  shows "P (snd (case X of (r, w1) \<Rightarrow> needs (internal r) w1 (k w1)))"
  using assms by (cases X; cases "fst X") auto

lemma kept_outcome: "P (snd r) \<Longrightarrow> P (snd (outcome f g r))"
  by (simp add: outcome_def)

text \<open>A transaction ends as its function did, or with the database as it was.\<close>

lemma kept_WithTx: "P (w_db w) \<Longrightarrow> P (w_db (snd (fn w))) \<Longrightarrow> P (w_db (snd (WithTx fn w)))"
  by (auto simp: WithTx_def split: prod.splits sum.splits)

lemma now_WithTx: "w_now (snd (fn w)) = t \<Longrightarrow> w_now (snd (WithTx fn w)) = t"
  by (auto simp: WithTx_def split: prod.splits sum.splits)

section \<open>The clock\<close>

lemmas now_rules = kept_needs [of "\<lambda>w. w_now w = t" for t] kept_runs [of "\<lambda>w. w_now w = t" for t] now_WithTx
  kept_step [of "\<lambda>w. w_now w = t" for t] kept_outcome [of "\<lambda>w. w_now w = t" for t]

lemma now_FindOrCreateDM [simp]: "w_now (snd (FindOrCreateDM e u a w)) = w_now w"
proof -
  have "w_now (snd (createDMTx e u a w)) = w_now w"
    unfolding createDMTx_def Let_def NewID_def prod.case by (intro now_rules) simp_all
  then have "w_now (snd (CreateDM e u a w)) = w_now w"
    unfolding CreateDM_def by (intro now_rules) simp_all
  then show ?thesis unfolding FindOrCreateDM_def by (auto intro!: now_rules split: sum.splits)
qed

lemma now_Enqueue [simp]: "w_now (snd (Enqueue e a c t p w)) = w_now w"
  unfolding Enqueue_def Let_def NewID_def prod.case by (auto intro!: now_rules split: sum.splits)

lemma now_Welcomer [simp]: "w_now (snd (Welcomer e h u w)) = w_now w"
  unfolding Welcomer_def welcomeNew_def Let_def by (auto intro!: now_rules split: sum.splits)

lemma now_CreateUser [simp]: "w_now (snd (CreateUser e n l w)) = w_now w"
  unfolding CreateUser_def Let_def NewID_def prod.case by (auto intro!: now_rules)

lemma now_accountFor [simp]: "w_now (snd (accountFor e em w)) = w_now w"
  unfolding accountFor_def Let_def split_def by (auto intro!: now_rules split: sum.splits)

lemma now_verifyTx [simp]: "w_now (snd (verifyTx e h i em dv w)) = w_now w"
  unfolding verifyTx_def Let_def split_def by (auto intro!: now_rules split: if_splits)

section \<open>Accounts\<close>

definition accounts :: "db \<Rightarrow> user_row list \<times> identity_row list \<times> code_row list \<times> session_row list \<times> api_key_row list" where
  "accounts d = (db_users d, db_identities d, db_codes d, db_sessions d, db_api_keys d)"

lemmas accounts_rules = kept_needs [of "\<lambda>w. accounts (w_db w) = A" for A] kept_runs [of "\<lambda>w. accounts (w_db w) = A" for A]
  kept_WithTx [of "\<lambda>d. accounts d = A" for A] kept_step [of "\<lambda>w. accounts (w_db w) = A" for A]
  kept_outcome [of "\<lambda>w. accounts (w_db w) = A" for A]

lemma accounts_statements [simp]:
  "accounts (snd (CreateConversation now c k d)) = accounts d"
  "accounts (snd (AddParticipant now c k' u a d)) = accounts d"
  "accounts (snd (CreateDelivery now p d)) = accounts d"
  "accounts (snd (CreateContact now u' a' c' via t d)) = accounts d"
  by (simp_all add: CreateConversation_def AddParticipant_def CreateDelivery_def CreateContact_def Let_def insert_row_def
      accounts_def)

lemma accounts_FindOrCreateDM [simp]: "accounts (w_db (snd (FindOrCreateDM e u a w))) = accounts (w_db w)"
proof -
  have "accounts (w_db (snd (createDMTx e u a w))) = accounts (w_db w)"
    unfolding createDMTx_def Let_def NewID_def prod.case
    by (intro accounts_rules) simp_all
  then have "accounts (w_db (snd (CreateDM e u a w))) = accounts (w_db w)"
    unfolding CreateDM_def by (intro accounts_rules) simp_all
  then show ?thesis
    unfolding FindOrCreateDM_def by (auto intro!: accounts_rules split: sum.splits)
qed

lemma accounts_Enqueue [simp]: "accounts (w_db (snd (Enqueue e a c t p w))) = accounts (w_db w)"
  unfolding Enqueue_def Let_def NewID_def prod.case
  by (auto intro!: accounts_rules split: sum.splits)

lemma accounts_Welcomer [simp]: "accounts (w_db (snd (Welcomer e h u w))) = accounts (w_db w)"
  unfolding Welcomer_def welcomeNew_def Let_def
  by (auto intro!: accounts_rules split: sum.splits)

end
