(* ===== verification/SigninWord.thy ===== *)
theory SigninWord
  imports Frames
begin

text \<open>
  What signing in promises: a code is worth five guesses and one session, a session that was ended
  stays ended, and an account that was closed lets nobody in.
\<close>

section \<open>The newest code\<close>

lemma insort_key_map: "(\<And>x. k (g x) = k x) \<Longrightarrow> insort_key k (g x) (map g xs) = map g (insort_key k x xs)"
  by (induction xs) auto

lemma sort_key_map: "(\<And>x. k (g x) = k x) \<Longrightarrow> sort_key k (map g xs) = map g (sort_key k xs)"
  by (induction xs) (simp_all add: insort_key_map)

definition latest :: "db \<Rightarrow> gotext \<Rightarrow> code_row option" where
  "latest d email = (case GetLatestSignInCode d email of Inl _ \<Rightarrow> None | Inr c \<Rightarrow> Some c)"

lemma GetLatestSignInCode_latest:
  "GetLatestSignInCode d email = (case latest d email of None \<Rightarrow> Inl (PlainError NoRows) | Some c \<Rightarrow> Inr c)"
  by (auto simp: latest_def GetLatestSignInCode_def split: list.splits)

lemma latest_codes: "db_codes d = db_codes d' \<Longrightarrow> latest d email = latest d' email"
  by (simp add: latest_def GetLatestSignInCode_def)

lemma latest_in: "latest d email = Some c \<Longrightarrow> c \<in> set (db_codes d) \<and> cod_email c = email"
proof -
  assume "latest d email = Some c"
  then obtain cs where "newest_first cod_created_at (sort_key cod_id (filter (\<lambda>c. cod_email c = email) (db_codes d))) = c # cs"
    by (auto simp: latest_def GetLatestSignInCode_def split: list.splits)
  then have "c \<in> set (newest_first cod_created_at (sort_key cod_id (filter (\<lambda>c. cod_email c = email) (db_codes d))))"
    by (metis list.set_intros(1))
  then show ?thesis by simp
qed

text \<open>A code that is counted or marked stays where it is in the order.\<close>

lemma latest_map:
  assumes "db_codes d' = map g (db_codes d)"
    "\<And>c. cod_email (g c) = cod_email c" "\<And>c. cod_id (g c) = cod_id c" "\<And>c. cod_created_at (g c) = cod_created_at c"
  shows "latest d' email = map_option g (latest d email)"
proof -
  have "filter (\<lambda>c. cod_email c = email) (map g (db_codes d)) = map g (filter (\<lambda>c. cod_email c = email) (db_codes d))"
    using assms(2) by (simp add: filter_map comp_def)
  then show ?thesis
    using assms by (simp add: latest_def GetLatestSignInCode_def newest_first_def sort_key_map rev_map split: list.splits)
qed

lemma latest_other:
  assumes "db_codes d' = db_codes d @ [c]" "cod_email c \<noteq> email"
  shows "latest d' email = latest d email"
  using assms by (simp add: latest_def GetLatestSignInCode_def)

text \<open>How many more guesses the newest code for an address is worth.\<close>

definition left_of :: "int \<Rightarrow> code_row option \<Rightarrow> nat" where
  "left_of now c = (case c of None \<Rightarrow> 0
     | Some c \<Rightarrow> if cod_used_at c \<noteq> None \<or> cod_expires_at c < now then 0 else 5 - cod_attempts c)"

definition guesses_left :: "gotext \<Rightarrow> world \<Rightarrow> nat" where
  "guesses_left email w = left_of (w_now w) (latest (w_db w) email)"

definition counted :: "uuid \<Rightarrow> code_row \<Rightarrow> code_row" where
  "counted i c = (if cod_id c = i then c\<lparr>cod_attempts := cod_attempts c + 1\<rparr> else c)"

definition marked :: "int \<Rightarrow> uuid \<Rightarrow> code_row \<Rightarrow> code_row" where
  "marked now i c = (if cod_id c = i then c\<lparr>cod_used_at := Some now\<rparr> else c)"

lemma latest_counted:
  "latest (snd (CountSignInAttempt i d)) email = map_option (counted i) (latest d email)"
  by (rule latest_map) (simp_all add: CountSignInAttempt_def update_where_def counted_def)

lemma latest_marked: "latest (MarkSignInCodeUsed now i d) email = map_option (marked now i) (latest d email)"
  by (rule latest_map) (simp_all add: MarkSignInCodeUsed_def update_where_def marked_def)

lemma left_of_less:
  "left_of now (map_option (counted i) c) \<le> left_of now c" "left_of now (map_option (marked t i) c) \<le> left_of now c"
  "left_of now (Some (counted (cod_id x) x)) \<le> left_of now (Some x) - 1"
  by (cases c; auto simp: left_of_def counted_def marked_def)+

lemma left_of_later: "0 \<le> dt \<Longrightarrow> left_of (now + dt) c \<le> left_of now c"
  by (cases c) (auto simp: left_of_def)

section \<open>Guessing\<close>

lemma codes_of_accounts: "accounts d = accounts d' \<Longrightarrow> db_codes d = db_codes d'"
  by (simp add: accounts_def)

lemma codes_rest:
  "db_codes (snd (CreateUser_sql now i n l d)) = db_codes d" "db_codes (snd (CreateIdentity now i u k v d)) = db_codes d"
  "db_codes (snd (CreateSession now i u h dv ex d)) = db_codes d" "db_codes (snd (RevokeOldestUserSessions now u kept d)) = db_codes d"
  by (simp_all add: CreateUser_sql_def CreateIdentity_def CreateSession_def RevokeOldestUserSessions_def set_sessions_def
      Let_def insert_text_def insert_row_def)

lemmas codes_rules = kept_needs [of "\<lambda>w. db_codes (w_db w) = A" for A] kept_runs [of "\<lambda>w. db_codes (w_db w) = A" for A]
  kept_WithTx [of "\<lambda>d. db_codes d = A" for A] kept_step [of "\<lambda>w. db_codes (w_db w) = A" for A]
  kept_outcome [of "\<lambda>w. db_codes (w_db w) = A" for A]

lemma codes_accountFor: "db_codes (w_db (snd (accountFor e em w))) = db_codes (w_db w)"
  unfolding accountFor_def CreateUser_def Let_def split_def
  by (auto intro!: codes_rules simp: codes_rest split: sum.splits)

lemma codes_verifyTx: "db_codes (w_db (snd (verifyTx e h i em dv w))) = db_codes (MarkSignInCodeUsed (w_now w) i (w_db w))"
proof -
  have w: "db_codes (w_db (snd (Welcomer e h u w))) = db_codes (w_db w)" for u w
    by (rule codes_of_accounts) simp
  show ?thesis
    unfolding verifyTx_def Let_def split_def
    by (auto intro!: codes_rules simp: codes_accountFor codes_rest w split: if_splits)
qed

lemma checkCode_cases [consumes 2, case_names refused counted]:
  assumes "checkCode e em code w = (r, w1)" "well w"
  obtains err where "r = Inl err" "w1 = w" "left_of (w_now w) (latest (w_db w) em) = 0"
  | c where "latest (w_db w) em = Some c" "w1 = w\<lparr>w_db := snd (CountSignInAttempt (cod_id c) (w_db w))\<rparr>"
      "r = Inr c \<longrightarrow> cod_attempts c < 5 \<and> cod_used_at c = None \<and> w_now w \<le> cod_expires_at c"
      "r = Inr c \<or> (\<exists>err. r = Inl err)"
proof (cases "latest (w_db w) em")
  case None
  with that(1) assms(1) show ?thesis by (auto simp: checkCode_def GetLatestSignInCode_latest left_of_def)
next
  case (Some c)
  show ?thesis
  proof (cases "cod_used_at c \<noteq> None \<or> cod_expires_at c < w_now w")
    case True
    with that(1) assms(1) Some show ?thesis by (auto simp: checkCode_def GetLatestSignInCode_latest left_of_def)
  next
    case False
    have "find (\<lambda>c'. cod_id c' = cod_id c) (db_codes (w_db w)) = Some c"
      using find_key [OF db_okD(13) [OF assms(2)]] latest_in [OF Some] by blast
    then show ?thesis
      using that(2) [OF Some] assms(1) Some False
      by (auto simp: checkCode_def GetLatestSignInCode_latest on_db_def CountSignInAttempt_def Let_def codeAttemptsMax_def
          split: if_splits)
  qed
qed

lemma VerifyCode_codes:
  assumes "normalizeEmail e raw = Inr em" "validateDeviceName dev = Inr dn" "checkCode e em code w = (Inr c, w1)"
  shows "db_codes (w_db (snd (VerifyCode e h raw code dev w))) = db_codes (w_db w1)
      \<and> (\<exists>err. fst (VerifyCode e h raw code dev w) = Inl err)
    \<or> db_codes (w_db (snd (VerifyCode e h raw code dev w))) = db_codes (MarkSignInCodeUsed (w_now w1) (cod_id c) (w_db w1))"
proof (cases "verifyTx e h (cod_id c) em dn w1")
  case (Pair r w2)
  have "db_codes (w_db w2) = db_codes (MarkSignInCodeUsed (w_now w1) (cod_id c) (w_db w1))"
    using codes_verifyTx [of e h "cod_id c" em dn w1] Pair by simp
  then show ?thesis using assms Pair
    by (cases r) (auto simp: VerifyCode_def WithTx_def outcome_def split: option.splits)
qed

lemma now_checkCode: "w_now (snd (checkCode e em code w)) = w_now w"
  unfolding checkCode_def Let_def split_def by (auto intro!: now_rules split: sum.splits)

lemma now_VerifyCode: "w_now (snd (VerifyCode e h raw code dev w)) = w_now w"
  unfolding VerifyCode_def split_def
  by (auto intro!: now_rules simp: now_checkCode split: option.splits)

text \<open>A guess at an address costs one; what others guess costs nothing more.\<close>

lemma guess_costs:
  assumes "well w" "normalizeEmail e raw = Inr em"
  shows "guesses_left email (snd (VerifyCode e h raw code dev w))
     \<le> guesses_left email w - (if em = email \<and> \<not> isl (validateDeviceName dev) then 1 else 0)"
    and "em = email \<Longrightarrow> guesses_left email w = 0 \<Longrightarrow> \<exists>err. fst (VerifyCode e h raw code dev w) = Inl err"
proof -
  let ?w' = "snd (VerifyCode e h raw code dev w)"
  have "guesses_left email ?w' \<le> guesses_left email w - (if em = email \<and> \<not> isl (validateDeviceName dev) then 1 else 0)
    \<and> (em = email \<and> guesses_left email w = 0 \<longrightarrow> (\<exists>err. fst (VerifyCode e h raw code dev w) = Inl err))"
  proof (cases "validateDeviceName dev")
    case (Inl err)
    then show ?thesis using assms(2) by (simp add: VerifyCode_def)
  next
    case (Inr dn)
    obtain r w1 where c: "checkCode e em code w = (r, w1)" by fastforce
    from c assms(1) show ?thesis
    proof (cases rule: checkCode_cases)
      case (refused err)
      then show ?thesis using c Inr assms(2) by (auto simp: VerifyCode_def guesses_left_def)
    next
      case (counted x)
      have w1: "latest (w_db w1) email = map_option (SigninWord.counted (cod_id x)) (latest (w_db w) email)" "w_now w1 = w_now w"
        using counted(2) latest_counted by simp_all
      have less: "left_of (w_now w) (latest (w_db w1) email) \<le> guesses_left email w - (if em = email then 1 else 0)"
        using left_of_less(1) [of "w_now w" "cod_id x" "latest (w_db w) email"] left_of_less(3) [of "w_now w" x] counted(1)
        by (auto simp: w1 guesses_left_def)
      have now: "w_now ?w' = w_now w" by (rule now_VerifyCode)
      from counted(4) show ?thesis
      proof
        assume r: "\<exists>err. r = Inl err"
        then show ?thesis using c Inr assms(2) less w1(2) by (auto simp: VerifyCode_def guesses_left_def)
      next
        assume r: "r = Inr x"
        have "left_of (w_now w) (latest (w_db ?w') email) \<le> left_of (w_now w) (latest (w_db w1) email)"
          using VerifyCode_codes [OF assms(2) Inr c [unfolded r], of h]
            latest_codes [of "w_db ?w'" "w_db w1" email] latest_codes [of "w_db ?w'" "MarkSignInCodeUsed (w_now w1) (cod_id x) (w_db w1)" email]
            latest_marked [of "w_now w1" "cod_id x" "w_db w1" email] left_of_less(2) by auto
        moreover have "em = email \<Longrightarrow> 0 < guesses_left email w"
          using counted(1,3) r by (auto simp: guesses_left_def left_of_def)
        ultimately show ?thesis using less now Inr by (auto simp: guesses_left_def)
      qed
    qed
  qed
  then show "guesses_left email ?w' \<le> guesses_left email w - (if em = email \<and> \<not> isl (validateDeviceName dev) then 1 else 0)"
    and "em = email \<Longrightarrow> guesses_left email w = 0 \<Longrightarrow> \<exists>err. fst (VerifyCode e h raw code dev w) = Inl err" by blast+
qed

text \<open>Everything that happens around sign-in.\<close>

datatype sign_act = Ask gotext | Guess gotext gotext gotext | Pass int | Use string | Leave uuid

fun sign_do :: "env \<Rightarrow> string \<Rightarrow> sign_act \<Rightarrow> world \<Rightarrow> world" where
  "sign_do e h (Ask raw) w = snd (StartSignIn e raw w)"
| "sign_do e h (Guess raw code dev) w = snd (VerifyCode e h raw code dev w)"
| "sign_do e h (Pass dt) w = w\<lparr>w_now := w_now w + max 0 dt\<rparr>"
| "sign_do e h (Use tok) w = snd (ResolveToken e tok w)"
| "sign_do e h (Leave s) w = snd (Logout s w)"

fun guesses_at :: "env \<Rightarrow> gotext \<Rightarrow> sign_act list \<Rightarrow> nat" where
  "guesses_at e email [] = 0"
| "guesses_at e email (Guess raw code dev # acts) =
     (if normalizeEmail e raw = Inr email \<and> \<not> isl (validateDeviceName dev) then 1 else 0) + guesses_at e email acts"
| "guesses_at e email (_ # acts) = guesses_at e email acts"

fun asks_for :: "env \<Rightarrow> gotext \<Rightarrow> sign_act list \<Rightarrow> bool" where
  "asks_for e email [] = False"
| "asks_for e email (Ask raw # acts) = (normalizeEmail e raw = Inr email \<or> asks_for e email acts)"
| "asks_for e email (_ # acts) = asks_for e email acts"

lemma well_sign_do: "well w \<Longrightarrow> well (sign_do e h a w)"
  by (cases a) (simp_all add: well_StartSignIn well_VerifyCode well_sessions)

lemma sessions_codes:
  "db_codes (w_db (snd (ResolveToken e tok w))) = db_codes (w_db w)" "w_now (snd (ResolveToken e tok w)) = w_now w"
  "db_codes (w_db (snd (Logout i w))) = db_codes (w_db w)" "w_now (snd (Logout i w)) = w_now w"
  by (auto simp: ResolveToken_def Logout_def touch_def session_updates set_sessions_def split: sum.splits)

lemma StartSignIn_codes:
  "w_now (snd (StartSignIn e raw w)) = w_now w
   \<and> (db_codes (w_db (snd (StartSignIn e raw w))) = db_codes (w_db w)
      \<or> (\<exists>c. db_codes (w_db (snd (StartSignIn e raw w))) = db_codes (w_db w) @ [c] \<and> normalizeEmail e raw = Inr (cod_email c)))"
  by (cases "normalizeEmail e raw")
    (auto simp: StartSignIn_def allow_address_def newCode_def Let_def split_def needs_snd CreateSignInCode_def insert_text_def
      insert_row_def split: sum.splits)

lemma sign_act_left:
  assumes "well w" "\<not> asks_for e email [a]"
  shows "guesses_left email (sign_do e h a w) \<le> guesses_left email w - guesses_at e email [a]"
proof (cases a)
  case (Ask raw)
  with StartSignIn_codes [of e raw w] assms(2) show ?thesis
    using latest_codes [of "w_db (snd (StartSignIn e raw w))" "w_db w" email]
      latest_other [of "w_db (snd (StartSignIn e raw w))" "w_db w" _ email]
    by (auto simp: guesses_left_def)
next
  case (Guess raw code dev)
  show ?thesis
  proof (cases "normalizeEmail e raw")
    case (Inr em)
    then show ?thesis using guess_costs(1) [OF assms(1) Inr, of email h code dev] Guess by auto
  qed (simp add: Guess VerifyCode_def)
next
  case (Use tok)
  then show ?thesis using latest_codes [of "w_db (snd (ResolveToken e tok w))" "w_db w" email]
    by (simp add: guesses_left_def sessions_codes)
next
  case (Leave s)
  then show ?thesis using latest_codes [of "w_db (snd (Logout s w))" "w_db w" email]
    by (simp add: guesses_left_def sessions_codes)
qed (simp add: guesses_left_def left_of_later)

lemma guesses_run_out:
  assumes "well w" "\<not> asks_for e email acts"
  shows "well (fold (sign_do e h) acts w)
    \<and> guesses_left email (fold (sign_do e h) acts w) \<le> guesses_left email w - guesses_at e email acts"
  using assms
proof (induction acts arbitrary: w)
  case (Cons a acts)
  have a: "\<not> asks_for e email [a]" "\<not> asks_for e email acts" using Cons.prems(2) by (cases a; simp)+
  have n: "guesses_at e email (a # acts) = guesses_at e email [a] + guesses_at e email acts" by (cases a) simp_all
  show ?case
    using Cons.IH [OF well_sign_do [OF Cons.prems(1), of e h a] a(2)] sign_act_left [OF Cons.prems(1) a(1), of h]
    by (auto simp: n)
qed simp

text \<open>A guess that lets somebody in uses the code up.\<close>

lemma let_in_spends:
  assumes "well w" "normalizeEmail e raw = Inr email" "fst (VerifyCode e h raw code dev w) = Inr s"
  shows "guesses_left email (snd (VerifyCode e h raw code dev w)) = 0"
proof (cases "validateDeviceName dev")
  case (Inr dn)
  let ?w' = "snd (VerifyCode e h raw code dev w)"
  obtain r w1 where c: "checkCode e email code w = (r, w1)" by fastforce
  with assms(3) Inr assms(2) obtain x where r: "r = Inr x" by (cases r) (auto simp: VerifyCode_def)
  have l: "latest (w_db w) email = Some x" "w1 = w\<lparr>w_db := snd (CountSignInAttempt (cod_id x) (w_db w))\<rparr>"
    using c assms(1) r by (cases rule: checkCode_cases; auto)+
  have "latest (w_db w1) email = Some (counted (cod_id x) x)" by (simp add: l latest_counted)
  moreover have "latest (w_db ?w') email = map_option (marked (w_now w1) (cod_id x)) (latest (w_db w1) email)"
    using VerifyCode_codes [OF assms(2) Inr c [unfolded r], of h] assms(3)
      latest_codes [of "w_db ?w'" "MarkSignInCodeUsed (w_now w1) (cod_id x) (w_db w1)" email]
      latest_marked [of "w_now w1" "cod_id x" "w_db w1" email] by auto
  ultimately show ?thesis by (simp add: guesses_left_def left_of_def marked_def counted_def)
qed (use assms in \<open>simp add: VerifyCode_def\<close>)

fun let_in :: "env \<Rightarrow> string \<Rightarrow> gotext \<Rightarrow> sign_act list \<Rightarrow> world \<Rightarrow> bool" where
  "let_in e h email [] w = False"
| "let_in e h email (a # acts) w =
     ((case a of Guess raw code dev \<Rightarrow> normalizeEmail e raw = Inr email \<and> \<not> isl (fst (VerifyCode e h raw code dev w)) | _ \<Rightarrow> False)
      \<or> let_in e h email acts (sign_do e h a w))"

lemma let_in_left:
  "well w \<Longrightarrow> \<not> asks_for e email acts \<Longrightarrow> let_in e h email acts w
   \<Longrightarrow> guesses_left email (fold (sign_do e h) acts w) = 0"
proof (induction acts arbitrary: w)
  case (Cons a acts)
  have a: "\<not> asks_for e email acts" using Cons.prems(2) by (cases a) simp_all
  show ?case
  proof (cases "let_in e h email acts (sign_do e h a w)")
    case False
    with Cons.prems(3) obtain raw code dev s where
      "a = Guess raw code dev" "normalizeEmail e raw = Inr email" "fst (VerifyCode e h raw code dev w) = Inr s"
      by (cases a; cases "fst (VerifyCode e h (case a of Guess raw _ _ \<Rightarrow> raw) (case a of Guess _ c _ \<Rightarrow> c)
        (case a of Guess _ _ dev \<Rightarrow> dev) w)") auto
    then show ?thesis
      using guesses_run_out [OF well_sign_do [OF Cons.prems(1), of e h a] a, of h] let_in_spends [OF Cons.prems(1)] by simp
  qed (simp add: Cons.IH well_sign_do Cons.prems(1) a)
qed simp

text \<open>
  C11. A code is worth five guesses and one session. Whatever else happens, sessions used and ended,
  codes asked for and guessed at for other addresses, time passing: once an address has been guessed
  at five times since its newest code was sent, or a guess has let somebody in, every further guess
  is refused, the right one too, until another code is asked for. A guess costs one even when it is
  wrong, late or comes in a transaction that fails.
\<close>

theorem five_guesses_end_a_code:
  assumes "well w" "\<not> asks_for e email acts" "normalizeEmail e raw = Inr email"
    "5 \<le> guesses_at e email acts \<or> let_in e h email acts w"
  shows "\<exists>err. fst (VerifyCode e h raw code dev (fold (sign_do e h) acts w)) = Inl err"
proof -
  have five: "guesses_left email w \<le> 5" by (simp add: guesses_left_def left_of_def split: option.split)
  note out = guesses_run_out [OF assms(1,2), of h]
  from assms(4) have "guesses_left email (fold (sign_do e h) acts w) = 0"
    using let_in_left [OF assms(1,2)] out five by auto
  then show ?thesis using guess_costs(2) [OF _ assms(3)] out by blast
qed

definition code_world :: world where
  "code_world = snd (StartSignIn sample_env (str ''ada@hub.org'') sample_world)"

theorem five_guesses_end_a_code_witness:
  "\<exists>err. fst (VerifyCode sample_env [] (str ''ada@hub.org'') (str ''001001'') []
     (fold (sign_do sample_env []) (replicate 5 (Guess (str ''ada@hub.org'') (str ''123456'') [])) code_world)) = Inl err"
proof -
  have n: "normalizeEmail sample_env (str ''ada@hub.org'') = Inr (str ''ada@hub.org'')"
    by (simp add: normalizeEmail_def sample_env_def str_def TrimSpace_def byte_len_def emailMaxLen_def ValidString_def Let_def)
  have d: "validateDeviceName [] = Inr []"
    by (simp add: validateDeviceName_def TrimSpace_def ValidString_def contains_any_def RuneCount_def deviceNameMaxLen_def)
  have "well code_world" unfolding code_world_def by (rule well_StartSignIn) (simp add: sample_db_ok)
  moreover have "5 \<le> guesses_at sample_env (str ''ada@hub.org'') (replicate 5 (Guess (str ''ada@hub.org'') (str ''123456'') []))"
    by (simp add: n d numeral_eq_Suc)
  moreover have "\<not> asks_for sample_env (str ''ada@hub.org'') (replicate 5 (Guess (str ''ada@hub.org'') (str ''123456'') []))"
    by (simp add: numeral_eq_Suc)
  ultimately show ?thesis using five_guesses_end_a_code n by blast
qed

end
