(* ===== verification/Retention.thy ===== *)
theory Retention
  imports Keeps
begin

text \<open>
  What the hub keeps and for how long (\<open>retention/retention.go\<close>, \<open>retention/sweep.go\<close>, the statements
  of \<open>store/gen/retention.sql.go\<close>): messages past the window go with their files and deliveries, old
  delivery records go, and an owner over their budget loses their oldest files.

  Deleting a media row is refused while a profile points at it (\<open>users.avatar_media_id\<close> and
  \<open>agents.avatar_media_id\<close> reference it), deleting a message while a media row does; deliveries
  of a deleted message go with it. Every statement is a transaction of its own, so what a sweep did
  before it failed stays done. Deleting a file that will not go from storage is
  only logged (\<open>deletable\<close>).
\<close>

section \<open>Statements\<close>

definition expired_message :: "int \<Rightarrow> message_row \<Rightarrow> bool" where
  "expired_message before m \<longleftrightarrow> msg_created_at m < before \<and> msg_status m = MessageComplete"

definition CountExpiredMessages :: "db \<Rightarrow> int \<Rightarrow> nat" where
  "CountExpiredMessages d before = count_where (expired_message before) (db_messages d)"

definition ListExpiredMessageIDs :: "db \<Rightarrow> int \<Rightarrow> nat \<Rightarrow> uuid list" where
  "ListExpiredMessageIDs d before n = take n (sort (map msg_id (filter (expired_message before) (db_messages d))))"

definition a_face :: "db \<Rightarrow> media_row \<Rightarrow> bool" where
  "a_face d m \<longleftrightarrow> (\<exists>u\<in>set (db_users d). usr_avatar_media_id u = Some (med_id m))
     \<or> (\<exists>a\<in>set (db_agents d). agt_avatar_media_id a = Some (med_id m))"

definition delete_media :: "(media_row \<Rightarrow> bool) \<Rightarrow> db \<Rightarrow> (go_error + media_row list) \<times> db" where
  "delete_media P d =
     (if \<exists>m\<in>set (db_media d). P m \<and> a_face d m then (Inl (PlainError ForeignKeyViolation), d)
      else (Inr (filter P (db_media d)), d\<lparr>db_media := filter (\<lambda>m. \<not> P m) (db_media d)\<rparr>))"

definition DeleteMediaOfMessages :: "uuid list \<Rightarrow> db \<Rightarrow> (go_error + media_row list) \<times> db" where
  "DeleteMediaOfMessages ids = delete_media (\<lambda>m. case med_message_id m of None \<Rightarrow> False | Some i \<Rightarrow> i \<in> set ids)"

definition DeleteMediaByIDs :: "uuid list \<Rightarrow> db \<Rightarrow> (go_error + media_row list) \<times> db" where
  "DeleteMediaByIDs ids = delete_media (\<lambda>m. med_id m \<in> set ids)"

definition DeleteMessagesByIDs :: "uuid list \<Rightarrow> db \<Rightarrow> (go_error + nat) \<times> db" where
  "DeleteMessagesByIDs ids d =
     (if \<exists>m\<in>set (db_media d). \<exists>x\<in>set (db_messages d). msg_id x \<in> set ids \<and> med_message_id m = Some (msg_id x)
      then (Inl (PlainError ForeignKeyViolation), d)
      else (Inr (count_where (\<lambda>x. msg_id x \<in> set ids) (db_messages d)),
        d\<lparr>db_messages := filter (\<lambda>x. msg_id x \<notin> set ids) (db_messages d),
          db_deliveries := filter (\<lambda>r. case dlv_message_id r of None \<Rightarrow> True | Some i \<Rightarrow> i \<notin> set ids) (db_deliveries d)\<rparr>))"

definition finished_before :: "int \<Rightarrow> delivery_row \<Rightarrow> bool" where
  "finished_before before r \<longleftrightarrow>
     dlv_status r \<noteq> DeliveryPending \<and> coalesce (dlv_delivered_at r) (dlv_created_at r) < before"

definition DeleteFinishedDeliveries :: "int \<Rightarrow> db \<Rightarrow> nat \<times> db" where
  "DeleteFinishedDeliveries before d = (count_where (finished_before before) (db_deliveries d),
     d\<lparr>db_deliveries := filter (\<lambda>r. \<not> finished_before before r) (db_deliveries d)\<rparr>)"

definition claimed_by :: "participant_kind \<Rightarrow> uuid \<Rightarrow> media_row \<Rightarrow> bool" where
  "claimed_by k owner m \<longleftrightarrow> med_owner_kind m = k \<and> med_owner_id m = owner \<and> med_message_id m \<noteq> None"

definition SumClaimedMediaByOwner :: "db \<Rightarrow> participant_kind \<Rightarrow> uuid \<Rightarrow> int" where
  "SumClaimedMediaByOwner d k owner = sum_list (map med_byte_size (filter (claimed_by k owner) (db_media d)))"

definition ListClaimedMediaOldestFirst :: "db \<Rightarrow> participant_kind \<Rightarrow> uuid \<Rightarrow> nat \<Rightarrow> media_row list" where
  "ListClaimedMediaOldestFirst d k owner n =
     take n (sort_key med_created_at (sort_key med_id (filter (claimed_by k owner) (db_media d))))"

text \<open>\<open>GROUP BY owner_id HAVING SUM(byte_size) > budget\<close>\<close>

definition ListMediaOwnersOverBudget :: "db \<Rightarrow> participant_kind \<Rightarrow> int \<Rightarrow> (uuid \<times> int) list" where
  "ListMediaOwnersOverBudget d k budget =
     filter (\<lambda>(owner, used). budget < used)
       (map (\<lambda>owner. (owner, SumClaimedMediaByOwner d k owner))
         (remdups (map med_owner_id (filter (\<lambda>m. med_owner_kind m = k \<and> med_message_id m \<noteq> None) (db_media d)))))"

section \<open>The policy\<close>

record retention_policy =
  rp_MessageAge :: int
  rp_UserMediaBudget :: int
  rp_AgentMediaBudget :: int
  rp_DeliveryAge :: int
  rp_DryRun :: bool

definition DefaultDeliveryAge :: int where "DefaultDeliveryAge = hours (7 * 24)"

definition NewRetention :: "retention_policy \<Rightarrow> retention_policy" where
  "NewRetention p = (if rp_DeliveryAge p \<le> 0 then p\<lparr>rp_DeliveryAge := DefaultDeliveryAge\<rparr> else p)"

definition Window :: "retention_policy \<Rightarrow> int \<Rightarrow> int option" where
  "Window p now = (if rp_MessageAge p \<le> 0 then None else Some (now - rp_MessageAge p))"

definition Trimmed :: "retention_policy \<Rightarrow> int \<Rightarrow> int \<Rightarrow> bool" where
  "Trimmed p now conversationStarted = (case Window p now of None \<Rightarrow> False | Some since \<Rightarrow> conversationStarted < since)"

definition budget_of :: "retention_policy \<Rightarrow> participant_kind \<Rightarrow> int" where
  "budget_of p k = (if k = ParticipantAgent then rp_AgentMediaBudget p else rp_UserMediaBudget p)"

definition MediaUsage :: "retention_policy \<Rightarrow> db \<Rightarrow> participant_kind \<Rightarrow> uuid \<Rightarrow> int \<times> int" where
  "MediaUsage p d k owner = (SumClaimedMediaByOwner d k owner, budget_of p k)"

record sweep_report =
  sr_Messages :: nat
  sr_Files :: nat
  sr_Deliveries :: nat
  sr_OverBudget :: nat
  sr_DryRun :: bool

section \<open>The sweep\<close>

type_synonym sweep = "sweep_report \<times> world"

definition batch :: nat where "batch = 500"

definition remove_name :: "(string \<Rightarrow> bool) \<Rightarrow> string \<Rightarrow> world \<Rightarrow> world" where
  "remove_name deletable key w = (if deletable key then w\<lparr>w_blobs := (w_blobs w)(key := None)\<rparr> else w)"

definition removeBytes :: "(string \<Rightarrow> bool) \<Rightarrow> media_row \<Rightarrow> world \<Rightarrow> world" where
  "removeBytes deletable f w = (let w1 = remove_name deletable (med_storage_key f) w in
     case med_thumb_key f of None \<Rightarrow> w1 | Some t \<Rightarrow> remove_name deletable t w1)"

lemma removeBytes_db [simp]: "w_db (removeBytes del f w) = w_db w" "w_now (removeBytes del f w) = w_now w"
  by (simp_all add: removeBytes_def remove_name_def Let_def split: option.splits)

lemma fold_removeBytes_db [simp]:
  "w_db (fold (removeBytes del) fs w) = w_db w" "w_now (fold (removeBytes del) fs w) = w_now w"
  by (induction fs arbitrary: w) simp_all

text \<open>One round of the loop over expired messages: whether there is another one.\<close>

definition sweep_round :: "(string \<Rightarrow> bool) \<Rightarrow> int \<Rightarrow> sweep \<Rightarrow> (go_error + bool) \<times> sweep" where
  "sweep_round del since = (\<lambda>(r, w).
     let ids = ListExpiredMessageIDs (w_db w) since batch in
     if ids = [] then (Inr False, (r, w))
     else
       let (files, w1) = on_db (DeleteMediaOfMessages ids) w in
       needs (internal files) (r, w1) (\<lambda>files.
       let (n, w2) = on_db (DeleteMessagesByIDs ids) w1 in
       needs (internal n) (r, w2) (\<lambda>n.
       (Inr (batch \<le> length ids),
        (r\<lparr>sr_Messages := sr_Messages r + n, sr_Files := sr_Files r + length files\<rparr>, fold (removeBytes del) files w2)))))"

lemma sweep_round_less:
  assumes "sweep_round del since (r, w) = (Inr True, (r', w'))"
  shows "length (db_messages (w_db w')) < length (db_messages (w_db w))"
proof -
  let ?ids = "ListExpiredMessageIDs (w_db w) since batch"
  have ids: "?ids \<noteq> []" using assms by (auto simp: sweep_round_def Let_def)
  have db: "db_messages (w_db w') = filter (\<lambda>x. msg_id x \<notin> set ?ids) (db_messages (w_db w))"
    using assms ids
    by (auto simp: sweep_round_def Let_def ok_iffs on_db_def DeleteMediaOfMessages_def delete_media_def DeleteMessagesByIDs_def
        split: prod.splits if_splits)
  obtain i where "i \<in> set ?ids" using ids by (meson last_in_set)
  moreover from this have "\<exists>m\<in>set (db_messages (w_db w)). msg_id m = i"
    by (auto simp: ListExpiredMessageIDs_def dest!: in_set_takeD)
  ultimately obtain m where "m \<in> set (db_messages (w_db w))" "msg_id m \<in> set ?ids" by auto
  then show ?thesis unfolding db by (auto intro!: length_filter_less)
qed

function sweep_messages_loop :: "(string \<Rightarrow> bool) \<Rightarrow> int \<Rightarrow> sweep \<Rightarrow> (go_error + unit) \<times> sweep" where
  "sweep_messages_loop del since s = (case sweep_round del since s of
       (Inl e, s1) \<Rightarrow> (Inl e, s1)
     | (Inr again, s1) \<Rightarrow> if again then sweep_messages_loop del since s1 else (Inr (), s1))"
  by pat_completeness auto
termination
  by (relation "measure (\<lambda>(del, since, (r, w)). length (db_messages (w_db w)))") (auto dest!: sym [of _ "sweep_round _ _ _"] sweep_round_less)

declare sweep_messages_loop.simps [simp del]

definition sweepMessages :: "(string \<Rightarrow> bool) \<Rightarrow> retention_policy \<Rightarrow> sweep \<Rightarrow> (go_error + unit) \<times> sweep" where
  "sweepMessages del p = (\<lambda>(r, w). case Window p (w_now w) of
       None \<Rightarrow> (Inr (), (r, w))
     | Some since \<Rightarrow>
         if rp_DryRun p then (Inr (), (r\<lparr>sr_Messages := CountExpiredMessages (w_db w) since\<rparr>, w))
         else sweep_messages_loop del since (r, w))"

definition sweepDeliveries :: "retention_policy \<Rightarrow> sweep \<Rightarrow> sweep" where
  "sweepDeliveries p = (\<lambda>(r, w).
     if rp_DryRun p then (r, w)
     else let (n, w1) = on_db (DeleteFinishedDeliveries (w_now w - rp_DeliveryAge p)) w in (r\<lparr>sr_Deliveries := n\<rparr>, w1))"

text \<open>The files to go, oldest first, until the excess is covered; and the excess that is left.\<close>

fun pick :: "int \<Rightarrow> media_row list \<Rightarrow> uuid list \<times> int" where
  "pick excess [] = ([], excess)"
| "pick excess (row # rows) =
     (if excess \<le> 0 then ([], excess)
      else let (ids, rest) = pick (excess - med_byte_size row) rows in (med_id row # ids, rest))"

definition budget_round :: "(string \<Rightarrow> bool) \<Rightarrow> participant_kind \<Rightarrow> uuid \<Rightarrow> int \<Rightarrow> sweep \<Rightarrow> (go_error + int option) \<times> sweep" where
  "budget_round del k owner excess = (\<lambda>(r, w).
     let (ids, rest) = pick excess (ListClaimedMediaOldestFirst (w_db w) k owner batch) in
     if ids = [] then (Inr None, (r, w))
     else
       let (files, w1) = on_db (DeleteMediaByIDs ids) w in
       needs (internal files) (r, w1) (\<lambda>files.
       (Inr (Some rest), (r\<lparr>sr_Files := sr_Files r + length files\<rparr>, fold (removeBytes del) files w1))))"

lemma pick_in: "i \<in> set (fst (pick excess rows)) \<Longrightarrow> \<exists>m\<in>set rows. med_id m = i"
  by (induction excess rows rule: pick.induct) (auto simp: Let_def split_def split: if_splits)

lemma set_ListClaimed: "m \<in> set (ListClaimedMediaOldestFirst d k owner n) \<Longrightarrow> m \<in> set (db_media d) \<and> claimed_by k owner m"
  by (auto simp: ListClaimedMediaOldestFirst_def dest!: in_set_takeD)

lemma budget_round_less:
  assumes "budget_round del k owner excess (r, w) = (Inr (Some rest), (r', w'))"
  shows "length (db_media (w_db w')) < length (db_media (w_db w))"
proof -
  obtain ids rest' where p: "pick excess (ListClaimedMediaOldestFirst (w_db w) k owner batch) = (ids, rest')" by fastforce
  with assms have ids: "ids \<noteq> []" by (auto simp: budget_round_def)
  have db: "db_media (w_db w') = filter (\<lambda>m. med_id m \<notin> set ids) (db_media (w_db w))"
    using assms ids p
    by (auto simp: budget_round_def Let_def ok_iffs on_db_def DeleteMediaByIDs_def delete_media_def split: prod.splits if_splits)
  obtain i where "i \<in> set ids" using ids by (meson last_in_set)
  then obtain m where "m \<in> set (db_media (w_db w))" "med_id m \<in> set ids"
    using pick_in [of i excess "ListClaimedMediaOldestFirst (w_db w) k owner batch"] set_ListClaimed p by fastforce
  then show ?thesis unfolding db by (auto intro!: length_filter_less)
qed

function budget_owner_loop :: "(string \<Rightarrow> bool) \<Rightarrow> participant_kind \<Rightarrow> uuid \<Rightarrow> int \<Rightarrow> sweep \<Rightarrow> (go_error + unit) \<times> sweep" where
  "budget_owner_loop del k owner excess s =
     (if excess \<le> 0 then (Inr (), s)
      else case budget_round del k owner excess s of
        (Inl e, s1) \<Rightarrow> (Inl e, s1)
      | (Inr None, s1) \<Rightarrow> (Inr (), s1)
      | (Inr (Some rest), s1) \<Rightarrow> budget_owner_loop del k owner rest s1)"
  by pat_completeness auto
termination
  by (relation "measure (\<lambda>(del, k, owner, excess, (r, w)). length (db_media (w_db w)))")
    (auto dest!: sym [of _ "budget_round _ _ _ _ _"] budget_round_less)

declare budget_owner_loop.simps [simp del]

fun budget_owners_loop :: "(string \<Rightarrow> bool) \<Rightarrow> participant_kind \<Rightarrow> int \<Rightarrow> (uuid \<times> int) list \<Rightarrow> sweep \<Rightarrow> (go_error + unit) \<times> sweep" where
  "budget_owners_loop del k limit [] s = (Inr (), s)"
| "budget_owners_loop del k limit ((owner, held) # owners) s =
     runs (budget_owner_loop del k owner (held - limit) s) (\<lambda>_ s1. budget_owners_loop del k limit owners s1)"

definition sweepBudget :: "(string \<Rightarrow> bool) \<Rightarrow> retention_policy \<Rightarrow> participant_kind \<Rightarrow> sweep \<Rightarrow> (go_error + unit) \<times> sweep" where
  "sweepBudget del p k = (\<lambda>(r, w).
     let limit = budget_of p k in
     if limit \<le> 0 then (Inr (), (r, w))
     else
       let owners = ListMediaOwnersOverBudget (w_db w) k limit; r1 = r\<lparr>sr_OverBudget := sr_OverBudget r + length owners\<rparr> in
       if rp_DryRun p then (Inr (), (r1, w))
       else budget_owners_loop del k limit owners (r1, w))"

definition Sweep :: "(string \<Rightarrow> bool) \<Rightarrow> retention_policy \<Rightarrow> world \<Rightarrow> (go_error + unit) \<times> sweep" where
  "Sweep del p w =
     runs (sweepMessages del p (\<lparr>sr_Messages = 0, sr_Files = 0, sr_Deliveries = 0, sr_OverBudget = 0, sr_DryRun = rp_DryRun p\<rparr>, w)) (\<lambda>_ s1.
     runs (sweepBudget del p ParticipantUser (sweepDeliveries p s1)) (\<lambda>_ s2.
     sweepBudget del p ParticipantAgent s2))"

section \<open>What a sweep may take\<close>

text \<open>
  What a sweep removes between two states of the hub: messages past the window, and with a message
  every file and every delivery record that names it. Nothing else of the database changes, except
  that files and delivery records may go.
\<close>

definition may_go :: "int option \<Rightarrow> (message_row \<Rightarrow> bool) \<Rightarrow> (media_row \<Rightarrow> bool) \<Rightarrow> (delivery_row \<Rightarrow> bool) \<Rightarrow> db \<Rightarrow> bool" where
  "may_go since P Q R d \<longleftrightarrow> (\<forall>m\<in>set (db_messages d). P m \<or>
     (\<exists>t. since = Some t \<and> expired_message t m)
   \<and> (\<forall>f\<in>set (db_media d). Q f \<longrightarrow> med_message_id f \<noteq> Some (msg_id m))
   \<and> (\<forall>r\<in>set (db_deliveries d). R r \<longrightarrow> dlv_message_id r \<noteq> Some (msg_id m)))"

definition keep_only :: "(message_row \<Rightarrow> bool) \<Rightarrow> (media_row \<Rightarrow> bool) \<Rightarrow> (delivery_row \<Rightarrow> bool) \<Rightarrow> db \<Rightarrow> db" where
  "keep_only P Q R d = d\<lparr>db_messages := filter P (db_messages d), db_media := filter Q (db_media d),
     db_deliveries := filter R (db_deliveries d)\<rparr>"

definition pruned :: "int option \<Rightarrow> db \<Rightarrow> db \<Rightarrow> bool" where
  "pruned since d d' \<longleftrightarrow> (\<exists>P Q R. d' = keep_only P Q R d \<and> may_go since P Q R d)"

lemma prunedI: "d' = keep_only P Q R d \<Longrightarrow> may_go since P Q R d \<Longrightarrow> pruned since d d'"
  unfolding pruned_def by blast

lemma pruned_refl [simp]: "pruned since d d"
  by (rule prunedI [of _ "\<lambda>_. True" "\<lambda>_. True" "\<lambda>_. True"]) (simp_all add: keep_only_def may_go_def)

lemma keep_only_twice:
  "keep_only P2 Q2 R2 (keep_only P1 Q1 R1 d) = keep_only (\<lambda>m. P1 m \<and> P2 m) (\<lambda>m. Q1 m \<and> Q2 m) (\<lambda>m. R1 m \<and> R2 m) d"
  by (simp add: keep_only_def conj_commute)

lemma may_go_twice:
  "may_go since P1 Q1 R1 d \<Longrightarrow> may_go since P2 Q2 R2 (keep_only P1 Q1 R1 d)
   \<Longrightarrow> may_go since (\<lambda>m. P1 m \<and> P2 m) (\<lambda>m. Q1 m \<and> Q2 m) (\<lambda>m. R1 m \<and> R2 m) d"
  unfolding may_go_def keep_only_def by simp blast

lemma pruned_trans: "pruned since d1 d2 \<Longrightarrow> pruned since d2 d3 \<Longrightarrow> pruned since d1 d3"
  unfolding pruned_def using keep_only_twice may_go_twice by metis

lemma distinct_map_filter_sub: "distinct (map k (filter P xs)) \<Longrightarrow> distinct (map k (filter (\<lambda>x. Q x \<and> P x) xs))"
  using distinct_map_filter [of k "filter P xs" Q] by (simp add: conj_commute)

lemma messages_ok_filter: "messages_ok ms \<Longrightarrow> messages_ok (filter P ms)"
  unfolding messages_ok_def by (simp add: distinct_map_filter distinct_map_filter_sub)

lemma deliveries_ok_filter: "deliveries_ok ds \<Longrightarrow> deliveries_ok (filter P ds)"
  unfolding deliveries_ok_def by (simp add: distinct_map_filter distinct_map_filter_sub)

lemma pruned_ok: "pruned since d d' \<Longrightarrow> db_ok d \<Longrightarrow> db_ok d'"
  unfolding pruned_def
  by (elim exE conjE) (simp add: db_ok_def keep_only_def messages_ok_filter deliveries_ok_filter distinct_map_filter)

lemma pruned_media: "pruned since d (d\<lparr>db_media := filter Q (db_media d)\<rparr>)"
  by (rule prunedI [of _ "\<lambda>_. True" Q "\<lambda>_. True"]) (auto simp: keep_only_def may_go_def intro!: db.equality)

lemma pruned_deliveries: "pruned since d (d\<lparr>db_deliveries := filter R (db_deliveries d)\<rparr>)"
  by (rule prunedI [of _ "\<lambda>_. True" "\<lambda>_. True" R]) (auto simp: keep_only_def may_go_def intro!: db.equality)

lemma delete_media_pruned: "pruned since d (snd (delete_media P d))"
  by (simp add: delete_media_def pruned_media)

section \<open>Each step\<close>

lemma set_expired_ids:
  "i \<in> set (ListExpiredMessageIDs d since n) \<Longrightarrow> \<exists>m\<in>set (db_messages d). msg_id m = i \<and> expired_message since m"
  by (auto simp: ListExpiredMessageIDs_def dest!: in_set_takeD)

lemma all_expired_ids:
  "length (ListExpiredMessageIDs d since n) < n \<Longrightarrow> m \<in> set (db_messages d) \<Longrightarrow> expired_message since m
   \<Longrightarrow> msg_id m \<in> set (ListExpiredMessageIDs d since n)"
  by (auto simp: ListExpiredMessageIDs_def)

lemma DeleteMessages_pruned:
  assumes "db_ok d" "\<forall>i\<in>set ids. \<exists>m\<in>set (db_messages d). msg_id m = i \<and> expired_message since m"
  shows "pruned (Some since) d (snd (DeleteMessagesByIDs ids d))"
proof (cases "fst (DeleteMessagesByIDs ids d)")
  case (Inl e)
  then show ?thesis by (auto simp: DeleteMessagesByIDs_def split: if_splits)
next
  case (Inr n)
  have dist: "distinct (map msg_id (db_messages d))" using db_okD(3) [OF assms(1)] by (simp add: messages_ok_def)
  have late: "expired_message since m" if "m \<in> set (db_messages d)" "msg_id m \<in> set ids" for m
  proof -
    from assms(2) that(2) obtain m' where "m' \<in> set (db_messages d)" "msg_id m' = msg_id m" "expired_message since m'" by auto
    then show ?thesis using dist that(1) by (metis distinct_map inj_onD)
  qed
  have free: "\<forall>f\<in>set (db_media d). \<forall>m\<in>set (db_messages d). msg_id m \<in> set ids \<longrightarrow> med_message_id f \<noteq> Some (msg_id m)"
    using Inr by (auto simp: DeleteMessagesByIDs_def split: if_splits)
  let ?R = "\<lambda>r. case dlv_message_id r of None \<Rightarrow> True | Some i \<Rightarrow> i \<notin> set ids"
  show ?thesis
  proof (rule prunedI)
    show "snd (DeleteMessagesByIDs ids d) = keep_only (\<lambda>x. msg_id x \<notin> set ids) (\<lambda>_. True) ?R d"
      using Inr by (intro db.equality) (auto simp: DeleteMessagesByIDs_def keep_only_def split: if_splits)
    show "may_go (Some since) (\<lambda>x. msg_id x \<notin> set ids) (\<lambda>_. True) ?R d"
      unfolding may_go_def using late free by auto
  qed
qed

lemma sweep_round_pruned:
  assumes "well w" "sweep_round del since (r, w) = (x, (r', w'))"
  shows "pruned (Some since) (w_db w) (w_db w') \<and> w_now w' = w_now w"
proof -
  let ?ids = "ListExpiredMessageIDs (w_db w) since batch"
  let ?d1 = "snd (DeleteMediaOfMessages ?ids (w_db w))"
  have 1: "pruned (Some since) (w_db w) ?d1" by (simp add: DeleteMediaOfMessages_def delete_media_pruned)
  have "\<forall>i\<in>set ?ids. \<exists>m\<in>set (db_messages ?d1). msg_id m = i \<and> expired_message since m"
    using set_expired_ids [of _ "w_db w" since batch] by (auto simp: DeleteMediaOfMessages_def delete_media_def)
  then have "pruned (Some since) ?d1 (snd (DeleteMessagesByIDs ?ids ?d1))"
    by (rule DeleteMessages_pruned [OF pruned_ok [OF 1 assms(1)]])
  from pruned_trans [OF 1 this] 1 assms(2) show ?thesis
    by (cases "fst (DeleteMediaOfMessages ?ids (w_db w))"; cases "fst (DeleteMessagesByIDs ?ids ?d1)")
      (auto simp: sweep_round_def Let_def on_db_def split_def split: if_splits)
qed

lemma sweep_round_last:
  assumes "sweep_round del since (r, w) = (Inr False, (r', w'))"
  shows "\<forall>m\<in>set (db_messages (w_db w')). \<not> expired_message since m"
proof -
  let ?ids = "ListExpiredMessageIDs (w_db w) since batch"
  have short: "length ?ids < batch"
    using assms by (cases "?ids = []") (auto simp: sweep_round_def Let_def ok_iffs on_db_def batch_def split_def)
  have "db_messages (w_db w') = filter (\<lambda>x. msg_id x \<notin> set ?ids) (db_messages (w_db w))"
    using assms
    by (auto simp: sweep_round_def Let_def ok_iffs on_db_def DeleteMediaOfMessages_def delete_media_def DeleteMessagesByIDs_def
        split: prod.splits if_splits)
  then show ?thesis using all_expired_ids [OF short] by auto
qed

lemma sweep_loop_pruned:
  "well (snd s) \<Longrightarrow> pruned (Some since) (w_db (snd s)) (w_db (snd (snd (sweep_messages_loop del since s))))
     \<and> w_now (snd (snd (sweep_messages_loop del since s))) = w_now (snd s)
     \<and> (isl (fst (sweep_messages_loop del since s))
        \<or> (\<forall>m\<in>set (db_messages (w_db (snd (snd (sweep_messages_loop del since s))))). \<not> expired_message since m))"
proof (induction del since s rule: sweep_messages_loop.induct)
  case (1 del since s)
  obtain r w where s: "s = (r, w)" by fastforce
  obtain x r' w' where round: "sweep_round del since (r, w) = (x, (r', w'))" by (metis prod.exhaust)
  have one: "pruned (Some since) (w_db w) (w_db w')" "w_now w' = w_now w"
    using sweep_round_pruned [OF _ round] 1(2) by (simp_all add: s)
  show ?case
  proof (cases x)
    case (Inl e)
    then show ?thesis using round one by (simp add: s sweep_messages_loop.simps [of del since "(r, w)"])
  next
    case (Inr again)
    show ?thesis
    proof (cases again)
      case True
      have "well w'" using pruned_ok [OF one(1)] 1(2) by (simp add: s)
      from 1(1) [OF round [unfolded s [symmetric], symmetric] Inr True] this
      show ?thesis using round one Inr True pruned_trans [OF one(1)]
        by (simp add: s sweep_messages_loop.simps [of del since "(r, w)"])
    next
      case False
      then show ?thesis using round one Inr sweep_round_last [of del since r w r' w']
        by (simp add: s sweep_messages_loop.simps [of del since "(r, w)"])
    qed
  qed
qed

lemma sweepMessages_pruned:
  assumes "well w"
  shows "pruned (Window p (w_now w)) (w_db w) (w_db (snd (snd (sweepMessages del p (r, w)))))"
    "w_now (snd (snd (sweepMessages del p (r, w)))) = w_now w"
    "\<not> rp_DryRun p \<Longrightarrow> Window p (w_now w) = Some since \<Longrightarrow> \<not> isl (fst (sweepMessages del p (r, w)))
     \<Longrightarrow> m \<in> set (db_messages (w_db (snd (snd (sweepMessages del p (r, w)))))) \<Longrightarrow> \<not> expired_message since m"
  using sweep_loop_pruned [of "(r, w)" _ del] assms by (auto simp: sweepMessages_def split: option.splits)

lemma sweepDeliveries_pruned:
  "pruned since (w_db w) (w_db (snd (sweepDeliveries p (r, w)))) \<and> w_now (snd (sweepDeliveries p (r, w))) = w_now w"
  by (simp add: sweepDeliveries_def on_db_def DeleteFinishedDeliveries_def pruned_deliveries)

lemma budget_round_pruned:
  "budget_round del k owner excess (r, w) = (x, (r', w'))
   \<Longrightarrow> pruned since (w_db w) (w_db w') \<and> w_now w' = w_now w"
  using delete_media_pruned [of since]
  by (cases "fst (pick excess (ListClaimedMediaOldestFirst (w_db w) k owner batch)) = []";
      cases "fst (DeleteMediaByIDs (fst (pick excess (ListClaimedMediaOldestFirst (w_db w) k owner batch))) (w_db w))")
    (auto simp: budget_round_def on_db_def split_def DeleteMediaByIDs_def Let_def)


lemma budget_loop_pruned:
  "pruned since (w_db (snd s)) (w_db (snd (snd (budget_owner_loop del k owner excess s))))
   \<and> w_now (snd (snd (budget_owner_loop del k owner excess s))) = w_now (snd s)"
proof (induction del k owner excess s rule: budget_owner_loop.induct)
  case (1 del k owner excess s)
  obtain r w where s: "s = (r, w)" by fastforce
  obtain x r' w' where round: "budget_round del k owner excess (r, w) = (x, (r', w'))" by (metis prod.exhaust)
  note one = budget_round_pruned [OF round, of since]
  show ?case
  proof (cases "0 < excess \<and> (\<exists>rest. x = Inr (Some rest))")
    case True
    then obtain rest where x: "x = Inr (Some rest)" "\<not> excess \<le> 0" by auto
    from 1 [OF x(2) round [unfolded s [symmetric], symmetric] x(1) refl] show ?thesis
      using one x(2) round pruned_trans [of since "w_db w" "w_db w'"]
      by (simp add: s x(1) budget_owner_loop.simps [of del k owner excess "(r, w)"])
  next
    case False
    then show ?thesis
      using one round by (cases x rule: sum.exhaust)
        (auto simp: s budget_owner_loop.simps [of del k owner excess "(r, w)"] split: option.splits)
  qed
qed

lemma budget_owners_pruned:
  "pruned since (w_db (snd s)) (w_db (snd (snd (budget_owners_loop del k limit owners s))))
   \<and> w_now (snd (snd (budget_owners_loop del k limit owners s))) = w_now (snd s)"
proof (induction owners arbitrary: s)
  case (Cons o1 owners)
  obtain owner held where o1: "o1 = (owner, held)" by fastforce
  show ?case
    using budget_loop_pruned [of since s del k owner "held - limit"] Cons.IH [of "snd (budget_owner_loop del k owner (held - limit) s)"]
      pruned_trans [of since "w_db (snd s)" "w_db (snd (snd (budget_owner_loop del k owner (held - limit) s)))"]
    by (simp add: o1 runs_def split: sum.split)
qed simp

lemma sweepBudget_pruned:
  "pruned since (w_db w) (w_db (snd (snd (sweepBudget del p k (r, w)))))
   \<and> w_now (snd (snd (sweepBudget del p k (r, w)))) = w_now w"
  using budget_owners_pruned [of since "(_, w)"] by (auto simp: sweepBudget_def Let_def)

lemma Sweep_pruned:
  assumes "well w"
  shows "pruned (Window p (w_now w)) (w_db w) (w_db (snd (snd (Sweep del p w)))) \<and> w_now (snd (snd (Sweep del p w))) = w_now w"
proof -
  let ?r = "\<lparr>sr_Messages = 0, sr_Files = 0, sr_Deliveries = 0, sr_OverBudget = 0, sr_DryRun = rp_DryRun p\<rparr>"
  let ?S = "Window p (w_now w)"
  obtain x1 r1 w1 where 1: "sweepMessages del p (?r, w) = (x1, (r1, w1))" by (metis prod.exhaust)
  obtain r2 w2 where 2: "sweepDeliveries p (r1, w1) = (r2, w2)" by fastforce
  obtain x3 r3 w3 where 3: "sweepBudget del p ParticipantUser (r2, w2) = (x3, (r3, w3))" by (metis prod.exhaust)
  obtain x4 r4 w4 where 4: "sweepBudget del p ParticipantAgent (r3, w3) = (x4, (r4, w4))" by (metis prod.exhaust)
  have "pruned ?S (w_db w) (w_db w1)" "w_now w1 = w_now w"
    using sweepMessages_pruned(1) [OF assms, of p del ?r] sweepMessages_pruned(2) [OF assms, of del p ?r] 1 by simp_all
  moreover have "pruned ?S (w_db w1) (w_db w2)" "w_now w2 = w_now w1"
    using sweepDeliveries_pruned [of ?S w1 p r1] 2 by simp_all
  moreover have "pruned ?S (w_db w2) (w_db w3)" "w_now w3 = w_now w2"
    using sweepBudget_pruned [of ?S w2 del p ParticipantUser r2] 3 by simp_all
  moreover have "pruned ?S (w_db w3) (w_db w4)" "w_now w4 = w_now w3"
    using sweepBudget_pruned [of ?S w3 del p ParticipantAgent r3] 4 by simp_all
  ultimately have "pruned ?S (w_db w) (w_db w1)" "pruned ?S (w_db w) (w_db w3)" "pruned ?S (w_db w) (w_db w4)"
    "w_now w1 = w_now w" "w_now w3 = w_now w" "w_now w4 = w_now w"
    by (blast intro: pruned_trans, blast intro: pruned_trans, blast intro: pruned_trans, simp_all)
  then show ?thesis by (cases x1; cases x3) (simp_all add: Sweep_def 1 2 3 4 runs_def)
qed

lemma well_Sweep: "well w \<Longrightarrow> well (snd (snd (Sweep del p w)))"
  using Sweep_pruned [of w p del] pruned_ok by blast


section \<open>Budgets\<close>

lemma pick_prefix:
  "pick excess rows = (ids, rest) \<Longrightarrow>
     \<exists>n. ids = map med_id (take n rows) \<and> rest = excess - sum_list (map med_byte_size (take n rows))"
proof (induction excess rows arbitrary: ids rest rule: pick.induct)
  case (2 excess row rows)
  show ?case
  proof (cases "excess \<le> 0")
    case True
    with 2(2) show ?thesis by (auto intro: exI [of _ 0])
  next
    case False
    obtain ids' where p: "pick (excess - med_byte_size row) rows = (ids', rest)" "ids = med_id row # ids'"
      using 2(2) False by (auto split: prod.splits)
    from 2(1) [OF False p(1)] obtain n where
      "ids' = map med_id (take n rows)" "rest = excess - med_byte_size row - sum_list (map med_byte_size (take n rows))" by auto
    then show ?thesis by (intro exI [of _ "Suc n"]) (simp add: p(2))
  qed
qed simp

lemma pick_none: "pick excess rows = ([], rest) \<Longrightarrow> 0 < excess \<Longrightarrow> rows = []"
  by (cases rows) (auto split: prod.splits)

lemma sum_list_mset_eq: "mset xs = mset ys \<Longrightarrow> sum_list (map f xs) = (sum_list (map f ys) :: int)"
  by (metis mset_map sum_mset_sum_list)

lemma filter_prefix_out:
  "distinct (map k xs) \<Longrightarrow> filter (\<lambda>x. k x \<notin> k ` set (take n xs)) xs = drop n xs"
proof -
  assume d: "distinct (map k xs)"
  have "k x \<notin> k ` set (take n xs)" if "x \<in> set (drop n xs)" for x
  proof -
    have "distinct (map k (take n xs @ drop n xs))" using d by simp
    then show ?thesis using that unfolding map_append distinct_append by auto
  qed
  then have "filter (\<lambda>x. k x \<notin> k ` set (take n xs)) (take n xs @ drop n xs) = drop n xs"
    unfolding filter_append by (simp add: filter_empty_conv cong: filter_cong)
  then show ?thesis by simp
qed

lemma sum_after:
  assumes "distinct (map med_id (db_media d))" "ids = map med_id (take n (ListClaimedMediaOldestFirst d k owner N))"
  shows "SumClaimedMediaByOwner (d\<lparr>db_media := filter (\<lambda>m. med_id m \<notin> set ids) (db_media d)\<rparr>) k owner
     = SumClaimedMediaByOwner d k owner - sum_list (map med_byte_size (take n (ListClaimedMediaOldestFirst d k owner N)))"
proof -
  let ?C = "filter (claimed_by k owner) (db_media d)"
  let ?L = "sort_key med_created_at (sort_key med_id ?C)"
  have L: "mset ?L = mset ?C" by simp
  have dist: "distinct (map med_id ?L)"
    using distinct_map_filter [OF assms(1), of "claimed_by k owner"] L by (metis mset_eq_imp_distinct_iff mset_map)
  have ids: "set ids = med_id ` set (take (min n N) ?L)"
    by (simp add: assms(2) ListClaimedMediaOldestFirst_def min.commute)
  have "filter (claimed_by k owner) (filter (\<lambda>m. med_id m \<notin> set ids) (db_media d)) = filter (\<lambda>m. med_id m \<notin> set ids) ?C"
    by (simp add: conj_commute)
  moreover have "mset (filter (\<lambda>m. med_id m \<notin> set ids) ?C) = mset (filter (\<lambda>m. med_id m \<notin> set ids) ?L)"
    by (simp only: mset_filter L)
  moreover have "filter (\<lambda>m. med_id m \<notin> set ids) ?L = drop (min n N) ?L"
    unfolding ids by (rule filter_prefix_out [OF dist])
  ultimately have "SumClaimedMediaByOwner (d\<lparr>db_media := filter (\<lambda>m. med_id m \<notin> set ids) (db_media d)\<rparr>) k owner
      = sum_list (map med_byte_size (drop (min n N) ?L))"
    using sum_list_mset_eq [of "filter (\<lambda>m. med_id m \<notin> set ids) ?C" "filter (\<lambda>m. med_id m \<notin> set ids) ?L" med_byte_size]
    by (simp add: SumClaimedMediaByOwner_def del: filter_filter)
  moreover have "sum_list (map med_byte_size (take (min n N) ?L)) + sum_list (map med_byte_size (drop (min n N) ?L))
      = SumClaimedMediaByOwner d k owner"
  proof -
    have "sum_list (map med_byte_size (take (min n N) ?L @ drop (min n N) ?L)) = sum_list (map med_byte_size ?C)"
      unfolding append_take_drop_id by (rule sum_list_mset_eq [OF L])
    then show ?thesis unfolding map_append sum_list_append SumClaimedMediaByOwner_def .
  qed
  ultimately show ?thesis by (simp add: ListClaimedMediaOldestFirst_def min.commute)
qed

lemma budget_round_sum:
  assumes "well w" "budget_round del k owner excess (r, w) = (Inr (Some rest), (r', w'))"
  shows "SumClaimedMediaByOwner (w_db w') k owner - rest = SumClaimedMediaByOwner (w_db w) k owner - excess"
proof -
  let ?L = "ListClaimedMediaOldestFirst (w_db w) k owner batch"
  obtain ids left where p: "pick excess ?L = (ids, left)" by fastforce
  have out: "left = rest" "w_db w' = (w_db w)\<lparr>db_media := filter (\<lambda>m. med_id m \<notin> set ids) (db_media (w_db w))\<rparr>"
    using assms(2) p
    by (auto simp: budget_round_def ok_iffs on_db_def Let_def DeleteMediaByIDs_def delete_media_def split: if_splits)
  from pick_prefix [OF p] obtain n where n: "ids = map med_id (take n ?L)"
    "rest = excess - sum_list (map med_byte_size (take n ?L))" unfolding out(1) by blast
  from sum_after [OF db_okD(7) [OF assms(1)] n(1)] show ?thesis using n(2) out(2) by simp
qed

lemma budget_round_none:
  assumes "budget_round del k owner excess (r, w) = (Inr None, (r', w'))" "0 < excess"
  shows "w_db w' = w_db w \<and> SumClaimedMediaByOwner (w_db w) k owner = 0"
proof -
  let ?L = "ListClaimedMediaOldestFirst (w_db w) k owner batch"
  obtain ids left where p: "pick excess ?L = (ids, left)" by fastforce
  then have "ids = []" "w' = w" using assms(1) by (auto simp: budget_round_def ok_iffs Let_def split: if_splits prod.splits)
  with pick_none [of excess ?L left] p assms(2) have "?L = []" by simp
  then have "filter (claimed_by k owner) (db_media (w_db w)) = []"
    by (simp add: ListClaimedMediaOldestFirst_def batch_def) (metis length_0_conv length_sort)
  then show ?thesis using \<open>w' = w\<close> by (simp add: SumClaimedMediaByOwner_def)
qed

lemma budget_loop_sum:
  "well (snd s) \<Longrightarrow> 0 \<le> limit \<Longrightarrow> SumClaimedMediaByOwner (w_db (snd s)) k owner \<le> excess + limit
   \<Longrightarrow> isl (fst (budget_owner_loop del k owner excess s))
     \<or> SumClaimedMediaByOwner (w_db (snd (snd (budget_owner_loop del k owner excess s)))) k owner \<le> limit"
proof (induction del k owner excess s rule: budget_owner_loop.induct)
  case (1 del k owner excess s)
  obtain r w where s: "s = (r, w)" by fastforce
  obtain x r' w' where round: "budget_round del k owner excess (r, w) = (x, (r', w'))" by (metis prod.exhaust)
  show ?case
  proof (cases "excess \<le> 0")
    case True
    then show ?thesis using 1(4) by (simp add: s budget_owner_loop.simps [of del k owner excess "(r, w)"])
  next
    case False
    show ?thesis
    proof (cases x)
      case (Inl e)
      then show ?thesis using False round by (simp add: s budget_owner_loop.simps [of del k owner excess "(r, w)"])
    next
      case (Inr y)
      show ?thesis
      proof (cases y)
        case None
        then show ?thesis using False round Inr budget_round_none [of del k owner excess r w r' w'] 1(3)
          by (simp add: s budget_owner_loop.simps [of del k owner excess "(r, w)"])
      next
        case (Some rest)
        have "well w'" using pruned_ok [OF conjunct1 [OF budget_round_pruned [OF round]]] 1(2) by (simp add: s)
        moreover have "SumClaimedMediaByOwner (w_db w') k owner \<le> rest + limit"
          using budget_round_sum [of w del k owner excess r rest r' w'] 1(2,4) round Inr Some by (simp add: s)
        ultimately show ?thesis
          using 1(1) [OF False round [unfolded s [symmetric], symmetric] _ Some] 1(3) False round Inr Some
          by (simp add: s budget_owner_loop.simps [of del k owner excess "(r, w)"])
      qed
    qed
  qed
qed


definition sizes_ok :: "db \<Rightarrow> bool" where
  "sizes_ok d \<longleftrightarrow> (\<forall>m\<in>set (db_media d). 0 \<le> med_byte_size m)"

lemma pruned_sizes: "pruned since d d' \<Longrightarrow> sizes_ok d \<Longrightarrow> sizes_ok d'"
  by (auto simp: pruned_def keep_only_def sizes_ok_def)

lemma sum_list_filter_le: "(\<forall>x\<in>set xs. (0::int) \<le> f x) \<Longrightarrow> sum_list (map f (filter P xs)) \<le> sum_list (map f xs)"
  by (induction xs) auto

lemma pruned_sum:
  assumes "pruned since d d'" "sizes_ok d"
  shows "SumClaimedMediaByOwner d' k owner \<le> SumClaimedMediaByOwner d k owner"
proof -
  from assms(1) obtain Q where "db_media d' = filter Q (db_media d)" by (auto simp: pruned_def keep_only_def)
  then have "filter (claimed_by k owner) (db_media d') = filter Q (filter (claimed_by k owner) (db_media d))"
    by (simp add: conj_commute)
  then show ?thesis unfolding SumClaimedMediaByOwner_def
    using sum_list_filter_le [of "filter (claimed_by k owner) (db_media d)" med_byte_size Q] assms(2)
    by (simp add: sizes_ok_def del: filter_filter)
qed

lemma owners_loop_sum:
  "well (snd s) \<Longrightarrow> sizes_ok (w_db (snd s)) \<Longrightarrow> 0 \<le> limit
   \<Longrightarrow> (\<forall>(owner, held)\<in>set owners. SumClaimedMediaByOwner (w_db (snd s)) k owner \<le> held)
   \<Longrightarrow> isl (fst (budget_owners_loop del k limit owners s))
     \<or> (\<forall>owner\<in>fst ` set owners. SumClaimedMediaByOwner (w_db (snd (snd (budget_owners_loop del k limit owners s)))) k owner \<le> limit)"
proof (induction owners arbitrary: s)
  case (Cons o1 owners)
  obtain owner held where o1: "o1 = (owner, held)" by fastforce
  let ?b = "budget_owner_loop del k owner (held - limit) s"
  obtain x s1 where b: "?b = (x, s1)" by (metis prod.exhaust)
  note step = budget_loop_pruned [of None s del k owner "held - limit", unfolded b snd_conv, THEN conjunct1]
  have ok1: "well (snd s1)" "sizes_ok (w_db (snd s1))"
    using pruned_ok [OF step Cons.prems(1)] pruned_sizes [OF step Cons.prems(2)] by simp_all
  have "\<forall>(owner, held)\<in>set owners. SumClaimedMediaByOwner (w_db (snd s1)) k owner \<le> held"
    using Cons.prems(4) pruned_sum [OF step Cons.prems(2), of k] by (fastforce intro: order_trans)
  note rest = Cons.IH [OF ok1 Cons.prems(3) this]
  have mine: "isl x \<or> SumClaimedMediaByOwner (w_db (snd s1)) k owner \<le> limit"
    using budget_loop_sum [OF Cons.prems(1,3), of k owner "held - limit" del] Cons.prems(4) b by (simp add: o1)
  have "SumClaimedMediaByOwner (w_db (snd (snd (budget_owners_loop del k limit owners s1)))) k owner
      \<le> SumClaimedMediaByOwner (w_db (snd s1)) k owner"
    by (rule pruned_sum [OF conjunct1 [OF budget_owners_pruned [of None]] ok1(2)])
  then show ?case using mine rest b by (cases x) (auto simp: o1)
qed simp

lemma sweepBudget_sum:
  assumes "well w" "sizes_ok (w_db w)" "\<not> rp_DryRun p" "0 < budget_of p k"
    "sweepBudget del p k (r, w) = (Inr (), (r', w'))"
  shows "SumClaimedMediaByOwner (w_db w') k owner \<le> budget_of p k"
proof -
  let ?owners = "ListMediaOwnersOverBudget (w_db w) k (budget_of p k)"
  let ?r = "r\<lparr>sr_OverBudget := sr_OverBudget r + length ?owners\<rparr>"
  have loop: "budget_owners_loop del k (budget_of p k) ?owners (?r, w) = (Inr (), (r', w'))"
    using assms(3-5) by (simp add: sweepBudget_def Let_def)
  show ?thesis
  proof (cases "owner \<in> fst ` set ?owners")
    case True
    have "\<forall>(owner, held)\<in>set ?owners. SumClaimedMediaByOwner (w_db w) k owner \<le> held"
      by (auto simp: ListMediaOwnersOverBudget_def)
    with owners_loop_sum [of "(?r, w)" "budget_of p k" ?owners k del] assms(1,2,4) loop True show ?thesis by force
  next
    case False
    have "SumClaimedMediaByOwner (w_db w) k owner \<le> budget_of p k"
    proof (cases "filter (claimed_by k owner) (db_media (w_db w)) = []")
      case True
      then show ?thesis using assms(4) by (simp add: SumClaimedMediaByOwner_def)
    next
      case files: False
      then obtain f where "f \<in> set (db_media (w_db w))" "claimed_by k owner f" by (auto simp: filter_empty_conv)
      then have "owner \<in> med_owner_id ` {m \<in> set (db_media (w_db w)). med_owner_kind m = k \<and> med_message_id m \<noteq> None}"
        by (auto simp: claimed_by_def)
      then show ?thesis using False by (force simp: ListMediaOwnersOverBudget_def image_iff)
    qed
    moreover have "SumClaimedMediaByOwner (w_db w') k owner \<le> SumClaimedMediaByOwner (w_db w) k owner"
      using pruned_sum [OF conjunct1 [OF sweepBudget_pruned [of None w del p k r]] assms(2)] assms(5) by simp
    ultimately show ?thesis by linarith
  qed
qed


section \<open>What a sweep leaves\<close>

lemma pruned_subset:
  "pruned since d d' \<Longrightarrow> set (db_messages d') \<subseteq> set (db_messages d) \<and> set (db_deliveries d') \<subseteq> set (db_deliveries d)"
  by (auto simp: pruned_def keep_only_def)

definition within_window :: "retention_policy \<Rightarrow> int \<Rightarrow> message_row \<Rightarrow> bool" where
  "within_window p now m = (case Window p now of None \<Rightarrow> True | Some since \<Rightarrow> \<not> expired_message since m)"

lemma filter_eqI: "(\<forall>x\<in>set xs. P x = Q x) \<Longrightarrow> filter P xs = filter Q xs"
  by (auto intro: filter_cong)

lemma pruned_messages:
  assumes "pruned (Window p now) d d'" "\<forall>m\<in>set (db_messages d'). within_window p now m"
  shows "db_messages d' = filter (within_window p now) (db_messages d)"
proof -
  from assms(1) obtain P Q R where d': "db_messages d' = filter P (db_messages d)" and go: "may_go (Window p now) P Q R d"
    by (auto simp: pruned_def keep_only_def)
  have "\<forall>m\<in>set (db_messages d). P m = within_window p now m"
    using assms(2) go by (fastforce simp: d' may_go_def within_window_def)
  then show ?thesis unfolding d' by (rule filter_eqI)
qed

text \<open>
  C21. What a sweep leaves. When a sweep succeeds (and is not a rehearsal), the messages left are
  exactly those within the window and those still being written, in the order they were; no delivery
  record that finished before its own limit is left; every owner's sent files are within the budget
  of their kind; and of a message that went, no file and no delivery record is left either. No other
  table has changed. Sizes of files are not negative, which the table checks.
\<close>

theorem a_sweep_leaves_the_window:
  assumes "well w" "sizes_ok (w_db w)" "\<not> rp_DryRun p" "Sweep del p w = (Inr (), (rep, w'))"
  shows "db_messages (w_db w') = filter (within_window p (w_now w)) (db_messages (w_db w))
    \<and> filter (finished_before (w_now w - rp_DeliveryAge p)) (db_deliveries (w_db w')) = []
    \<and> (\<forall>k owner. 0 < budget_of p k \<longrightarrow> SumClaimedMediaByOwner (w_db w') k owner \<le> budget_of p k)
    \<and> pruned (Window p (w_now w)) (w_db w) (w_db w')"
proof -
  let ?r = "\<lparr>sr_Messages = 0, sr_Files = 0, sr_Deliveries = 0, sr_OverBudget = 0, sr_DryRun = rp_DryRun p\<rparr>"
  let ?S = "Window p (w_now w)"
  obtain r1 w1 where 1: "sweepMessages del p (?r, w) = (Inr (), (r1, w1))"
    using assms(4) by (auto simp: Sweep_def ok_iffs)
  obtain r2 w2 where 2: "sweepDeliveries p (r1, w1) = (r2, w2)" by fastforce
  obtain r3 w3 where 3: "sweepBudget del p ParticipantUser (r2, w2) = (Inr (), (r3, w3))"
    using assms(4) by (auto simp: Sweep_def ok_iffs 1 2)
  have 4: "sweepBudget del p ParticipantAgent (r3, w3) = (Inr (), (rep, w'))"
    using assms(4) by (simp add: Sweep_def 1 2 3)
  have p1: "pruned ?S (w_db w) (w_db w1)" "w_now w1 = w_now w"
    using sweepMessages_pruned(1) [OF assms(1), of p del ?r] sweepMessages_pruned(2) [OF assms(1), of del p ?r] 1 by simp_all
  have p2: "pruned ?S (w_db w1) (w_db w2)" using sweepDeliveries_pruned [of ?S w1 p r1] 2 by simp
  have p3: "pruned ?S (w_db w2) (w_db w3)" using sweepBudget_pruned [of ?S w2 del p ParticipantUser r2] 3 by simp
  have p4: "pruned ?S (w_db w3) (w_db w')" using sweepBudget_pruned [of ?S w3 del p ParticipantAgent r3] 4 by simp
  have p24: "pruned ?S (w_db w2) (w_db w')" and p14: "pruned ?S (w_db w1) (w_db w')" and p: "pruned ?S (w_db w) (w_db w')"
    using pruned_trans [OF p3 p4] pruned_trans [OF p2] pruned_trans [OF p1(1)] by blast+
  have fewer: "set (db_messages (w_db w')) \<subseteq> set (db_messages (w_db w1))" "set (db_deliveries (w_db w')) \<subseteq> set (db_deliveries (w_db w2))"
    using pruned_subset [OF p14] pruned_subset [OF p24] by simp_all
  have "\<forall>m\<in>set (db_messages (w_db w')). within_window p (w_now w) m"
    using sweepMessages_pruned(3) [OF assms(1,3), of _ del ?r] 1 fewer(1) by (auto simp: within_window_def split: option.split)
  note messages = pruned_messages [OF p this]
  have "\<forall>r\<in>set (db_deliveries (w_db w2)). \<not> finished_before (w_now w - rp_DeliveryAge p) r"
    using 2 assms(3) p1(2) by (auto simp: sweepDeliveries_def on_db_def DeleteFinishedDeliveries_def Let_def)
  then have finished: "filter (finished_before (w_now w - rp_DeliveryAge p)) (db_deliveries (w_db w')) = []"
    using fewer(2) by (auto simp: filter_empty_conv)
  note ok2 = pruned_ok [OF p2 pruned_ok [OF p1(1) assms(1)]] pruned_sizes [OF p2 pruned_sizes [OF p1(1) assms(2)]]
  note ok3 = pruned_ok [OF p3 ok2(1)] pruned_sizes [OF p3 ok2(2)]
  have "SumClaimedMediaByOwner (w_db w') k owner \<le> budget_of p k" if "0 < budget_of p k" for k owner
  proof (cases k)
    case ParticipantUser
    then show ?thesis
      using sweepBudget_sum [OF ok2 assms(3) _ 3, of owner] pruned_sum [OF p4 ok3(2), of k owner] that by simp
  next
    case ParticipantAgent
    then show ?thesis using sweepBudget_sum [OF ok3 assms(3) _ 4, of owner] that by simp
  qed
  with messages finished p show ?thesis by simp
qed

definition swept_policy :: retention_policy where
  "swept_policy = \<lparr>rp_MessageAge = 30, rp_UserMediaBudget = 5, rp_AgentMediaBudget = 0, rp_DeliveryAge = DefaultDeliveryAge,
     rp_DryRun = False\<rparr>"

definition sent_photo :: media_row where
  "sent_photo = \<lparr>med_id = 50, med_owner_kind = ParticipantUser, med_owner_id = 1, med_kind = ''image'',
     med_mime_type = ''image/png'', med_byte_size = 9, med_file_name = [], med_width = 1, med_height = 1,
     med_storage_key = ''k'', med_thumb_key = None, med_message_id = Some 101, med_created_at = 0,
     med_duration_ms = 0, med_waveform = None\<rparr>"

definition dusty_world :: world where
  "dusty_world = sample_world\<lparr>w_db := sample_db\<lparr>db_media := [sent_photo]\<rparr>, w_blobs := [''k'' \<mapsto> ''pixels'']\<rparr>"

lemma dusty_ok: "well dusty_world" "sizes_ok (w_db dusty_world)"
  using sample_db_ok by (auto simp: dusty_world_def db_ok_def sizes_ok_def sent_photo_def)

theorem a_sweep_leaves_the_window_witness:
  "map msg_id (db_messages (w_db (snd (snd (Sweep (\<lambda>_. True) swept_policy dusty_world))))) = [102, 103]"
proof -
  have "fst (Sweep (\<lambda>_. True) swept_policy dusty_world) = Inr ()"
    by (simp add: Sweep_def sweepMessages_def Window_def swept_policy_def dusty_world_def sample_world_def sample_db_def
        sample_row_defs empty_db_def sweep_messages_loop.simps sweep_round_def on_db_def Let_def ListExpiredMessageIDs_def
        expired_message_def batch_def DeleteMediaOfMessages_def delete_media_def a_face_def sent_photo_def sample_user_def
        sample_agent_def DeleteMessagesByIDs_def sweepDeliveries_def DeleteFinishedDeliveries_def sweepBudget_def budget_of_def
        ListMediaOwnersOverBudget_def)
  then obtain r w' where s: "Sweep (\<lambda>_. True) swept_policy dusty_world = (Inr (), (r, w'))" by (metis prod.exhaust fst_conv)
  have "\<not> rp_DryRun swept_policy" by (simp add: swept_policy_def)
  from a_sweep_leaves_the_window [OF dusty_ok this s, THEN conjunct1] show ?thesis
    unfolding s snd_conv by (simp add: swept_policy_def within_window_def Window_def dusty_world_def sample_world_def sample_db_def
        sample_row_defs empty_db_def expired_message_def)
qed



definition faced_world :: world where
  "faced_world = dusty_world\<lparr>w_db := (w_db dusty_world)\<lparr>db_users := [sample_user\<lparr>usr_avatar_media_id := Some 50\<rparr>]\<rparr>\<rparr>"


end
