(* ===== verification/Push.thy ===== *)
theory Push
  imports Frames Realtime
begin

text \<open>
  Waking a phone (\<open>push/notifier.go\<close>, \<open>push/push.go\<close>): who is told of a message that landed, with
  what words, and what becomes of devices the provider says are gone. The exchange with the provider
  is a parameter: for one batch it gives its tickets, or nothing when it could not be reached or
  answered with a failure. So is presence, which fails or says who is watching.
\<close>

section \<open>The provider\<close>

record push_message =
  pm_To :: gotext
  pm_Title :: gotext
  pm_Body :: gotext
  pm_Data :: "(string \<times> string) list"
  pm_Sound :: string
  pm_ChannelID :: string
  pm_CollapseKey :: string

record ticket =
  tk_Status :: string
  tk_Message :: string
  tk_DetailsError :: string

record push_result =
  pr_Token :: gotext
  pr_Gone :: bool
  pr_Error :: string

definition pushBatchSize :: nat where "pushBatchSize = 100"

text \<open>One result per message; a message the reply has no ticket for counts as accepted.\<close>

fun ticket_results :: "push_message list \<Rightarrow> ticket list \<Rightarrow> push_result list" where
  "ticket_results [] ts = []"
| "ticket_results (m # ms) [] = \<lparr>pr_Token = pm_To m, pr_Gone = False, pr_Error = []\<rparr> # ticket_results ms []"
| "ticket_results (m # ms) (t # ts) =
     (if tk_Status t = ''ok'' then \<lparr>pr_Token = pm_To m, pr_Gone = False, pr_Error = []\<rparr>
      else \<lparr>pr_Token = pm_To m, pr_Gone = tk_DetailsError t = ''DeviceNotRegistered'', pr_Error = tk_Message t\<rparr>)
     # ticket_results ms ts"

definition sendBatch :: "(push_message list \<Rightarrow> ticket list option) \<Rightarrow> push_message list \<Rightarrow> push_result list option" where
  "sendBatch post batch = map_option (ticket_results batch) (post batch)"

text \<open>The results so far, and whether every batch went out.\<close>

function ExpoSend :: "(push_message list \<Rightarrow> ticket list option) \<Rightarrow> push_message list \<Rightarrow> push_result list \<times> bool" where
  "ExpoSend post ms =
     (if ms = [] then ([], True)
      else case sendBatch post (take pushBatchSize ms) of
        None \<Rightarrow> ([], False)
      | Some out \<Rightarrow> (let (rest, ok) = ExpoSend post (drop pushBatchSize ms) in (out @ rest, ok)))"
  by pat_completeness auto
termination
  by (relation "measure (\<lambda>(post, ms). length ms)") (auto simp: pushBatchSize_def)

declare ExpoSend.simps [simp del]

section \<open>The notifier\<close>

definition bodyLimit :: nat where "bodyLimit = 180"
definition channelID :: string where "channelID = ''messages''"

definition preview :: "gotext \<Rightarrow> bool \<Rightarrow> gotext" where
  "preview s hasAttachments =
     (let t = TrimSpace s in
      if t = [] then (if hasAttachments then str ''sent a file'' else [])
      else if RuneCount t \<le> bodyLimit then t
      else TrimSpace (take bodyLimit (to_runes t)) @ [Rune 8230])"

text \<open>Who of the recipients is not looking: never the sender, and everybody when presence is unknown.\<close>

definition absent :: "(uuid list \<Rightarrow> go_error + (uuid \<Rightarrow> bool)) \<Rightarrow> landed \<Rightarrow> uuid list" where
  "absent watching l =
     (let away = filter (\<lambda>i. i \<noteq> ld_sender_id l) (ld_recipients l) in
      case watching away of Inl _ \<Rightarrow> away | Inr f \<Rightarrow> filter (\<lambda>i. \<not> f i) away)"

definition push_title :: "db \<Rightarrow> uuid \<Rightarrow> gotext" where
  "push_title d a = (case GetAgent_sql d a of
       Inl _ \<Rightarrow> str ''Cuckoo''
     | Inr r \<Rightarrow> if agt_display_name r \<noteq> [] then agt_display_name r else str ''Cuckoo'')"

definition push_to :: "gotext \<Rightarrow> gotext \<Rightarrow> string \<Rightarrow> session_row \<Rightarrow> push_message list" where
  "push_to title body conversationID s = (case ses_push_token s of
       None \<Rightarrow> []
     | Some tok \<Rightarrow> [\<lparr>pm_To = tok, pm_Title = title, pm_Body = body, pm_Data = [(''conversation_id'', conversationID)],
         pm_Sound = ''default'', pm_ChannelID = channelID, pm_CollapseKey = conversationID\<rparr>])"

text \<open>What \<open>send\<close> hands to the provider.\<close>

definition notifications :: "(uuid list \<Rightarrow> go_error + (uuid \<Rightarrow> bool)) \<Rightarrow> landed \<Rightarrow> world \<Rightarrow> push_message list" where
  "notifications watching l w =
     (let body = preview (ld_text l) (ld_has_attachments l) in
      if body = [] then []
      else concat (map (push_to (push_title (w_db w) (ld_agent_id l)) body (FormatID PrefixConv (ld_conversation_id l)))
        (PushTargets (w_db w) (w_now w) (Some (ld_agent_id l)) (absent watching l))))"

definition forget_gone :: "push_result list \<Rightarrow> world \<Rightarrow> world" where
  "forget_gone rs = fold (\<lambda>r w. if pr_Gone r then exec (ClearSessionPush (pr_Token r)) w else w) rs"

definition MessageLanded ::
  "(uuid list \<Rightarrow> go_error + (uuid \<Rightarrow> bool)) \<Rightarrow> (push_message list \<Rightarrow> ticket list option) \<Rightarrow> landed \<Rightarrow> world \<Rightarrow> world" where
  "MessageLanded watching post l w =
     (case notifications watching l w of
        [] \<Rightarrow> w
      | m # ms \<Rightarrow> (let (results, ok) = ExpoSend post (m # ms) in if ok then forget_gone results w else w))"

lemma well_MessageLanded [keeps]: "well w \<Longrightarrow> well (MessageLanded watching post l w)"
proof -
  have "well w \<Longrightarrow> well (forget_gone rs w)" for rs
    by (induction rs arbitrary: w) (simp_all add: forget_gone_def account_keeps)
  then show "well w \<Longrightarrow> well (MessageLanded watching post l w)"
    by (auto simp: MessageLanded_def split: list.splits prod.splits)
qed

section \<open>Who is woken\<close>

lemma notifications_iff:
  "m \<in> set (notifications watching l w) \<longleftrightarrow>
     preview (ld_text l) (ld_has_attachments l) \<noteq> []
   \<and> (\<exists>s\<in>set (PushTargets (w_db w) (w_now w) (Some (ld_agent_id l)) (absent watching l)).
        push_to (push_title (w_db w) (ld_agent_id l)) (preview (ld_text l) (ld_has_attachments l))
          (FormatID PrefixConv (ld_conversation_id l)) s = [m])"
proof -
  have one: "x \<in> set (push_to t b c s) \<longleftrightarrow> push_to t b c s = [x]" for x t b c s
    by (auto simp: push_to_def split: option.splits)
  then show ?thesis by (auto simp: notifications_def Let_def)
qed

lemma preview_short: "RuneCount (preview s a) \<le> 181"
proof -
  have trim: "length (TrimSpace t) \<le> length t" for t
    unfolding TrimSpace_def by (metis length_dropWhile_le length_rev order_trans)
  have "length (TrimSpace (take bodyLimit (to_runes (TrimSpace s)))) \<le> 180"
    using trim [of "take bodyLimit (to_runes (TrimSpace s))"] by (simp add: bodyLimit_def)
  then show ?thesis by (auto simp: preview_def Let_def RuneCount_def bodyLimit_def str_def)
qed

lemma token_owner:
  assumes "db_ok d" "s \<in> set (db_sessions d)" "s' \<in> set (db_sessions d)"
    "ses_push_token s = Some tok" "ses_push_token s' = Some tok"
  shows "s = s'"
proof -
  have "distinct (map ses_push_token (filter (\<lambda>s. ses_push_token s \<noteq> None) (db_sessions d)))"
    using db_okD(14) [OF assms(1)] by (simp add: sessions_ok_def)
  then have "inj_on ses_push_token (set (filter (\<lambda>s. ses_push_token s \<noteq> None) (db_sessions d)))"
    by (simp only: distinct_map)
  then show ?thesis by (rule inj_onD) (use assms(2-) in auto)
qed

text \<open>A person who has silenced an agent: blocked it, taken it off their list, or muted it until later.\<close>

definition silenced :: "int \<Rightarrow> uuid \<Rightarrow> uuid \<Rightarrow> contact_row list \<Rightarrow> bool" where
  "silenced now u a cs \<longleftrightarrow> (case find (contact_of u a) cs of None \<Rightarrow> False | Some c \<Rightarrow> \<not> hears now c)"

lemma silenced_not_target:
  assumes "silenced now u a (db_contacts d)" "s \<in> set (PushTargets d now (Some a) us)"
  shows "ses_user_id s \<noteq> u"
proof
  assume u: "ses_user_id s = u"
  have "find (\<lambda>c. ctc_user_id c = ses_user_id s \<and> Some (ctc_agent_id c) = Some a) (db_contacts d) = find (contact_of u a) (db_contacts d)"
    by (rule arg_cong [where f = "\<lambda>P. find P (db_contacts d)"]) (auto simp: contact_of_def u fun_eq_iff)
  with assms show False by (auto simp: silenced_def PushTargets_def split: option.splits)
qed

text \<open>The ways a person silences an agent.\<close>

datatype silencing = Blocking | Muting int | Removing

fun silence :: "env \<Rightarrow> uuid \<Rightarrow> uuid \<Rightarrow> silencing \<Rightarrow> unit handler" where
  "silence e u a Blocking w = Block e u a w"
| "silence e u a (Muting t) w = SetMuted u a (Some t) w"
| "silence e u a Removing w = Remove u a w"

fun lasts :: "silencing \<Rightarrow> int \<Rightarrow> bool" where
  "lasts (Muting t) now \<longleftrightarrow> now < t"
| "lasts _ now \<longleftrightarrow> True"

lemma find_updated:
  "find P xs = Some c \<Longrightarrow> (\<And>x. P (f x) = P x) \<Longrightarrow> find P (update_where Q f xs) = Some (if Q c then f c else c)"
  by (induction xs) (auto split: if_splits)

lemma GetContact_Inr: "GetContact d u a = Inr c \<longleftrightarrow> find (contact_of u a) (db_contacts d) = Some c"
  by (simp add: GetContact_def one_row_Inr)

lemma any_contact_Inr [ok_iffs]: "any_contact d u a = Inr c \<longleftrightarrow> find (contact_of u a) (db_contacts d) = Some c"
  by (auto simp: any_contact_def GetContact_Inr [symmetric] split: sum.splits)

lemma listed_contact_Inr [ok_iffs]:
  "listed_contact d u a = Inr c \<longleftrightarrow> find (contact_of u a) (db_contacts d) = Some c \<and> ctc_removed_at c = None"
  by (auto simp: listed_contact_def ok_iffs)

lemma silence_silences:
  assumes "silence e u a how w = (Inr (), w')" "lasts how now"
    "how = Removing \<longrightarrow> (\<forall>c\<in>set (db_contacts (w_db w)). contact_of u a c \<longrightarrow> ctc_added_via c \<in> {''pair_token'', ''hub''})"
  shows "silenced now u a (db_contacts (w_db w'))"
proof (cases how)
  case Blocking
  with assms(1) obtain c where c: "find (contact_of u a) (db_contacts (w_db w)) = Some c"
    by (auto simp: Block_def ok_iffs)
  then have P: "contact_of u a c" by (simp add: find_Some_iff) blast
  have f: "contact_of u a (c\<lparr>ctc_blocked_at := t\<rparr>) = contact_of u a c" for c t by (simp add: contact_of_def)
  show ?thesis
  proof (cases "ctc_blocked_at c")
    case None
    with assms(1) Blocking c obtain p w1 where
      "Enqueue e a (ctc_dm_conversation_id c) EventConversationLeft (LeftPayload ''user_blocked'')
         (exec (\<lambda>d. snd (SetContactBlocked (w_now w) u a d)) w) = (Inr p, w1)" "w' = (if p then nudge [a] w1 else w1)"
      by (auto simp: Block_def ok_iffs wake_def)
    from Enqueue_ok [OF this(1)] this(2) have
      "db_contacts (w_db w') = db_contacts (snd (SetContactBlocked (w_now w) u a (w_db w)))" by auto
    then show ?thesis using find_updated [OF c] P None f
      by (simp add: silenced_def SetContactBlocked_def set_contacts_def hears_def)
  next
    case (Some t)
    with assms(1) Blocking c show ?thesis by (simp add: Block_def ok_iffs any_contact_def GetContact_def silenced_def hears_def)
  qed
next
  case (Muting t)
  with assms(1) obtain c where c: "find (contact_of u a) (db_contacts (w_db w)) = Some c" "ctc_removed_at c = None"
    "db_contacts (w_db w') = update_where (in_list u a) (\<lambda>c. c\<lparr>ctc_muted_until := Some t\<rparr>) (db_contacts (w_db w))"
    by (auto simp: SetMuted_def ok_iffs SetContactMuted_def set_contacts_def)
  then have "in_list u a c" by (auto simp: find_Some_iff in_list_def)
  then show ?thesis using find_updated [OF c(1), of "\<lambda>c. c\<lparr>ctc_muted_until := Some t\<rparr>"] assms(2) Muting
    by (simp add: silenced_def c(3) contact_of_def hears_def)
next
  case Removing
  with assms(1) obtain c where c: "find (contact_of u a) (db_contacts (w_db w)) = Some c" "ctc_removed_at c = None"
    "db_contacts (w_db w') = update_where (\<lambda>c. in_list u a c \<and> ctc_added_via c \<in> {''pair_token'', ''hub''}) (cleared (w_now w))
       (db_contacts (w_db w))"
    by (auto simp: Remove_def ok_iffs RemoveContact_def set_contacts_def)
  then have "in_list u a c" "c \<in> set (db_contacts (w_db w))" "contact_of u a c" by (auto simp: find_Some_iff in_list_def)
  moreover from this have "ctc_added_via c \<in> {''pair_token'', ''hub''}" using assms(3) Removing by blast
  moreover have "contact_of u a (cleared n c) = contact_of u a c" for n c by (simp add: contact_of_def cleared_def)
  ultimately show ?thesis using find_updated [OF c(1), of "cleared (w_now w)"]
    by (simp add: silenced_def c(3) hears_def cleared_def)
qed

text \<open>The people whose phones are woken: every device an address of a notification belongs to.\<close>

definition woken :: "(uuid list \<Rightarrow> go_error + (uuid \<Rightarrow> bool)) \<Rightarrow> landed \<Rightarrow> world \<Rightarrow> uuid list" where
  "woken watching l w = map ses_user_id (filter (\<lambda>s. list_ex (\<lambda>m. ses_push_token s = Some (pm_To m)) (notifications watching l w))
     (db_sessions (w_db w)))"

lemma woken_target:
  assumes "well w" "u \<in> set (woken watching l w)"
  shows "\<exists>s\<in>set (PushTargets (w_db w) (w_now w) (Some (ld_agent_id l)) (absent watching l)). ses_user_id s = u"
proof -
  from assms(2) obtain s m where s: "s \<in> set (db_sessions (w_db w))" "ses_user_id s = u" "ses_push_token s = Some (pm_To m)"
    and m: "m \<in> set (notifications watching l w)" by (auto simp: woken_def list_ex_iff)
  from m obtain t where t: "t \<in> set (PushTargets (w_db w) (w_now w) (Some (ld_agent_id l)) (absent watching l))"
    "ses_push_token t = Some (pm_To m)"
    unfolding notifications_iff by (auto simp: push_to_def split: option.splits)
  moreover have "t \<in> set (db_sessions (w_db w))" using t(1) by (simp add: PushTargets_def)
  ultimately show ?thesis using token_owner [OF assms(1) s(1) _ s(3) t(2)] s(2) by blast
qed


text \<open>Ada mutes her helper until 90; at 60 a reply of it lands while she is away.\<close>

definition muted_world :: world where
  "muted_world = sample_world\<lparr>w_db := sample_db\<lparr>
     db_contacts := [\<lparr>ctc_user_id = 1, ctc_agent_id = 2, ctc_dm_conversation_id = 10, ctc_added_via = ''owner'',
       ctc_pair_token_id = None, ctc_blocked_at = None, ctc_created_at = 0, ctc_muted_until = None, ctc_pinned_at = None,
       ctc_archived_at = None, ctc_removed_at = None\<rparr>],
     db_sessions := [\<lparr>ses_id = 70, ses_user_id = 1, ses_token_hash = [], ses_device_name = [], ses_expires_at = 1000,
       ses_created_at = 0, ses_revoked_at = None, ses_last_seen_at = None, ses_push_token = Some (str ''phone''),
       ses_push_platform = ''ios'', ses_push_registered_at = None\<rparr>]\<rparr>\<rparr>"

definition reply_landed :: landed where
  "reply_landed = \<lparr>ld_conversation_id = 10, ld_message_id = 104, ld_agent_id = 2, ld_text = str ''Done'', ld_recipients = [1],
     ld_sender_id = 2, ld_has_attachments = False\<rparr>"


end
