(* ===== verification/Media.thy ===== *)
theory Media
  imports Frames SendFiles
begin

text \<open>
  Uploaded files (\<open>media/media.go\<close>, \<open>media/service.go\<close>, \<open>media/reader.go\<close>, the rules of
  \<open>media/image.go\<close>, the statements of \<open>store/gen/media.sql.go\<close> that only this service uses, and which
  keys storage takes, \<open>blobs/blobs.go\<close>).

  What is not the program's own is a parameter, \<open>media_env\<close>: what the bytes of a header look like
  (\<open>http.DetectContentType\<close>), the size an image header states and the image scaled to another size
  (the image libraries), and which keys storage fails to write, to open or to remove. Bytes are
  characters.
\<close>

record media_env =
  me_detect :: "string \<Rightarrow> string"
  me_config :: "string \<Rightarrow> (int \<times> int) option"
  me_scale :: "string \<Rightarrow> int \<times> int \<Rightarrow> string option"
  me_put :: "string \<Rightarrow> bool"
  me_open :: "string \<Rightarrow> bool"
  me_delete :: "string \<Rightarrow> bool"

section \<open>Statements\<close>

definition CreateMedia :: "int \<Rightarrow> media_row \<Rightarrow> db \<Rightarrow> (go_error + media_row) \<times> db" where
  "CreateMedia now p d =
     (let r = p\<lparr>med_message_id := None, med_created_at := now\<rparr> in
      insert_text (storable (med_file_name r))
        (med_kind r \<in> {''image'', ''video'', ''audio'', ''file''} \<and> 0 < med_byte_size r
         \<and> 1 \<le> RuneCount (med_file_name r) \<and> RuneCount (med_file_name r) \<le> 255 \<and> 0 \<le> med_duration_ms r)
        (\<forall>x\<in>set (db_media d). med_id x \<noteq> med_id r) True
        r d (Inr r, d\<lparr>db_media := db_media d @ [r]\<rparr>))"

definition UserCanReadMedia :: "db \<Rightarrow> uuid \<Rightarrow> uuid \<Rightarrow> bool" where
  "UserCanReadMedia d i u \<longleftrightarrow> list_ex (\<lambda>m. med_id m = i
     \<and> (med_owner_kind m = ParticipantUser \<and> med_owner_id m = u
      \<or> list_ex (\<lambda>msg. Some (msg_id msg) = med_message_id m
          \<and> list_ex (\<lambda>p. prt_conversation_id p = msg_conversation_id msg \<and> prt_user_id p = Some u) (db_participants d))
        (db_messages d))) (db_media d)"

definition AgentCanReadMedia :: "db \<Rightarrow> uuid \<Rightarrow> uuid \<Rightarrow> bool" where
  "AgentCanReadMedia d i a \<longleftrightarrow> list_ex (\<lambda>m. med_id m = i
     \<and> (med_owner_kind m = ParticipantAgent \<and> med_owner_id m = a
      \<or> list_ex (\<lambda>msg. Some (msg_id msg) = med_message_id m
          \<and> list_ex (\<lambda>p. prt_conversation_id p = msg_conversation_id msg \<and> prt_agent_id p = Some a) (db_participants d))
        (db_messages d))) (db_media d)"

definition GetAgentAvatar :: "db \<Rightarrow> uuid \<Rightarrow> go_error + media_row" where
  "GetAgentAvatar d a = one_row (find (\<lambda>m. list_ex (\<lambda>g. agt_id g = a \<and> agt_deleted_at g = None
     \<and> agt_avatar_media_id g = Some (med_id m)) (db_agents d)) (db_media d))"

definition unclaimed :: "db \<Rightarrow> int \<Rightarrow> media_row \<Rightarrow> bool" where
  "unclaimed d before m \<longleftrightarrow> med_message_id m = None \<and> med_created_at m < before
     \<and> \<not> list_ex (\<lambda>a. agt_avatar_media_id a = Some (med_id m)) (db_agents d)
     \<and> \<not> list_ex (\<lambda>u. usr_avatar_media_id u = Some (med_id m)) (db_users d)"

definition DeleteUnclaimedMedia :: "int \<Rightarrow> db \<Rightarrow> media_row list \<times> db" where
  "DeleteUnclaimedMedia before d =
     (filter (unclaimed d before) (db_media d), d\<lparr>db_media := filter (\<lambda>m. \<not> unclaimed d before m) (db_media d)\<rparr>)"

section \<open>What a file is\<close>

definition MaxImageBytes :: nat where "MaxImageBytes = 16 * 2 ^ 20"
definition MaxAudioBytes :: nat where "MaxAudioBytes = 16 * 2 ^ 20"
definition MaxVideoBytes :: nat where "MaxVideoBytes = 64 * 2 ^ 20"
definition MaxFileBytes :: nat where "MaxFileBytes = 64 * 2 ^ 20"
definition sniffLen :: nat where "sniffLen = 512"
definition fileNameMaxLen :: nat where "fileNameMaxLen = 255"
definition maxDurationMS :: int where "maxDurationMS = 10 * 60 * 1000"
definition waveformMax :: nat where "waveformMax = 64"
definition waveformPeak :: int where "waveformPeak = 100"
definition thumbMaxPixels :: int where "thumbMaxPixels = 480"
definition maxImagePixels :: int where "maxImagePixels = 50000000"

record media_file =
  mf_ID :: uuid
  mf_OwnerKind :: participant_kind
  mf_OwnerID :: uuid
  mf_Kind :: string
  mf_MimeType :: string
  mf_ByteSize :: int
  mf_FileName :: gotext
  mf_Width :: int
  mf_Height :: int
  mf_HasThumbnail :: bool
  mf_DurationMS :: int
  mf_Waveform :: "int list option"
  mf_CreatedAt :: int

definition mediaFromRow :: "media_row \<Rightarrow> media_file" where
  "mediaFromRow r = \<lparr>mf_ID = med_id r, mf_OwnerKind = med_owner_kind r, mf_OwnerID = med_owner_id r, mf_Kind = med_kind r,
     mf_MimeType = med_mime_type r, mf_ByteSize = med_byte_size r, mf_FileName = med_file_name r, mf_Width = med_width r,
     mf_Height = med_height r, mf_HasThumbnail = (med_thumb_key r \<noteq> None), mf_DurationMS = med_duration_ms r,
     mf_Waveform = med_waveform r, mf_CreatedAt = med_created_at r\<rparr>"

record media_meta =
  mt_DurationMS :: int
  mt_Waveform :: "int list option"
  mt_Audio :: bool

definition no_meta :: media_meta where
  "no_meta = \<lparr>mt_DurationMS = 0, mt_Waveform = None, mt_Audio = False\<rparr>"

text \<open>\<open>strconv.Atoi\<close>, as far as small numbers go: a sign, and at least one digit.\<close>

fun digit :: "rune \<Rightarrow> int option" where
  "digit (Rune c) = (if 48 \<le> c \<and> c \<le> 57 then Some (int c - 48) else None)"
| "digit (Stray b) = None"

fun digits_from :: "int \<Rightarrow> gotext \<Rightarrow> int option" where
  "digits_from n [] = Some n"
| "digits_from n (r # rs) = (case digit r of None \<Rightarrow> None | Some k \<Rightarrow> digits_from (10 * n + k) rs)"

definition Atoi :: "gotext \<Rightarrow> int option" where
  "Atoi s = (let minus = s \<noteq> [] \<and> hd s = Rune 45;
                 ds = (if s \<noteq> [] \<and> hd s \<in> {Rune 43, Rune 45} then tl s else s) in
     if ds = [] then None else map_option (\<lambda>n. if minus then - n else n) (digits_from 0 ds))"

text \<open>\<open>strings.Split(s, ",")\<close>\<close>

fun split_commas :: "gotext \<Rightarrow> gotext \<Rightarrow> gotext list" where
  "split_commas w [] = [w]"
| "split_commas w (r # rs) = (if r = Rune 44 then w # split_commas [] rs else split_commas (w @ [r]) rs)"

definition loudness :: "gotext \<Rightarrow> go_error + int" where
  "loudness part = (case Atoi (TrimSpace part) of
       Some n \<Rightarrow> if n < 0 \<or> waveformPeak < n then Inl (InvalidField ''waveform'' ''invalid_waveform'') else Inr n
     | None \<Rightarrow> Inl (InvalidField ''waveform'' ''invalid_waveform''))"

text \<open>The query \<open>?duration_ms=..&waveform=..&kind=..\<close>, a missing value being empty.\<close>

definition MetaFromQuery :: "gotext \<Rightarrow> gotext \<Rightarrow> gotext \<Rightarrow> go_error + media_meta" where
  "MetaFromQuery duration waveform kind =
     ok_then (if duration = [] then Inr 0
       else case Atoi duration of
         Some ms \<Rightarrow> if ms < 0 \<or> maxDurationMS < ms then Inl (InvalidField ''duration_ms'' ''invalid_duration'') else Inr ms
       | None \<Rightarrow> Inl (InvalidField ''duration_ms'' ''invalid_duration'')) (\<lambda>ms.
     ok_then (if waveform = [] then Inr None
       else if waveformMax < length (split_commas [] waveform) then Inl (InvalidField ''waveform'' ''invalid_waveform'')
       else ok_then (map_ok loudness (split_commas [] waveform)) (\<lambda>ns. Inr (Some ns))) (\<lambda>wave.
     Inr \<lparr>mt_DurationMS = ms, mt_Waveform = wave, mt_Audio = (kind = str ''audio'')\<rparr>))"

definition kindOf :: "string \<Rightarrow> string" where
  "kindOf mimeType =
     (if HasPrefix mimeType ''image/'' then ''image''
      else if HasPrefix mimeType ''video/'' then ''video''
      else if HasPrefix mimeType ''audio/'' then ''audio''
      else ''file'')"

definition resolveKind :: "string \<Rightarrow> media_meta \<Rightarrow> string" where
  "resolveKind mimeType meta =
     (let kind = kindOf mimeType in if mt_Audio meta \<and> kind = ''video'' then ''audio'' else kind)"

definition forKind :: "media_meta \<Rightarrow> string \<Rightarrow> media_meta" where
  "forKind m kind = (if kind = ''audio'' \<or> kind = ''video'' then m else no_meta)"

definition limitFor :: "string \<Rightarrow> nat" where
  "limitFor kind =
     (if kind = ''image'' then MaxImageBytes else if kind = ''audio'' then MaxAudioBytes
      else if kind = ''video'' then MaxVideoBytes else MaxFileBytes)"

text \<open>The content type without its parameters.\<close>

definition trim_ascii :: "string \<Rightarrow> string" where
  "trim_ascii s = (let sp = (\<lambda>c. c \<in> set '' '' \<or> of_char c \<in> {9::nat, 10, 11, 12, 13}) in
     rev (dropWhile sp (rev (dropWhile sp s))))"

definition sniff :: "media_env \<Rightarrow> string \<Rightarrow> string" where
  "sniff me header =
     (let t = me_detect me header; base = takeWhile (\<lambda>c. c \<noteq> CHR '';'') t in
      if length base < length t \<and> base \<noteq> [] then trim_ascii base else t)"

section \<open>The name of a file\<close>

text \<open>\<open>filepath.Base\<close> and \<open>filepath.Ext\<close> on a system that separates with a slash.\<close>

definition slash :: rune where "slash = Rune 47"

definition path_Base :: "gotext \<Rightarrow> gotext" where
  "path_Base p =
     (if p = [] then str ''.''
      else let q = rev (dropWhile (\<lambda>r. r = slash) (rev p)); l = rev (takeWhile (\<lambda>r. r \<noteq> slash) (rev q)) in
        if l = [] then [slash] else l)"

definition path_Ext :: "gotext \<Rightarrow> gotext" where
  "path_Ext p =
     (let back = takeWhile (\<lambda>r. r \<noteq> slash) (rev p); suffix = takeWhile (\<lambda>r. r \<noteq> Rune 46) back in
      if length suffix < length back then Rune 46 # rev suffix else [])"

text \<open>The first so many bytes of a text, without a character that does not fit whole.\<close>

fun whole_runes :: "nat \<Rightarrow> gotext \<Rightarrow> gotext" where
  "whole_runes n [] = []"
| "whole_runes n (r # rs) = (if rune_len r \<le> n then r # whole_runes (n - rune_len r) rs else [])"

definition cleanName :: "gotext \<Rightarrow> gotext" where
  "cleanName raw =
     (let base = path_Base (map (\<lambda>r. if r = Rune 92 then slash else r) (TrimSpace raw));
          name = TrimSpace (map to_rune (filter (\<lambda>r. \<not> is_control r) base)) in
      if name = [] \<or> name = str ''.'' \<or> name = str ''..'' \<or> name = [slash] then str ''file''
      else if fileNameMaxLen < byte_len name then
        (let ext = (if 16 < byte_len (path_Ext name) then [] else path_Ext name) in
         whole_runes (fileNameMaxLen - byte_len ext) name @ ext)
      else name)"

definition VariantThumb :: string where "VariantThumb = ''thumb''"

definition storageKey :: "uuid \<Rightarrow> string \<Rightarrow> string" where
  "storageKey i variant =
     (let s = filter (\<lambda>c. c \<noteq> CHR ''-'') (uuid_String i); key = take 2 s @ ''/'' @ take 2 (drop 2 s) @ ''/'' @ s in
      if variant \<noteq> [] then key @ ''.'' @ variant else key)"

text \<open>Which keys a store takes (\<open>checkKey\<close>, \<open>validKey\<close>).\<close>

fun split_slashes :: "string \<Rightarrow> string \<Rightarrow> string list" where
  "split_slashes w [] = [w]"
| "split_slashes w (c # cs) = (if c = CHR ''/'' then w # split_slashes [] cs else split_slashes (w @ [c]) cs)"

definition key_char :: "char \<Rightarrow> bool" where
  "key_char c \<longleftrightarrow> (let n = (of_char c :: nat) in 97 \<le> n \<and> n \<le> 122 \<or> 65 \<le> n \<and> n \<le> 90 \<or> 48 \<le> n \<and> n \<le> 57
     \<or> c \<in> set ''/-_.'')"

definition validKey :: "string \<Rightarrow> bool" where
  "validKey key \<longleftrightarrow> list_all (\<lambda>part. part \<noteq> [] \<and> part \<noteq> ''.'' \<and> part \<noteq> ''..'') (split_slashes [] key) \<and> list_all key_char key"

definition checkKey :: "string \<Rightarrow> bool" where
  "checkKey key \<longleftrightarrow> key \<noteq> [] \<and> hd key \<noteq> CHR ''/'' \<and> validKey key"

section \<open>Reading an upload\<close>

text \<open>
  A reader gives its bytes in pieces. At the end it reports the end of the file, a file cut short, or
  another failure; some readers do so with the last piece, others only when asked again.
\<close>

datatype read_end = EndOfFile | UnexpectedEnd | ReadFailure

record reader =
  rd_pieces :: "string list"
  rd_end :: read_end
  rd_together :: bool

datatype read_error = TooLarge | Broken

text \<open>
  Everything behind a \<open>guardedReader\<close> with so many bytes remaining: it refuses to be asked again once
  nothing remains, and a piece that is larger than what remains.
\<close>

fun guarded :: "nat \<Rightarrow> string list \<Rightarrow> read_end \<Rightarrow> bool \<Rightarrow> read_error + string" where
  "guarded left [] fin together =
     (if left = 0 then Inl TooLarge else if fin = EndOfFile then Inr [] else Inl Broken)"
| "guarded left (p # ps) fin together =
     (if left = 0 then Inl TooLarge
      else if left < length p then Inl TooLarge
      else if ps = [] \<and> together then (if fin = EndOfFile then Inr p else Inl Broken)
      else (case guarded (left - length p) ps fin together of Inl e \<Rightarrow> Inl e | Inr q \<Rightarrow> Inr (p @ q)))"

fun drop_pieces :: "nat \<Rightarrow> string list \<Rightarrow> string list" where
  "drop_pieces n [] = []"
| "drop_pieces n (p # ps) = (if length p \<le> n then drop_pieces (n - length p) ps else drop n p # ps)"

text \<open>The header is read first and put back in front of the rest.\<close>

definition header_of :: "reader \<Rightarrow> string" where
  "header_of r = take sniffLen (concat (rd_pieces r))"

definition put_back :: "reader \<Rightarrow> reader" where
  "put_back r = (let rest = drop_pieces sniffLen (rd_pieces r) in
     \<lparr>rd_pieces = header_of r # rest, rd_end = rd_end r, rd_together = (rd_together r \<and> rest \<noteq> [])\<rparr>)"

definition read_within :: "nat \<Rightarrow> reader \<Rightarrow> read_error + string" where
  "read_within limit r = guarded limit (rd_pieces r) (rd_end r) (rd_together r)"

section \<open>Pictures\<close>

datatype measured = NotDecodable | TooManyPixels | Measured int int

definition measure_image :: "media_env \<Rightarrow> string \<Rightarrow> measured" where
  "measure_image me data = (case me_config me data of
       None \<Rightarrow> NotDecodable
     | Some (w, h) \<Rightarrow>
         if w \<le> 0 \<or> h \<le> 0 then NotDecodable
         else if maxImagePixels < w * h then TooManyPixels
         else Measured w h)"

definition atLeastOne :: "int \<Rightarrow> int" where
  "atLeastOne n = (if n < 1 then 1 else n)"

definition fit :: "int \<Rightarrow> int \<Rightarrow> int \<Rightarrow> int \<times> int" where
  "fit w h m =
     (if w \<le> m \<and> h \<le> m then (w, h)
      else if h \<le> w then (m, atLeastOne (h * m div w))
      else (atLeastOne (w * m div h), m))"

definition thumbnail :: "media_env \<Rightarrow> string \<Rightarrow> int \<Rightarrow> int \<Rightarrow> string option" where
  "thumbnail me data w h = me_scale me data (fit w h thumbMaxPixels)"

section \<open>Storage\<close>

definition blob_put :: "media_env \<Rightarrow> string \<Rightarrow> string \<Rightarrow> world \<Rightarrow> bool \<times> world" where
  "blob_put me key data w =
     (if checkKey key \<and> me_put me key then (True, w\<lparr>w_blobs := (w_blobs w)(key \<mapsto> data)\<rparr>) else (False, w))"

definition blob_delete :: "media_env \<Rightarrow> string \<Rightarrow> world \<Rightarrow> world" where
  "blob_delete me key w = (if checkKey key \<and> me_delete me key then w\<lparr>w_blobs := (w_blobs w)(key := None)\<rparr> else w)"

text \<open>Bytes that are not there and storage that fails are both this server's problem.\<close>

definition blob_open :: "media_env \<Rightarrow> string \<Rightarrow> world \<Rightarrow> go_error + string" where
  "blob_open me key w =
     (if \<not> checkKey key \<or> \<not> me_open me key then Inl (Internal (PlainError OtherCause))
      else case w_blobs w key of None \<Rightarrow> Inl (Internal (PlainError OtherCause)) | Some data \<Rightarrow> Inr data)"

definition discard :: "media_env \<Rightarrow> string \<Rightarrow> string option \<Rightarrow> world \<Rightarrow> world" where
  "discard me key thumbKey w = (let w1 = blob_delete me key w in
     case thumbKey of None \<Rightarrow> w1 | Some t \<Rightarrow> blob_delete me t w1)"

section \<open>The service\<close>

definition userUploadPolicy :: Policy where "userUploadPolicy = \<lparr>pol_Rate = 1 / 2, pol_Burst = 20\<rparr>"
definition agentUploadPolicy :: Policy where "agentUploadPolicy = \<lparr>pol_Rate = 5, pol_Burst = 40\<rparr>"

definition errEmpty :: go_error where "errEmpty = InvalidField ''file'' ''empty_file''"
definition errNoFile :: go_error where "errNoFile = NotFound ''media_not_found''"
definition errIncomplete :: go_error where "errIncomplete = Invalid ''upload_incomplete''"
definition errFileTooLarge :: go_error where "errFileTooLarge = InvalidField ''file'' ''file_too_large''"

definition allow_upload :: "participant_kind \<Rightarrow> uuid \<Rightarrow> unit handler" where
  "allow_upload k owner w =
     (let (wait, w1) = (if k = ParticipantAgent then allow ''upload:agent:'' owner agentUploadPolicy w
        else allow ''upload:user:'' owner userUploadPolicy w) in
      (if 0 < wait then Inl (RateLimited ''rate_limited'' wait) else Inr (), w1))"

record stored_file =
  sf_Size :: nat
  sf_Width :: int
  sf_Height :: int
  sf_ThumbKey :: "string option"

definition putThumb :: "media_env \<Rightarrow> uuid \<Rightarrow> string \<Rightarrow> int \<Rightarrow> int \<Rightarrow> world \<Rightarrow> string option \<times> world" where
  "putThumb me i data width height w = (case thumbnail me data width height of
       None \<Rightarrow> (None, w)
     | Some thumb \<Rightarrow>
         (let tk = storageKey i VariantThumb; (stored, w1) = blob_put me tk thumb w in
          if stored then (Some tk, w1) else (None, w1)))"

definition putImage :: "media_env \<Rightarrow> uuid \<Rightarrow> string \<Rightarrow> reader \<Rightarrow> stored_file handler" where
  "putImage me i key body w = (case read_within MaxImageBytes body of
       Inl TooLarge \<Rightarrow> (Inl errFileTooLarge, w)
     | Inl Broken \<Rightarrow> (Inl errIncomplete, w)
     | Inr data \<Rightarrow>
         let m = measure_image me data in
         if m = TooManyPixels then (Inl (InvalidField ''file'' ''image_too_large''), w)
         else
           let (stored, w1) = blob_put me key data w in
           if \<not> stored then (Inl (Internal (PlainError OtherCause)), w1)
           else case m of
             Measured width height \<Rightarrow>
               (let (tk, w2) = putThumb me i data width height w1 in
                (Inr \<lparr>sf_Size = length data, sf_Width = width, sf_Height = height, sf_ThumbKey = tk\<rparr>, w2))
           | _ \<Rightarrow> (Inr \<lparr>sf_Size = length data, sf_Width = 0, sf_Height = 0, sf_ThumbKey = None\<rparr>, w1))"

definition putStream :: "media_env \<Rightarrow> string \<Rightarrow> reader \<Rightarrow> string \<Rightarrow> stored_file handler" where
  "putStream me key body kind w = (case read_within (limitFor kind) body of
       Inl TooLarge \<Rightarrow> (Inl (if checkKey key \<and> me_put me key then errFileTooLarge else Internal (PlainError OtherCause)), w)
     | Inl Broken \<Rightarrow> (Inl (Internal (PlainError OtherCause)), w)
     | Inr data \<Rightarrow>
         let (stored, w1) = blob_put me key data w in
         if stored then (Inr \<lparr>sf_Size = length data, sf_Width = 0, sf_Height = 0, sf_ThumbKey = None\<rparr>, w1)
         else (Inl (Internal (PlainError OtherCause)), w1))"

definition record_upload :: "media_env \<Rightarrow> media_row \<Rightarrow> stored_file \<Rightarrow> media_file handler" where
  "record_upload me p f w =
     (if sf_Size f = 0 then (Inl errEmpty, discard me (med_storage_key p) (sf_ThumbKey f) w)
      else
        let (r, w1) = on_db (CreateMedia (w_now w) p) w in
        case r of
          Inl err \<Rightarrow> (Inl (Internal err), discard me (med_storage_key p) (sf_ThumbKey f) w1)
        | Inr row \<Rightarrow> (Inr (mediaFromRow row), w1))"

definition Upload :: "env \<Rightarrow> media_env \<Rightarrow> participant_kind \<Rightarrow> uuid \<Rightarrow> gotext \<Rightarrow> media_meta \<Rightarrow> reader \<Rightarrow> media_file handler" where
  "Upload e me k owner name meta r w =
     runs (allow_upload k owner w) (\<lambda>_ w1.
     let header = header_of r; short = length (concat (rd_pieces r)) < sniffLen in
     needs (refuse_if (header = [] \<and> rd_end r = EndOfFile) errEmpty) w1 (\<lambda>_.
     needs (refuse_if (short \<and> rd_end r = ReadFailure) errIncomplete) w1 (\<lambda>_.
     let mimeType = sniff me header; kind = resolveKind mimeType meta; meta1 = forKind meta kind;
         (i, w2) = NewID e w1; key = storageKey i [];
         (stored, w3) = (if kind = ''image'' then putImage me i key (put_back r) w2
                         else putStream me key (put_back r) kind w2) in
     case stored of
       Inl err \<Rightarrow> (Inl err, discard me key None w3)
     | Inr f \<Rightarrow> record_upload me
         \<lparr>med_id = i, med_owner_kind = k, med_owner_id = owner, med_kind = kind, med_mime_type = mimeType,
          med_byte_size = int (sf_Size f), med_file_name = cleanName name, med_width = sf_Width f,
          med_height = sf_Height f, med_storage_key = key, med_thumb_key = sf_ThumbKey f, med_message_id = None,
          med_created_at = w_now w3, med_duration_ms = mt_DurationMS meta1, med_waveform = mt_Waveform meta1\<rparr> f w3)))"

text \<open>Who is asking is checked before anything is opened; nothing here changes state.\<close>

definition open_media :: "media_env \<Rightarrow> uuid \<Rightarrow> string \<Rightarrow> bool \<Rightarrow> world \<Rightarrow> go_error + (media_file \<times> string)" where
  "open_media me i variant allowed w = (case GetMedia (w_db w) i of
       Inl err \<Rightarrow> Inl (if IsNoRows err then errNoFile else Internal err)
     | Inr row \<Rightarrow>
         if \<not> allowed then Inl errNoFile
         else ok_then (if variant = VariantThumb
             then (case med_thumb_key row of None \<Rightarrow> Inl (NotFound ''no_thumbnail'') | Some k \<Rightarrow> Inr k)
             else Inr (med_storage_key row)) (\<lambda>key.
           ok_then (blob_open me key w) (\<lambda>data. Inr (mediaFromRow row, data))))"

definition OpenForUser :: "media_env \<Rightarrow> uuid \<Rightarrow> uuid \<Rightarrow> string \<Rightarrow> world \<Rightarrow> go_error + (media_file \<times> string)" where
  "OpenForUser me userID i variant w = open_media me i variant (UserCanReadMedia (w_db w) i userID) w"

definition OpenForAgent :: "media_env \<Rightarrow> uuid \<Rightarrow> uuid \<Rightarrow> string \<Rightarrow> world \<Rightarrow> go_error + (media_file \<times> string)" where
  "OpenForAgent me agentID i variant w = open_media me i variant (AgentCanReadMedia (w_db w) i agentID) w"

definition OpenAgentAvatar :: "media_env \<Rightarrow> uuid \<Rightarrow> world \<Rightarrow> go_error + (media_file \<times> string)" where
  "OpenAgentAvatar me agentID w = (case GetAgentAvatar (w_db w) agentID of
       Inl err \<Rightarrow> Inl (if IsNoRows err then NotFound ''no_avatar'' else Internal err)
     | Inr row \<Rightarrow>
         ok_then (blob_open me (case med_thumb_key row of Some k \<Rightarrow> k | None \<Rightarrow> med_storage_key row) w) (\<lambda>data.
           Inr (mediaFromRow row, data)))"

definition SweepUnclaimed :: "media_env \<Rightarrow> int \<Rightarrow> nat handler" where
  "SweepUnclaimed me olderThan w =
     (let (rows, w1) = on_db (DeleteUnclaimedMedia (w_now w - olderThan)) w in
      (Inr (length rows), fold (\<lambda>row. discard me (med_storage_key row) (med_thumb_key row)) rows w1))"

section \<open>How much may be uploaded\<close>

lemma guarded_below:
  "length (concat ps) < left \<Longrightarrow> guarded left ps fin tog = (if fin = EndOfFile then Inr (concat ps) else Inl Broken)"
proof (induction left ps fin tog rule: guarded.induct)
  case (2 left p ps fin tog)
  have "length (concat ps) < left - length p" using 2(2) by simp
  then show ?case using 2 by (cases "ps = [] \<and> tog") auto
qed simp

lemma guarded_above: "left < length (concat ps) \<Longrightarrow> guarded left ps fin tog = Inl TooLarge"
proof (induction left ps fin tog rule: guarded.induct)
  case (2 left p ps fin tog)
  then show ?case by (cases "ps = []") auto
qed simp

lemma guarded_exact:
  "length (concat ps) = left \<Longrightarrow> [] \<notin> set ps \<Longrightarrow>
     guarded left ps fin tog = (if ps \<noteq> [] \<and> tog then (if fin = EndOfFile then Inr (concat ps) else Inl Broken) else Inl TooLarge)"
proof (induction left ps fin tog rule: guarded.induct)
  case (2 left p ps fin tog)
  have p: "\<not> left = 0" "\<not> left < length p" "length (concat ps) = left - length p" using 2(2,3) by auto
  show ?case
  proof (cases "ps = []")
    case False
    then show ?thesis using 2(1) [OF p(1,2)] 2(3) p by (cases tog; cases "fin = EndOfFile") simp_all
  qed (use p in auto)
qed simp

lemma guarded_Inr: "guarded left ps fin tog = Inr data \<Longrightarrow> data = concat ps \<and> length data \<le> left"
  by (induction left ps fin tog arbitrary: data rule: guarded.induct) (auto split: if_splits sum.splits)

lemma concat_drop_pieces: "concat (drop_pieces n ps) = drop n (concat ps)"
  by (induction n ps rule: drop_pieces.induct) auto

lemma concat_put_back [simp]: "concat (rd_pieces (put_back r)) = concat (rd_pieces r)"
  by (simp add: put_back_def header_of_def Let_def concat_drop_pieces)

lemma read_within_Inr: "read_within n (put_back r) = Inr data \<Longrightarrow> data = concat (rd_pieces r) \<and> length data \<le> n"
  using guarded_Inr [of n "rd_pieces (put_back r)"] by (auto simp: read_within_def)

text \<open>
  How large a file may be. Everything below the limit is taken whole, nothing above it ever is,
  and nothing is cut short. A file of exactly the limit is taken only when the reader reports the
  end together with the last bytes: asked once more, the guard refuses.
\<close>

theorem what_is_read_within_a_limit:
  assumes "[] \<notin> set (rd_pieces r)" "rd_end r = EndOfFile"
  shows "read_within limit r =
    (if length (concat (rd_pieces r)) < limit \<or> length (concat (rd_pieces r)) = limit \<and> rd_pieces r \<noteq> [] \<and> rd_together r
     then Inr (concat (rd_pieces r)) else Inl TooLarge)"
  using assms guarded_below [of "rd_pieces r" limit] guarded_above [of limit "rd_pieces r"] guarded_exact [of "rd_pieces r" limit]
  unfolding read_within_def by (cases "length (concat (rd_pieces r))" limit rule: linorder_cases) auto

theorem what_is_read_within_a_limit_witness:
  "read_within 4 \<lparr>rd_pieces = [''ab'', ''cd''], rd_end = EndOfFile, rd_together = False\<rparr> = Inl TooLarge
   \<and> read_within 4 \<lparr>rd_pieces = [''ab'', ''cd''], rd_end = EndOfFile, rd_together = True\<rparr> = Inr ''abcd''"
  by (simp add: what_is_read_within_a_limit)

section \<open>The name of a file\<close>

lemma byte_len_simps [simp]: "byte_len [] = 0" "byte_len (r # rs) = rune_len r + byte_len rs" "byte_len (a @ b) = byte_len a + byte_len b"
  by (simp_all add: byte_len_def)

lemma rune_len_bounds: "1 \<le> rune_len r" "rune_len r \<le> 4"
  by (cases r; simp)+

lemma count_le_bytes: "length s \<le> byte_len s"
proof (induction s)
  case (Cons r s)
  then show ?case using rune_len_bounds(1) [of r] by simp
qed simp

lemma whole_runes_fit: "byte_len (whole_runes n s) \<le> n"
  by (induction n s rule: whole_runes.induct) auto

lemma whole_runes_full: "n < byte_len s \<Longrightarrow> n \<le> byte_len (whole_runes n s) + 3"
proof (induction n s rule: whole_runes.induct)
  case (2 n r rs)
  then show ?case using rune_len_bounds(2) [of r] by (cases "rune_len r \<le> n") (simp_all, arith)
qed simp

lemma set_whole_runes: "r \<in> set (whole_runes n s) \<Longrightarrow> r \<in> set s"
  by (induction n s rule: whole_runes.induct) (auto split: if_splits)

lemma set_path_Ext: "r \<in> set (path_Ext s) \<Longrightarrow> r \<in> set s \<or> r = Rune 46"
  by (auto simp: path_Ext_def Let_def dest!: set_takeWhileD split: if_splits)

lemma path_Base_one: "slash \<in> set (path_Base p) \<Longrightarrow> path_Base p = [slash]"
  by (auto simp: path_Base_def Let_def str_def slash_def dest!: set_takeWhileD split: if_splits)

definition plain_rune :: "rune \<Rightarrow> bool" where
  "plain_rune r \<longleftrightarrow> is_rune r \<and> \<not> is_control r \<and> r \<noteq> slash"

text \<open>
  C40. A name a file can be saved under. Whatever a client sends, the name kept is valid text of 1 to
  255 characters and bytes, one segment of a path with no separator and no control character, and
  neither \<open>.\<close> nor \<open>..\<close>; so the table never refuses it.
\<close>

theorem a_clean_name_is_one_segment:
  "storable (cleanName raw) \<and> 1 \<le> RuneCount (cleanName raw) \<and> byte_len (cleanName raw) \<le> 255 \<and> RuneCount (cleanName raw) \<le> 255
   \<and> list_all plain_rune (cleanName raw) \<and> cleanName raw \<noteq> str ''.'' \<and> cleanName raw \<noteq> str ''..''"
proof -
  define base where "base = path_Base (map (\<lambda>r. if r = Rune 92 then slash else r) (TrimSpace raw))"
  define name where "name = TrimSpace (map to_rune (filter (\<lambda>r. \<not> is_control r) base))"
  have runes: "r \<in> set name \<Longrightarrow> is_rune r \<and> \<not> is_control r" for r
  proof -
    assume "r \<in> set name"
    then obtain q where "r = to_rune q" "\<not> is_control q" using set_TrimSpace by (fastforce simp: name_def)
    then show ?thesis by (cases q) auto
  qed
  have fallback: "?thesis" if "cleanName raw = str ''file''"
    by (simp add: that storable_def ValidString_def str_def RuneCount_def plain_rune_def slash_def)
  show ?thesis
  proof (cases "name = [] \<or> name = str ''.'' \<or> name = str ''..'' \<or> name = [slash]")
    case True
    then show ?thesis by (intro fallback) (auto simp: cleanName_def Let_def name_def base_def)
  next
    case False
    have plain: "plain_rune r" if "r \<in> set name" for r
    proof (cases "slash \<in> set base")
      case True
      then have "base = [slash]" unfolding base_def by (rule path_Base_one)
      then have "name = [slash]" by (simp add: name_def slash_def TrimSpace_def)
      with False show ?thesis by simp
    next
      case no: False
      from that obtain q where "r = to_rune q" "q \<in> set base" using set_TrimSpace by (fastforce simp: name_def)
      with no runes [OF that] show ?thesis by (cases q) (auto simp: plain_rune_def slash_def)
    qed
    define ext where "ext = (if 16 < byte_len (path_Ext name) then [] else path_Ext name)"
    have clean: "cleanName raw = (if 255 < byte_len name then whole_runes (255 - byte_len ext) name @ ext else name)"
      using False by (auto simp: cleanName_def Let_def name_def base_def fileNameMaxLen_def ext_def)
    have ext16: "byte_len ext \<le> 16" by (simp add: ext_def)
    have all: "plain_rune r" if "r \<in> set (cleanName raw)" for r
    proof -
      have "r \<in> set ext \<Longrightarrow> r \<in> set name \<or> r = Rune 46" using set_path_Ext [of r name] by (simp add: ext_def split: if_splits)
      moreover have "plain_rune (Rune 46)" by (simp add: plain_rune_def slash_def)
      moreover have "r \<in> set name \<or> r \<in> set ext"
        using that set_whole_runes [of r _ name] unfolding clean by (simp del: if_split split: if_split_asm) blast
      ultimately show ?thesis using plain by blast
    qed
    have long: "236 \<le> byte_len (whole_runes (255 - byte_len ext) name @ ext)" if "255 < byte_len name"
    proof -
      have "255 - byte_len ext < byte_len name" using that by linarith
      from whole_runes_full [OF this] show ?thesis using ext16 by simp
    qed
    have cut: "byte_len (whole_runes (255 - byte_len ext) name @ ext) \<le> 255"
      using whole_runes_fit [of "255 - byte_len ext" name] ext16 by simp
    have le: "byte_len (cleanName raw) \<le> 255" using cut by (simp add: clean)
    have "cleanName raw \<noteq> [] \<and> cleanName raw \<noteq> str ''.'' \<and> cleanName raw \<noteq> str ''..''"
    proof (cases "255 < byte_len name")
      case True
      then have "236 \<le> byte_len (cleanName raw)" using long by (simp add: clean)
      then show ?thesis by (auto simp: str_def)
    qed (use False in \<open>simp add: clean\<close>)
    moreover have "storable (cleanName raw)"
      using all all [of "Rune 0"] by (auto simp: storable_def ValidString_def list_all_iff plain_rune_def)
    ultimately show ?thesis
      using le count_le_bytes [of "cleanName raw"] all by (auto simp: RuneCount_def list_all_iff Suc_le_eq)
  qed
qed


section \<open>Keys\<close>

definition hexdig :: "char \<Rightarrow> bool" where
  "hexdig c \<longleftrightarrow> c \<in> set ''0123456789abcdef''"

lemma hex_digits_all: "list_all hexdig (hex_digits n v)"
proof (induction n arbitrary: v)
  case (Suc n)
  have "v mod 16 < length ''0123456789abcdef''" by simp
  then have "''0123456789abcdef'' ! (v mod 16) \<in> set ''0123456789abcdef''" by (rule nth_mem)
  then show ?case using Suc by (simp add: hexdig_def)
qed simp

lemma length_hex_digits [simp]: "length (hex_digits n v) = n"
  by (induction n arbitrary: v) simp_all

lemma hexdig_facts:
  "list_all (\<lambda>c. key_char c \<and> c \<noteq> CHR ''/'' \<and> c \<noteq> CHR ''.'' \<and> c \<noteq> CHR ''-'') ''0123456789abcdef''"
  unfolding key_char_def by (simp add: Let_def)

lemma hexdig_list: "list_all hexdig s \<Longrightarrow> list_all key_char s \<and> CHR ''/'' \<notin> set s \<and> CHR ''.'' \<notin> set s \<and> CHR ''-'' \<notin> set s"
  using hexdig_facts unfolding list_all_iff hexdig_def by metis

lemma hexdig_not_dash: "list_all hexdig s \<Longrightarrow> filter (\<lambda>c. c \<noteq> CHR ''-'') s = s"
  using hexdig_list [of s] by (intro filter_True) auto

lemma undashed_parts:
  assumes "list_all hexdig h"
  shows "filter (\<lambda>c. c \<noteq> CHR ''-'') (take 8 h @ ''-'' @ take 4 (drop 8 h) @ ''-'' @ take 4 (drop 12 h) @ ''-'' @ take 4 (drop 16 h)
      @ ''-'' @ drop 20 h) = h"
proof -
  have part: "list_all hexdig (take n (drop m h))" "list_all hexdig (drop m h)" for n m
    using assms by (auto simp: list_all_iff dest!: in_set_takeD in_set_dropD)
  have "filter (\<lambda>c. c \<noteq> CHR ''-'') (take 8 h @ ''-'' @ take 4 (drop 8 h) @ ''-'' @ take 4 (drop 12 h) @ ''-'' @ take 4 (drop 16 h)
      @ ''-'' @ drop 20 h) = take 8 h @ take 4 (drop 8 h) @ take 4 (drop 12 h) @ take 4 (drop 16 h) @ drop 20 h"
    using hexdig_not_dash [OF part(1) [of 8 0]] hexdig_not_dash [OF part(1) [of 4 8]] hexdig_not_dash [OF part(1) [of 4 12]]
      hexdig_not_dash [OF part(1) [of 4 16]] hexdig_not_dash [OF part(2) [of 20]]
    by (simp only: filter_append drop_0) simp
  also have "\<dots> = h"
    using append_take_drop_id [of 8 h] append_take_drop_id [of 4 "drop 8 h"] append_take_drop_id [of 4 "drop 12 h"]
      append_take_drop_id [of 4 "drop 16 h"] by (simp only: drop_drop) simp
  finally show ?thesis .
qed

lemma undashed: "filter (\<lambda>c. c \<noteq> CHR ''-'') (uuid_String i) = hex_digits 32 (unat i)"
  unfolding uuid_String_def Let_def by (rule undashed_parts [OF hex_digits_all])

lemma split_slashes_plain: "CHR ''/'' \<notin> set s \<Longrightarrow> split_slashes w (s @ rest) = split_slashes (w @ s) rest"
  by (induction s arbitrary: w) auto

lemma storageKey_ok:
  assumes "variant = [] \<or> variant = VariantThumb"
  shows "checkKey (storageKey i variant)"
proof -
  let ?h = "hex_digits 32 (unat i)"
  have hex: "list_all hexdig ?h" by (rule hex_digits_all)
  then have part: "list_all hexdig (take 2 ?h)" "list_all hexdig (take 2 (drop 2 ?h))"
    by (auto simp: list_all_iff dest!: in_set_takeD in_set_dropD)
  note no = hexdig_list
  define tail where "tail = (if variant = [] then ?h else ?h @ ''.'' @ variant)"
  have key: "storageKey i variant = take 2 ?h @ ''/'' @ take 2 (drop 2 ?h) @ ''/'' @ tail"
    unfolding storageKey_def undashed by (simp add: tail_def Let_def)
  have tail: "CHR ''/'' \<notin> set tail" "list_all key_char tail" "2 < length tail"
    using assms no [OF hex] by (auto simp: tail_def VariantThumb_def key_char_def)
  have split: "split_slashes [] (storageKey i variant) = [take 2 ?h, take 2 (drop 2 ?h), tail]"
    using no [OF part(1)] no [OF part(2)] split_slashes_plain [OF tail(1), of "[]" "[]"]
    by (simp add: key split_slashes_plain)
  have len: "length (take 2 ?h) = 2" "length (take 2 (drop 2 ?h)) = 2" by simp_all
  have parts: "s \<noteq> [] \<and> s \<noteq> ''.'' \<and> s \<noteq> ''..''" if "length s = 2" "CHR ''.'' \<notin> set s" for s :: string
    using that by auto
  have "?h \<noteq> []" by (metis length_hex_digits list.size(3) zero_neq_numeral)
  then have "take 2 ?h \<noteq> []" by simp
  then have "hd (storageKey i variant) = hd (take 2 ?h)" by (simp add: key hd_append del: take_eq_Nil)
  moreover have "hd (take 2 ?h) \<in> set (take 2 ?h)" using \<open>take 2 ?h \<noteq> []\<close> by (rule hd_in_set)
  ultimately have "hd (storageKey i variant) \<noteq> CHR ''/''" using no [OF part(1)] by metis
  moreover have "validKey (storageKey i variant)"
    unfolding validKey_def split
    using parts [OF len(1)] parts [OF len(2)] no [OF part(1)] no [OF part(2)] tail by (auto simp: key key_char_def)
  moreover have "storageKey i variant \<noteq> []" by (simp add: key)
  ultimately show ?thesis by (simp add: checkKey_def)
qed

lemma thumb_key_other: "storageKey i VariantThumb \<noteq> storageKey i []"
  by (simp add: storageKey_def Let_def VariantThumb_def)

section \<open>What an upload does\<close>

lemma blob_put_fields [simp]:
  "w_db (snd (blob_put me k data w)) = w_db w" "w_ids (snd (blob_put me k data w)) = w_ids w"
  by (simp_all add: blob_put_def)

lemma discard_db [simp]: "w_db (discard me k t w) = w_db w"
  by (simp add: discard_def blob_delete_def Let_def split: option.splits)

lemma blob_put_stored: "blob_put me k data w = (True, w') \<longleftrightarrow> checkKey k \<and> me_put me k \<and> w' = w\<lparr>w_blobs := (w_blobs w)(k \<mapsto> data)\<rparr>"
  by (auto simp: blob_put_def)

lemma putThumb_rest:
  "w_db (snd (putThumb me i data wd ht w)) = w_db w"
  "k \<noteq> storageKey i VariantThumb \<Longrightarrow> w_blobs (snd (putThumb me i data wd ht w)) k = w_blobs w k"
  by (auto simp: putThumb_def blob_put_def Let_def split: option.splits)

lemma putImage_ok:
  assumes "putImage me i (storageKey i []) (put_back r) w = (Inr f, w')"
  shows "w_db w' = w_db w \<and> w_blobs w' (storageKey i []) = Some (concat (rd_pieces r))
    \<and> sf_Size f = length (concat (rd_pieces r)) \<and> sf_Size f \<le> limitFor ''image''"
proof -
  obtain data where d: "read_within MaxImageBytes (put_back r) = Inr data"
    using assms by (auto simp: putImage_def split: sum.splits read_error.splits)
  obtain stored w1 where b: "blob_put me (storageKey i []) data w = (stored, w1)" by fastforce
  have out: "stored" "(\<exists>wd ht. w' = snd (putThumb me i data wd ht w1)) \<or> w' = w1" "sf_Size f = length data"
    using assms d b by (auto simp: putImage_def Let_def split: if_splits measured.splits prod.splits) (metis snd_conv)
  then have w1: "w1 = w\<lparr>w_blobs := (w_blobs w)(storageKey i [] \<mapsto> data)\<rparr>" using b by (simp add: blob_put_stored)
  have "w_db w' = w_db w \<and> w_blobs w' (storageKey i []) = Some data"
    using out(2) putThumb_rest(2) [of "storageKey i []" i me data _ _ w1] thumb_key_other [of i] by (auto simp: w1 putThumb_rest(1))
  with out(3) conjunct1 [OF read_within_Inr [OF d]] conjunct2 [OF read_within_Inr [OF d]] show ?thesis
    by (auto simp: limitFor_def)
qed

lemma putStream_ok:
  assumes "putStream me key (put_back r) kind w = (Inr f, w')"
  shows "w_db w' = w_db w \<and> w_blobs w' key = Some (concat (rd_pieces r))
    \<and> sf_Size f = length (concat (rd_pieces r)) \<and> sf_Size f \<le> limitFor kind"
proof -
  obtain data where d: "read_within (limitFor kind) (put_back r) = Inr data"
    using assms by (auto simp: putStream_def split: sum.splits read_error.splits)
  obtain stored w1 where b: "blob_put me key data w = (stored, w1)" by fastforce
  have out: "stored" "w' = w1" "sf_Size f = length data"
    using assms d b by (auto simp: putStream_def Let_def split: if_splits)
  then have "w1 = w\<lparr>w_blobs := (w_blobs w)(key \<mapsto> data)\<rparr>" using b by (simp add: blob_put_stored)
  with out(2,3) conjunct1 [OF read_within_Inr [OF d]] conjunct2 [OF read_within_Inr [OF d]] show ?thesis by auto
qed

lemma Upload_ok:
  assumes "Upload e me k owner name meta r w = (Inr f, w')"
  shows "\<exists>row. w_db w' = (w_db w)\<lparr>db_media := db_media (w_db w) @ [row]\<rparr> \<and> f = mediaFromRow row
    \<and> (\<forall>x\<in>set (db_media (w_db w)). med_id x \<noteq> med_id row)
    \<and> med_owner_kind row = k \<and> med_owner_id row = owner \<and> med_message_id row = None
    \<and> med_storage_key row = storageKey (med_id row) [] \<and> w_blobs w' (med_storage_key row) = Some (concat (rd_pieces r))
    \<and> med_byte_size row = int (length (concat (rd_pieces r))) \<and> 0 < med_byte_size row
    \<and> med_byte_size row \<le> int (limitFor (med_kind row))"
proof -
  obtain w1 where w1: "allow_upload k owner w = (Inr (), w1)"
    using assms by (auto simp: Upload_def ok_iffs)
  have db1: "w_db w1 = w_db w" using w1 by (auto simp: allow_upload_def Let_def split_def split: if_splits)
  define mimeType where "mimeType = sniff me (header_of r)"
  define kind where "kind = resolveKind mimeType meta"
  define i where "i = env_new_id e (w_ids w1)"
  define w2 where "w2 = snd (NewID e w1)"
  define key where "key = storageKey i []"
  define put where "put = (if kind = ''image'' then putImage me i key (put_back r) w2 else putStream me key (put_back r) kind w2)"
  obtain stored w3 where put: "put = (stored, w3)" by fastforce
  have tail: "(case stored of Inl err \<Rightarrow> (Inl err, discard me key None w3)
     | Inr s \<Rightarrow> record_upload me
         \<lparr>med_id = i, med_owner_kind = k, med_owner_id = owner, med_kind = kind, med_mime_type = mimeType,
          med_byte_size = int (sf_Size s), med_file_name = cleanName name, med_width = sf_Width s,
          med_height = sf_Height s, med_storage_key = key, med_thumb_key = sf_ThumbKey s, med_message_id = None,
          med_created_at = w_now w3, med_duration_ms = mt_DurationMS (forKind meta kind),
          med_waveform = mt_Waveform (forKind meta kind)\<rparr> s w3) = (Inr f, w')"
    using assms w1 put
    unfolding Upload_def w1 runs_simps needs_Inr refuse_if_Inr Let_def NewID_def prod.case put_def key_def i_def kind_def
      mimeType_def w2_def snd_conv by simp
  obtain s p where s: "stored = Inr s" "record_upload me p s w3 = (Inr f, w')"
    and row: "med_id p = i" "med_owner_kind p = k" "med_owner_id p = owner" "med_kind p = kind" "med_storage_key p = key"
      "med_byte_size p = int (sf_Size s)"
    using tail by (cases stored) auto
  obtain x where c: "CreateMedia (w_now w3) p (w_db w3) = (Inr x, w_db w')" "w_blobs w' = w_blobs w3" "f = mediaFromRow x"
    "sf_Size s \<noteq> 0"
    using s(2) by (auto simp: record_upload_def on_db_def Let_def split: if_splits sum.splits prod.splits)
  have p: "w_db w3 = w_db w" "w_blobs w3 key = Some (concat (rd_pieces r))" "sf_Size s = length (concat (rd_pieces r))"
    "sf_Size s \<le> limitFor kind"
    using putImage_ok [of me i r w2 s w3] putStream_ok [of me key r kind w2 s w3] put s(1) db1
    by (auto simp: put_def key_def w2_def NewID_def split: if_splits)
  have x: "x = p\<lparr>med_message_id := None, med_created_at := w_now w3\<rparr>"
    "w_db w' = (w_db w3)\<lparr>db_media := db_media (w_db w3) @ [x]\<rparr>" "\<forall>y\<in>set (db_media (w_db w3)). med_id y \<noteq> med_id x"
    using c(1) by (auto simp: CreateMedia_def Let_def ok_iffs)
  show ?thesis
    by (rule exI [of _ x]) (use x c(2,3,4) p row key_def in \<open>simp\<close>)
qed

lemma put_db [simp]:
  "w_db (snd (putImage me i key r w)) = w_db w" "w_db (snd (putStream me key r kind w)) = w_db w"
  by (auto simp: putImage_def putStream_def blob_put_def Let_def split_def putThumb_rest split: sum.splits read_error.splits measured.splits)

lemma allow_upload_db [simp]: "w_db (snd (allow_upload k owner w)) = w_db w"
  by (simp add: allow_upload_def Let_def split_def)

lemma db_ok_CreateMedia: "db_ok d \<Longrightarrow> db_ok (snd (CreateMedia now p d))"
  by (auto simp: CreateMedia_def Let_def insert_text_def insert_row_def db_ok_def)

lemma well_record_upload: "well w \<Longrightarrow> well (snd (record_upload me p f w))"
  using db_ok_CreateMedia [of "w_db w" "w_now w" p]
  by (auto simp: record_upload_def on_db_def Let_def split_def split: sum.splits)

lemma well_Upload [keeps]: "well w \<Longrightarrow> well (snd (Upload e me k owner name meta r w))"
  unfolding Upload_def Let_def split_def
  by (intro well_runs well_needs) (auto simp: NewID_def intro: well_record_upload split: sum.splits)

lemma well_SweepUnclaimed [keeps]: "well w \<Longrightarrow> well (snd (SweepUnclaimed me olderThan w))"
proof -
  have "w_db (fold (\<lambda>row. discard me (med_storage_key row) (med_thumb_key row)) rows w) = w_db w" for rows w
    by (induction rows arbitrary: w) simp_all
  note same = this
  show "well w \<Longrightarrow> well (snd (SweepUnclaimed me olderThan w))"
    by (simp add: SweepUnclaimed_def on_db_def DeleteUnclaimedMedia_def Let_def db_ok_def distinct_map_filter same)
qed

definition sample_io :: media_env where
  "sample_io = \<lparr>me_detect = (\<lambda>_. ''text/plain; charset=utf-8''), me_config = (\<lambda>_. None), me_scale = (\<lambda>_ _. None),
     me_put = (\<lambda>_. True), me_open = (\<lambda>_. True), me_delete = (\<lambda>_. True)\<rparr>"

definition sample_reader :: reader where
  "sample_reader = \<lparr>rd_pieces = [''hel'', ''lo''], rd_end = EndOfFile, rd_together = False\<rparr>"

section \<open>Who reads a file\<close>

lemma UserCanReadMedia_iff:
  "UserCanReadMedia d i u \<longleftrightarrow> (\<exists>m\<in>set (db_media d). med_id m = i
     \<and> (med_owner_kind m = ParticipantUser \<and> med_owner_id m = u
      \<or> (\<exists>msg\<in>set (db_messages d). med_message_id m = Some (msg_id msg)
          \<and> (\<exists>p\<in>set (db_participants d). prt_conversation_id p = msg_conversation_id msg \<and> prt_user_id p = Some u))))"
  by (auto simp: UserCanReadMedia_def list_ex_iff)

lemma AgentCanReadMedia_iff:
  "AgentCanReadMedia d i a \<longleftrightarrow> (\<exists>m\<in>set (db_media d). med_id m = i
     \<and> (med_owner_kind m = ParticipantAgent \<and> med_owner_id m = a
      \<or> (\<exists>msg\<in>set (db_messages d). med_message_id m = Some (msg_id msg)
          \<and> (\<exists>p\<in>set (db_participants d). prt_conversation_id p = msg_conversation_id msg \<and> prt_agent_id p = Some a))))"
  by (auto simp: AgentCanReadMedia_def list_ex_iff)

lemma not_allowed: "open_media me i v False w = Inl errNoFile"
  by (cases "find (\<lambda>m. med_id m = i) (db_media (w_db w))") (auto simp: open_media_def GetMedia_def one_row_def)

lemma allowed_or: "open_media me i v (p \<or> q) w = (if p \<or> q then open_media me i v True w else Inl errNoFile)"
  by (cases "p \<or> q") (simp_all only: not_allowed if_True if_False)


lemma sample_upload: "\<exists>f w'. Upload sample_env sample_io ParticipantUser 1 (str ''a.txt'') no_meta sample_reader sample_world = (Inr f, w')"
proof -
  have n: "cleanName (str ''a.txt'') = str ''a.txt''"
    by (simp add: cleanName_def path_Base_def str_def slash_def TrimSpace_def fileNameMaxLen_def Let_def)
  have t: "sniff sample_io h = ''text/plain''" for h
    by (simp add: sniff_def sample_io_def trim_ascii_def Let_def)
  have a: "fst (allow_upload ParticipantUser 1 sample_world) = Inr ()"
    by (simp add: allow_upload_def bucket_defs userUploadPolicy_def sample_world_def Let_def split_def)
  then obtain w1 where a: "allow_upload ParticipantUser 1 sample_world = (Inr (), w1)" by (metis prod.collapse)
  have k: "resolveKind ''text/plain'' no_meta = ''file''" "forKind no_meta ''file'' = no_meta"
    by (simp_all add: resolveKind_def kindOf_def HasPrefix_def forKind_def no_meta_def)
  have r: "read_within n (put_back sample_reader) = Inr ''hello''" if "5 < n" for n
    using that by (simp add: read_within_def put_back_def sample_reader_def header_of_def sniffLen_def Let_def)
  have h: "header_of sample_reader \<noteq> []" "rd_end sample_reader \<noteq> ReadFailure"
    by (simp_all add: header_of_def sample_reader_def sniffLen_def)
  have db: "w_db w1 = sample_db" using allow_upload_db [of ParticipantUser 1 sample_world] a by simp
  let ?i = "env_new_id sample_env (w_ids w1)"
  have p: "putStream sample_io (storageKey ?i []) (put_back sample_reader) ''file'' w =
      (Inr \<lparr>sf_Size = 5, sf_Width = 0, sf_Height = 0, sf_ThumbKey = None\<rparr>, w\<lparr>w_blobs := (w_blobs w)(storageKey ?i [] \<mapsto> ''hello'')\<rparr>)" for w
    using storageKey_ok [of "[]" ?i]
    by (simp add: putStream_def r limitFor_def MaxFileBytes_def blob_put_def sample_io_def Let_def)
  have m: "mt_DurationMS no_meta = 0" "mt_Waveform no_meta = None" by (simp_all add: no_meta_def)
  have s: "storable (str ''a.txt'')" "RuneCount (str ''a.txt'') = 5"
    by (simp_all add: storable_def ValidString_def str_def RuneCount_def)
  show ?thesis
    unfolding Upload_def a runs_simps
    using h by (simp add: t k p n NewID_def Let_def record_upload_def on_db_def CreateMedia_def s db sample_tables m)
qed


lemma created_message:
  assumes "create e s c inp pol st w = (Inr r, w')" "sr_created r"
  shows "(\<exists>msg\<in>set (db_messages (w_db w')). msg_id msg = mg_id (sr_message r))
    \<and> (\<forall>msg\<in>set (db_messages (w_db w')). msg_id msg = mg_id (sr_message r) \<longrightarrow> msg_conversation_id msg = c)
    \<and> db_participants (w_db w') = db_participants (w_db w)"
proof (rule created_effect [OF assms], goal_cases)
  case (1 p msg rows)
  have id: "mg_id (sr_message r) = env_new_id e (w_ids w)"
    using messageFromRow_Inr [OF 1(3)] mg_core_eq [OF 1(4)] by (simp add: new_row_fields)
  let ?new = "message_of_params (w_now w) (sent_params e s c inp p st w)"
  have rows: "db_messages (w_db w') = tapped_rows (prep_tap p) (db_messages (w_db w) @ [?new])"
    "db_participants (w_db w') = db_participants (w_db w)"
    by (simp_all add: 1(5) ran_db_tables)
  have "map (\<lambda>m. (msg_id m, msg_conversation_id m)) (tapped_rows t ms) = map (\<lambda>m. (msg_id m, msg_conversation_id m)) ms" for t ms
    by (simp add: tapped_rows_def update_where_def split: option.split)
  then have same: "(\<lambda>m. (msg_id m, msg_conversation_id m)) ` set (tapped_rows t ms) = (\<lambda>m. (msg_id m, msg_conversation_id m)) ` set ms" for t ms
    unfolding set_map [symmetric] by metis
  have tap: "m \<in> set (tapped_rows t ms) \<Longrightarrow> \<exists>m0\<in>set ms. msg_id m = msg_id m0 \<and> msg_conversation_id m = msg_conversation_id m0" for m t ms
    using same [of t ms] by (fastforce simp: set_eq_iff image_iff)
  have tap_new: "m0 \<in> set ms \<Longrightarrow> \<exists>m\<in>set (tapped_rows t ms). msg_id m = msg_id m0" for m0 t ms
  proof -
    assume "m0 \<in> set ms"
    then have "(msg_id m0, msg_conversation_id m0) \<in> (\<lambda>m. (msg_id m, msg_conversation_id m)) ` set (tapped_rows t ms)"
      unfolding same by (rule imageI)
    then show ?thesis by auto
  qed
  have new: "msg_id ?new = mg_id (sr_message r)" "msg_conversation_id ?new = c" by (simp_all add: new_row_fields id)
  have "\<exists>m\<in>set (db_messages (w_db w')). msg_id m = mg_id (sr_message r)"
    using tap_new [of ?new "db_messages (w_db w) @ [?new]" "prep_tap p"] new(1) unfolding rows by auto
  moreover have "msg_conversation_id m = c" if m: "m \<in> set (db_messages (w_db w'))" "msg_id m = mg_id (sr_message r)" for m
  proof -
    from tap [OF m(1) [unfolded rows]] obtain m0 where
      m0: "m0 \<in> set (db_messages (w_db w) @ [?new])" "msg_id m = msg_id m0" "msg_conversation_id m = msg_conversation_id m0" by blast
    have "m0 \<notin> set (db_messages (w_db w))" using 1(8) m0(2) m(2) id by auto
    with m0(1) have "m0 = ?new" by simp
    then show ?thesis using m0(3) new(2) by simp
  qed
  ultimately show ?case using rows(2) by blast
qed



end
