(* ===== verification/Standing.thy ===== *)
theory Standing
  imports Frames StreamEnd ScheduleWord Delivery
begin

text \<open>
  Who stands in the hub: the tables of people and agents. Rows are added and updated there, never
  removed; few operations write them, and all the others are shown here to leave both tables alone.
\<close>

definition people :: "db \<Rightarrow> user_row list \<times> agent_row list" where
  "people d = (db_users d, db_agents d)"

lemmas stays = kept_needs [of "\<lambda>w. people (w_db w) = A" for A] kept_runs [of "\<lambda>w. people (w_db w) = A" for A]
  kept_WithTx [of "\<lambda>d. people d = A" for A] kept_step [of "\<lambda>w. people (w_db w) = A" for A]
  kept_outcome [of "\<lambda>w. people (w_db w) = A" for A]

lemma kept_raw_step:
  assumes "P (snd X)" "\<And>x w1. X = (Inr x, w1) \<Longrightarrow> P w1 \<Longrightarrow> P (snd (k w1 x))"
  shows "P (snd (case X of (r, w1) \<Rightarrow> needs r w1 (k w1)))"
  using assms by (cases X; cases "fst X") auto

section \<open>Statements on other tables\<close>

lemma people_chat_statements [simp]:
  "people (snd (CreateConversation now c k d)) = people d"
  "people (snd (AddParticipant now c k' ou oa d)) = people d"
  "people (snd (CreateMessage now p d)) = people d"
  "people (UpdateMessageBody i b d) = people d"
  "people (snd (FinishMessage i aid b t s d)) = people d"
  "people (SetMessageSignature i sg d) = people d"
  "people (snd (ClaimMedia i ids k'' o' d)) = people d"
  "people (snd (MarkRead_sql u m c d)) = people d"
  "people (ClearConversation u c d) = people d"
  "people (HideMessage u m d) = people d"
  by (auto simp: CreateConversation_def AddParticipant_def CreateMessage_def UpdateMessageBody_def FinishMessage_def
      SetMessageSignature_def ClaimMedia_def MarkRead_sql_def ClearConversation_def HideMessage_def Let_def insert_row_def
      people_def split: option.splits)

lemma people_outbox_statements [simp]:
  "people (snd (CreateDelivery now p' d)) = people d"
  "people (snd (ClaimDueWebhookDeliveries now n d)) = people d"
  "people (snd (ClaimDueSocketDeliveries now aid n d)) = people d"
  "people (snd (AckDelivery now i aid d)) = people d"
  "people (MarkDelivered now i d) = people d"
  "people (ScheduleRetry i next err d) = people d"
  "people (MarkFailed i err d) = people d"
  "people (FailExpiredDeliveries now d) = people d"
  "people (FailUnboundDeliveries d) = people d"
  "people (snd (CreateBinding now bid aid m url hash d)) = people d"
  "people (snd (RevokeActiveBinding now aid d)) = people d"
  "people (snd (RecordBindingSuccess now bid d)) = people d"
  "people (snd (RecordBindingFailure now bid d)) = people d"
  "people (snd (MarkBindingIdle bid d)) = people d"
  by (auto simp: CreateDelivery_def ClaimDueWebhookDeliveries_def ClaimDueSocketDeliveries_def AckDelivery_def
      MarkDelivered_def ScheduleRetry_def MarkFailed_def FailExpiredDeliveries_def FailUnboundDeliveries_def
      set_deliveries_def claim_rows_def CreateBinding_def RevokeActiveBinding_def RecordBindingSuccess_def
      RecordBindingFailure_def MarkBindingIdle_def binding_update_def Let_def insert_row_def people_def split: option.splits)

lemma people_pairing_statements [simp]:
  "people (snd (CreateContact now u' a' c' via t d)) = people d"
  "people (snd (CreatePairToken tk d)) = people d"
  "people (snd (UsePairToken now i d)) = people d"
  "people (snd (RevokePairToken now i a d)) = people d"
  "people (snd (storePayload js tk d)) = people d"
  "people (snd (set_contacts P f d)) = people d"
  "people (snd (CreateReport r d)) = people d"
  by (auto simp: CreateContact_def CreatePairToken_def UsePairToken_def RevokePairToken_def storePayload_def set_contacts_def
      CreateReport_def Let_def insert_row_def people_def split: option.splits)

lemmas contact_updates = SetContactMuted_def SetContactPinned_def SetContactArchived_def RemoveContact_def RemoveAllContacts_def
  RestoreContact_def SetContactBlocked_def ClearContactBlocked_def

lemma people_schedule_statements [simp]:
  "people (snd (CreateSchedule_sql now i aid cid t ins c st by d)) = people d"
  "people (snd (UpdateSchedule_sql now p'' d)) = people d"
  "people (snd (DeleteSchedule_sql now i d)) = people d"
  "people (MarkScheduleRan now i d) = people d"
  by (auto simp: CreateSchedule_sql_def UpdateSchedule_sql_def DeleteSchedule_sql_def MarkScheduleRan_def Let_def insert_row_def
      people_def split: option.splits)

lemma people_account_statements [simp]:
  "people (snd (CreateIdentity now i u k v d)) = people d"
  "people (DeleteIdentities u d) = people d"
  "people (snd (CreateSignInCode now i em h x d)) = people d"
  "people (snd (CountSignInAttempt i d)) = people d"
  "people (MarkSignInCodeUsed now i d) = people d"
  "people (snd (CreateSession now i u h nm x d)) = people d"
  "people (snd (set_sessions Q g d)) = people d"
  "people (snd (RevokeOldestUserSessions now u n d)) = people d"
  "people (TouchSession now i d) = people d"
  "people (ClearSessionPush ptok d) = people d"
  "people (SetSessionPushToken ptok i d) = people d"
  "people (snd (RegisterSessionPush now ptok pf i d)) = people d"
  "people (snd (CreateAPIKey_sql now i u nm h d)) = people d"
  "people (TouchAPIKey now i d) = people d"
  "people (snd (RevokeAPIKey_sql now i u d)) = people d"
  by (auto simp: CreateIdentity_def DeleteIdentities_def CreateSignInCode_def CountSignInAttempt_def MarkSignInCodeUsed_def
      CreateSession_def set_sessions_def RevokeOldestUserSessions_def TouchSession_def ClearSessionPush_def
      RegisterSessionPush_def SetSessionPushToken_def CreateAPIKey_sql_def TouchAPIKey_def RevokeAPIKey_sql_def Let_def
      insert_text_def insert_row_def people_def split: option.splits)

lemmas session_updates = RevokeSession_def RevokeUserSession_def RevokeUserSessions_def RevokeOtherUserSessions_def

section \<open>Conversations\<close>

lemma people_Enqueue [simp]: "people (w_db (snd (Enqueue e a c t p w))) = people (w_db w)"
  unfolding Enqueue_def Let_def NewID_def prod.case by (auto intro!: stays split: sum.splits)

lemma people_FindOrCreateDM [simp]:
  "people (w_db (snd (CreateDM e u a w))) = people (w_db w)"
  "people (w_db (snd (FindOrCreateDM e u a w))) = people (w_db w)"
proof -
  have "people (w_db (snd (createDMTx e u a w))) = people (w_db w)"
    unfolding createDMTx_def Let_def NewID_def prod.case by (intro stays) simp_all
  then show "people (w_db (snd (CreateDM e u a w))) = people (w_db w)"
    unfolding CreateDM_def by (intro stays) simp_all
  then show "people (w_db (snd (FindOrCreateDM e u a w))) = people (w_db w)"
    unfolding FindOrCreateDM_def by (auto intro!: stays split: sum.splits)
qed

lemma people_fanOut [simp]: "people (w_db (snd (fanOut e m w))) = people (w_db w)"
proof -
  have "people (w_db (snd (fanOut_loop e m as w))) = people (w_db w)" for as
  proof (induction as arbitrary: w)
    case (Cons a as)
    then show ?case by (auto simp: Let_def split_def intro!: stays)
  qed simp
  then show ?thesis by (simp add: fanOut_def)
qed

lemma people_sendTx: "people (w_db (snd (sendTx e p t s st w))) = people (w_db w)"
proof -
  have rec: "people (w_db (case t of None \<Rightarrow> w' | Some x \<Rightarrow> recordTap x w')) = people (w_db w')" for w'
    by (simp add: recordTap_def split: option.splits)
  have claim: "people (w_db (snd (claimAttachments s mid ids w'))) = people (w_db w')" for mid ids w'
    by (simp add: claimAttachments_def Let_def split_def)
  show ?thesis
    unfolding sendTx_def Let_def split_def by (intro stays) (auto simp: rec claim intro!: stays)
qed

lemma people_commit: "people (w_db (snd (commit e s c inp pol st p w))) = people (w_db w)"
proof -
  obtain res w' where c: "commit e s c inp pol st p w = (res, w')" by fastforce
  have sent: "people (w_db (snd (announce_sent e c inp st msg pending w3))) = people (w_db w3)" for msg pending w3
    unfolding announce_sent_def Let_def by (rule stays) (auto split: option.splits)
  from c show ?thesis
  proof (cases rule: commit_cases)
    case (recorded msg pending w3)
    have "people (w_db w3) = people (w_db w)"
      using people_sendTx [of e "params_of e (env_new_id e (w_ids w)) s c inp p st" "prep_tap p" s st "at_tx e s pol w"] recorded(1)
      by simp
    then show ?thesis using sent [of msg pending w3] recorded(2) c by simp
  qed (use c in simp_all)
qed

lemma people_create [simp]: "people (w_db (snd (create e s c inp pol st w))) = people (w_db w)"
  unfolding create_def by (intro stays) (auto simp: people_commit split: option.splits)

lemma people_sends [simp]:
  "people (w_db (snd (SendAsUser e u c inp w))) = people (w_db w)"
  "people (w_db (snd (SendAsAgent e a c inp w))) = people (w_db w)"
  "people (w_db (snd (StartStream e a c inp w))) = people (w_db w)"
  unfolding SendAsUser_def SendAsAgent_def StartStream_def by (intro stays; simp)+

lemma people_view [simp]:
  "people (w_db (snd (MarkRead u c m w))) = people (w_db w)"
  "people (w_db (snd (Clear u c w))) = people (w_db w)"
  "people (w_db (snd (Hide u c m w))) = people (w_db w)"
  by (auto intro!: stays simp: MarkRead_def Clear_def Hide_def Let_def split_def split: sum.splits)

section \<open>Streams\<close>

lemma people_finishStream [simp]: "people (w_db (snd (finishStream e aid mid inp how w))) = people (w_db w)"
proof (cases "w_streams w")
  case (Some st)
  have tx: "people (w_db (snd (finishTx e aid mid b t s w'))) = people (w_db w')" for b t s w'
    by (auto simp: finishTx_def Let_def split_def intro!: stays split: sum.splits option.splits)
  have "people (w_db (snd (WithTx (finishTx e aid mid b t s) w))) = people (w_db w)" for b t s
    by (intro stays tx refl)
  then show ?thesis
    using Some
    by (cases "WithTx (finishTx e aid mid (final_body aid mid inp w) (cut_short aid mid how w) (how = endedByPerson)) w";
        cases "fst (WithTx (finishTx e aid mid (final_body aid mid inp w) (cut_short aid mid how w) (how = endedByPerson)) w)")
      (auto simp: finishStream_eq Let_def intro!: stays split: option.splits dest: arg_cong [of _ _ "\<lambda>x. people (w_db (snd x))"])
qed (simp add: finishStream_def)

lemma people_streaming [simp]:
  "people (w_db (snd (FinishStream e a m inp w))) = people (w_db w)"
  "people (w_db (snd (SweepStreams e t w))) = people (w_db w)"
  "people (w_db (snd (Stop e u c w))) = people (w_db w)"
  "people (w_db (snd (AppendStream a m text w))) = people (w_db w)"
  "people (w_db (snd (Activity e a c state label w))) = people (w_db w)"
  "people (w_db (snd (Typing e a c state w))) = people (w_db w)"
proof -
  have sweep: "people (w_db (snd (sweep_loop e rs w))) = people (w_db w)" for rs
  proof (induction rs arbitrary: w)
    case (Cons r rs)
    obtain res w1 where f: "finishStream e (fst r) (snd r) no_finish_input endedByHub w = (res, w1)" by fastforce
    then have "people (w_db w1) = people (w_db w)" by (metis people_finishStream snd_conv)
    then show ?case using f Cons.IH by (cases res) (simp_all add: split_def Let_def)
  qed simp
  have stop: "people (w_db (snd (stop_loop e rs w))) = people (w_db w)" for rs w
  proof (induction rs arbitrary: w)
    case (Cons r rs)
    obtain res w1 where f: "finishStream e (snd r) (fst r) no_finish_input endedByPerson w = (res, w1)" by fastforce
    then have w1: "people (w_db w1) = people (w_db w)" by (metis people_finishStream snd_conv)
    have "people (w_db (snd (runs (stop_loop e rs w1) (\<lambda>(ended, byAgent) w2.
        if P then (X ended byAgent, w2) else (Y ended byAgent, w2))))) = people (w_db w)"
      for P and X Y :: "message list \<Rightarrow> (uuid \<Rightarrow> uuid option) \<Rightarrow> go_error + message list \<times> (uuid \<Rightarrow> uuid option)"
      using Cons.IH [of w1] w1 by (intro stays) (simp_all add: split_def)
    then show ?case using f Cons.IH [of w1] w1 by (cases r; cases res) simp_all
  qed simp
  have announce: "people (w_db (snd (stop_announce e c b as w))) = people (w_db w)" for b as w
  proof (induction as arbitrary: w)
    case (Cons a as)
    show ?case unfolding stop_announce.simps by (intro stays) (simp_all add: Cons.IH)
  qed simp
  show act: "people (w_db (snd (Activity e a c state label w))) = people (w_db w)" for state label
    by (auto simp: Activity_def Let_def split_def intro!: stays)
  show "people (w_db (snd (Typing e a c state w))) = people (w_db w)" using act by (simp add: Typing_def)
  show "people (w_db (snd (FinishStream e a m inp w))) = people (w_db w)" by (auto simp: FinishStream_def intro!: stays)
  show "people (w_db (snd (SweepStreams e t w))) = people (w_db w)"
    using sweep by (auto simp: SweepStreams_def Let_def split_def split: option.splits)
  show "people (w_db (snd (AppendStream a m text w))) = people (w_db w)"
    by (auto simp: AppendStream_def Let_def split_def split: option.splits sum.splits stream_error.splits)
  show "people (w_db (snd (Stop e u c w))) = people (w_db w)"
    by (auto simp: Stop_def Let_def split_def stop announce intro!: stays)
qed

section \<open>Bindings and schedules\<close>

lemma people_bindings [simp]:
  "people (w_db (snd (SetBinding e u a inp w))) = people (w_db w)"
  "people (w_db (snd (RevokeBinding u a w))) = people (w_db w)"
  "people (w_db (snd (RecordDeliverySuccess b w))) = people (w_db w)"
  "people (w_db (snd (SocketConnected b w))) = people (w_db w)"
  "people (w_db (snd (SocketClosed b w))) = people (w_db w)"
  "people (w_db (snd (RecordDeliveryFailure b w))) = people (w_db w)"
proof -
  have tx: "people (w_db (snd (setBindingTx e a m u h w'))) = people (w_db w')" for m u h w'
    unfolding setBindingTx_def Let_def split_def NewID_def by (intro stays) simp_all
  show "people (w_db (snd (SetBinding e u a inp w))) = people (w_db w)"
    unfolding SetBinding_def Let_def split_def by (intro stays) (simp_all add: tx)
  show "people (w_db (snd (RevokeBinding u a w))) = people (w_db w)"
    unfolding RevokeBinding_def Let_def split_def by (intro stays) simp_all
  have rec: "people (w_db (snd (recorded news stmt w))) = people (w_db w)" if "\<And>d. people (snd (stmt d)) = people d" for news stmt
    using that [of "w_db w"] by (auto simp: recorded_def on_db_def Let_def split_def split: sum.splits)
  show "people (w_db (snd (RecordDeliverySuccess b w))) = people (w_db w)" "people (w_db (snd (SocketConnected b w))) = people (w_db w)"
    "people (w_db (snd (SocketClosed b w))) = people (w_db w)" "people (w_db (snd (RecordDeliveryFailure b w))) = people (w_db w)"
    by (simp_all add: RecordDeliverySuccess_def SocketConnected_def SocketClosed_def RecordDeliveryFailure_def rec)
qed

lemma people_writes:
  assumes "\<And>d. people (snd (write d)) = people d"
  shows "people (w_db (snd (writeSchedule e write ev w))) = people (w_db w)"
    "people (w_db (snd (agent_write e write w))) = people (w_db w)"
proof -
  have "people (w_db (snd (writeScheduleTx e write ev w))) = people (w_db w)"
    unfolding writeScheduleTx_def Let_def split_def
    by (cases "fst (on_db write w)") (use assms in \<open>auto intro!: stays\<close>)
  then show "people (w_db (snd (writeSchedule e write ev w))) = people (w_db w)"
    unfolding writeSchedule_def by (intro stays) (auto simp: split_def)
  show "people (w_db (snd (agent_write e write w))) = people (w_db w)"
    unfolding agent_write_def Let_def split_def
    by (cases "fst (on_db write w)") (use assms in \<open>auto intro!: stays\<close>)
qed

lemma people_createSchedule: "people (w_db (snd (createSchedule e aid cid t ins st by c tell w))) = people (w_db w)"
proof -
  have "people (w_db (snd (createScheduleTx e i aid cid t ins st by c tell w1))) = people (w_db w1)" for i w1
    unfolding createScheduleTx_def Let_def split_def by (intro stays) (auto intro!: stays)
  then show ?thesis
    unfolding createSchedule_def Let_def split_def by (intro stays) (auto simp: split_def)
qed

lemma people_schedules [simp]:
  "people (w_db (snd (RequestSchedule e u cid rq w))) = people (w_db w)"
  "people (w_db (snd (CreateScheduleAsAgent e a cid ag w))) = people (w_db w)"
  "people (w_db (snd (UpdateSchedule e u cid i ch w))) = people (w_db w)"
  "people (w_db (snd (DeleteSchedule e u cid i w))) = people (w_db w)"
  "people (w_db (snd (UpdateScheduleAsAgent e a cid i ac w))) = people (w_db w)"
  "people (w_db (snd (DeleteScheduleAsAgent e a cid i w))) = people (w_db w)"
  "people (w_db (snd (MoveSchedules e u src dest w))) = people (w_db w)"
proof -
  have move: "people (w_db (snd (move_loop e dest rows w))) = people (w_db w)" for rows
    by (induction rows arbitrary: w) (auto simp: Let_def people_writes intro!: stays)
  show "people (w_db (snd (RequestSchedule e u cid rq w))) = people (w_db w)"
    unfolding RequestSchedule_def Let_def split_def by (auto intro!: stays simp: people_createSchedule)
  show "people (w_db (snd (CreateScheduleAsAgent e a cid ag w))) = people (w_db w)"
    unfolding CreateScheduleAsAgent_def Let_def by (auto intro!: stays simp: people_createSchedule)
  show "people (w_db (snd (UpdateSchedule e u cid i ch w))) = people (w_db w)"
    unfolding UpdateSchedule_def Let_def by (auto intro!: stays simp: people_writes)
  show "people (w_db (snd (DeleteSchedule e u cid i w))) = people (w_db w)"
    unfolding DeleteSchedule_def Let_def by (auto intro!: stays simp: people_writes)
  show "people (w_db (snd (UpdateScheduleAsAgent e a cid i ac w))) = people (w_db w)"
    unfolding UpdateScheduleAsAgent_def Let_def by (auto intro!: stays simp: people_writes)
  show "people (w_db (snd (DeleteScheduleAsAgent e a cid i w))) = people (w_db w)"
    unfolding DeleteScheduleAsAgent_def Let_def by (auto intro!: stays simp: people_writes)
  show "people (w_db (snd (MoveSchedules e u src dest w))) = people (w_db w)"
    by (simp add: MoveSchedules_def move)
qed

section \<open>Agents somebody has\<close>

lemma people_Welcomer [simp]: "people (w_db (snd (Welcomer e h u w))) = people (w_db w)"
  unfolding Welcomer_def welcomeNew_def Let_def by (auto intro!: stays split: sum.splits)

lemma people_joinAgent: "people (w_db (snd (joinAgent e u inp w))) = people (w_db w)"
proof -
  have token: "people (w_db (snd (case ar_tokenID inp of None \<Rightarrow> (Inr (), w')
      | Some t \<Rightarrow> outcome (\<lambda>x. if IsNoRows x then errTokenSpent else Internal x) (\<lambda>_. ())
          (on_db (UsePairToken (w_now w') t) w')))) = people (w_db w')" for w'
    by (auto intro!: stays split: option.splits)
  have "people (w_db (snd (joinTx e u inp w'))) = people (w_db w')" for w'
    unfolding joinTx_def rejoinTx_def Let_def
    by (auto intro!: kept_raw_step [of "\<lambda>w. people (w_db w) = people (w_db w')", OF token] stays simp: contact_updates
        split: sum.splits)
  then show ?thesis
    unfolding joinAgent_def Let_def by (intro stays) (auto intro!: stays split: list.splits)
qed

lemma people_pairing [simp]:
  "people (w_db (snd (CreateToken e js u a ct w))) = people (w_db w)"
  "people (w_db (snd (RevokeToken u a t w))) = people (w_db w)"
  "people (w_db (snd (Accept e u pt w))) = people (w_db w)"
  "people (w_db (snd (AddFromCatalogue e u a w))) = people (w_db w)"
  "people (w_db (snd (Block e u a w))) = people (w_db w)"
  "people (w_db (snd (Unblock e u a w))) = people (w_db w)"
  "people (w_db (snd (SetMuted u a until w))) = people (w_db w)"
  "people (w_db (snd (SetPinned u a b w))) = people (w_db w)"
  "people (w_db (snd (SetArchived u a b w))) = people (w_db w)"
  "people (w_db (snd (Remove u a w))) = people (w_db w)"
  "people (w_db (snd (Report e u a inp w))) = people (w_db w)"
proof -
  have wake: "people (w_db (snd (wake a r))) = A" if "people (w_db (snd r)) = A" for a r A
    unfolding wake_def by (rule stays) (use that in auto)
  show "people (w_db (snd (CreateToken e js u a ct w))) = people (w_db w)"
    unfolding CreateToken_def Let_def split_def by (intro stays) simp_all
  show "people (w_db (snd (RevokeToken u a t w))) = people (w_db w)"
    by (auto intro!: stays simp: RevokeToken_def Let_def split_def)
  show "people (w_db (snd (Accept e u pt w))) = people (w_db w)"
    "people (w_db (snd (AddFromCatalogue e u a w))) = people (w_db w)"
    "people (w_db (snd (Block e u a w))) = people (w_db w)"
    "people (w_db (snd (Unblock e u a w))) = people (w_db w)"
    "people (w_db (snd (SetMuted u a until w))) = people (w_db w)"
    "people (w_db (snd (SetPinned u a b w))) = people (w_db w)"
    "people (w_db (snd (SetArchived u a b w))) = people (w_db w)"
    "people (w_db (snd (Remove u a w))) = people (w_db w)"
    "people (w_db (snd (Report e u a inp w))) = people (w_db w)"
    by (auto intro!: stays wake simp: people_joinAgent Accept_def AddFromCatalogue_def Block_def Unblock_def SetMuted_def
        SetPinned_def SetArchived_def Remove_def Report_def Let_def split_def contact_updates)
qed

section \<open>Callers\<close>

lemma people_sessions [simp]:
  "people (w_db (snd (StartSignIn e em w))) = people (w_db w)"
  "people (w_db (snd (ResolveToken e tok w))) = people (w_db w)"
  "people (w_db (snd (SignOutDevice u i w))) = people (w_db w)"
  "people (w_db (snd (SignOutOthers u i w))) = people (w_db w)"
  "people (w_db (snd (Logout i w))) = people (w_db w)"
  "people (w_db (snd (RegisterPush i ptok pf w))) = people (w_db w)"
  "people (w_db (snd (CreateKey e u n w))) = people (w_db w)"
  "people (w_db (snd (RevokeKey u i w))) = people (w_db w)"
  "people (w_db (snd (ResolveKey e k w))) = people (w_db w)"
proof -
  show "people (w_db (snd (StartSignIn e em w))) = people (w_db w)"
    unfolding StartSignIn_def allow_address_def newCode_def Let_def split_def by (auto intro!: stays)
  show "people (w_db (snd (ResolveToken e tok w))) = people (w_db w)"
    "people (w_db (snd (SignOutDevice u i w))) = people (w_db w)"
    "people (w_db (snd (SignOutOthers u i w))) = people (w_db w)"
    "people (w_db (snd (Logout i w))) = people (w_db w)"
    "people (w_db (snd (RegisterPush i ptok pf w))) = people (w_db w)"
    by (auto intro!: stays simp: ResolveToken_def touch_def SignOutDevice_def SignOutOthers_def Logout_def
      RegisterPush_def Let_def split_def session_updates split: sum.splits)
  show "people (w_db (snd (CreateKey e u n w))) = people (w_db w)"
    "people (w_db (snd (RevokeKey u i w))) = people (w_db w)"
    "people (w_db (snd (ResolveKey e k w))) = people (w_db w)"
    by (auto intro!: stays simp: CreateKey_def RevokeKey_def ResolveKey_def Let_def split_def split: sum.splits)
qed

section \<open>What becomes of a row\<close>

text \<open>Whether \<open>u\<close> may still come to own something: they are not known yet, or live.\<close>

definition may_own :: "db \<Rightarrow> uuid \<Rightarrow> bool" where
  "may_own d u \<longleftrightarrow> u \<notin> usr_id ` set (db_users d) \<or> (\<exists>x\<in>set (db_users d). live_user u x)"

text \<open>
  From \<open>d\<close> to \<open>d'\<close> everybody is still there, nobody who was closed lives again, agents keep their
  owners, no retired agent comes back, and a new agent has an owner who may have one.
\<close>

definition carried :: "db \<Rightarrow> db \<Rightarrow> bool" where
  "carried d d' \<longleftrightarrow>
     usr_id ` set (db_users d) \<subseteq> usr_id ` set (db_users d')
   \<and> (\<forall>x\<in>set (db_users d'). usr_deleted_at x = None \<longrightarrow> may_own d (usr_id x))
   \<and> (\<forall>a\<in>set (db_agents d). \<exists>a'\<in>set (db_agents d'). agt_id a' = agt_id a \<and> agt_owner_user_id a' = agt_owner_user_id a)
   \<and> (\<forall>a'\<in>set (db_agents d'). agt_deleted_at a' = None \<longrightarrow>
        may_own d (agt_owner_user_id a')
        \<or> (\<exists>a\<in>set (db_agents d). agt_id a = agt_id a' \<and> agt_owner_user_id a = agt_owner_user_id a' \<and> agt_deleted_at a = None))"

lemma carried_refl [simp]: "carried d d"
  by (auto simp: carried_def may_own_def live_user_def)

lemma may_own_back:
  assumes "carried d d'" "may_own d' u"
  shows "may_own d u"
proof (cases "u \<in> usr_id ` set (db_users d')")
  case True
  with assms(2) obtain x where "x \<in> set (db_users d')" "usr_id x = u" "usr_deleted_at x = None"
    by (auto simp: may_own_def live_user_def)
  then show ?thesis using assms(1) by (auto simp: carried_def)
next
  case False
  then show ?thesis using assms(1) by (auto simp: carried_def may_own_def)
qed

lemma carried_trans:
  assumes "carried d d'" "carried d' d''"
  shows "carried d d''"
proof -
  have 1: "usr_id ` set (db_users d) \<subseteq> usr_id ` set (db_users d'')" using assms by (auto simp: carried_def)
  have 2: "may_own d (usr_id x)" if "x \<in> set (db_users d'')" "usr_deleted_at x = None" for x
    using assms(2) that may_own_back [OF assms(1)] by (auto simp: carried_def)
  have 3: "\<exists>a'\<in>set (db_agents d''). agt_id a' = agt_id a \<and> agt_owner_user_id a' = agt_owner_user_id a"
    if "a \<in> set (db_agents d)" for a
    using assms that unfolding carried_def by (metis (no_types, lifting))
  have 4: "may_own d (agt_owner_user_id a')
      \<or> (\<exists>a\<in>set (db_agents d). agt_id a = agt_id a' \<and> agt_owner_user_id a = agt_owner_user_id a' \<and> agt_deleted_at a = None)"
    if "a' \<in> set (db_agents d'')" "agt_deleted_at a' = None" for a'
  proof -
    have "may_own d' (agt_owner_user_id a') \<or> (\<exists>b\<in>set (db_agents d'). agt_id b = agt_id a'
        \<and> agt_owner_user_id b = agt_owner_user_id a' \<and> agt_deleted_at b = None)"
      using assms(2) that unfolding carried_def by blast
    then show ?thesis
    proof
      assume "\<exists>b\<in>set (db_agents d'). agt_id b = agt_id a'
        \<and> agt_owner_user_id b = agt_owner_user_id a' \<and> agt_deleted_at b = None"
      then show ?thesis using assms(1) unfolding carried_def by metis
    qed (simp add: may_own_back [OF assms(1)])
  qed
  show ?thesis using 1 2 3 4 by (auto simp: carried_def)
qed

lemma carried_same: "carried d d' \<Longrightarrow> people d'' = people d' \<Longrightarrow> carried d d''"
  by (simp add: carried_def people_def)

text \<open>Rows that are updated where they stand.\<close>

lemma carried_users:
  assumes "\<And>x. usr_id (f x) = usr_id x" "\<And>x. usr_deleted_at (f x) = None \<Longrightarrow> usr_deleted_at x = None"
  shows "carried d (d\<lparr>db_users := update_where P f (db_users d)\<rparr>)"
proof -
  have ids: "usr_id ` set (update_where P f (db_users d)) = usr_id ` set (db_users d)"
    by (simp add: update_where_def image_Un image_image assms(1)) auto
  have "may_own d (usr_id x)" if x: "x \<in> set (update_where P f (db_users d))" "usr_deleted_at x = None" for x
  proof -
    obtain q where "q \<in> set (db_users d)" "usr_id q = usr_id x" "usr_deleted_at q = None"
      using x assms by (auto simp: set_update_where)
    then show ?thesis by (auto simp: may_own_def live_user_def)
  qed
  then show ?thesis using ids by (auto simp: carried_def)
qed

lemma carried_agents:
  assumes "\<And>a. agt_id (f a) = agt_id a" "\<And>a. agt_owner_user_id (f a) = agt_owner_user_id a"
    "\<And>a. agt_deleted_at (f a) = None \<Longrightarrow> agt_deleted_at a = None"
  shows "carried d (d\<lparr>db_agents := update_where P f (db_agents d)\<rparr>)"
proof -
  let ?g = "\<lambda>a. if P a then f a else a"
  have g: "agt_id (?g a) = agt_id a" "agt_owner_user_id (?g a) = agt_owner_user_id a"
    "agt_deleted_at (?g a) = None \<Longrightarrow> agt_deleted_at a = None" for a
    using assms by (simp_all split: if_splits)
  have set: "set (update_where P f (db_agents d)) = ?g ` set (db_agents d)" by (simp add: update_where_def)
  have 1: "\<exists>a'\<in>set (update_where P f (db_agents d)). agt_id a' = agt_id a \<and> agt_owner_user_id a' = agt_owner_user_id a"
    if "a \<in> set (db_agents d)" for a
    unfolding set using that g by blast
  have 2: "\<exists>a\<in>set (db_agents d). agt_id a = agt_id a' \<and> agt_owner_user_id a = agt_owner_user_id a' \<and> agt_deleted_at a = None"
    if "a' \<in> set (update_where P f (db_agents d))" "agt_deleted_at a' = None" for a'
  proof -
    from that(1) have "a' \<in> ?g ` set (db_agents d)" unfolding set .
    then obtain a where a: "a' = ?g a" "a \<in> set (db_agents d)" by (rule imageE)
    with g [of a] that(2) show ?thesis by (intro bexI [of _ a]) simp_all
  qed
  show ?thesis using 1 2 by (auto simp: carried_def may_own_def live_user_def)
qed


section \<open>Handlers that write the two tables\<close>

lemmas carries = kept_needs [of "\<lambda>w. carried d (w_db w)" for d] kept_runs [of "\<lambda>w. carried d (w_db w)" for d]
  kept_WithTx [of "carried d" for d] kept_step [of "\<lambda>w. carried d (w_db w)" for d]
  kept_raw_step [of "\<lambda>w. carried d (w_db w)" for d] kept_outcome [of "\<lambda>w. carried d (w_db w)" for d]

lemma carried_statements:
  "carried d (snd (CreateUser_sql now i n l d))"
  "carried d (snd (UpdateUserProfile now i p d))"
  "carried d (snd (SoftDeleteUser now i d))"
  "carried d (snd (UpdateAgent_sql now i q d))"
  "carried d (snd (SoftDeleteAgent now i d))"
proof -
  show "carried d (snd (CreateUser_sql now i n l d))"
    by (auto simp: CreateUser_sql_def insert_text_def insert_row_def Let_def)
      (auto simp: carried_def may_own_def live_user_def)
  show "carried d (snd (UpdateUserProfile now i p d))"
    by (auto simp: UpdateUserProfile_def insert_text_def insert_row_def Let_def updated_user_def intro!: carried_users split: option.splits)
  show "carried d (snd (SoftDeleteUser now i d))"
    by (auto simp: SoftDeleteUser_def intro!: carried_users)
  show "carried d (snd (UpdateAgent_sql now i q d))"
    by (auto simp: UpdateAgent_sql_def Let_def updated_agent_def intro!: carried_agents split: option.splits)
  show "carried d (snd (SoftDeleteAgent now i d))"
    by (auto simp: SoftDeleteAgent_def intro!: carried_agents)
qed

lemma carried_CreateAgent: "may_own d (agt_owner_user_id r) \<Longrightarrow> carried d (snd (CreateAgent r d))"
  by (auto simp: CreateAgent_def insert_row_def) (auto simp: carried_def may_own_def live_user_def)

lemma carried_CreateUser: "carried (w_db w) (w_db (snd (CreateUser e n l w)))"
  unfolding CreateUser_def Let_def NewID_def prod.case by (intro carries) (simp_all add: carried_statements)

lemma carried_UpdateProfile: "carried (w_db w) (w_db (snd (UpdateProfile e i inp w)))"
  unfolding UpdateProfile_def Let_def by (intro carries) (auto intro!: carries simp: carried_statements)

lemma carried_DeleteUser: "carried (w_db w) (w_db (snd (DeleteUser i w)))"
proof -
  let ?d = "DeleteIdentities i (snd (RevokeUserSessions (w_now w) i (w_db w)))"
  have "carried (w_db w) (snd (RemoveAllContacts (w_now w) i ?d))"
    by (rule carried_same [OF carried_refl]) (simp add: contact_updates session_updates)
  then have "carried (w_db w) (snd (SoftDeleteUser (w_now w) i (snd (RemoveAllContacts (w_now w) i ?d))))"
    using carried_statements(3) carried_trans by blast
  then show ?thesis
    unfolding DeleteUser_def by (intro carries carried_refl) (simp add: deleteUserTx_def Let_def split_def)
qed

lemma carried_DeleteAgent: "carried (w_db w) (w_db (snd (DeleteAgent u i w)))"
proof -
  have "carried (w_db w) (snd (RevokeActiveBinding (w_now w) i (w_db w)))"
    by (rule carried_same [OF carried_refl]) simp
  then have "carried (w_db w) (snd (SoftDeleteAgent (w_now w) i (snd (RevokeActiveBinding (w_now w) i (w_db w)))))"
    using carried_statements(5) carried_trans by blast
  then show ?thesis
    unfolding DeleteAgent_def by (intro carries carried_refl) (simp_all add: deleteAgentTx_def Let_def split_def)
qed

lemma carried_DeleteAllOwned: "carried (w_db w) (w_db (snd (DeleteAllOwned u w)))"
proof -
  have "carried (w_db w) (w_db (snd (deleteAll_loop u rows w)))" for rows
  proof (induction rows arbitrary: w)
    case (Cons r rows)
    have step: "carried (w_db w) (w_db (snd (deleteAll_loop u rows w1)))" if "carried (w_db w) (w_db w1)" for w1
      using carried_trans [OF that Cons.IH] .
    show ?case unfolding deleteAll_loop.simps by (intro carries carried_DeleteAgent) (rule step)
  qed simp
  then show ?thesis by (simp add: DeleteAllOwned_def)
qed

lemma carried_me:
  "carried (w_db w) (w_db (snd (updateMe e i inp w)))" "carried (w_db w) (w_db (snd (deleteMe i w)))"
proof -
  show "carried (w_db w) (w_db (snd (updateMe e i inp w)))"
    unfolding updateMe_def Let_def
    by (intro carries carried_UpdateProfile) (auto elim: carried_same)
  show "carried (w_db w) (w_db (snd (deleteMe i w)))"
    unfolding deleteMe_def
    by (intro carries carried_DeleteAllOwned) (rule carried_trans [OF _ carried_DeleteUser])
qed

lemma carried_UpdateAgent: "carried (w_db w) (w_db (snd (UpdateAgent e u i upd w)))"
  unfolding UpdateAgent_def Let_def by (intro carries) (auto intro!: carries simp: carried_statements)

lemma carried_CreateAnAgent:
  assumes "may_own (w_db w) u"
  shows "carried (w_db w) (w_db (snd (CreateAnAgent e u inp w)))"
proof -
  have "carried (w_db w) (w_db (snd (createAgentTx e u p w)))" if "agt_owner_user_id p = u" for p
    unfolding createAgentTx_def Let_def NewID_def prod.case
    by (intro carries) (use that assms in \<open>auto intro: carried_CreateAgent elim: carried_same\<close>)
  then show ?thesis unfolding CreateAnAgent_def Let_def by (intro carries carried_refl) simp
qed

lemma carried_VerifyCode: "carried (w_db w) (w_db (snd (VerifyCode e h em c dv w)))"
proof -
  have check: "people (w_db (snd (checkCode e email code w'))) = people (w_db w')" for email code w'
    unfolding checkCode_def Let_def split_def by (auto intro!: stays split: sum.splits)
  have account: "carried (w_db w') (w_db (snd (accountFor e email w')))" for email w'
    unfolding accountFor_def Let_def split_def
    by (auto intro!: carries carried_CreateUser elim: carried_same split: sum.splits)
  have start: "carried (w_db w') (w_db (snd (accountFor e email (exec (MarkSignInCodeUsed t i) w'))))" for email w' t i
    using carried_trans [OF carried_same [OF carried_refl] account [of "exec (MarkSignInCodeUsed t i) w'" email]] by simp
  have tx: "carried (w_db w') (w_db (snd (verifyTx e h i email dev w')))" for i email dev w'
    unfolding verifyTx_def Let_def split_def
    by (intro carries start) (erule carried_same, (simp; fail))+
  have verified: "carried d (w_db (snd (verifyTx e h i email dev w')))" if "carried d (w_db w')" for d i email dev w'
    using carried_trans [OF that tx] .
  have checked: "carried (w_db w) (w_db (snd (checkCode e email code w)))" for email code
    by (rule carried_same [OF carried_refl check])
  show ?thesis
    unfolding VerifyCode_def split_def
    by (intro carries carried_refl checked verified) (auto split: option.splits)
qed

end
