(* ===== verification/Api.thy ===== *)
theory Api
  imports Standing Worker Push Media Retention
begin

text \<open>
  The hub as it is reached from outside (\<open>api/router.go\<close>): signing in (\<open>api/authapi\<close>), a person's
  app (\<open>api/client\<close>), the owners of agents (\<open>api/mgmt\<close>), the agents' backends (\<open>api/agentapi\<close>) over
  requests and over their socket; and what the server does by itself beside them (\<open>cmd/cuckoo/main.go\<close>).

  A request is what \<open>httpx.Decode\<close> and \<open>httpx.Upload\<close> hand to its handler: fields, and ids as
  texts that the handler parses. Routes that only read are left out: they change nothing but when
  a session was last seen. An answer is an error or that it went well; the fields of a response
  are those of the results of the services.
\<close>

section \<open>What requests say\<close>

text \<open>Texts that name things are still to be parsed; a file comes with what the query said about it.\<close>

record action_request =
  ar_ButtonID :: string
  ar_SourceMessageID :: string

record sendMessageRequest =
  sm_Text :: gotext
  sm_Attachments :: "string list"
  sm_IdempotencyKey :: gotext
  sm_ReplyTo :: string
  sm_Action :: "action_request option"

record upload_request =
  ur_Name :: gotext
  ur_Duration :: gotext
  ur_Waveform :: gotext
  ur_Kind :: gotext
  ur_Body :: reader

record updateContactRequest =
  cc_MutedUntil :: "int option option"
  cc_Pinned :: "bool option"
  cc_Archived :: "bool option"

record reportRequest =
  rr_Reason :: string
  rr_Note :: gotext
  rr_MessageID :: string

record updateMeRequest =
  um_AvatarMediaID :: "string option"
  um_DisplayName :: "gotext option"
  um_Locale :: "gotext option"
  um_Timezone :: "gotext option"

record agentMessageRequest =
  am_Text :: gotext
  am_Attachments :: "string list"
  am_IdempotencyKey :: gotext
  am_Stream :: bool
  am_ReplyTo :: string
  am_Buttons :: "button list list"
  am_QuickReplies :: "quick_reply list"
  am_ScheduleID :: string

datatype client_request =
    PatchMe updateMeRequest
  | DeleteMe
  | PostMessage string sendMessageRequest
  | DeleteMessage string string
  | PostClear string
  | PostStop string
  | PostRead string string
  | PostSchedule string ScheduleRequest
  | PatchSchedule string string ScheduleChange
  | DropSchedule string string
  | PostMedia upload_request
  | PostCatalogueAdd string
  | PostPairAccept string
  | PatchContact string updateContactRequest
  | DropContact string
  | PostReport string reportRequest
  | PostBlock string
  | DropBlock string
  | PutPush gotext string
  | DropOtherDevices
  | DropDevice string
  | PostAPIKey gotext
  | DropAPIKey string

datatype mgmt_request =
    PostPicture gotext reader
  | PostAgent CreateInput string
  | PatchAgent string UpdateInput "string option"
  | DropAgent string
  | PostBinding string SetBindingInput
  | DropBinding string
  | PostPairToken string CreateTokenInput
  | DropPairToken string string

datatype agent_request =
    AgentMessage string agentMessageRequest
  | AgentActivity string string gotext
  | AgentTyping string string
  | AgentPostSchedule string AgentSchedule
  | AgentPatchSchedule string string AgentScheduleChange
  | AgentDropSchedule string string
  | AgentMedia upload_request
  | AgentAppend string gotext
  | AgentFinish string finish_input

text \<open>What a backend says over its socket.\<close>

record inboundFrame =
  if_Op :: string
  if_ConversationID :: string
  if_MessageID :: string
  if_Text :: gotext
  if_IdempotencyKey :: gotext
  if_ReplyTo :: string
  if_Buttons :: "button list list"
  if_QuickReplies :: "quick_reply list"
  if_State :: string
  if_Label :: gotext
  if_ScheduleID :: string

text \<open>How this hub was configured, and what it was given (\<open>main.go\<close>).\<close>

record hub_config =
  hc_Dev :: bool
  hc_WelcomeHandle :: string
  hc_Retention :: retention_policy
  hc_media :: media_env
  hc_json :: json_rules

section \<open>Who is asking\<close>

definition newUserAuthenticator :: "env \<Rightarrow> hub_config \<Rightarrow> request \<Rightarrow> principal handler" where
  "newUserAuthenticator e cf = (if hc_Dev cf then DevOrSessionAuthenticate e else SessionAuthenticate e)"

definition mgmtAuthenticator :: "env \<Rightarrow> hub_config \<Rightarrow> request \<Rightarrow> principal handler" where
  "mgmtAuthenticator e cf = KeyOrUserAuthenticate e (newUserAuthenticator e cf)"

definition RequireUser :: "(request \<Rightarrow> principal handler) \<Rightarrow> (principal \<Rightarrow> unit handler) \<Rightarrow> request \<Rightarrow> unit handler" where
  "RequireUser auth nxt r w = runs (auth r w) (\<lambda>p w1.
     if pr_Kind p \<noteq> ParticipantUser then (Inl (Forbidden ''user_required''), w1) else nxt p w1)"

definition RequireAgent :: "(request \<Rightarrow> principal handler) \<Rightarrow> (principal \<Rightarrow> unit handler) \<Rightarrow> request \<Rightarrow> unit handler" where
  "RequireAgent auth nxt r w = runs (auth r w) (\<lambda>p w1.
     if pr_Kind p \<noteq> ParticipantAgent then (Inl (Forbidden ''agent_required''), w1) else nxt p w1)"

definition no_content :: "(go_error + 'a) \<times> world \<Rightarrow> (go_error + unit) \<times> world" where
  "no_content = outcome id (\<lambda>_. ())"

definition unauthorized :: go_error where "unauthorized = Unauthorized ''unauthorized''"

text \<open>The first lines of every handler, and the ids in its path.\<close>

definition as_user :: "principal \<Rightarrow> (uuid \<Rightarrow> unit handler) \<Rightarrow> unit handler" where
  "as_user p k w = (case UserID (Some p) of None \<Rightarrow> (Inl unauthorized, w) | Some u \<Rightarrow> k u w)"

definition as_agent :: "principal \<Rightarrow> (uuid \<Rightarrow> unit handler) \<Rightarrow> unit handler" where
  "as_agent p k w = (case AgentID (Some p) of None \<Rightarrow> (Inl unauthorized, w) | Some a \<Rightarrow> k a w)"

definition with_id :: "string \<Rightarrow> string \<Rightarrow> (uuid \<Rightarrow> unit handler) \<Rightarrow> unit handler" where
  "with_id pre raw k w = needs (ParseID pre raw) w (\<lambda>i. k i w)"

text \<open>An id in a body, refused under the name of its field; one that may be left out is empty then.\<close>

definition body_id :: "string \<Rightarrow> string \<Rightarrow> string \<Rightarrow> go_error + uuid" where
  "body_id field pre raw = (case ParseID pre raw of Inl _ \<Rightarrow> Inl (InvalidField field ''invalid_id'') | Inr i \<Rightarrow> Inr i)"

definition maybe_id :: "string \<Rightarrow> string \<Rightarrow> string \<Rightarrow> go_error + uuid option" where
  "maybe_id field pre raw = (if raw = [] then Inr None else ok_then (body_id field pre raw) (\<lambda>i. Inr (Some i)))"

definition mediaIDsOf :: "string list \<Rightarrow> go_error + uuid list" where
  "mediaIDsOf = map_ok (body_id ''attachments'' PrefixMedia)"

definition replyToOf :: "string \<Rightarrow> go_error + uuid option" where
  "replyToOf = maybe_id ''reply_to'' PrefixMessage"

definition scheduleIDIn :: "string \<Rightarrow> go_error + uuid option" where
  "scheduleIDIn = maybe_id ''schedule_id'' PrefixSchedule"

definition avatarIDOf :: "string \<Rightarrow> go_error + uuid option" where
  "avatarIDOf = maybe_id ''avatar_media_id'' PrefixMedia"

definition PrefixAPIKey :: string where "PrefixAPIKey = ''key''"

section \<open>The app\<close>

definition patchMe :: "env \<Rightarrow> updateMeRequest \<Rightarrow> principal \<Rightarrow> unit handler" where
  "patchMe e req p = as_user p (\<lambda>u w.
     needs (optional (body_id ''avatar_media_id'' PrefixMedia) (um_AvatarMediaID req)) w (\<lambda>avatar.
     no_content (updateMe e u \<lparr>pi_AvatarMediaID = avatar, pi_DisplayName = um_DisplayName req,
       pi_Locale = um_Locale req, pi_Timezone = um_Timezone req\<rparr> w)))"

definition sendMessage :: "env \<Rightarrow> string \<Rightarrow> sendMessageRequest \<Rightarrow> principal \<Rightarrow> unit handler" where
  "sendMessage e conv req p = as_user p (\<lambda>u. with_id PrefixConv conv (\<lambda>c w.
     needs (mediaIDsOf (sm_Attachments req)) w (\<lambda>attachments.
     needs (maybe_id ''reply_to'' PrefixMessage (sm_ReplyTo req)) w (\<lambda>replyTo.
     needs (optional (\<lambda>a. ok_then (body_id ''action'' PrefixMessage (ar_SourceMessageID a))
         (\<lambda>i. Inr \<lparr>act_button_id = ar_ButtonID a, act_source_message_id = i\<rparr>)) (sm_Action req)) w (\<lambda>action.
     no_content (SendAsUser e u c \<lparr>si_text = sm_Text req, si_attachments = attachments,
       si_idempotency_key = sm_IdempotencyKey req, si_reply_to = replyTo, si_buttons = [], si_quick_replies = [],
       si_action = action, si_schedule_id = None\<rparr> w))))))"

definition deleteMessageForMe :: "string \<Rightarrow> string \<Rightarrow> principal \<Rightarrow> unit handler" where
  "deleteMessageForMe conv mid p = as_user p (\<lambda>u. with_id PrefixConv conv (\<lambda>c. with_id PrefixMessage mid (\<lambda>m. Hide u c m)))"

definition clearConversation :: "string \<Rightarrow> principal \<Rightarrow> unit handler" where
  "clearConversation conv p = as_user p (\<lambda>u. with_id PrefixConv conv (\<lambda>c. Clear u c))"

definition reportAgent :: "env \<Rightarrow> string \<Rightarrow> reportRequest \<Rightarrow> principal \<Rightarrow> unit handler" where
  "reportAgent e aid req p = as_user p (\<lambda>u. with_id PrefixAgent aid (\<lambda>a w.
     needs (maybe_id ''message_id'' PrefixMessage (rr_MessageID req)) w (\<lambda>mid.
     Report e u a \<lparr>ri_Reason = rr_Reason req, ri_Note = rr_Note req, ri_MessageID = mid\<rparr> w)))"

definition stopConversation :: "env \<Rightarrow> string \<Rightarrow> principal \<Rightarrow> unit handler" where
  "stopConversation e conv p = as_user p (\<lambda>u. with_id PrefixConv conv (\<lambda>c w. no_content (Stop e u c w)))"

definition markRead :: "string \<Rightarrow> string \<Rightarrow> principal \<Rightarrow> unit handler" where
  "markRead conv mid p = as_user p (\<lambda>u. with_id PrefixConv conv (\<lambda>c w.
     needs (body_id ''message_id'' PrefixMessage mid) w (\<lambda>m. MarkRead u c m w)))"

definition requestSchedule :: "env \<Rightarrow> string \<Rightarrow> ScheduleRequest \<Rightarrow> principal \<Rightarrow> unit handler" where
  "requestSchedule e conv req p = as_user p (\<lambda>u. with_id PrefixConv conv (\<lambda>c w. no_content (RequestSchedule e u c req w)))"

definition updateSchedule :: "env \<Rightarrow> string \<Rightarrow> string \<Rightarrow> ScheduleChange \<Rightarrow> principal \<Rightarrow> unit handler" where
  "updateSchedule e conv sid req p = as_user p (\<lambda>u. with_id PrefixConv conv (\<lambda>c. with_id PrefixSchedule sid (\<lambda>i w.
     no_content (UpdateSchedule e u c i req w))))"

definition deleteSchedule :: "env \<Rightarrow> string \<Rightarrow> string \<Rightarrow> principal \<Rightarrow> unit handler" where
  "deleteSchedule e conv sid p = as_user p (\<lambda>u. with_id PrefixConv conv (\<lambda>c. with_id PrefixSchedule sid (\<lambda>i.
     DeleteSchedule e u c i)))"

definition uploadFrom :: "env \<Rightarrow> media_env \<Rightarrow> participant_kind \<Rightarrow> uuid \<Rightarrow> upload_request \<Rightarrow> unit handler" where
  "uploadFrom e me k owner req w =
     needs (MetaFromQuery (ur_Duration req) (ur_Waveform req) (ur_Kind req)) w (\<lambda>meta.
     no_content (Upload e me k owner (ur_Name req) meta (ur_Body req) w))"

definition uploadMedia :: "env \<Rightarrow> media_env \<Rightarrow> upload_request \<Rightarrow> principal \<Rightarrow> unit handler" where
  "uploadMedia e me req p = as_user p (\<lambda>u. uploadFrom e me ParticipantUser u req)"

definition addFromCatalogue :: "env \<Rightarrow> string \<Rightarrow> principal \<Rightarrow> unit handler" where
  "addFromCatalogue e aid p = as_user p (\<lambda>u. with_id PrefixAgent aid (\<lambda>a w. no_content (AddFromCatalogue e u a w)))"

definition acceptPair :: "env \<Rightarrow> string \<Rightarrow> principal \<Rightarrow> unit handler" where
  "acceptPair e code p = as_user p (\<lambda>u w. no_content (Accept e u code w))"

text \<open>Each change is its own; what was changed before one that fails stays.\<close>

definition updateContact :: "string \<Rightarrow> updateContactRequest \<Rightarrow> principal \<Rightarrow> unit handler" where
  "updateContact aid req p = as_user p (\<lambda>u. with_id PrefixAgent aid (\<lambda>i w.
     runs (case cc_MutedUntil req of None \<Rightarrow> (Inr (), w) | Some until \<Rightarrow> SetMuted u i until w) (\<lambda>_ w1.
     runs (case cc_Pinned req of None \<Rightarrow> (Inr (), w1) | Some b \<Rightarrow> SetPinned u i b w1) (\<lambda>_ w2.
     case cc_Archived req of None \<Rightarrow> (Inr (), w2) | Some b \<Rightarrow> SetArchived u i b w2))))"

definition removeContact :: "string \<Rightarrow> principal \<Rightarrow> unit handler" where
  "removeContact aid p = as_user p (\<lambda>u. with_id PrefixAgent aid (\<lambda>a. Remove u a))"

definition blockAgent :: "env \<Rightarrow> string \<Rightarrow> principal \<Rightarrow> unit handler" where
  "blockAgent e aid p = as_user p (\<lambda>u. with_id PrefixAgent aid (\<lambda>a. Block e u a))"

definition unblockAgent :: "env \<Rightarrow> string \<Rightarrow> principal \<Rightarrow> unit handler" where
  "unblockAgent e aid p = as_user p (\<lambda>u. with_id PrefixAgent aid (\<lambda>a. Unblock e u a))"

definition registerPush :: "gotext \<Rightarrow> string \<Rightarrow> principal \<Rightarrow> unit handler" where
  "registerPush tok platform p = as_user p (\<lambda>_ w. case SessionID (Some p) of
       None \<Rightarrow> (Inl (Forbidden ''no_session''), w)
     | Some s \<Rightarrow> RegisterPush s tok platform w)"

definition signOutDevice :: "string \<Rightarrow> principal \<Rightarrow> unit handler" where
  "signOutDevice sid p = as_user p (\<lambda>u. with_id PrefixSession sid (\<lambda>s. SignOutDevice u s))"

definition signOutOtherDevices :: "principal \<Rightarrow> unit handler" where
  "signOutOtherDevices p = as_user p (\<lambda>u w.
     no_content (SignOutOthers u (case SessionID (Some p) of None \<Rightarrow> uuid_Nil | Some s \<Rightarrow> s) w))"

definition createAPIKey :: "env \<Rightarrow> gotext \<Rightarrow> principal \<Rightarrow> unit handler" where
  "createAPIKey e name p = as_user p (\<lambda>u w. no_content (CreateKey e u name w))"

definition revokeAPIKey :: "string \<Rightarrow> principal \<Rightarrow> unit handler" where
  "revokeAPIKey kid p = as_user p (\<lambda>u. with_id PrefixAPIKey kid (\<lambda>k. RevokeKey u k))"

definition client_do :: "env \<Rightarrow> hub_config \<Rightarrow> client_request \<Rightarrow> principal \<Rightarrow> unit handler" where
  "client_do e cf req = (case req of
       PatchMe r \<Rightarrow> patchMe e r
     | DeleteMe \<Rightarrow> (\<lambda>p. as_user p deleteMe)
     | PostMessage c r \<Rightarrow> sendMessage e c r
     | DeleteMessage c m \<Rightarrow> deleteMessageForMe c m
     | PostClear c \<Rightarrow> clearConversation c
     | PostStop c \<Rightarrow> stopConversation e c
     | PostRead c m \<Rightarrow> markRead c m
     | PostSchedule c r \<Rightarrow> requestSchedule e c r
     | PatchSchedule c i r \<Rightarrow> updateSchedule e c i r
     | DropSchedule c i \<Rightarrow> deleteSchedule e c i
     | PostMedia r \<Rightarrow> uploadMedia e (hc_media cf) r
     | PostCatalogueAdd a \<Rightarrow> addFromCatalogue e a
     | PostPairAccept code \<Rightarrow> acceptPair e code
     | PatchContact a r \<Rightarrow> updateContact a r
     | DropContact a \<Rightarrow> removeContact a
     | PostReport a r \<Rightarrow> reportAgent e a r
     | PostBlock a \<Rightarrow> blockAgent e a
     | DropBlock a \<Rightarrow> unblockAgent e a
     | PutPush tok platform \<Rightarrow> registerPush tok platform
     | DropOtherDevices \<Rightarrow> signOutOtherDevices
     | DropDevice s \<Rightarrow> signOutDevice s
     | PostAPIKey name \<Rightarrow> createAPIKey e name
     | DropAPIKey k \<Rightarrow> revokeAPIKey k)"

section \<open>The owners of agents\<close>

definition uploadPicture :: "env \<Rightarrow> media_env \<Rightarrow> gotext \<Rightarrow> reader \<Rightarrow> principal \<Rightarrow> unit handler" where
  "uploadPicture e me name r p = as_user p (\<lambda>u w. no_content (Upload e me ParticipantUser u name no_meta r w))"

definition createAgent :: "env \<Rightarrow> CreateInput \<Rightarrow> string \<Rightarrow> principal \<Rightarrow> unit handler" where
  "createAgent e inp avatar p = as_user p (\<lambda>u w.
     needs (avatarIDOf avatar) w (\<lambda>i. no_content (CreateAnAgent e u (inp\<lparr>ci_AvatarMediaID := i\<rparr>) w)))"

definition updateAgent :: "env \<Rightarrow> string \<Rightarrow> UpdateInput \<Rightarrow> string option \<Rightarrow> principal \<Rightarrow> unit handler" where
  "updateAgent e aid inp avatar p = as_user p (\<lambda>u. with_id PrefixAgent aid (\<lambda>i w.
     needs (case avatar of None \<Rightarrow> Inr None | Some raw \<Rightarrow> avatarIDOf raw) w (\<lambda>av.
     runs (UpdateAgent e u i (inp\<lparr>ui_AvatarMediaID := av\<rparr>) w) (\<lambda>_ w1.
     needs (ActiveBinding (w_db w1) u i) w1 (\<lambda>_. (Inr (), w1))))))"

definition deleteAgent :: "string \<Rightarrow> principal \<Rightarrow> unit handler" where
  "deleteAgent aid p = as_user p (\<lambda>u. with_id PrefixAgent aid (\<lambda>i. DeleteAgent u i))"

definition setBinding :: "env \<Rightarrow> string \<Rightarrow> SetBindingInput \<Rightarrow> principal \<Rightarrow> unit handler" where
  "setBinding e aid inp p = as_user p (\<lambda>u. with_id PrefixAgent aid (\<lambda>i w. no_content (SetBinding e u i inp w)))"

definition revokeBinding :: "string \<Rightarrow> principal \<Rightarrow> unit handler" where
  "revokeBinding aid p = as_user p (\<lambda>u. with_id PrefixAgent aid (\<lambda>i. RevokeBinding u i))"

text \<open>Drawing the picture of the link comes after; it is the library's and takes no part here.\<close>

definition createPairToken :: "env \<Rightarrow> json_rules \<Rightarrow> string \<Rightarrow> CreateTokenInput \<Rightarrow> principal \<Rightarrow> unit handler" where
  "createPairToken e js aid inp p = as_user p (\<lambda>u. with_id PrefixAgent aid (\<lambda>i w. no_content (CreateToken e js u i inp w)))"

definition revokePairToken :: "string \<Rightarrow> string \<Rightarrow> principal \<Rightarrow> unit handler" where
  "revokePairToken aid tid p = as_user p (\<lambda>u. with_id PrefixAgent aid (\<lambda>i. with_id PrefixToken tid (\<lambda>t. RevokeToken u i t)))"

definition mgmt_do :: "env \<Rightarrow> hub_config \<Rightarrow> mgmt_request \<Rightarrow> principal \<Rightarrow> unit handler" where
  "mgmt_do e cf req = (case req of
       PostPicture name r \<Rightarrow> uploadPicture e (hc_media cf) name r
     | PostAgent inp avatar \<Rightarrow> createAgent e inp avatar
     | PatchAgent i inp avatar \<Rightarrow> updateAgent e i inp avatar
     | DropAgent i \<Rightarrow> deleteAgent i
     | PostBinding i inp \<Rightarrow> setBinding e i inp
     | DropBinding i \<Rightarrow> revokeBinding i
     | PostPairToken i inp \<Rightarrow> createPairToken e (hc_json cf) i inp
     | DropPairToken i t \<Rightarrow> revokePairToken i t)"

section \<open>The agents' backends\<close>

text \<open>Once the message is out, the answer needs the agent's name.\<close>

definition named :: "uuid \<Rightarrow> (go_error + 'a) \<times> world \<Rightarrow> (go_error + unit) \<times> world" where
  "named agentID r = runs r (\<lambda>_ w1. needs (GetAgent (w_db w1) agentID) w1 (\<lambda>_. (Inr (), w1)))"

definition agentSendMessage :: "env \<Rightarrow> string \<Rightarrow> agentMessageRequest \<Rightarrow> principal \<Rightarrow> unit handler" where
  "agentSendMessage e conv req p = as_agent p (\<lambda>a. with_id PrefixConv conv (\<lambda>c w.
     needs (replyToOf (am_ReplyTo req)) w (\<lambda>replyTo.
     needs (mediaIDsOf (am_Attachments req)) w (\<lambda>attachments.
     needs (scheduleIDIn (am_ScheduleID req)) w (\<lambda>scheduleID.
     let inp = \<lparr>si_text = am_Text req, si_attachments = attachments, si_idempotency_key = am_IdempotencyKey req,
           si_reply_to = replyTo, si_buttons = am_Buttons req, si_quick_replies = am_QuickReplies req, si_action = None,
           si_schedule_id = scheduleID\<rparr> in
     named a (if am_Stream req then StartStream e a c inp w else SendAsAgent e a c inp w))))))"

definition agentActivity :: "env \<Rightarrow> string \<Rightarrow> string \<Rightarrow> gotext \<Rightarrow> principal \<Rightarrow> unit handler" where
  "agentActivity e conv state label p = as_agent p (\<lambda>a. with_id PrefixConv conv (\<lambda>c. Activity e a c state label))"

definition agentTyping :: "env \<Rightarrow> string \<Rightarrow> string \<Rightarrow> principal \<Rightarrow> unit handler" where
  "agentTyping e conv state p = as_agent p (\<lambda>a. with_id PrefixConv conv (\<lambda>c. Typing e a c state))"

definition agentCreateSchedule :: "env \<Rightarrow> string \<Rightarrow> AgentSchedule \<Rightarrow> principal \<Rightarrow> unit handler" where
  "agentCreateSchedule e conv inp p = as_agent p (\<lambda>a. with_id PrefixConv conv (\<lambda>c w.
     no_content (CreateScheduleAsAgent e a c inp w)))"

definition agentUpdateSchedule :: "env \<Rightarrow> string \<Rightarrow> string \<Rightarrow> AgentScheduleChange \<Rightarrow> principal \<Rightarrow> unit handler" where
  "agentUpdateSchedule e conv sid inp p = as_agent p (\<lambda>a. with_id PrefixConv conv (\<lambda>c. with_id PrefixSchedule sid (\<lambda>i w.
     no_content (UpdateScheduleAsAgent e a c i inp w))))"

definition agentDeleteSchedule :: "env \<Rightarrow> string \<Rightarrow> string \<Rightarrow> principal \<Rightarrow> unit handler" where
  "agentDeleteSchedule e conv sid p = as_agent p (\<lambda>a. with_id PrefixConv conv (\<lambda>c. with_id PrefixSchedule sid (\<lambda>i.
     DeleteScheduleAsAgent e a c i)))"

definition agentUploadMedia :: "env \<Rightarrow> media_env \<Rightarrow> upload_request \<Rightarrow> principal \<Rightarrow> unit handler" where
  "agentUploadMedia e me req p = as_agent p (\<lambda>a. uploadFrom e me ParticipantAgent a req)"

definition appendStream :: "string \<Rightarrow> gotext \<Rightarrow> principal \<Rightarrow> unit handler" where
  "appendStream mid text p = as_agent p (\<lambda>a. with_id PrefixMessage mid (\<lambda>m. AppendStream a m text))"

definition finishStreamRoute :: "env \<Rightarrow> string \<Rightarrow> finish_input \<Rightarrow> principal \<Rightarrow> unit handler" where
  "finishStreamRoute e mid inp p = as_agent p (\<lambda>a. with_id PrefixMessage mid (\<lambda>m w. named a (FinishStream e a m inp w)))"

definition agent_do :: "env \<Rightarrow> hub_config \<Rightarrow> agent_request \<Rightarrow> principal \<Rightarrow> unit handler" where
  "agent_do e cf req = (case req of
       AgentMessage c r \<Rightarrow> agentSendMessage e c r
     | AgentActivity c state label \<Rightarrow> agentActivity e c state label
     | AgentTyping c state \<Rightarrow> agentTyping e c state
     | AgentPostSchedule c inp \<Rightarrow> agentCreateSchedule e c inp
     | AgentPatchSchedule c i inp \<Rightarrow> agentUpdateSchedule e c i inp
     | AgentDropSchedule c i \<Rightarrow> agentDeleteSchedule e c i
     | AgentMedia r \<Rightarrow> agentUploadMedia e (hc_media cf) r
     | AgentAppend m text \<Rightarrow> appendStream m text
     | AgentFinish m inp \<Rightarrow> finishStreamRoute e m inp)"

text \<open>
  A socket: how it is opened, what arrives on it, and its heartbeat, which says whether it stays. In
  between nobody asks again whether the secret that opened it still holds. What the heartbeat pushes
  is a step of its own (\<open>ClaimForSocket\<close>, until nothing is left).
\<close>

definition socket_open :: "uuid \<Rightarrow> uuid handler" where
  "socket_open agentID w =
     needs (ActiveEndpoint (w_db w) agentID) w (\<lambda>found. (case found of
       None \<Rightarrow> (Inl (Forbidden ''no_binding''), w)
     | Some ep \<Rightarrow>
         if ep_Mode ep \<noteq> ModeSocket then (Inl (Forbidden ''binding_not_socket''), w)
         else needs (GetAgent (w_db w) agentID) w (\<lambda>_.
           (Inr (ep_BindingID ep), snd (SocketConnected (ep_BindingID ep) w)))))"

definition socketRoute :: "principal \<Rightarrow> unit handler" where
  "socketRoute p = as_agent p (\<lambda>a w. no_content (socket_open a w))"

definition handleOp :: "env \<Rightarrow> uuid \<Rightarrow> inboundFrame \<Rightarrow> unit handler" where
  "handleOp e agentID op w =
     (if if_Op op = ''send'' \<or> if_Op op = ''stream.start'' then
        with_id PrefixConv (if_ConversationID op) (\<lambda>c w.
          needs (replyToOf (if_ReplyTo op)) w (\<lambda>replyTo.
          needs (scheduleIDIn (if_ScheduleID op)) w (\<lambda>scheduleID.
          let inp = \<lparr>si_text = if_Text op, si_attachments = [], si_idempotency_key = if_IdempotencyKey op,
                si_reply_to = replyTo, si_buttons = if_Buttons op, si_quick_replies = if_QuickReplies op,
                si_action = None, si_schedule_id = scheduleID\<rparr> in
          no_content (if if_Op op = ''send'' then SendAsAgent e agentID c inp w else StartStream e agentID c inp w)))) w
      else if if_Op op = ''stream.delta'' then
        with_id PrefixMessage (if_MessageID op) (\<lambda>m. AppendStream agentID m (if_Text op)) w
      else if if_Op op = ''stream.end'' then
        with_id PrefixMessage (if_MessageID op) (\<lambda>m w. no_content (FinishStream e agentID m
          \<lparr>fi_buttons = if_Buttons op, fi_quick_replies = if_QuickReplies op\<rparr> w)) w
      else if if_Op op = ''typing'' then
        with_id PrefixConv (if_ConversationID op) (\<lambda>c. Typing e agentID c (if_State op)) w
      else if if_Op op = ''activity'' then
        with_id PrefixConv (if_ConversationID op) (\<lambda>c. Activity e agentID c (if_State op) (if_Label op)) w
      else (Inl (Invalid ''unknown_op''), w))"

definition socket_ack :: "env \<Rightarrow> uuid \<Rightarrow> uuid \<Rightarrow> uuid \<Rightarrow> world \<Rightarrow> world" where
  "socket_ack e agentID binding i w = (case Ack e agentID i w of
       (Inl err, w1) \<Rightarrow> w1
     | (Inr acked, w1) \<Rightarrow> if acked then snd (RecordDeliverySuccess binding w1) else w1)"

definition heartbeat :: "uuid \<Rightarrow> uuid \<Rightarrow> world \<Rightarrow> bool \<times> world" where
  "heartbeat agentID binding w = (case ActiveEndpoint (w_db w) agentID of
       Inl err \<Rightarrow> (True, w)
     | Inr None \<Rightarrow> (False, w)
     | Inr (Some ep) \<Rightarrow>
         if ep_BindingID ep \<noteq> binding \<or> ep_Mode ep \<noteq> ModeSocket then (False, w)
         else (True, snd (SocketConnected binding w)))"

section \<open>The hub\<close>

datatype hub_call =
    Start gotext
  | Verify gotext gotext gotext
  | SignOut request
  | Client request client_request
  | Mgmt request mgmt_request
  | AgentApi request agent_request
  | SocketOpen request
  | SocketPush uuid
  | SocketOp uuid inboundFrame
  | SocketAck uuid uuid uuid
  | SocketBeat uuid uuid
  | SocketGone uuid
  | WorkerPass sender_fn int
  | StreamSweep
  | MediaSweep
  | RetentionSweep
  | Notify "uuid list \<Rightarrow> go_error + (uuid \<Rightarrow> bool)" "push_message list \<Rightarrow> ticket list option" landed
  | Wait int

definition logout :: "principal \<Rightarrow> unit handler" where
  "logout p w = (case SessionID (Some p) of
       None \<Rightarrow> (Inl (Invalid ''no_session''), w) | Some s \<Rightarrow> Logout s w)"

definition mediaKeptFor :: int where "mediaKeptFor = hours 24"

definition serve :: "env \<Rightarrow> hub_config \<Rightarrow> hub_call \<Rightarrow> world \<Rightarrow> world" where
  "serve e cf c w = (case c of
       Start email \<Rightarrow> snd (StartSignIn e email w)
     | Verify email code device \<Rightarrow> snd (VerifyCode e (hc_WelcomeHandle cf) email code device w)
     | SignOut r \<Rightarrow> snd (RequireUser (newUserAuthenticator e cf) logout r w)
     | Client r req \<Rightarrow> snd (RequireUser (newUserAuthenticator e cf) (client_do e cf req) r w)
     | Mgmt r req \<Rightarrow> snd (RequireUser (mgmtAuthenticator e cf) (mgmt_do e cf req) r w)
     | AgentApi r req \<Rightarrow> snd (RequireAgent (BindingAuthenticate e) (agent_do e cf req) r w)
     | SocketOpen r \<Rightarrow> snd (RequireAgent (BindingAuthenticate e) socketRoute r w)
     | SocketPush a \<Rightarrow> snd (ClaimForSocket e a w)
     | SocketOp a op \<Rightarrow> snd (handleOp e a op w)
     | SocketAck a b i \<Rightarrow> socket_ack e a b i w
     | SocketBeat a b \<Rightarrow> snd (heartbeat a b w)
     | SocketGone b \<Rightarrow> snd (SocketClosed b w)
     | WorkerPass send took \<Rightarrow> snd (RunOnce e send took w)
     | StreamSweep \<Rightarrow> snd (SweepStreams e streamIdleFor w)
     | MediaSweep \<Rightarrow> snd (SweepUnclaimed (hc_media cf) mediaKeptFor w)
     | RetentionSweep \<Rightarrow> snd (snd (Sweep (me_delete (hc_media cf)) (hc_Retention cf) w))
     | Notify watching post l \<Rightarrow> MessageLanded watching post l w
     | Wait t \<Rightarrow> w\<lparr>w_now := t\<rparr>)"

definition serve_all :: "env \<Rightarrow> hub_config \<Rightarrow> hub_call list \<Rightarrow> world \<Rightarrow> world" where
  "serve_all e cf = fold (serve e cf)"

end
