(* ===== verification/Hub.thy ===== *)
theory Hub
  imports Api
begin

text \<open>
  The hub as a whole: whatever reaches it, in whatever order, its tables satisfy their constraints,
  and what was closed stays closed.
\<close>

section \<open>Constraints\<close>

lemma no_content_snd [simp]: "snd (no_content r) = snd r"
  by (simp add: no_content_def outcome_def)

text \<open>How handlers begin.\<close>

lemma kept_as_user: "P w \<Longrightarrow> (\<And>u. UserID (Some p) = Some u \<Longrightarrow> P (snd (k u w))) \<Longrightarrow> P (snd (as_user p k w))"
  by (simp add: as_user_def split: option.splits)

lemma kept_as_agent: "P w \<Longrightarrow> (\<And>a. P (snd (k a w))) \<Longrightarrow> P (snd (as_agent p k w))"
  by (simp add: as_agent_def split: option.splits)

lemma kept_with_id: "P w \<Longrightarrow> (\<And>i. P (snd (k i w))) \<Longrightarrow> P (snd (with_id pre raw k w))"
  unfolding with_id_def by (rule kept_needs)

lemmas client_routes = patchMe_def sendMessage_def deleteMessageForMe_def clearConversation_def reportAgent_def
  stopConversation_def markRead_def requestSchedule_def updateSchedule_def deleteSchedule_def uploadMedia_def uploadFrom_def
  addFromCatalogue_def acceptPair_def updateContact_def removeContact_def blockAgent_def unblockAgent_def registerPush_def
  signOutDevice_def signOutOtherDevices_def createAPIKey_def revokeAPIKey_def

lemmas mgmt_routes = uploadPicture_def createAgent_def updateAgent_def deleteAgent_def setBinding_def revokeBinding_def
  createPairToken_def revokePairToken_def

lemmas agent_routes = agentSendMessage_def agentActivity_def agentTyping_def agentCreateSchedule_def agentUpdateSchedule_def
  agentDeleteSchedule_def agentUploadMedia_def uploadFrom_def appendStream_def finishStreamRoute_def socketRoute_def

lemmas well_routes = well_needs well_runs kept_as_user [of well] kept_as_agent [of well] kept_with_id [of well]

lemma well_named: "well (snd r) \<Longrightarrow> well (snd (named a r))"
  unfolding named_def by (rule well_runs) (auto intro: well_needs)

lemma well_socket:
  assumes "well w"
  shows "well (snd (ClaimForSocket e a w))" "well (snd (Ack e a i w))" "well (socket_ack e a b i w)"
    "well (snd (heartbeat a b w))" "well (snd (socket_open a w))" "well (snd (handleOp e a op w))"
proof -
  show "well (snd (ClaimForSocket e a w))"
    unfolding ClaimForSocket_def Let_def split_def
    by (intro well_needs) (simp_all add: assms claim_socket.preserves_db_ok)
  have ack: "well (snd (Ack e a i w))"
    using ack.preserves_db_ok [OF assms, of "w_now w" i a]
    by (auto simp: Ack_def Let_def split_def DeliveryChanged_def intro!: well_runs well_needs split: sum.splits option.splits)
  then show "well (snd (Ack e a i w))" .
  from ack show "well (socket_ack e a b i w)"
    by (auto simp: socket_ack_def well_bindings split: prod.splits sum.splits)
  show "well (snd (heartbeat a b w))"
    using assms by (auto simp: heartbeat_def well_bindings split: sum.splits option.splits)
  show "well (snd (socket_open a w))"
    unfolding socket_open_def
    by (rule well_needs [OF assms]) (auto simp: assms well_bindings intro!: well_needs split: option.splits)
  show "well (snd (handleOp e a op w))"
    using assms by (auto simp: handleOp_def well_sends well_streaming Let_def intro!: well_routes)
qed

lemma well_client_do: "well w \<Longrightarrow> well (snd (client_do e cf req p w))"
  by (cases req)
    (auto simp: client_do_def client_routes well_me well_sends well_view well_streaming well_schedules well_pairing
      well_sessions well_keys well_Upload Let_def intro!: well_routes split: option.splits)

lemma well_mgmt_do: "well w \<Longrightarrow> well (snd (mgmt_do e cf req p w))"
  by (cases req)
    (auto simp: mgmt_do_def mgmt_routes well_agents well_bindings well_CreateToken well_RevokeToken well_Upload
      intro!: well_routes)

lemma well_agent_do: "well w \<Longrightarrow> well (snd (agent_do e cf req p w))"
  by (cases req)
    (auto simp: agent_do_def agent_routes well_sends well_streaming well_schedules well_Upload Let_def
      intro!: well_routes well_named)

lemma well_user_auth: "well w \<Longrightarrow> well (snd (newUserAuthenticator e cf r w))"
  by (auto simp: newUserAuthenticator_def DevOrSessionAuthenticate_def SessionAuthenticate_def
      intro!: well_runs well_sessions split: option.splits)

lemma well_mgmt_auth: "well w \<Longrightarrow> well (snd (mgmtAuthenticator e cf r w))"
  by (auto simp: mgmtAuthenticator_def KeyOrUserAuthenticate_def
      intro!: well_runs well_keys well_user_auth split: option.splits)

lemma agent_auth_w: "snd (BindingAuthenticate e r w) = w"
  by (auto simp: BindingAuthenticate_def Let_def needs_snd split: prod.splits sum.splits)

lemma well_required:
  assumes "well (snd (auth r w))" "\<And>p w1. well w1 \<Longrightarrow> well (snd (nxt p w1))"
  shows "well (snd (RequireUser auth nxt r w))" "well (snd (RequireAgent auth nxt r w))"
  unfolding RequireUser_def RequireAgent_def
  by (rule well_runs [OF assms(1)], simp add: assms(2))+

lemma well_serve: "well w \<Longrightarrow> well (serve e cf c w)"
  by (cases c)
    (auto simp: serve_def well_user_auth well_mgmt_auth agent_auth_w well_StartSignIn well_VerifyCode well_client_do well_mgmt_do
      well_agent_do well_socket well_bindings well_RunOnce well_streaming well_SweepUnclaimed well_Sweep well_MessageLanded
      logout_def well_sessions socketRoute_def intro!: well_required kept_as_agent [of well] split: option.splits)

lemma well_serve_all: "well w \<Longrightarrow> well (serve_all e cf calls w)"
  by (induction calls arbitrary: w) (simp_all add: serve_all_def well_serve)


section \<open>What the rest of the hub leaves alone\<close>

lemmas same_routes = stays kept_as_user [of "\<lambda>w. people (w_db w) = A" for A] kept_as_agent [of "\<lambda>w. people (w_db w) = A" for A]
  kept_with_id [of "\<lambda>w. people (w_db w) = A" for A]

lemma people_DeliveryChanged [simp]: "people (w_db (snd (DeliveryChanged e i w))) = people (w_db w)"
  unfolding DeliveryChanged_def Let_def by (intro stays) simp_all

lemma people_RunOnce [simp]: "people (w_db (snd (RunOnce e send took w))) = people (w_db w)"
proof -
  have tick: "people (w_db (tickChanged e d w')) = people (w_db w')" for d w'
    by (simp add: tickChanged_def split: option.splits)
  have reason: "people (w_db (snd (write_reason s stmt w'))) = people (w_db w')"
    if "\<And>d. people (stmt d) = people d" for s stmt w'
    by (simp add: write_reason_def that)
  have failed: "people (w_db (snd (markFailed e d s w'))) = people (w_db w')" for d s w'
    unfolding markFailed_def Let_def by (intro stays) (simp_all add: reason tick)
  have attempt: "people (w_db (snd (record_attempt e a w'))) = people (w_db w')" for a w'
    by (auto simp: record_attempt_def Let_def failed tick reason intro!: stays split: option.splits)
  have loop: "people (w_db (snd (record_loop e as w'))) = people (w_db w')" for as w'
  proof (induction as arbitrary: w')
    case (Cons a as)
    show ?case unfolding record_loop.simps by (intro stays attempt) (simp add: Cons.IH)
  qed simp
  obtain r w1 where c: "claim_pass e w = (r, w1)" by fastforce
  have "people (w_db w1) = people (w_db w)" using claim_pass_db(1) [of e w] by (simp add: c)
  then show ?thesis by (cases r) (simp_all add: RunOnce_db c loop)
qed

lemma people_socket [simp]:
  "people (w_db (snd (ClaimForSocket e a w))) = people (w_db w)"
  "people (w_db (socket_ack e a b i w)) = people (w_db w)"
  "people (w_db (snd (heartbeat a b w))) = people (w_db w)"
  "people (w_db (snd (socket_open a w))) = people (w_db w)"
  "people (w_db (snd (handleOp e a op w))) = people (w_db w)"
proof -
  show "people (w_db (snd (ClaimForSocket e a w))) = people (w_db w)"
    unfolding ClaimForSocket_def Let_def split_def by (intro stays) simp_all
  have ack: "people (w_db (snd (Ack e a i w))) = people (w_db w)"
    by (auto simp: Ack_def Let_def split_def intro!: stays split: sum.splits option.splits)
  obtain r w1 where a: "Ack e a i w = (r, w1)" by fastforce
  show "people (w_db (socket_ack e a b i w)) = people (w_db w)"
    using ack a by (auto simp: socket_ack_def split: sum.splits)
  show "people (w_db (snd (heartbeat a b w))) = people (w_db w)"
    by (auto simp: heartbeat_def split: sum.splits option.splits)
  show "people (w_db (snd (socket_open a w))) = people (w_db w)"
    by (auto simp: socket_open_def intro!: stays split: option.splits)
  show "people (w_db (snd (handleOp e a op w))) = people (w_db w)"
    by (auto simp: handleOp_def Let_def intro!: same_routes)
qed

lemma people_files [simp]:
  "people (w_db (snd (Upload e me k owner name meta r w))) = people (w_db w)"
  "people (w_db (snd (SweepUnclaimed me t w))) = people (w_db w)"
  "people (w_db (MessageLanded watching post l w)) = people (w_db w)"
proof -
  have create: "people (snd (CreateMedia now p d)) = people d" for now p d
    by (auto simp: CreateMedia_def Let_def insert_text_def insert_row_def people_def)
  have up: "people (w_db (snd (record_upload me p f w'))) = people (w_db w')" for p f w'
    by (auto simp: record_upload_def Let_def split_def create split: sum.splits)
  show "people (w_db (snd (Upload e me k owner name meta r w))) = people (w_db w)"
    unfolding Upload_def Let_def split_def
    by (intro stays) (auto simp: NewID_def up split: sum.splits)
  have same: "w_db (fold (\<lambda>row. discard me (med_storage_key row) (med_thumb_key row)) rows w') = w_db w'" for rows w'
    by (induction rows arbitrary: w') simp_all
  show "people (w_db (snd (SweepUnclaimed me t w))) = people (w_db w)"
    by (simp add: SweepUnclaimed_def on_db_def DeleteUnclaimedMedia_def Let_def same) (simp add: people_def)
  have "people (w_db (forget_gone rs w')) = people (w_db w')" for rs w'
    by (induction rs arbitrary: w') (simp_all add: forget_gone_def)
  then show "people (w_db (MessageLanded watching post l w)) = people (w_db w)"
    by (auto simp: MessageLanded_def split: list.splits prod.splits)
qed

lemma people_Sweep: "well w \<Longrightarrow> people (w_db (snd (snd (Sweep del p w)))) = people (w_db w)"
  using Sweep_pruned [of w p del] by (auto simp: pruned_def keep_only_def people_def)

lemma people_user_auth [simp]: "people (w_db (snd (newUserAuthenticator e cf r w))) = people (w_db w)"
  by (auto simp: newUserAuthenticator_def DevOrSessionAuthenticate_def SessionAuthenticate_def intro!: stays split: option.splits)

lemma people_mgmt_auth [simp]: "people (w_db (snd (mgmtAuthenticator e cf r w))) = people (w_db w)"
  by (auto simp: mgmtAuthenticator_def KeyOrUserAuthenticate_def intro!: stays split: option.splits)

lemma people_agent_do [simp]: "people (w_db (snd (agent_do e cf req p w))) = people (w_db w)"
proof -
  have named: "people (w_db (snd (named a r))) = A" if "people (w_db (snd r)) = A" for a r A
    unfolding named_def by (intro stays that) auto
  show ?thesis
    by (cases req) (auto simp: agent_do_def agent_routes Let_def intro!: named same_routes)
qed

section \<open>What was closed stays closed\<close>

lemmas carried_routes = carries kept_as_user [of "\<lambda>w. carried d (w_db w)" for d] kept_with_id [of "\<lambda>w. carried d (w_db w)" for d]

lemma carried_client_do: "carried (w_db w) (w_db (snd (client_do e cf req p w)))"
proof (cases "(\<exists>r. req = PatchMe r) \<or> req = DeleteMe")
  case True
  then show ?thesis
    by (auto simp: client_do_def patchMe_def carried_me intro!: carried_routes)
next
  case False
  then have "people (w_db (snd (client_do e cf req p w))) = people (w_db w)"
    by (cases req) (auto simp: client_do_def client_routes Let_def intro!: same_routes split: option.splits)
  then show ?thesis by (rule carried_same [OF carried_refl])
qed

lemma carried_mgmt_do:
  assumes "\<And>u. UserID (Some p) = Some u \<Longrightarrow> may_own (w_db w) u"
  shows "carried (w_db w) (w_db (snd (mgmt_do e cf req p w)))"
proof (cases "(\<exists>inp av. req = PostAgent inp av) \<or> (\<exists>i inp av. req = PatchAgent i inp av) \<or> (\<exists>i. req = DropAgent i)")
  case True
  then show ?thesis
    by (auto simp: mgmt_do_def createAgent_def updateAgent_def deleteAgent_def carried_UpdateAgent carried_DeleteAgent
        intro!: carried_routes carried_CreateAnAgent assms)
next
  case False
  then have "people (w_db (snd (mgmt_do e cf req p w))) = people (w_db w)"
    by (cases req) (auto simp: mgmt_do_def mgmt_routes intro!: same_routes)
  then show ?thesis by (rule carried_same [OF carried_refl])
qed

text \<open>Outside development a principal who is a person is one whose account is open.\<close>

lemma may_own_people: "people d = people d' \<Longrightarrow> may_own d u \<longleftrightarrow> may_own d' u"
  by (simp add: may_own_def people_def)

text \<open>Who a credential lets in, if anybody.\<close>

lemma ResolveToken_live:
  assumes "fst (ResolveToken e tok w) = Inr (u, s)"
  shows "\<exists>x\<in>set (db_users (w_db w)). live_user u x"
  using assms
  by (auto simp: ResolveToken_def AuthenticateSession_def one_row_def split: if_splits sum.splits option.splits dest!: find_in_set)

lemma ResolveKey_live:
  assumes "fst (ResolveKey e key w) = Inr u"
  shows "\<exists>x\<in>set (db_users (w_db w)). live_user u x"
  using assms
  by (auto simp: ResolveKey_def AuthenticateAPIKey_def one_row_def split: if_splits sum.splits option.splits dest!: find_in_set)

lemma ResolveSecret_live:
  assumes "ResolveSecret e d secret = Inr i"
  shows "\<exists>a\<in>set (db_agents d). agt_id a = i \<and> agt_deleted_at a = None"
  using assms
  by (auto simp: ResolveSecret_def AuthenticateBinding_def one_row_def Let_def split: if_splits sum.splits option.splits
      dest!: find_in_set)

lemma lookup_live:
  assumes "lookup_token e w plaintext = Inr t"
  shows "\<exists>a\<in>set (db_agents (w_db w)). agt_id a = ptk_agent_id t \<and> agt_deleted_at a = None"
proof -
  from assms obtain a where "find (\<lambda>a. agt_id a = ptk_agent_id t) (db_agents (w_db w)) = Some a" "agt_deleted_at a = None"
    by (auto simp: lookup_token_def GetPairTokenByHash_def one_row_def split: if_splits sum.splits option.splits)
  then show ?thesis using find_in_set by fastforce
qed

lemma user_auth_open:
  assumes "\<not> hc_Dev cf" "fst (newUserAuthenticator e cf r w) = Inr p" "UserID (Some p) = Some u"
  shows "may_own (w_db w) u"
proof -
  obtain tok where "fst (runs (ResolveToken e tok w) (\<lambda>(u, s) w1. (Inr (UserSession u s), w1))) = Inr p"
    using assms(1,2) by (auto simp: newUserAuthenticator_def SessionAuthenticate_def split: option.splits)
  then obtain v s where "fst (ResolveToken e tok w) = Inr (v, s)" "p = UserSession v s"
    by (cases "ResolveToken e tok w"; cases "fst (ResolveToken e tok w)") auto
  then show ?thesis
    using ResolveToken_live [of e tok w v s] assms(3) by (auto simp: UserID_def UserSession_def may_own_def)
qed

lemma mgmt_auth_open:
  assumes "\<not> hc_Dev cf" "fst (mgmtAuthenticator e cf r w) = Inr p" "UserID (Some p) = Some u"
  shows "may_own (w_db w) u"
proof -
  consider "fst (newUserAuthenticator e cf r w) = Inr p"
    | tok where "fst (runs (ResolveKey e tok w) (\<lambda>u w1. (Inr (User u), w1))) = Inr p"
    using assms(2) by (auto simp: mgmtAuthenticator_def KeyOrUserAuthenticate_def split: option.splits if_splits)
  then show ?thesis
  proof cases
    case 2
    then have "fst (ResolveKey e tok w) = Inr u" "p = User u"
      using assms(3) by (cases "ResolveKey e tok w"; cases "fst (ResolveKey e tok w)"; auto simp: UserID_def User_def UserSession_def)+
    then show ?thesis using ResolveKey_live [of e tok w u] by (auto simp: may_own_def)
  qed (rule user_auth_open [OF assms(1) _ assms(3)])
qed

lemma carried_serve:
  assumes "\<not> hc_Dev cf" "well w"
  shows "carried (w_db w) (w_db (serve e cf c w))"
proof -
  have same: "carried (w_db w) (w_db w')" if "people (w_db w') = people (w_db w)" for w'
    by (rule carried_same [OF carried_refl that])
  have client: "carried (w_db w) (w_db (snd (RequireUser (newUserAuthenticator e cf) (client_do e cf req) r w)))" for r req
    unfolding RequireUser_def
    by (rule kept_runs [of "\<lambda>w'. carried (w_db w) (w_db w')"]) (auto intro: same carried_trans [OF _ carried_client_do])
  have mgmt: "carried (w_db w) (w_db (snd (RequireUser (mgmtAuthenticator e cf) (mgmt_do e cf req) r w)))" for r req
    unfolding RequireUser_def
  proof (rule kept_runs [of "\<lambda>w'. carried (w_db w) (w_db w')"])
    fix p w1 assume a: "mgmtAuthenticator e cf r w = (Inr p, w1)" and c: "carried (w_db w) (w_db w1)"
    have "people (w_db w1) = people (w_db w)" using people_mgmt_auth [of e cf r w] a by simp
    then have "may_own (w_db w1) u" if "UserID (Some p) = Some u" for u
      using mgmt_auth_open [OF assms(1) _ that, of e r w] a may_own_people [of "w_db w1" "w_db w"] by simp
    then show "carried (w_db w) (w_db (snd (if pr_Kind p \<noteq> ParticipantUser then (Inl (Forbidden ''user_required''), w1)
        else mgmt_do e cf req p w1)))"
      using c carried_trans [OF c carried_mgmt_do] by simp
  qed (simp add: same)
  have agent: "people (w_db (snd (RequireAgent (BindingAuthenticate e) (agent_do e cf req) r w))) = people (w_db w)" for r req
    unfolding RequireAgent_def by (rule stays) (simp_all add: agent_auth_w)
  have opened: "people (w_db (snd (RequireAgent (BindingAuthenticate e) socketRoute r w))) = people (w_db w)" for r
    unfolding RequireAgent_def socketRoute_def by (rule stays) (auto simp: agent_auth_w intro!: same_routes)
  have out: "people (w_db (snd (RequireUser (newUserAuthenticator e cf) logout r w))) = people (w_db w)" for r
    unfolding RequireUser_def logout_def by (rule stays) (auto split: option.splits)
  show ?thesis
    by (cases c) (auto simp: serve_def client mgmt carried_VerifyCode agent opened out people_Sweep [OF assms(2)] intro!: same)
qed

lemma carried_serve_all:
  assumes "\<not> hc_Dev cf"
  shows "well w \<Longrightarrow> carried (w_db w) (w_db (serve_all e cf calls w))"
proof (induction calls arbitrary: w)
  case (Cons c calls)
  then show ?case
    using carried_trans [OF carried_serve [OF assms Cons.prems, of e c]] well_serve [of w e cf c] by (simp add: serve_all_def)
qed (simp add: serve_all_def)

section \<open>Closing an account\<close>

lemma DeleteAgent_ok:
  assumes "DeleteAgent u i w = (Inr (), w1)"
  shows "db_agents (w_db w1) = update_where (live_agent i)
      (\<lambda>a. a\<lparr>agt_deleted_at := Some (w_now w), agt_updated_at := w_now w\<rparr>) (db_agents (w_db w))"
  using assms
  by (auto simp: DeleteAgent_def ok_iffs deleteAgentTx_def Let_def on_db_def SoftDeleteAgent_def RevokeActiveBinding_def
      split: prod.splits if_splits)

lemma deleteAll_ok:
  "deleteAll_loop u rows w = (Inr (), w1) \<Longrightarrow> a \<in> set (db_agents (w_db w1)) \<Longrightarrow> agt_deleted_at a = None
   \<Longrightarrow> a \<in> set (db_agents (w_db w)) \<and> agt_id a \<notin> agt_id ` set rows"
proof (induction rows arbitrary: w)
  case (Cons r rows)
  obtain w2 where 1: "DeleteAgent u (agt_id r) w = (Inr (), w2)" "deleteAll_loop u rows w2 = (Inr (), w1)"
    using Cons.prems(1) by (auto simp: ok_iffs)
  have "a \<in> set (db_agents (w_db w2))" "agt_id a \<notin> agt_id ` set rows"
    using Cons.IH [OF 1(2) Cons.prems(2,3)] by simp_all
  then show ?case using DeleteAgent_ok [OF 1(1)] Cons.prems(3) by (auto simp: set_update_where live_agent_def)
qed simp

definition closed_account :: "uuid \<Rightarrow> db \<Rightarrow> bool" where
  "closed_account u d \<longleftrightarrow> \<not> may_own d u
     \<and> (\<forall>a\<in>set (db_agents d). agt_owner_user_id a = u \<longrightarrow> agt_deleted_at a \<noteq> None)"

lemma updated_users_closed:
  assumes "\<And>x. usr_deleted_at (f x) \<noteq> None" "y \<in> set (update_where (live_user u) f xs)"
  shows "\<not> live_user u y"
  using assms(2) assms(1) unfolding set_update_where live_user_def by blast

lemma deleteMe_closes:
  assumes "deleteMe u w = (Inr (), w1)"
  shows "closed_account u (w_db w1)"
proof -
  obtain w2 where 1: "deleteAll_loop u (ListAgentsByOwner (w_db w) u) w = (Inr (), w2)" "deleteUserTx u w2 = (Inr (), w1)"
    using assms by (auto simp: deleteMe_def DeleteAllOwned_def DeleteUser_def ok_iffs)
  let ?d = "snd (RemoveAllContacts (w_now w2) u (DeleteIdentities u (snd (RevokeUserSessions (w_now w2) u (w_db w2)))))"
  have d: "db_users ?d = db_users (w_db w2)" "db_agents ?d = db_agents (w_db w2)"
    by (simp_all add: contact_updates session_updates set_contacts_def set_sessions_def DeleteIdentities_def)
  have w1: "w_db w1 = snd (SoftDeleteUser (w_now w2) u ?d)" "fst (SoftDeleteUser (w_now w2) u ?d) \<noteq> 0"
    using 1(2) by (auto simp: deleteUserTx_def Let_def split_def split: if_splits)
  have users: "db_users (w_db w1) = update_where (live_user u) (\<lambda>x. x\<lparr>usr_deleted_at := Some (w_now w2), usr_updated_at := w_now w2,
      usr_display_name := str ''Deleted account'', usr_avatar_media_id := None\<rparr>) (db_users (w_db w2))"
    unfolding w1(1) SoftDeleteUser_def using d(1) by simp
  have n: "count_where (live_user u) (db_users (w_db w2)) \<noteq> 0"
    using w1(2) unfolding SoftDeleteUser_def fst_conv d(1) .
  then obtain x where x: "x \<in> set (db_users (w_db w2))" "live_user u x" unfolding count_where_0 by blast
  let ?x = "x\<lparr>usr_deleted_at := Some (w_now w2), usr_updated_at := w_now w2,
      usr_display_name := str ''Deleted account'', usr_avatar_media_id := None\<rparr>"
  have "?x \<in> set (db_users (w_db w1))" 
    unfolding users set_update_where by (intro bexI [OF _ x(1)] disjI1 conjI x(2) refl)
  moreover have "usr_id ?x = u" using x(2) by (simp add: live_user_def)
  ultimately have "u \<in> usr_id ` set (db_users (w_db w1))" by (rule rev_image_eqI [OF _ sym])
  moreover have "\<not> live_user u y" if "y \<in> set (db_users (w_db w1))" for y
    by (rule updated_users_closed [OF _ that [unfolded users]]) simp
  ultimately have "\<not> may_own (w_db w1) u" unfolding may_own_def by blast
  moreover have "agt_deleted_at a \<noteq> None" if "a \<in> set (db_agents (w_db w1))" "agt_owner_user_id a = u" for a
  proof
    assume "agt_deleted_at a = None"
    moreover have "a \<in> set (db_agents (w_db w2))" using that(1) d(2) unfolding w1(1) SoftDeleteUser_def by simp
    ultimately have "a \<in> set (db_agents (w_db w))" "agt_id a \<notin> agt_id ` set (ListAgentsByOwner (w_db w) u)"
      using deleteAll_ok [OF 1(1)] by blast+
    then show False using that(2) \<open>agt_deleted_at a = None\<close> by (auto simp: ListAgentsByOwner_def)
  qed
  ultimately show ?thesis by (simp add: closed_account_def)
qed

lemma closed_carried:
  assumes "closed_account u d" "carried d d'"
  shows "closed_account u d'"
  using assms may_own_back [OF assms(2)] unfolding closed_account_def carried_def by metis


definition sample_hub :: hub_config where
  "sample_hub = \<lparr>hc_Dev = False, hc_WelcomeHandle = ''cuckoo'',
     hc_Retention = \<lparr>rp_MessageAge = 0, rp_UserMediaBudget = 0, rp_AgentMediaBudget = 0, rp_DeliveryAge = 0, rp_DryRun = False\<rparr>,
     hc_media = \<lparr>me_detect = (\<lambda>_. ''text/plain; charset=utf-8''), me_config = (\<lambda>_. None), me_scale = (\<lambda>_ _. None),
       me_put = (\<lambda>_. True), me_open = (\<lambda>_. True), me_delete = (\<lambda>_. True)\<rparr>,
     hc_json = \<lparr>js_Valid = (\<lambda>_. True), js_Column = Some\<rparr>\<rparr>"

lemma sample_closes: "fst (deleteMe 1 sample_world) = Inr ()"
  by (simp add: deleteMe_def DeleteAllOwned_def ListAgentsByOwner_def DeleteAgent_def GetOwned_def GetAgent_def GetAgent_sql_def
      deleteAgentTx_def on_db_def RevokeActiveBinding_def SoftDeleteAgent_def WithTx_def announce_def
      DeleteUser_def deleteUserTx_def RevokeUserSessions_def set_sessions_def DeleteIdentities_def RemoveAllContacts_def
      set_contacts_def SoftDeleteUser_def agentFromRow_def sample_defs live_user_def live_agent_def one_row_def Let_def update_where_def count_where_def)

text \<open>A day in which Ada's address asks for a code after her account was closed, and time passes.\<close>

definition after_closing :: "hub_call list" where
  "after_closing = [Start (str ''ada@example.com''), StreamSweep, Wait 50]"

definition sample_request :: request where
  "sample_request = \<lparr>rq_Authorization = str ''Bearer ses_tok_x'', rq_WebSocketProtocol = [], rq_DevUser = []\<rparr>"



section \<open>Credentials and doors\<close>

lemma credential_kinds:
  "HasPrefix tok (PrefixAPIKeySecret @ ''_'') \<Longrightarrow> \<not> HasPrefix tok (PrefixSessionToken @ ''_'')"
  "HasPrefix tok (PrefixBindingSecret @ ''_'') \<Longrightarrow> \<not> HasPrefix tok (PrefixSessionToken @ ''_'')"
  "HasPrefix tok (PrefixBindingSecret @ ''_'') \<Longrightarrow> \<not> HasPrefix tok (PrefixAPIKeySecret @ ''_'')"
  "HasPrefix tok (PrefixAPIKeySecret @ ''_'') \<Longrightarrow> \<not> HasPrefix tok (PrefixBindingSecret @ ''_'')"
  "HasPrefix tok (PrefixSessionToken @ ''_'') \<Longrightarrow> \<not> HasPrefix tok (PrefixBindingSecret @ ''_'')"
  by (auto simp: HasPrefix_def PrefixAPIKeySecret_def PrefixSessionToken_def PrefixBindingSecret_def)

lemma no_session_token:
  assumes "bearerToken r = Some tok" "rq_DevUser r = []" "\<not> HasPrefix tok (PrefixSessionToken @ ''_'')"
  shows "newUserAuthenticator e cf r w = (Inl errBadToken, w)"
  using assms
  by (simp add: newUserAuthenticator_def DevOrSessionAuthenticate_def SessionAuthenticate_def ResolveToken_def)

lemma no_binding_secret:
  assumes "bearerToken r = Some tok" "\<not> HasPrefix tok (PrefixBindingSecret @ ''_'')"
  shows "\<exists>err. BindingAuthenticate e r w = (Inl err, w)"
proof -
  obtain scheme token ok where cut: "Cut (rq_Authorization r) (Rune 32) = (scheme, token, ok)" by (cases "Cut (rq_Authorization r) (Rune 32)")
  show ?thesis
  proof (cases "ok \<and> is_bearer scheme \<and> TrimSpace token \<noteq> []")
    case True
    then have "tok = bytes_of (TrimSpace token)" using assms(1) cut by (simp add: bearerToken_def Let_def)
    then have "ResolveSecret e (w_db w) (bytes_of (TrimSpace token)) = Inl errBadSecret"
      using assms(2) by (simp add: ResolveSecret_def HasPrefix_def Let_def)
    then show ?thesis using cut by (auto simp: BindingAuthenticate_def Let_def)
  qed (use cut in \<open>auto simp: BindingAuthenticate_def Let_def\<close>)
qed


definition key_request :: request where
  "key_request = \<lparr>rq_Authorization = str ''Bearer mgt_tok_x'', rq_WebSocketProtocol = [], rq_DevUser = []\<rparr>"


end
